(* ===== verification/Prelude.thy ===== *)
theory Prelude
  imports Main "HOL-Library.AList"
begin

text \<open>
  Shared vocabulary of the Task Manager development: document identifiers, the HTTP
  status codes and error messages of the REST envelope \<open>{success, data, message}\<close>,
  the reply type every Express handler produces, and the generic lemmas on
  association lists (the task collection), option values and lists that the component
  theories share.
\<close>

section \<open>Identifiers, replies and errors\<close>

text \<open>
  A MongoDB \<open>ObjectId\<close> is a 96-bit value; the model numbers documents by \<open>nat\<close>
  (its 24-digit hexadecimal rendering is in theory \<open>Object_Id\<close>).
\<close>

type_synonym oid = nat

text \<open>The status codes the handlers under \<open>src/backend\<close> send.\<close>

datatype http_status = S200 | S201 | S400 | S401 | S403 | S404 | S500

text \<open>
  The \<open>message\<close> field of a failure envelope. Literal messages of the source are
  \<open>Text\<close>; the messages Mongoose and Node build at run time are named by their cause:
  a schema validation failure (the failing paths, in schema order), a failed cast of a
  path parameter to an \<open>ObjectId\<close>, a \<open>TypeError\<close> from reading a field of
  \<open>null\<close>/\<open>undefined\<close>, and a file-system error of \<open>fs.unlink\<close>.
\<close>

datatype message =
    Text string
  | Validation_failed "string list"
  | Cast_failed string
  | Type_error string
  | Fs_error string

text \<open>
  A reply is the status with \<open>{success: true, data}\<close> (\<open>Ok\<close>) or with
  \<open>{success: false, message}\<close> (\<open>Fail\<close>).
\<close>

datatype 'a reply = Ok http_status 'a | Fail http_status message

fun reply_status :: "'a reply \<Rightarrow> http_status" where
  "reply_status (Ok c _) = c"
| "reply_status (Fail c _) = c"

fun is_success :: "'a reply \<Rightarrow> bool" where
  "is_success (Ok _ _) = True"
| "is_success (Fail _ _) = False"

section \<open>Strings\<close>

text \<open>\<open>String.prototype.toLowerCase\<close> on ASCII.\<close>

definition js_lower_char :: "char \<Rightarrow> char" where
  "js_lower_char c = (let n = of_char c :: nat in if 65 \<le> n \<and> n \<le> 90 then char_of (n + 32) else c)"

definition js_lower :: "string \<Rightarrow> string" where
  "js_lower s = map js_lower_char s"

text \<open>The path name of a URL or location: the part before \<open>?\<close>.\<close>

definition path_name :: "string \<Rightarrow> string" where
  "path_name l = takeWhile (\<lambda>c. c \<noteq> CHR ''?'') l"

text \<open>
  A non-negative integer in a template literal (\<open>`${n}`\<close>): its decimal digits, most
  significant first. \<open>read_decimal\<close> reads such digits back.
\<close>

fun decimal :: "nat \<Rightarrow> string" where
  "decimal n = (if n < 10 then [char_of (48 + n)] else decimal (n div 10) @ [char_of (48 + n mod 10)])"

declare decimal.simps [simp del]

definition read_decimal :: "string \<Rightarrow> nat" where
  "read_decimal s = foldl (\<lambda>a c. 10 * a + (of_char c - 48)) 0 s"

section \<open>Collections of lemmas\<close>

named_theorems wf_handlers "each request handler preserves the store's well-formedness"
named_theorems linked_handlers "the request handlers that keep the reference invariant"
named_theorems status_handlers "how each request handler changes task statuses"
named_theorems lists_handlers "the task handlers change the users only in their task lists"

section \<open>Association lists: the task collection\<close>

text \<open>
  A Mongo collection is kept in insertion order, which is the order \<open>find()\<close> returns
  without a sort. It is an association list from identifiers to documents:
  \<open>AList.update\<close> replaces a document in place or appends a new one at the end,
  \<open>AList.delete\<close> removes it, \<open>map_of\<close> is \<open>findById\<close>.
\<close>

lemma map_of_update_same [simp]: "map_of (AList.update k v al) k = Some v"
  by (simp add: update_conv')

lemma map_of_update_other [simp]: "k' \<noteq> k \<Longrightarrow> map_of (AList.update k v al) k' = map_of al k'"
  by (simp add: update_conv')

lemma map_of_delete_same [simp]: "map_of (AList.delete k al) k = None"
  by (simp add: delete_conv')

lemma keys_update_fresh:
  "k \<notin> set (map fst al) \<Longrightarrow> map fst (AList.update k v al) = map fst al @ [k]"
  by (induction al) auto

lemma update_fresh_append:
  "k \<notin> set (map fst al) \<Longrightarrow> AList.update k v al = al @ [(k, v)]"
  by (induction al) auto

lemma set_keys_update [simp]: "set (map fst (AList.update k v al)) = insert k (set (map fst al))"
  by (induction al) auto

lemma set_keys_delete [simp]: "set (map fst (AList.delete k al)) = set (map fst al) - {k}"
  by (simp add: delete_keys)

lemma distinct_keys_update [simp]:
  "distinct (map fst al) \<Longrightarrow> distinct (map fst (AList.update k v al))"
  by (rule distinct_update)

lemma distinct_keys_delete [simp]:
  "distinct (map fst al) \<Longrightarrow> distinct (map fst (AList.delete k al))"
  by (rule distinct_delete)

lemma map_of_SomeD_keys: "map_of al k = Some v \<Longrightarrow> k \<in> set (map fst al)"
  by (induction al) (auto split: if_splits)

lemma values_update:
  "(k, v') \<in> set (AList.update k0 v al) \<Longrightarrow> (k, v') \<in> set al \<or> (k = k0 \<and> v' = v)"
  by (induction al) (auto split: if_splits)

lemma values_delete: "(k, v) \<in> set (AList.delete k0 al) \<Longrightarrow> (k, v) \<in> set al \<and> k \<noteq> k0"
  by (auto simp: AList.delete_eq)

lemma filter_update_fresh:
  "k \<notin> set (map fst al) \<Longrightarrow>
   filter P (AList.update k v al) = filter P al @ (if P (k, v) then [(k, v)] else [])"
  by (simp add: update_fresh_append)

section \<open>Lists of references\<close>

text \<open>
  Mongo's \<open>$push\<close> appends to an array field, \<open>$pull\<close> removes every occurrence.
\<close>

lemma count_list_snoc [simp]: "count_list (xs @ [x]) x = Suc (count_list xs x)"
  by simp

lemma count_list_removeAll [simp]: "count_list (removeAll x xs) x = 0"
  by (simp add: count_list_0_iff)

section \<open>Options of lists\<close>

lemma those_map_None: "those (map f xs) = None \<longleftrightarrow> (\<exists>x\<in>set xs. f x = None)"
  by (induction xs) (auto split: option.splits)

lemma path_name_no_query: "CHR ''?'' \<notin> set p \<Longrightarrow> path_name p = p"
  by (auto simp: path_name_def takeWhile_eq_all_conv)

section \<open>Decimal numerals\<close>

lemma decimal_small: "n < 10 \<Longrightarrow> decimal n = [char_of (48 + n)]"
  by (subst decimal.simps) simp

lemma decimal_large: "\<not> n < 10 \<Longrightarrow> decimal n = decimal (n div 10) @ [char_of (48 + n mod 10)]"
  by (subst decimal.simps) simp

lemma of_char_digit: "(k::nat) < 10 \<Longrightarrow> of_char (char_of (48 + k) :: char) = 48 + k"
  by (simp add: of_char_of)

lemma decimal_digits: "decimal n \<noteq> [] \<and> (\<forall>c\<in>set (decimal n). (48::nat) \<le> of_char c \<and> of_char c < (58::nat))"
proof (induction n rule: decimal.induct)
  case (1 n)
  show ?case
  proof (cases "n < 10")
    case True
    then show ?thesis by (simp add: decimal_small of_char_digit)
  next
    case False
    then show ?thesis using 1 by (simp add: decimal_large of_char_digit)
  qed
qed

lemma read_decimal_snoc: "read_decimal (s @ [c]) = 10 * read_decimal s + (of_char c - 48)"
  by (simp add: read_decimal_def)

lemma read_decimal_decimal: "read_decimal (decimal n) = n"
proof (induction n rule: decimal.induct)
  case (1 n)
  show ?case
  proof (cases "n < 10")
    case True
    then show ?thesis by (simp add: decimal_small read_decimal_def of_char_digit)
  next
    case False
    then have "read_decimal (decimal n) = 10 * (n div 10) + n mod 10"
      using 1 by (simp add: decimal_large read_decimal_snoc of_char_digit)
    then show ?thesis by simp
  qed
qed

lemma decimal_inj: "decimal m = decimal n \<longleftrightarrow> m = n"
  by (metis read_decimal_decimal)

end
