(* ===== verification/Task_Model.thy ===== *)
theory Task_Model
  imports Prelude
begin

text \<open>
  The task document of \<open>src/backend/models/Task.js\<close>: the three closed enumerations
  (status, priority, group) with the string values the schema's \<open>enum\<close> lists accept,
  the embedded photo and comment sub-documents, the task record, and the schema
  validation that \<open>Task.create\<close> (creation) and \<open>findByIdAndUpdate\<close> with
  \<open>runValidators\<close> (a partial update) apply to request bodies.
\<close>

section \<open>Enumerations\<close>

datatype status = Todo | InProgress | Completed

datatype priority = Low | Medium | High

datatype task_group = Frontend | Backend | Database

text \<open>The \<open>enum\<close> validator: exactly the listed strings are accepted.\<close>

fun status_of_string :: "string \<Rightarrow> status option" where
  "status_of_string s =
     (if s = ''todo'' then Some Todo
      else if s = ''inProgress'' then Some InProgress
      else if s = ''completed'' then Some Completed else None)"

fun string_of_status :: "status \<Rightarrow> string" where
  "string_of_status Todo = ''todo''"
| "string_of_status InProgress = ''inProgress''"
| "string_of_status Completed = ''completed''"

fun priority_of_string :: "string \<Rightarrow> priority option" where
  "priority_of_string s =
     (if s = ''low'' then Some Low
      else if s = ''medium'' then Some Medium
      else if s = ''high'' then Some High else None)"

fun string_of_priority :: "priority \<Rightarrow> string" where
  "string_of_priority Low = ''low''"
| "string_of_priority Medium = ''medium''"
| "string_of_priority High = ''high''"

fun group_of_string :: "string \<Rightarrow> task_group option" where
  "group_of_string s =
     (if s = ''Frontend'' then Some Frontend
      else if s = ''Backend'' then Some Backend
      else if s = ''Database'' then Some Database else None)"

fun string_of_group :: "task_group \<Rightarrow> string" where
  "string_of_group Frontend = ''Frontend''"
| "string_of_group Backend = ''Backend''"
| "string_of_group Database = ''Database''"

section \<open>Documents\<close>

text \<open>
  A photo sub-document (\<open>photos\<close> array of the schema): \<open>_id\<close>, \<open>imageUrl\<close>,
  \<open>caption\<close>, \<open>createdAt\<close> (default \<open>Date.now\<close>) and \<open>uploadedBy\<close>.
  Fields the schema does not declare are dropped on save (Mongoose's strict mode).
\<close>

record photo =
  ph_id :: oid
  imageUrl :: "string option"
  caption :: "string option"
  ph_createdAt :: nat
  uploadedBy :: "oid option"

text \<open>A comment sub-document: \<open>_id\<close>, \<open>text\<close>, \<open>createdBy\<close>, \<open>createdAt\<close>.\<close>

record comment =
  cm_id :: oid
  cm_text :: "string option"
  cm_createdBy :: "oid option"
  cm_createdAt :: nat

text \<open>
  The task document. \<open>timestamps: true\<close> adds \<open>createdAt\<close> and \<open>updatedAt\<close>.
  Dates are milliseconds since the epoch.
\<close>

record task =
  title :: string
  shortDescription :: string
  longDescription :: "string option"
  status :: status
  priority :: priority
  deadline :: nat
  group :: task_group
  assignedTo :: oid
  createdBy :: oid
  photos :: "photo list"
  comments :: "comment list"
  createdAt :: nat
  updatedAt :: nat

section \<open>Validation on creation\<close>

text \<open>
  The body fields \<open>createTask\<close> reads from \<open>req.body\<close> (absent fields are
  \<open>None\<close>). The deadline and the assignee are taken as already cast to a date and an
  \<open>ObjectId\<close>.
\<close>

record task_body =
  b_title :: "string option"
  b_shortDescription :: "string option"
  b_longDescription :: "string option"
  b_priority :: "string option"
  b_deadline :: "nat option"
  b_status :: "string option"
  b_assignedTo :: "oid option"
  b_group :: "string option"

text \<open>
  Mongoose's \<open>required\<close> on a \<open>String\<close> path rejects a missing value and the empty
  string; on other types it rejects a missing value only. An \<open>enum\<close> path accepts a
  missing value (the default then applies) or one of its strings.
\<close>

definition required_str :: "string option \<Rightarrow> bool" where
  "required_str v = (case v of None \<Rightarrow> False | Some s \<Rightarrow> s \<noteq> [])"

definition enum_ok :: "(string \<Rightarrow> 'a option) \<Rightarrow> string option \<Rightarrow> bool" where
  "enum_ok p v = (case v of None \<Rightarrow> True | Some s \<Rightarrow> p s \<noteq> None)"

definition path_error :: "bool \<Rightarrow> string \<Rightarrow> string list" where
  "path_error ok p = (if ok then [] else [p])"

text \<open>The failing paths of a new task, in schema order.\<close>

definition create_errors :: "task_body \<Rightarrow> string list" where
  "create_errors b =
     path_error (required_str (b_title b)) ''title'' @
     path_error (required_str (b_shortDescription b)) ''shortDescription'' @
     path_error (enum_ok status_of_string (b_status b)) ''status'' @
     path_error (enum_ok priority_of_string (b_priority b)) ''priority'' @
     path_error (b_deadline b \<noteq> None) ''deadline'' @
     path_error (b_group b \<noteq> None \<and> enum_ok group_of_string (b_group b)) ''group'' @
     path_error (b_assignedTo b \<noteq> None) ''assignedTo''"

text \<open>Applying a schema default to an absent enum value.\<close>

definition with_default :: "(string \<Rightarrow> 'a option) \<Rightarrow> 'a \<Rightarrow> string option \<Rightarrow> 'a option" where
  "with_default p d v = (case v of None \<Rightarrow> Some d | Some s \<Rightarrow> p s)"

text \<open>
  \<open>Task.create({... , createdBy: req.user.id})\<close>: the document with the defaults
  \<open>status = 'todo'\<close> and \<open>priority = 'medium'\<close>, empty \<open>photos\<close> and
  \<open>comments\<close>, both timestamps set to \<open>now\<close>; or the validation error.
\<close>

definition new_task :: "task_body \<Rightarrow> oid \<Rightarrow> nat \<Rightarrow> message + task" where
  "new_task b uid now =
     (case (b_title b, b_shortDescription b, with_default status_of_string Todo (b_status b),
            with_default priority_of_string Medium (b_priority b), b_deadline b,
            Option.bind (b_group b) group_of_string, b_assignedTo b) of
        (Some ti, Some sd, Some st, Some pr, Some dl, Some gr, Some at) \<Rightarrow>
          if ti \<noteq> [] \<and> sd \<noteq> [] then
            Inr \<lparr>title = ti, shortDescription = sd, longDescription = b_longDescription b,
                 status = st, priority = pr, deadline = dl, group = gr, assignedTo = at,
                 createdBy = uid, photos = [], comments = [], createdAt = now, updatedAt = now\<rparr>
          else Inl (Validation_failed (create_errors b))
      | _ \<Rightarrow> Inl (Validation_failed (create_errors b)))"

section \<open>Validation on update and on save\<close>

text \<open>
  \<open>findByIdAndUpdate(id, req.body, {new: true, runValidators: true})\<close> for a body of
  plain values of the nine scalar paths, which Mongoose turns into a \<open>$set\<close>: a present
  field overwrites the stored one. Update validators run on the present paths only:
  \<open>required\<close> rejects an empty title or short description, an \<open>enum\<close> path rejects a
  string outside its list. The code passes \<open>req.body\<close> whole, so a client may also send
  update operators (\<open>$rename\<close>, \<open>$unset\<close>, \<open>$push\<close>, ...) and the \<open>photos\<close> and
  \<open>comments\<close> arrays; those bodies are not modelled. Mongoose neither casts nor validates
  a \<open>$rename\<close>, which can strip a required path from the stored document.
\<close>

record task_patch =
  p_title :: "string option"
  p_shortDescription :: "string option"
  p_longDescription :: "string option"
  p_status :: "string option"
  p_priority :: "string option"
  p_deadline :: "nat option"
  p_group :: "string option"
  p_assignedTo :: "oid option"
  p_createdBy :: "oid option"

definition update_errors :: "task_patch \<Rightarrow> string list" where
  "update_errors p =
     path_error (p_title p \<noteq> Some []) ''title'' @
     path_error (p_shortDescription p \<noteq> Some []) ''shortDescription'' @
     path_error (enum_ok status_of_string (p_status p)) ''status'' @
     path_error (enum_ok priority_of_string (p_priority p)) ''priority'' @
     path_error (enum_ok group_of_string (p_group p)) ''group''"

definition override :: "'a option \<Rightarrow> 'a \<Rightarrow> 'a" where
  "override v d = (case v of None \<Rightarrow> d | Some x \<Rightarrow> x)"

definition override_enum :: "(string \<Rightarrow> 'a option) \<Rightarrow> string option \<Rightarrow> 'a \<Rightarrow> 'a" where
  "override_enum p v d = override (Option.bind v p) d"

text \<open>The updated document, \<open>updatedAt\<close> set by the timestamps plugin.\<close>

definition apply_patch :: "task_patch \<Rightarrow> nat \<Rightarrow> task \<Rightarrow> message + task" where
  "apply_patch p now t =
     (if update_errors p \<noteq> [] then Inl (Validation_failed (update_errors p))
      else Inr (t\<lparr>title := override (p_title p) (title t),
                  shortDescription := override (p_shortDescription p) (shortDescription t),
                  longDescription := (case p_longDescription p of None \<Rightarrow> longDescription t
                                      | Some d \<Rightarrow> Some d),
                  status := override_enum status_of_string (p_status p) (status t),
                  priority := override_enum priority_of_string (p_priority p) (priority t),
                  deadline := override (p_deadline p) (deadline t),
                  group := override_enum group_of_string (p_group p) (group t),
                  assignedTo := override (p_assignedTo p) (assignedTo t),
                  createdBy := override (p_createdBy p) (createdBy t),
                  updatedAt := now\<rparr>))"

text \<open>
  \<open>document.save()\<close> validates the whole document; with enumerations as datatypes
  only the two required strings can fail.
\<close>

definition doc_errors :: "task \<Rightarrow> string list" where
  "doc_errors t =
     path_error (title t \<noteq> []) ''title'' @
     path_error (shortDescription t \<noteq> []) ''shortDescription''"

section \<open>Lemmas\<close>

lemmas enum_parsers = status_of_string.simps priority_of_string.simps group_of_string.simps

lemma status_of_string_iff: "status_of_string x = Some s \<longleftrightarrow> x = string_of_status s"
  by (cases s) auto

lemma priority_of_string_iff: "priority_of_string x = Some p \<longleftrightarrow> x = string_of_priority p"
  by (cases p) auto

lemma group_of_string_iff: "group_of_string x = Some g \<longleftrightarrow> x = string_of_group g"
  by (cases g) auto

lemma with_default_None [simp]: "with_default p d None = Some d"
  by (simp add: with_default_def)

lemma with_default_Some [simp]: "with_default p d (Some s) = p s"
  by (simp add: with_default_def)

lemma enum_ok_with_default: "enum_ok p v \<longleftrightarrow> with_default p d v \<noteq> None"
  by (simp add: enum_ok_def with_default_def split: option.splits)

lemma create_errors_Nil_iff:
  "create_errors b = [] \<longleftrightarrow>
     required_str (b_title b) \<and> required_str (b_shortDescription b) \<and>
     enum_ok status_of_string (b_status b) \<and> enum_ok priority_of_string (b_priority b) \<and>
     b_deadline b \<noteq> None \<and> b_group b \<noteq> None \<and> enum_ok group_of_string (b_group b) \<and>
     b_assignedTo b \<noteq> None"
  by (auto simp: create_errors_def path_error_def)

lemma new_task_Inl:
  "new_task b uid now = Inl m \<Longrightarrow> m = Validation_failed (create_errors b)"
  by (auto simp: new_task_def split: option.splits prod.splits if_splits)

lemma new_task_Inr_iff:
  "(\<exists>t. new_task b uid now = Inr t) \<longleftrightarrow> create_errors b = []"
  by (auto simp: new_task_def create_errors_Nil_iff required_str_def enum_ok_def
      with_default_def split: option.splits prod.splits if_splits)

lemma new_task_Inr_fields:
  assumes "new_task b uid now = Inr t"
  shows "b_title b = Some (title t) \<and> b_shortDescription b = Some (shortDescription t) \<and>
    longDescription t = b_longDescription b \<and> b_deadline b = Some (deadline t) \<and>
    b_group b = Some (string_of_group (group t)) \<and> b_assignedTo b = Some (assignedTo t) \<and>
    with_default status_of_string Todo (b_status b) = Some (status t) \<and>
    with_default priority_of_string Medium (b_priority b) = Some (priority t) \<and>
    createdBy t = uid \<and> photos t = [] \<and> comments t = [] \<and>
    title t \<noteq> [] \<and> shortDescription t \<noteq> []"
  using assms
  by (auto simp: new_task_def group_of_string_iff split: option.splits prod.splits if_splits
      Option.bind_splits)

lemma doc_errors_Nil_iff [simp]:
  "doc_errors t = [] \<longleftrightarrow> title t \<noteq> [] \<and> shortDescription t \<noteq> []"
  by (simp add: doc_errors_def path_error_def)

lemma new_task_doc_valid: "new_task b uid now = Inr t \<Longrightarrow> doc_errors t = []"
  using new_task_Inr_fields by simp

lemma apply_patch_Inl: "apply_patch p now t = Inl m \<Longrightarrow> m = Validation_failed (update_errors p)"
  by (simp add: apply_patch_def split: if_splits)

lemma apply_patch_Inr_iff: "(\<exists>t'. apply_patch p now t = Inr t') \<longleftrightarrow> update_errors p = []"
  by (simp add: apply_patch_def)

lemma apply_patch_Inr:
  assumes "apply_patch p now t = Inr t'"
  shows "photos t' = photos t \<and> comments t' = comments t \<and> createdAt t' = createdAt t \<and>
    assignedTo t' = override (p_assignedTo p) (assignedTo t) \<and>
    createdBy t' = override (p_createdBy p) (createdBy t) \<and>
    status t' = override_enum status_of_string (p_status p) (status t)"
  using assms by (auto simp: apply_patch_def split: if_splits)

lemma apply_patch_doc_valid:
  assumes "doc_errors t = []" and "apply_patch p now t = Inr t'"
  shows "doc_errors t' = []"
  using assms
  by (auto simp: apply_patch_def update_errors_def path_error_def override_def
      split: if_splits option.splits)

end
