(* ===== verification/Object_Id.thy ===== *)
theory Object_Id
  imports Prelude
begin

text \<open>
  The textual form of document identifiers. Express hands path parameters
  (\<open>req.params.id\<close>, \<open>req.params.photoId\<close>) and the \<open>id\<close> claim of a token to
  Mongoose as strings; Mongoose casts them to \<open>ObjectId\<close> (\<open>findById\<close>) or tests
  them with \<open>ObjectId.isValid\<close> (\<open>src/backend/middleware/validateObjectId.js\<close>).
  Both accept a string of 24 hexadecimal digits and a string of 12 characters (read as
  12 bytes); the value is the big-endian number they spell, below \<open>2^96 = 16^24\<close>.
  \<open>toString()\<close> of an identifier prints 24 lower-case hexadecimal digits.
  HOL's \<open>char\<close> is a byte, so the 12-character form is exact for ASCII strings.
\<close>

section \<open>Parsing\<close>

definition hex_digit :: "char \<Rightarrow> nat option" where
  "hex_digit c =
     (let n = of_char c :: nat in
      if 48 \<le> n \<and> n \<le> 57 then Some (n - 48)
      else if 97 \<le> n \<and> n \<le> 102 then Some (n - 87)
      else if 65 \<le> n \<and> n \<le> 70 then Some (n - 55) else None)"

fun hex_value :: "nat \<Rightarrow> string \<Rightarrow> nat option" where
  "hex_value acc [] = Some acc"
| "hex_value acc (c # cs) =
     (case hex_digit c of None \<Rightarrow> None | Some d \<Rightarrow> hex_value (acc * 16 + d) cs)"

fun byte_value :: "nat \<Rightarrow> string \<Rightarrow> nat" where
  "byte_value acc [] = acc"
| "byte_value acc (c # cs) = byte_value (acc * 256 + of_char c) cs"

definition oid_of_string :: "string \<Rightarrow> oid option" where
  "oid_of_string s =
     (if length s = 24 then hex_value 0 s
      else if length s = 12 then Some (byte_value 0 s)
      else None)"

text \<open>\<open>mongoose.Types.ObjectId.isValid\<close> on a string.\<close>

definition isValid :: "string \<Rightarrow> bool" where
  "isValid s = (oid_of_string s \<noteq> None)"

section \<open>Printing\<close>

definition hex_char :: "nat \<Rightarrow> char" where
  "hex_char d = (if d < 10 then char_of (48 + d) else char_of (87 + d))"

fun hex_digits :: "nat \<Rightarrow> nat \<Rightarrow> string" where
  "hex_digits 0 x = []"
| "hex_digits (Suc n) x = hex_digits n (x div 16) @ [hex_char (x mod 16)]"

definition string_of_oid :: "oid \<Rightarrow> string" where
  "string_of_oid i = hex_digits 24 i"

section \<open>Lemmas\<close>

lemma hex_digit_hex_char [simp]: "d < 16 \<Longrightarrow> hex_digit (hex_char d) = Some d"
  by (auto simp: hex_digit_def hex_char_def Let_def)

lemma length_hex_digits [simp]: "length (hex_digits n x) = n"
  by (induction n arbitrary: x) auto

lemma hex_value_append:
  "hex_value acc (xs @ ys) = Option.bind (hex_value acc xs) (\<lambda>a. hex_value a ys)"
  by (induction acc xs rule: hex_value.induct) (auto split: option.splits)

lemma hex_value_hex_digits:
  "hex_value acc (hex_digits n x) = Some (acc * 16 ^ n + x mod 16 ^ n)"
proof (induction n arbitrary: x acc)
  case 0
  then show ?case by simp
next
  case (Suc n)
  have "(acc * 16 ^ n + x div 16 mod 16 ^ n) * 16 + x mod 16 = acc * 16 ^ Suc n + x mod 16 ^ Suc n"
    by (simp add: mod_mult2_eq algebra_simps)
  with Suc show ?case by (simp add: hex_value_append)
qed

lemma hex_digit_bound: "hex_digit c = Some d \<Longrightarrow> d < 16"
  by (auto simp: hex_digit_def Let_def split: if_splits)

lemma hex_value_bound:
  "hex_value acc s = Some v \<Longrightarrow> v < Suc acc * 16 ^ length s"
proof (induction acc s arbitrary: v rule: hex_value.induct)
  case (1 acc)
  then show ?case by simp
next
  case (2 acc c cs)
  then obtain d where d: "hex_digit c = Some d" and v: "hex_value (acc * 16 + d) cs = Some v"
    by (auto split: option.splits)
  from "2.IH" [OF d v] have "v < Suc (acc * 16 + d) * 16 ^ length cs" .
  also have "\<dots> \<le> Suc acc * 16 ^ Suc (length cs)"
  proof -
    have "d * 16 ^ length cs \<le> 15 * 16 ^ length cs"
      using hex_digit_bound [OF d] by (intro mult_le_mono1) simp
    then show ?thesis by (simp add: algebra_simps)
  qed
  finally show ?case by simp
qed

lemma of_char_bound: "of_char c < (256::nat)"
  by (simp add: of_char_def take_bit_eq_mod)

lemma byte_value_bound: "byte_value acc s < Suc acc * 256 ^ length s"
proof (induction acc s rule: byte_value.induct)
  case (1 acc)
  then show ?case by simp
next
  case (2 acc c cs)
  have "byte_value acc (c # cs) < Suc (acc * 256 + of_char c) * 256 ^ length cs"
    using "2.IH" by simp
  also have "\<dots> \<le> Suc acc * 256 ^ Suc (length cs)"
  proof -
    have "of_char c \<le> (255::nat)"
      using of_char_bound [of c] by linarith
    then have "of_char c * 256 ^ length cs \<le> 255 * (256::nat) ^ length cs"
      by (rule mult_le_mono1)
    then show ?thesis by (simp add: algebra_simps)
  qed
  finally show ?case by simp
qed

lemma oid_of_string_bound: "oid_of_string s = Some i \<Longrightarrow> i < 16 ^ 24"
proof -
  assume a: "oid_of_string s = Some i"
  show ?thesis
  proof (cases "length s = 24")
    case True
    with a have "hex_value 0 s = Some i" by (simp add: oid_of_string_def)
    from hex_value_bound [OF this] True show ?thesis by simp
  next
    case False
    with a have "length s = 12" and "i = byte_value 0 s"
      by (auto simp: oid_of_string_def split: if_splits)
    with byte_value_bound [of 0 s] show ?thesis by simp
  qed
qed

lemma length_string_of_oid [simp]: "length (string_of_oid i) = 24"
  by (simp add: string_of_oid_def)

lemma oid_of_string_of_oid [simp]: "i < 16 ^ 24 \<Longrightarrow> oid_of_string (string_of_oid i) = Some i"
  by (simp add: oid_of_string_def string_of_oid_def hex_value_hex_digits)

lemma string_of_oid_eq_iff:
  "i < 16 ^ 24 \<Longrightarrow> j < 16 ^ 24 \<Longrightarrow> string_of_oid i = string_of_oid j \<longleftrightarrow> i = j"
  by (metis oid_of_string_of_oid option.inject)

subsection \<open>The characters of a printed id\<close>

lemma hex_digits_digit: "c \<in> set (hex_digits n x) \<Longrightarrow> hex_digit c \<noteq> None"
  by (induction n arbitrary: x) auto

lemma string_of_oid_chars: "c \<in> set (string_of_oid i) \<Longrightarrow> hex_digit c \<noteq> None"
  unfolding string_of_oid_def by (rule hex_digits_digit)

lemma string_of_oid_no_space: "CHR '' '' \<notin> set (string_of_oid i)"
  using string_of_oid_chars [of "CHR '' ''" i] by (auto simp: hex_digit_def)

lemma string_of_oid_no_slash: "CHR ''/'' \<notin> set (string_of_oid i)"
  using string_of_oid_chars [of "CHR ''/''" i] by (auto simp: hex_digit_def)

lemma string_of_oid_no_query: "CHR ''?'' \<notin> set (string_of_oid i)"
  using string_of_oid_chars [of "CHR ''?''" i] by (auto simp: hex_digit_def)

end
