(* ===== verification/Task_Store.thy ===== *)
theory Task_Store
  imports Task_Model Object_Id
begin

text \<open>
  The server's persistent state: the \<open>users\<close> collection (the \<open>User\<close> model that
  \<open>auth.js\<close> and \<open>taskController.js\<close> require from \<open>models/User.js\<close>, a file
  outside \<open>src/\<close> whose fields are taken from the spec), the \<open>tasks\<close> collection,
  the files of the \<open>uploads/\<close> directory, and the supply of fresh \<open>ObjectId\<close>s.
  The Mongoose and \<open>fs\<close> primitives the controller calls are defined here on that
  state: \<open>findById\<close> with its cast of the path parameter, \<open>$push\<close> and \<open>$pull\<close>
  on a user's \<open>tasks\<close> array, \<open>document.save()\<close>, \<open>fs.unlink\<close>, and the
  multer storage path. The store invariants follow.
\<close>

section \<open>Users and principals\<close>

datatype role = Admin | User

fun string_of_role :: "role \<Rightarrow> string" where
  "string_of_role Admin = ''admin''"
| "string_of_role User = ''user''"

text \<open>
  A user document: name, e-mail, role, the array of task references and the stored
  (hashed) password.
\<close>

record account =
  u_name :: string
  u_email :: string
  u_role :: role
  u_tasks :: "oid list"
  u_password :: string

text \<open>\<open>req.user\<close> as the handlers read it: \<open>req.user.id\<close> and \<open>req.user.role\<close>.\<close>

record principal =
  p_id :: oid
  p_role :: role

section \<open>The state\<close>

record db =
  users :: "oid \<rightharpoonup> account"
  tasks :: "(oid \<times> task) list"
  uploads :: "string set"
  next_id :: nat

section \<open>Mongoose primitives\<close>

text \<open>
  \<open>Task.findById(req.params.id)\<close>: a path parameter that is no \<open>ObjectId\<close> makes
  the query reject with a \<open>CastError\<close>; otherwise the document or \<open>null\<close>.
\<close>

definition find_task :: "db \<Rightarrow> string \<Rightarrow> message + (oid \<times> task) option" where
  "find_task s str =
     (case oid_of_string str of
        None \<Rightarrow> Inl (Cast_failed str)
      | Some i \<Rightarrow> Inr (map_option (Pair i) (map_of (tasks s) i)))"

text \<open>
  \<open>User.findByIdAndUpdate(a, {$push: {tasks: i}})\<close> and \<open>{$pull: {tasks: i}}\<close>:
  no error and no effect when no user has the id.
\<close>

definition push_task :: "oid \<Rightarrow> oid \<Rightarrow> db \<Rightarrow> db" where
  "push_task a i s =
     (case users s a of
        None \<Rightarrow> s
      | Some acc \<Rightarrow> s\<lparr>users := (users s)(a \<mapsto> acc\<lparr>u_tasks := u_tasks acc @ [i]\<rparr>)\<rparr>)"

definition pull_task :: "oid \<Rightarrow> oid \<Rightarrow> db \<Rightarrow> db" where
  "pull_task a i s =
     (case users s a of
        None \<Rightarrow> s
      | Some acc \<Rightarrow> s\<lparr>users := (users s)(a \<mapsto> acc\<lparr>u_tasks := removeAll i (u_tasks acc)\<rparr>)\<rparr>)"

text \<open>\<open>task.save()\<close> after an in-memory change: validation of the whole document.\<close>

definition save_task :: "oid \<Rightarrow> task \<Rightarrow> db \<Rightarrow> message + db" where
  "save_task i t s =
     (if doc_errors t = [] then Inr (s\<lparr>tasks := AList.update i t (tasks s)\<rparr>)
      else Inl (Validation_failed (doc_errors t)))"

text \<open>\<open>task.photos.id(photoId)\<close> and \<open>photo.remove()\<close> (a pull by \<open>_id\<close>).\<close>

definition find_photo :: "photo list \<Rightarrow> string \<Rightarrow> photo option" where
  "find_photo phs str =
     (case oid_of_string str of
        None \<Rightarrow> None
      | Some j \<Rightarrow> find (\<lambda>ph. ph_id ph = j) phs)"

definition remove_photo :: "oid \<Rightarrow> photo list \<Rightarrow> photo list" where
  "remove_photo j phs = filter (\<lambda>ph. ph_id ph \<noteq> j) phs"

section \<open>Files\<close>

text \<open>
  multer's \<open>diskStorage\<close> writes the upload to \<open>'uploads/' + filename\<close>; the
  handler records the URL \<open>'/uploads/' + filename\<close>; deletion unlinks
  \<open>path.join(__dirname, '..', imageUrl.replace(/^\//, ''))\<close>. With the server started
  in \<open>src/backend\<close>, the two directories are the same, and file names are kept
  relative to it.
\<close>

definition upload_path :: "string \<Rightarrow> string" where
  "upload_path fn = ''uploads/'' @ fn"

definition image_url :: "string \<Rightarrow> string" where
  "image_url fn = ''/uploads/'' @ fn"

definition strip_slash :: "string \<Rightarrow> string" where
  "strip_slash u = (case u of [] \<Rightarrow> [] | c # r \<Rightarrow> if c = CHR ''/'' then r else u)"

text \<open>\<open>fs.unlink\<close>: \<open>ENOENT\<close> when the file is missing.\<close>

definition unlink :: "string \<Rightarrow> string set \<Rightarrow> message + string set" where
  "unlink p fs = (if p \<in> fs then Inr (fs - {p}) else Inl (Fs_error p))"

text \<open>
  The loop of \<open>deleteTask\<close> over the task's photos: each step is in its own
  \<open>try\<close>, so a missing URL (a \<open>TypeError\<close>) or a failed unlink is logged and
  the loop goes on.
\<close>

primrec unlink_photos :: "photo list \<Rightarrow> string set \<Rightarrow> string set" where
  "unlink_photos [] fs = fs"
| "unlink_photos (ph # phs) fs =
     unlink_photos phs
       (case imageUrl ph of
          None \<Rightarrow> fs
        | Some u \<Rightarrow> (case unlink (strip_slash u) fs of Inl _ \<Rightarrow> fs | Inr fs' \<Rightarrow> fs'))"

section \<open>Invariants\<close>

text \<open>
  Well-formedness: task ids are distinct and were handed out by the id supply, as
  were the ids of photos and comments and the references in users' task lists; stored
  documents pass schema validation.
\<close>

definition wf_db :: "db \<Rightarrow> bool" where
  "wf_db s \<longleftrightarrow>
     distinct (map fst (tasks s)) \<and>
     (\<forall>(i, t) \<in> set (tasks s). i < next_id s \<and> doc_errors t = [] \<and>
        (\<forall>ph \<in> set (photos t). ph_id ph < next_id s) \<and>
        (\<forall>c \<in> set (comments t). cm_id c < next_id s)) \<and>
     (\<forall>a acc. users s a = Some acc \<longrightarrow> (\<forall>j \<in> set (u_tasks acc). j < next_id s))"

text \<open>
  The reference invariant of the spec's data model: every task whose assignee exists
  is in that user's task list.
\<close>

definition linked :: "db \<Rightarrow> bool" where
  "linked s \<longleftrightarrow>
     (\<forall>(i, t) \<in> set (tasks s). \<forall>acc. users s (assignedTo t) = Some acc \<longrightarrow>
        i \<in> set (u_tasks acc))"

text \<open>
  How a task handler may change the users: the same users, each with the same fields
  apart from its task list, and an id supply that only grows.
\<close>

definition only_task_lists :: "db \<Rightarrow> db \<Rightarrow> bool" where
  "only_task_lists s s' \<longleftrightarrow> next_id s \<le> next_id s' \<and> dom (users s') = dom (users s) \<and>
     (\<forall>a x y. users s a = Some x \<longrightarrow> users s' a = Some y \<longrightarrow> y\<lparr>u_tasks := []\<rparr> = x\<lparr>u_tasks := []\<rparr>)"

section \<open>Lemmas\<close>

lemma find_task_Some:
  "find_task s str = Inr (Some (i, t)) \<longleftrightarrow> oid_of_string str = Some i \<and> map_of (tasks s) i = Some t"
  by (auto simp: find_task_def split: option.splits)

lemma find_task_None:
  "find_task s str = Inr None \<longleftrightarrow> (\<exists>i. oid_of_string str = Some i \<and> map_of (tasks s) i = None)"
  by (auto simp: find_task_def split: option.splits)

lemma find_task_Inl:
  "find_task s str = Inl m \<longleftrightarrow> oid_of_string str = None \<and> m = Cast_failed str"
  by (auto simp: find_task_def split: option.splits)

lemma find_task_cases:
  obtains (cast) "oid_of_string str = None" "find_task s str = Inl (Cast_failed str)"
  | (missing) i where "oid_of_string str = Some i" "map_of (tasks s) i = None"
      "find_task s str = Inr None"
  | (found) i t where "oid_of_string str = Some i" "map_of (tasks s) i = Some t"
      "find_task s str = Inr (Some (i, t))"
  by (cases "oid_of_string str"; cases "map_of (tasks s) (the (oid_of_string str))")
     (auto simp: find_task_def)

lemma tasks_push_task [simp]: "tasks (push_task a i s) = tasks s"
  by (simp add: push_task_def split: option.splits)

lemma tasks_pull_task [simp]: "tasks (pull_task a i s) = tasks s"
  by (simp add: pull_task_def split: option.splits)

lemma uploads_push_task [simp]: "uploads (push_task a i s) = uploads s"
  by (simp add: push_task_def split: option.splits)

lemma uploads_pull_task [simp]: "uploads (pull_task a i s) = uploads s"
  by (simp add: pull_task_def split: option.splits)

lemma next_id_push_task [simp]: "next_id (push_task a i s) = next_id s"
  by (simp add: push_task_def split: option.splits)

lemma next_id_pull_task [simp]: "next_id (pull_task a i s) = next_id s"
  by (simp add: pull_task_def split: option.splits)

lemma users_push_task:
  "users (push_task a i s) b =
     (if b = a then map_option (\<lambda>acc. acc\<lparr>u_tasks := u_tasks acc @ [i]\<rparr>) (users s a) else users s b)"
  by (simp add: push_task_def split: option.splits)

lemma users_pull_task:
  "users (pull_task a i s) b =
     (if b = a then map_option (\<lambda>acc. acc\<lparr>u_tasks := removeAll i (u_tasks acc)\<rparr>) (users s a)
      else users s b)"
  by (simp add: pull_task_def split: option.splits)

lemma save_task_Inr:
  "save_task i t s = Inr s' \<longleftrightarrow> doc_errors t = [] \<and> s' = s\<lparr>tasks := AList.update i t (tasks s)\<rparr>"
  by (auto simp: save_task_def)

lemma unlink_photos_eq:
  "unlink_photos phs fs = fs - {strip_slash u | ph u. ph \<in> set phs \<and> imageUrl ph = Some u}"
  by (induction phs arbitrary: fs) (auto simp: unlink_def split: option.splits if_splits)

lemma strip_slash_image_url [simp]: "strip_slash (image_url fn) = upload_path fn"
  by (simp add: strip_slash_def image_url_def upload_path_def)

lemma only_task_lists_same: "users s' = users s \<Longrightarrow> next_id s \<le> next_id s' \<Longrightarrow> only_task_lists s s'"
  by (simp add: only_task_lists_def)

lemma only_task_lists_refl [simp]: "only_task_lists s s"
  by (simp add: only_task_lists_def)

lemma only_task_lists_trans: "only_task_lists s1 s2 \<Longrightarrow> only_task_lists s2 s3 \<Longrightarrow> only_task_lists s1 s3"
proof -
  assume a: "only_task_lists s1 s2" and b: "only_task_lists s2 s3"
  have "users s2 a \<noteq> None" if "users s1 a = Some x" for a x
    using a that unfolding only_task_lists_def by blast
  with a b show ?thesis unfolding only_task_lists_def by (metis (no_types, lifting) not_Some_eq order_trans)
qed

lemma only_task_lists_push: "only_task_lists s (push_task a i s)"
  by (auto simp: only_task_lists_def push_task_def split: option.splits)

lemma only_task_lists_pull: "only_task_lists s (pull_task a i s)"
  by (auto simp: only_task_lists_def push_task_def pull_task_def split: option.splits)

lemma only_task_lists_save: "save_task i t s = Inr s' \<Longrightarrow> only_task_lists s s'"
  by (simp add: save_task_Inr only_task_lists_same)

end
