(* ===== verification/Task_API.thy ===== *)
theory Task_API
  imports Task_Store
begin

text \<open>
  The handlers of \<open>src/backend/controllers/taskController.js\<close>, one definition each,
  in the order of the file. A handler that changes the store takes the state and returns
  the reply with the new state; a read-only handler returns the reply. Every
  \<open>return res.status(..)\<close> of the source is a branch, and the \<open>catch\<close> of each
  handler is the \<open>S500\<close> reply carrying the error's message.
\<close>

section \<open>Reply payloads\<close>

text \<open>The object literal \<open>uploadTaskPhoto\<close> sends back (not the saved sub-document).\<close>

record photo_reply =
  r_imageUrl :: string
  r_caption :: string
  r_uploadedBy :: oid
  r_uploadedAt :: nat

datatype payload =
    P_task oid task
  | P_tasks "(oid \<times> task) list"
  | P_photo photo_reply
  | P_empty

section \<open>Handlers\<close>

text \<open>\<open>exports.createTask\<close> (lines 7--29).\<close>

definition createTask :: "db \<Rightarrow> principal \<Rightarrow> task_body \<Rightarrow> nat \<Rightarrow> payload reply \<times> db" where
  "createTask s me b now =
     (case new_task b (p_id me) now of
        Inl m \<Rightarrow> (Fail S500 m, s)
      | Inr t \<Rightarrow>
          (let i = next_id s;
               s' = s\<lparr>tasks := AList.update i t (tasks s), next_id := Suc i\<rparr>
           in (Ok S201 (P_task i t), push_task (assignedTo t) i s')))"

text \<open>The query of \<open>getTasks\<close> for a non-admin: \<open>$or\<close> of assignee and creator.\<close>

definition visible :: "principal \<Rightarrow> task \<Rightarrow> bool" where
  "visible me t \<longleftrightarrow> assignedTo t = p_id me \<or> createdBy t = p_id me"

text \<open>\<open>exports.getTasks\<close> (lines 31--53).\<close>

definition getTasks :: "db \<Rightarrow> principal \<Rightarrow> payload reply" where
  "getTasks s me =
     Ok S200 (P_tasks (if p_role me = Admin then tasks s
                       else filter (\<lambda>(i, t). visible me t) (tasks s)))"

text \<open>
  \<open>exports.getTask\<close> (lines 55--76). \<open>populate\<close> replaces a reference to a missing
  user by \<open>null\<close>; the check then reads \<open>task.assignedTo._id\<close> (and, if the caller is
  not the assignee, \<open>task.createdBy._id\<close>), which throws a \<open>TypeError\<close> on
  \<open>null\<close>. The \<open>&&\<close> evaluates left to right and stops at the first false operand.
\<close>

definition getTask :: "db \<Rightarrow> principal \<Rightarrow> string \<Rightarrow> payload reply" where
  "getTask s me str =
     (case find_task s str of
        Inl m \<Rightarrow> Fail S500 m
      | Inr None \<Rightarrow> Fail S404 (Text ''Task not found'')
      | Inr (Some (i, t)) \<Rightarrow>
          (if p_role me \<noteq> Admin then
             (case users s (assignedTo t) of
                None \<Rightarrow> Fail S500 (Type_error ''_id'')
              | Some _ \<Rightarrow>
                  if assignedTo t \<noteq> p_id me then
                    (case users s (createdBy t) of
                       None \<Rightarrow> Fail S500 (Type_error ''_id'')
                     | Some _ \<Rightarrow>
                         if createdBy t \<noteq> p_id me then Fail S403 (Text ''Not authorized'')
                         else Ok S200 (P_task i t))
                  else Ok S200 (P_task i t))
           else Ok S200 (P_task i t)))"

text \<open>\<open>exports.updateTask\<close> (lines 78--93).\<close>

definition updateTask ::
  "db \<Rightarrow> principal \<Rightarrow> string \<Rightarrow> task_patch \<Rightarrow> nat \<Rightarrow> payload reply \<times> db" where
  "updateTask s me str p now =
     (case find_task s str of
        Inl m \<Rightarrow> (Fail S500 m, s)
      | Inr None \<Rightarrow> (Fail S404 (Text ''Task not found''), s)
      | Inr (Some (i, t)) \<Rightarrow>
          (if p_role me \<noteq> Admin \<and> createdBy t \<noteq> p_id me then
             (Fail S403 (Text ''Not authorized''), s)
           else
             (case apply_patch p now t of
                Inl m \<Rightarrow> (Fail S500 m, s)
              | Inr t' \<Rightarrow> (Ok S200 (P_task i t'), s\<lparr>tasks := AList.update i t' (tasks s)\<rparr>))))"

text \<open>
  \<open>exports.deleteTask\<close> (lines 95--124): unlink every photo file (failures are
  logged), \<open>task.remove()\<close>, then \<open>$pull\<close> the id from the assignee's list.
\<close>

definition deleteTask :: "db \<Rightarrow> principal \<Rightarrow> string \<Rightarrow> payload reply \<times> db" where
  "deleteTask s me str =
     (case find_task s str of
        Inl m \<Rightarrow> (Fail S500 m, s)
      | Inr None \<Rightarrow> (Fail S404 (Text ''Task not found''), s)
      | Inr (Some (i, t)) \<Rightarrow>
          (if p_role me \<noteq> Admin \<and> createdBy t \<noteq> p_id me then
             (Fail S403 (Text ''Not authorized''), s)
           else
             (let s1 = s\<lparr>uploads := unlink_photos (photos t) (uploads s)\<rparr>;
                  s2 = s1\<lparr>tasks := AList.delete i (tasks s1)\<rparr>
              in (Ok S200 P_empty, pull_task (assignedTo t) i s2))))"

text \<open>
  \<open>exports.addComment\<close> (lines 126--138). The pushed object is
  \<open>{user: req.user.id, text}\<close>; the schema's comment has no \<open>user\<close> path, so strict
  mode drops it and \<open>createdBy\<close> stays unset. No check of the caller beyond
  \<open>protect\<close>.
\<close>

definition addComment ::
  "db \<Rightarrow> principal \<Rightarrow> string \<Rightarrow> string option \<Rightarrow> nat \<Rightarrow> payload reply \<times> db" where
  "addComment s me str txt now =
     (case find_task s str of
        Inl m \<Rightarrow> (Fail S500 m, s)
      | Inr None \<Rightarrow> (Fail S404 (Text ''Task not found''), s)
      | Inr (Some (i, t)) \<Rightarrow>
          (let c = \<lparr>cm_id = next_id s, cm_text = txt, cm_createdBy = None, cm_createdAt = now\<rparr>;
               t' = t\<lparr>comments := comments t @ [c], updatedAt := now\<rparr>
           in (case save_task i t' (s\<lparr>next_id := Suc (next_id s)\<rparr>) of
                 Inl m \<Rightarrow> (Fail S500 m, s)
               | Inr s' \<Rightarrow> (Ok S200 (P_task i t'), s'))))"

text \<open>
  \<open>exports.uploadTaskPhoto\<close> (lines 140--187). \<open>upl\<close> is \<open>req.file.filename\<close>
  (absent when no file was sent), \<open>cap\<close> is \<open>req.body.caption\<close>; \<open>|| ''\<close> maps
  both an absent and an empty caption to the empty string. The literal's
  \<open>uploadedAt\<close> is not a schema path; the stored photo gets the default
  \<open>createdAt\<close>.
\<close>

definition uploadTaskPhoto ::
  "db \<Rightarrow> principal \<Rightarrow> string \<Rightarrow> string option \<Rightarrow> string option \<Rightarrow> nat \<Rightarrow> payload reply \<times> db" where
  "uploadTaskPhoto s me str upl cap now =
     (case find_task s str of
        Inl m \<Rightarrow> (Fail S500 m, s)
      | Inr None \<Rightarrow> (Fail S404 (Text ''Task not found''), s)
      | Inr (Some (i, t)) \<Rightarrow>
          (if p_role me \<noteq> Admin \<and> assignedTo t \<noteq> p_id me then
             (Fail S403 (Text ''Not authorized''), s)
           else
             (case upl of
                None \<Rightarrow> (Fail S400 (Text ''Please upload a file''), s)
              | Some fn \<Rightarrow>
                  (let c = (case cap of None \<Rightarrow> [] | Some x \<Rightarrow> x);
                       ph = \<lparr>ph_id = next_id s, imageUrl = Some (image_url fn), caption = Some c,
                             ph_createdAt = now, uploadedBy = Some (p_id me)\<rparr>;
                       t' = t\<lparr>photos := photos t @ [ph],
                              status := (if status t = Todo then InProgress else status t),
                              updatedAt := now\<rparr>
                   in (case save_task i t' (s\<lparr>next_id := Suc (next_id s)\<rparr>) of
                         Inl m \<Rightarrow> (Fail S500 m, s)
                       | Inr s' \<Rightarrow>
                           (Ok S200 (P_photo \<lparr>r_imageUrl = image_url fn, r_caption = c,
                                               r_uploadedBy = p_id me, r_uploadedAt = now\<rparr>),
                            s'))))))"

text \<open>
  \<open>exports.deleteTaskPhoto\<close> (lines 189--212). Unlike \<open>deleteTask\<close>, a missing URL
  or a failed unlink aborts the request with \<open>S500\<close>, and the photo stays.
\<close>

definition deleteTaskPhoto ::
  "db \<Rightarrow> principal \<Rightarrow> string \<Rightarrow> string \<Rightarrow> nat \<Rightarrow> payload reply \<times> db" where
  "deleteTaskPhoto s me str pstr now =
     (case find_task s str of
        Inl m \<Rightarrow> (Fail S500 m, s)
      | Inr None \<Rightarrow> (Fail S404 (Text ''Task not found''), s)
      | Inr (Some (i, t)) \<Rightarrow>
          (if p_role me \<noteq> Admin \<and> assignedTo t \<noteq> p_id me then
             (Fail S403 (Text ''Not authorized''), s)
           else
             (case find_photo (photos t) pstr of
                None \<Rightarrow> (Fail S404 (Text ''Photo not found''), s)
              | Some ph \<Rightarrow>
                  (case imageUrl ph of
                     None \<Rightarrow> (Fail S500 (Type_error ''replace''), s)
                   | Some u \<Rightarrow>
                       (case unlink (strip_slash u) (uploads s) of
                          Inl m \<Rightarrow> (Fail S500 m, s)
                        | Inr fs \<Rightarrow>
                            (let t' = t\<lparr>photos := remove_photo (ph_id ph) (photos t),
                                        updatedAt := now\<rparr>
                             in (case save_task i t' (s\<lparr>uploads := fs\<rparr>) of
                                   Inl m \<Rightarrow> (Fail S500 m, s\<lparr>uploads := fs\<rparr>)
                                 | Inr s' \<Rightarrow> (Ok S200 P_empty, s'))))))))"

section \<open>Example data\<close>

text \<open>
  The scenario of the spec: an administrator (id 1) creates the task "Fix bug" (high
  priority, group Backend) assigned to user 2; ids are handed out from 3.
\<close>

definition demo_admin :: principal where "demo_admin = \<lparr>p_id = 1, p_role = Admin\<rparr>"
definition demo_user :: principal where "demo_user = \<lparr>p_id = 2, p_role = User\<rparr>"
definition demo_db :: db where
  "demo_db = \<lparr>users = [1 \<mapsto> \<lparr>u_name = ''Ada'', u_email = ''ada@example.com'', u_role = Admin, u_tasks = [], u_password = ''h:ada''\<rparr>,
                      2 \<mapsto> \<lparr>u_name = ''Bo'', u_email = ''bo@example.com'', u_role = User, u_tasks = [], u_password = ''h:bo''\<rparr>],
              tasks = [], uploads = {}, next_id = 3\<rparr>"
definition demo_body :: task_body where
  "demo_body = \<lparr>b_title = Some ''Fix bug'', b_shortDescription = Some ''Crash on login'',
     b_longDescription = None, b_priority = Some ''high'', b_deadline = Some 1735689600000,
     b_status = None, b_assignedTo = Some 2, b_group = Some ''Backend''\<rparr>"
definition demo_task :: task where
  "demo_task = \<lparr>title = ''Fix bug'', shortDescription = ''Crash on login'', longDescription = None,
     status = Todo, priority = High, deadline = 1735689600000, group = Backend, assignedTo = 2,
     createdBy = 1, photos = [], comments = [], createdAt = 0, updatedAt = 0\<rparr>"

definition demo_db1 :: db where
  "demo_db1 = demo_db\<lparr>tasks := [(3, demo_task)], next_id := 4,
     users := (users demo_db)(2 \<mapsto> \<lparr>u_name = ''Bo'', u_email = ''bo@example.com'', u_role = User,
                                   u_tasks = [3], u_password = ''h:bo''\<rparr>)\<rparr>"

definition demo_photo :: photo where
  "demo_photo = \<lparr>ph_id = 4, imageUrl = Some ''/uploads/shot.png'', caption = Some [], ph_createdAt = 5,
     uploadedBy = Some 2\<rparr>"

definition demo_db2 :: db where
  "demo_db2 = demo_db1\<lparr>tasks := [(3, demo_task\<lparr>photos := [demo_photo]\<rparr>)],
     uploads := {''uploads/shot.png''}, next_id := 5\<rparr>"

text \<open>Bo, the assignee of task 3, asks to mark it completed.\<close>

definition demo_status_patch :: task_patch where
  "demo_status_patch = \<lparr>p_title = None, p_shortDescription = None, p_longDescription = None,
     p_status = Some ''completed'', p_priority = None, p_deadline = None, p_group = None,
     p_assignedTo = None, p_createdBy = None\<rparr>"

section \<open>Lemmas\<close>

lemmas handler_defs = createTask_def getTasks_def getTask_def updateTask_def deleteTask_def
  addComment_def uploadTaskPhoto_def deleteTaskPhoto_def


subsection \<open>Store invariant\<close>

lemma wf_dbD:
  assumes "wf_db s"
  shows "distinct (map fst (tasks s))"
    and "(i, t) \<in> set (tasks s) \<Longrightarrow> i < next_id s \<and> doc_errors t = []"
    and "(i, t) \<in> set (tasks s) \<Longrightarrow> ph \<in> set (photos t) \<Longrightarrow> ph_id ph < next_id s"
    and "(i, t) \<in> set (tasks s) \<Longrightarrow> c \<in> set (comments t) \<Longrightarrow> cm_id c < next_id s"
    and "users s a = Some acc \<Longrightarrow> j \<in> set (u_tasks acc) \<Longrightarrow> j < next_id s"
  using assms by (auto simp: wf_db_def)

lemma wf_db_map_of:
  "wf_db s \<Longrightarrow> map_of (tasks s) i = Some t \<Longrightarrow>
   i < next_id s \<and> doc_errors t = [] \<and> (\<forall>ph \<in> set (photos t). ph_id ph < next_id s) \<and>
   (\<forall>c \<in> set (comments t). cm_id c < next_id s)"
  by (auto simp: wf_db_def dest!: map_of_SomeD)

text \<open>Storing a valid document under a key keeps the invariant.\<close>

lemma wf_db_store:
  assumes "wf_db s" and "i < n" and "next_id s \<le> n" and "doc_errors t = []"
    and "\<forall>ph \<in> set (photos t). ph_id ph < n" and "\<forall>c \<in> set (comments t). cm_id c < n"
  shows "wf_db (s\<lparr>tasks := AList.update i t (tasks s), next_id := n\<rparr>)"
  using assms unfolding wf_db_def
  by (fastforce dest: values_update)

lemma wf_db_store_same:
  assumes "wf_db s" and "i < next_id s" and "doc_errors t = []"
    and "\<forall>ph \<in> set (photos t). ph_id ph < next_id s" and "\<forall>c \<in> set (comments t). cm_id c < next_id s"
  shows "wf_db (s\<lparr>tasks := AList.update i t (tasks s)\<rparr>)"
  using wf_db_store [OF assms(1,2) order_refl assms(3-5)] by simp

lemma wf_db_save_task:
  assumes "wf_db s" and "save_task i t s = Inr s'" and "i < next_id s"
    and "\<forall>ph \<in> set (photos t). ph_id ph < next_id s" and "\<forall>c \<in> set (comments t). cm_id c < next_id s"
  shows "wf_db s'"
  using assms wf_db_store_same [OF assms(1,3) _ assms(4,5)] by (simp add: save_task_Inr)

lemma wf_db_push_task: "wf_db s \<Longrightarrow> i < next_id s \<Longrightarrow> wf_db (push_task a i s)"
  by (auto simp: wf_db_def push_task_def split: option.splits if_splits)

lemma wf_db_pull_task: "wf_db s \<Longrightarrow> wf_db (pull_task a i s)"
  by (auto simp: wf_db_def pull_task_def split: option.splits if_splits)

lemma wf_db_delete:
  "wf_db s \<Longrightarrow> wf_db (s\<lparr>uploads := fs, tasks := AList.delete i (tasks s)\<rparr>)"
  unfolding wf_db_def AList.delete_eq by (fastforce intro: distinct_map_filter)

lemma wf_db_uploads [simp]: "wf_db (s\<lparr>uploads := fs\<rparr>) = wf_db s"
  by (simp add: wf_db_def)

lemma wf_db_next_id: "wf_db s \<Longrightarrow> next_id s \<le> n \<Longrightarrow> wf_db (s\<lparr>next_id := n\<rparr>)"
  by (fastforce simp: wf_db_def)


lemma wf_createTask [wf_handlers]: "wf_db s \<Longrightarrow> wf_db (snd (createTask s me b now))"
proof (cases "new_task b (p_id me) now")
  case (Inl m)
  assume "wf_db s"
  with Inl show ?thesis by (simp add: createTask_def)
next
  case (Inr t)
  assume wf: "wf_db s"
  have "wf_db (s\<lparr>tasks := AList.update (next_id s) t (tasks s), next_id := Suc (next_id s)\<rparr>)"
    using new_task_doc_valid [OF Inr] new_task_Inr_fields [OF Inr]
    by (intro wf_db_store [OF wf]) auto
  with Inr show ?thesis by (simp add: createTask_def Let_def wf_db_push_task)
qed

lemma wf_updateTask [wf_handlers]: "wf_db s \<Longrightarrow> wf_db (snd (updateTask s me str p now))"
proof (cases s str rule: find_task_cases)
  case (found i t)
  assume wf: "wf_db s"
  note t = wf_db_map_of [OF wf found(2)]
  show ?thesis
  proof (cases "apply_patch p now t")
    case (Inr t')
    have "wf_db (s\<lparr>tasks := AList.update i t' (tasks s)\<rparr>)"
      using t apply_patch_Inr [OF Inr] apply_patch_doc_valid [OF _ Inr]
      by (intro wf_db_store_same [OF wf]) auto
    with found Inr wf show ?thesis by (simp add: updateTask_def)
  qed (use found wf in \<open>simp add: updateTask_def\<close>)
qed (simp_all add: updateTask_def)

lemma wf_deleteTask [wf_handlers]: "wf_db s \<Longrightarrow> wf_db (snd (deleteTask s me str))"
  by (cases s str rule: find_task_cases)
     (auto simp: deleteTask_def Let_def intro!: wf_db_pull_task wf_db_delete)

lemma wf_addComment [wf_handlers]: "wf_db s \<Longrightarrow> wf_db (snd (addComment s me str txt now))"
proof (cases s str rule: find_task_cases)
  case (found i t)
  assume wf: "wf_db s"
  note t = wf_db_map_of [OF wf found(2)]
  let ?s1 = "s\<lparr>next_id := Suc (next_id s)\<rparr>"
  let ?t' = "t\<lparr>comments := comments t @ [\<lparr>cm_id = next_id s, cm_text = txt, cm_createdBy = None,
      cm_createdAt = now\<rparr>], updatedAt := now\<rparr>"
  have wf1: "wf_db ?s1" using wf by (rule wf_db_next_id) simp
  show ?thesis
  proof (cases "save_task i ?t' ?s1")
    case (Inr s')
    have "wf_db s'"
      by (rule wf_db_save_task [OF wf1 Inr]) (use t in auto)
    with found Inr show ?thesis by (simp add: addComment_def)
  qed (use found wf in \<open>simp add: addComment_def\<close>)
qed (simp_all add: addComment_def)

lemma wf_uploadTaskPhoto [wf_handlers]: "wf_db s \<Longrightarrow> wf_db (snd (uploadTaskPhoto s me str upl cap now))"
proof (cases s str rule: find_task_cases)
  case (found i t)
  assume wf: "wf_db s"
  note t = wf_db_map_of [OF wf found(2)]
  show ?thesis
  proof (cases upl)
    case (Some fn)
    let ?s1 = "s\<lparr>next_id := Suc (next_id s)\<rparr>"
    let ?t' = "t\<lparr>photos := photos t @ [\<lparr>ph_id = next_id s, imageUrl = Some (image_url fn),
        caption = Some (case cap of None \<Rightarrow> [] | Some x \<Rightarrow> x), ph_createdAt = now,
        uploadedBy = Some (p_id me)\<rparr>],
        status := (if status t = Todo then InProgress else status t), updatedAt := now\<rparr>"
    have wf1: "wf_db ?s1" using wf by (rule wf_db_next_id) simp
    show ?thesis
    proof (cases "save_task i ?t' ?s1")
      case (Inr s')
      have "wf_db s'"
        by (rule wf_db_save_task [OF wf1 Inr]) (use t in auto)
      with found Some Inr wf show ?thesis by (simp add: uploadTaskPhoto_def Let_def)
    qed (use found Some wf in \<open>simp add: uploadTaskPhoto_def Let_def\<close>)
  qed (use found wf in \<open>simp add: uploadTaskPhoto_def\<close>)
qed (simp_all add: uploadTaskPhoto_def)

lemma wf_deleteTaskPhoto [wf_handlers]: "wf_db s \<Longrightarrow> wf_db (snd (deleteTaskPhoto s me str pstr now))"
proof (cases s str rule: find_task_cases)
  case (found i t)
  assume wf: "wf_db s"
  note t = wf_db_map_of [OF wf found(2)]
  have step: "wf_db s'" if "save_task i (t\<lparr>photos := remove_photo j (photos t), updatedAt := now\<rparr>)
      (s\<lparr>uploads := fs\<rparr>) = Inr s'" for j fs s'
    by (rule wf_db_save_task [OF _ that]) (use wf t in \<open>auto simp: remove_photo_def\<close>)
  show ?thesis
    using found wf step
    by (auto simp: deleteTaskPhoto_def Let_def split: option.splits sum.splits)
qed (simp_all add: deleteTaskPhoto_def)

subsection \<open>Users\<close>

lemma lists_createTask [lists_handlers]: "only_task_lists s (snd (createTask s me b now))"
  by (auto simp: createTask_def Let_def split: sum.splits
      intro: only_task_lists_trans [OF only_task_lists_same only_task_lists_push])

lemma lists_updateTask [lists_handlers]: "only_task_lists s (snd (updateTask s me str p now))"
  by (cases s str rule: find_task_cases) (auto simp: updateTask_def only_task_lists_same split: sum.splits)

lemma lists_deleteTask [lists_handlers]: "only_task_lists s (snd (deleteTask s me str))"
  by (cases s str rule: find_task_cases)
     (auto simp: deleteTask_def Let_def intro: only_task_lists_trans [OF only_task_lists_same only_task_lists_pull])

lemma lists_addComment [lists_handlers]: "only_task_lists s (snd (addComment s me str txt now))"
  by (cases s str rule: find_task_cases)
     (auto simp: addComment_def Let_def save_task_Inr only_task_lists_same split: sum.splits)

lemma lists_uploadTaskPhoto [lists_handlers]: "only_task_lists s (snd (uploadTaskPhoto s me str upl cap now))"
  by (cases s str rule: find_task_cases)
     (auto simp: uploadTaskPhoto_def Let_def save_task_Inr only_task_lists_same split: sum.splits option.splits)

lemma lists_deleteTaskPhoto [lists_handlers]: "only_task_lists s (snd (deleteTaskPhoto s me str pstr now))"
  by (cases s str rule: find_task_cases)
     (auto simp: deleteTaskPhoto_def Let_def save_task_Inr only_task_lists_same split: sum.splits option.splits if_splits)

subsection \<open>Example states\<close>

lemmas demo_defs = demo_admin_def demo_user_def demo_db_def demo_body_def demo_task_def demo_db1_def

lemma demo_new_task: "new_task demo_body (p_id demo_admin) 0 = Inr demo_task"
  by (simp add: new_task_def demo_body_def demo_task_def demo_admin_def)

lemma demo_wf: "wf_db demo_db"
  by (simp add: wf_db_def demo_db_def)

lemma demo_after_create: "snd (createTask demo_db demo_admin demo_body 0) = demo_db1"
  by (simp add: createTask_def demo_new_task Let_def push_task_def)
     (simp add: demo_defs)

lemma demo_find: "find_task demo_db1 (string_of_oid 3) = Inr (Some (3, demo_task))"
  by (simp add: find_task_def demo_db1_def demo_db_def)

lemma demo_wf1: "wf_db demo_db1"
  using wf_createTask [OF demo_wf, of demo_admin demo_body 0] by (simp add: demo_after_create)

lemma demo_wf2: "wf_db demo_db2" and demo_wf2': "wf_db (demo_db2\<lparr>uploads := {}\<rparr>)"
  by (simp_all add: wf_db_def demo_db2_def demo_photo_def demo_defs)

lemma demo_find2: "find_task demo_db2 (string_of_oid 3) = Inr (Some (3, demo_task\<lparr>photos := [demo_photo]\<rparr>))"
  and demo_find2': "find_task (demo_db2\<lparr>uploads := {}\<rparr>) (string_of_oid 3) = Inr (Some (3, demo_task\<lparr>photos := [demo_photo]\<rparr>))"
  by (simp_all add: find_task_def demo_db2_def)

lemma demo_find_photo: "find_photo (photos (demo_task\<lparr>photos := [demo_photo]\<rparr>)) (string_of_oid 4) = Some demo_photo"
  by (simp add: find_photo_def demo_photo_def)

subsection \<open>Functional behaviour\<close>

text \<open>
  C1. \<open>GET /api/tasks\<close> returns, in store order, exactly the tasks the caller may see:
  all tasks for an administrator, and for any other user the tasks they are assigned to
  or created.
\<close>

theorem getTasks_visibility:
  "getTasks s me =
     Ok S200 (P_tasks (filter (\<lambda>(i, t). p_role me = Admin \<or> assignedTo t = p_id me \<or> createdBy t = p_id me)
                              (tasks s)))"
  unfolding getTasks_def visible_def by (cases "p_role me = Admin") simp_all

text \<open>
  C2. \<open>GET /api/tasks/:id\<close> for a non-administrator distinguishes "not found" from "not
  permitted": a valid id of no task gives 404; a task the caller neither is assigned to nor
  created gives 403; the caller's own task is returned. A task whose assignee (or, for a
  non-assignee, whose creator) no longer exists makes the handler fail with 500.
\<close>

theorem getTask_non_admin:
  assumes "oid_of_string str = Some i" and "p_role me \<noteq> Admin"
  shows "getTask s me str =
    (case map_of (tasks s) i of
       None \<Rightarrow> Fail S404 (Text ''Task not found'')
     | Some t \<Rightarrow>
         if users s (assignedTo t) = None \<or> (assignedTo t \<noteq> p_id me \<and> users s (createdBy t) = None)
         then Fail S500 (Type_error ''_id'')
         else if assignedTo t = p_id me \<or> createdBy t = p_id me then Ok S200 (P_task i t)
         else Fail S403 (Text ''Not authorized''))"
  using assms by (auto simp: getTask_def find_task_def split: option.splits)

theorem getTask_non_admin_witness:
  "getTask (snd (createTask demo_db demo_admin demo_body 0)) \<lparr>p_id = 7, p_role = User\<rparr> (string_of_oid 3) =
     Fail S403 (Text ''Not authorized'')"
  using getTask_non_admin [of "string_of_oid 3" 3 "\<lparr>p_id = 7, p_role = User\<rparr>"
      "snd (createTask demo_db demo_admin demo_body 0)"]
  unfolding demo_after_create by (simp add: demo_defs)

text \<open>
  C4. Creating a task for an existing assignee stores it under a fresh id and adds that
  id to the assignee's task list exactly once, after the entries already there.
\<close>

theorem createTask_assignee_once:
  assumes wf: "wf_db s" and t: "new_task b (p_id me) now = Inr t"
    and acc: "users s (assignedTo t) = Some acc"
  shows "fst (createTask s me b now) = Ok S201 (P_task (next_id s) t) \<and>
    map_of (tasks (snd (createTask s me b now))) (next_id s) = Some t \<and>
    users (snd (createTask s me b now)) (assignedTo t) =
      Some (acc\<lparr>u_tasks := u_tasks acc @ [next_id s]\<rparr>) \<and>
    count_list (u_tasks acc @ [next_id s]) (next_id s) = 1"
proof -
  have "next_id s \<notin> set (u_tasks acc)"
    using wf_dbD(5) [OF wf acc] by blast
  then show ?thesis
    using t acc by (simp add: createTask_def Let_def users_push_task)
qed

theorem createTask_assignee_once_witness:
  "count_list (u_tasks (the (users (snd (createTask demo_db demo_admin demo_body 0)) 2))) 3 = 1"
proof -
  have "users demo_db (assignedTo demo_task) =
      Some \<lparr>u_name = ''Bo'', u_email = ''bo@example.com'', u_role = User, u_tasks = [], u_password = ''h:bo''\<rparr>"
    by (simp add: demo_defs)
  from createTask_assignee_once [OF demo_wf demo_new_task this]
  show ?thesis by (simp add: demo_defs)
qed

text \<open>
  C5. Deleting a task the caller may delete answers 200, removes the task, removes its id
  from the assignee's task list, unlinks the files of its photos that exist (missing
  files are skipped), and a second deletion of the same id answers 404.
\<close>

theorem deleteTask_cascade:
  assumes found: "find_task s str = Inr (Some (i, t))"
    and auth: "p_role me = Admin \<or> createdBy t = p_id me"
  shows "let s' = snd (deleteTask s me str) in
    fst (deleteTask s me str) = Ok S200 P_empty \<and> map_of (tasks s') i = None \<and>
    (\<forall>acc. users s' (assignedTo t) = Some acc \<longrightarrow> i \<notin> set (u_tasks acc)) \<and>
    uploads s' = uploads s - {strip_slash u | ph u. ph \<in> set (photos t) \<and> imageUrl ph = Some u} \<and>
    deleteTask s' me' str = (Fail S404 (Text ''Task not found''), s')"
  using found auth
  by (auto simp: deleteTask_def Let_def find_task_Some find_task_def users_pull_task
      unlink_photos_eq split: option.splits)

theorem deleteTask_cascade_witness:
  "let s' = snd (deleteTask demo_db1 demo_admin (string_of_oid 3)) in
     map_of (tasks s') 3 = None \<and>
     fst (deleteTask s' demo_user (string_of_oid 3)) = Fail S404 (Text ''Task not found'')"
proof -
  have "p_role demo_admin = Admin \<or> createdBy demo_task = p_id demo_admin"
    by (simp add: demo_defs)
  from deleteTask_cascade [OF demo_find this, of demo_user]
  show ?thesis by (simp add: Let_def)
qed

text \<open>
  C6. An upload by the assignee or an administrator succeeds, appends one photo and moves a
  task in status \<open>todo\<close> to \<open>inProgress\<close>; any other status is left as it is,
  so a second upload changes nothing further.
\<close>

theorem uploadTaskPhoto_status:
  assumes wf: "wf_db s" and found: "find_task s str = Inr (Some (i, t))"
    and auth: "p_role me = Admin \<or> assignedTo t = p_id me"
  shows "\<exists>t'. map_of (tasks (snd (uploadTaskPhoto s me str (Some fn) cap now))) i = Some t' \<and>
    status t' = (if status t = Todo then InProgress else status t) \<and>
    length (photos t') = Suc (length (photos t)) \<and>
    is_success (fst (uploadTaskPhoto s me str (Some fn) cap now))"
proof -
  from found have "map_of (tasks s) i = Some t" by (simp add: find_task_Some)
  then have "doc_errors t = []" using wf_db_map_of [OF wf] by blast
  then show ?thesis
    using found auth by (auto simp: uploadTaskPhoto_def Let_def save_task_def)
qed

theorem uploadTaskPhoto_status_witness:
  "\<exists>t'. map_of (tasks (snd (uploadTaskPhoto demo_db1 demo_user (string_of_oid 3) (Some ''shot.png'') None 5))) 3
     = Some t' \<and> status t' = InProgress"
proof -
  have "p_role demo_user = Admin \<or> assignedTo demo_task = p_id demo_user"
    by (simp add: demo_defs)
  from uploadTaskPhoto_status [OF demo_wf1 demo_find this, of "''shot.png''" None 5]
  show ?thesis by (auto simp: demo_task_def)
qed

text \<open>
  C7. Creating a task and fetching it by the printed form of its id returns the stored
  document, whose title, descriptions, deadline, group and assignee are the values the
  request supplied.
\<close>

theorem create_get_roundtrip:
  assumes t: "new_task b (p_id me) now = Inr t" and bound: "next_id s < 16 ^ 24"
    and adm: "p_role me' = Admin"
  shows "getTask (snd (createTask s me b now)) me' (string_of_oid (next_id s)) =
      Ok S200 (P_task (next_id s) t) \<and>
    b_title b = Some (title t) \<and> b_shortDescription b = Some (shortDescription t) \<and>
    longDescription t = b_longDescription b \<and> b_deadline b = Some (deadline t) \<and>
    b_group b = Some (string_of_group (group t)) \<and> b_assignedTo b = Some (assignedTo t)"
  using t bound adm new_task_Inr_fields [OF t]
  by (simp add: createTask_def getTask_def find_task_def Let_def)

theorem create_get_roundtrip_witness:
  "getTask (snd (createTask demo_db demo_admin demo_body 0)) demo_admin (string_of_oid 3) =
     Ok S200 (P_task 3 demo_task) \<and> b_title demo_body = Some ''Fix bug''"
  using create_get_roundtrip [OF demo_new_task, of demo_db demo_admin]
  by (simp add: demo_defs)

text \<open>
  C26. \<open>POST /api/tasks/:id/comments\<close> does not depend on the caller: any authenticated
  user may comment on any task, and the stored comment has no author (the pushed
  \<open>user\<close> key is not a schema path). The comment is appended and the task returned.
\<close>

theorem addComment_unchecked_anonymous:
  assumes wf: "wf_db s" and found: "find_task s str = Inr (Some (i, t))"
  shows "addComment s me str txt now = addComment s me' str txt now \<and>
    (\<exists>t'. fst (addComment s me str txt now) = Ok S200 (P_task i t') \<and>
      map_of (tasks (snd (addComment s me str txt now))) i = Some t' \<and>
      comments t' = comments t @ [\<lparr>cm_id = next_id s, cm_text = txt, cm_createdBy = None, cm_createdAt = now\<rparr>])"
proof -
  from found have "map_of (tasks s) i = Some t" by (simp add: find_task_Some)
  then have "doc_errors t = []" using wf_db_map_of [OF wf] by blast
  then show ?thesis
    using found by (auto simp: addComment_def Let_def save_task_def)
qed

theorem addComment_unchecked_anonymous_witness:
  "\<exists>t'. fst (addComment demo_db1 \<lparr>p_id = 7, p_role = User\<rparr> (string_of_oid 3) (Some ''hi'') 5) = Ok S200 (P_task 3 t') \<and>
     comments t' = [\<lparr>cm_id = 4, cm_text = Some ''hi'', cm_createdBy = None, cm_createdAt = 5\<rparr>]"
  using addComment_unchecked_anonymous [OF demo_wf1 demo_find, of "\<lparr>p_id = 7, p_role = User\<rparr>" "Some ''hi''" 5]
  by (auto simp: demo_defs)

text \<open>
  C27. Deleting a photo unlinks its file first: if the file exists the photo and the file
  are removed and the reply is 200; if the file is missing the request fails with 500 and
  nothing changes, so a photo whose file is gone can never be deleted.
\<close>

theorem deleteTaskPhoto_file_first:
  assumes wf: "wf_db s" and found: "find_task s str = Inr (Some (i, t))"
    and auth: "p_role me = Admin \<or> assignedTo t = p_id me"
    and ph: "find_photo (photos t) pstr = Some ph" and url: "imageUrl ph = Some u"
  shows "(strip_slash u \<in> uploads s \<longrightarrow>
       fst (deleteTaskPhoto s me str pstr now) = Ok S200 P_empty \<and>
       map_option photos (map_of (tasks (snd (deleteTaskPhoto s me str pstr now))) i) =
         Some (remove_photo (ph_id ph) (photos t)) \<and>
       uploads (snd (deleteTaskPhoto s me str pstr now)) = uploads s - {strip_slash u}) \<and>
    (strip_slash u \<notin> uploads s \<longrightarrow>
       deleteTaskPhoto s me str pstr now = (Fail S500 (Fs_error (strip_slash u)), s))"
proof -
  from found have "map_of (tasks s) i = Some t" by (simp add: find_task_Some)
  then have "doc_errors t = []" using wf_db_map_of [OF wf] by blast
  then show ?thesis
    using found auth ph url by (auto simp: deleteTaskPhoto_def Let_def save_task_def unlink_def)
qed

theorem deleteTaskPhoto_file_first_witness:
  "fst (deleteTaskPhoto demo_db2 demo_user (string_of_oid 3) (string_of_oid 4) 6) = Ok S200 P_empty \<and>
   deleteTaskPhoto (demo_db2\<lparr>uploads := {}\<rparr>) demo_user (string_of_oid 3) (string_of_oid 4) 6 =
     (Fail S500 (Fs_error ''uploads/shot.png''), demo_db2\<lparr>uploads := {}\<rparr>)"
proof -
  have auth: "p_role demo_user = Admin \<or> assignedTo (demo_task\<lparr>photos := [demo_photo]\<rparr>) = p_id demo_user"
    by (simp add: demo_defs)
  have url: "imageUrl demo_photo = Some ''/uploads/shot.png''" by (simp add: demo_photo_def)
  have sl: "strip_slash ''/uploads/shot.png'' = ''uploads/shot.png''" by (simp add: strip_slash_def)
  have "fst (deleteTaskPhoto demo_db2 demo_user (string_of_oid 3) (string_of_oid 4) 6) = Ok S200 P_empty"
    using deleteTaskPhoto_file_first [OF demo_wf2 demo_find2 auth demo_find_photo url]
    by (simp add: sl demo_db2_def)
  moreover have "deleteTaskPhoto (demo_db2\<lparr>uploads := {}\<rparr>) demo_user (string_of_oid 3) (string_of_oid 4) 6 =
     (Fail S500 (Fs_error ''uploads/shot.png''), demo_db2\<lparr>uploads := {}\<rparr>)"
    using deleteTaskPhoto_file_first [OF demo_wf2' demo_find2' auth demo_find_photo url]
    by (simp add: sl)
  ultimately show ?thesis ..
qed

text \<open>
  C28. \<open>PUT /api/tasks/:id\<close> is for an administrator or the task's creator only: anyone
  else, the assignee included, gets 403 and nothing changes; an authorized patch that fails
  the update validators gives 500 with the failing paths; a valid one stores and returns the
  patched task.
\<close>

theorem updateTask_creator_only:
  assumes found: "find_task s str = Inr (Some (i, t))"
  shows "(p_role me \<noteq> Admin \<and> createdBy t \<noteq> p_id me \<longrightarrow>
       updateTask s me str p now = (Fail S403 (Text ''Not authorized''), s)) \<and>
    (p_role me = Admin \<or> createdBy t = p_id me \<longrightarrow> update_errors p \<noteq> [] \<longrightarrow>
       updateTask s me str p now = (Fail S500 (Validation_failed (update_errors p)), s)) \<and>
    (p_role me = Admin \<or> createdBy t = p_id me \<longrightarrow> update_errors p = [] \<longrightarrow>
       (\<exists>t'. apply_patch p now t = Inr t' \<and>
          updateTask s me str p now = (Ok S200 (P_task i t'), s\<lparr>tasks := AList.update i t' (tasks s)\<rparr>)))"
proof -
  have "p_role me = Admin \<or> createdBy t = p_id me \<Longrightarrow> update_errors p \<noteq> [] \<Longrightarrow>
      updateTask s me str p now = (Fail S500 (Validation_failed (update_errors p)), s)"
    using found apply_patch_Inr_iff [of p now t] apply_patch_Inl [of p now t]
    by (cases "apply_patch p now t") (auto simp: updateTask_def)
  moreover have "p_role me = Admin \<or> createdBy t = p_id me \<Longrightarrow> update_errors p = [] \<Longrightarrow>
      \<exists>t'. apply_patch p now t = Inr t' \<and>
        updateTask s me str p now = (Ok S200 (P_task i t'), s\<lparr>tasks := AList.update i t' (tasks s)\<rparr>)"
    using found apply_patch_Inr_iff [of p now t] by (auto simp: updateTask_def)
  ultimately show ?thesis
    using found by (auto simp: updateTask_def)
qed

theorem updateTask_creator_only_witness:
  "updateTask demo_db1 demo_user (string_of_oid 3) demo_status_patch 9 =
     (Fail S403 (Text ''Not authorized''), demo_db1)"
proof -
  have "p_role demo_user \<noteq> Admin \<and> createdBy demo_task \<noteq> p_id demo_user"
    by (simp add: demo_defs)
  then show ?thesis
    using updateTask_creator_only [OF demo_find, of demo_user demo_status_patch 9] by simp
qed

end
