(* ===== verification/User_Admin.thy ===== *)
theory User_Admin
  imports Task_API
begin

text \<open>
  User deletion on the server, \<open>DELETE /api/auth/users/:id\<close>. The route
  (\<open>src/backend/routes/authRoutes.js\<close>, line 27) mounts \<open>protect\<close>,
  \<open>authorize('admin')\<close> and the handler \<open>deleteUser\<close> of
  \<open>controllers/authController.js\<close>, a file the repository does not contain. The handler
  is therefore modelled from the specification: an administrator deletes another
  existing user, deleting oneself is rejected, and nothing is said about the tasks that
  reference the deleted user, so none are touched.
\<close>

definition deleteUser_ctrl :: "db \<Rightarrow> principal \<Rightarrow> string \<Rightarrow> payload reply \<times> db" where
  "deleteUser_ctrl s me str =
     (case oid_of_string str of
        None \<Rightarrow> (Fail S500 (Cast_failed str), s)
      | Some u \<Rightarrow>
          if u = p_id me then (Fail S400 (Text ''You cannot delete your own account''), s)
          else
            (case users s u of
               None \<Rightarrow> (Fail S404 (Text ''User not found''), s)
             | Some _ \<Rightarrow> (Ok S200 P_empty, s\<lparr>users := (users s)(u := None)\<rparr>)))"

section \<open>The other operations of the auth controller\<close>

text \<open>
  The rest of \<open>authController.js\<close>, from the specification as well: registration
  and sign-in answer a token and the user (\<open>POST /api/auth/register\<close>,
  \<open>POST /api/auth/login\<close>), the profile is read and updated by its owner, and an
  administrator lists the users and sets a user's role. The e-mail is unique, the
  password is stored hashed and the role is one of \<open>admin\<close> and \<open>user\<close>; a
  violation is a validation failure (400), and a failed sign-in is the generic
  authentication failure (401), the same for an unknown e-mail and a wrong password.
  The hash (bcrypt, with its salt) and the token signer (\<open>jwt.sign({id})\<close>) are
  parameters.
\<close>

type_synonym hasher = "string \<Rightarrow> string"
type_synonym signer = "oid \<Rightarrow> string"

datatype auth_payload =
    A_session string oid account
  | A_user oid account
  | A_users "(oid \<times> account) list"

definition role_of_string :: "string \<Rightarrow> role option" where
  "role_of_string r = (if r = ''admin'' then Some Admin else if r = ''user'' then Some User else None)"

text \<open>
  \<open>User.find()\<close> lists the documents in the order of their ids (an \<open>ObjectId\<close>
  grows with its creation time); \<open>User.findOne({email})\<close> is the first with that
  e-mail.
\<close>

definition user_docs :: "db \<Rightarrow> (oid \<times> account) list" where
  "user_docs s = map (\<lambda>a. (a, the (users s a))) (sorted_list_of_set (dom (users s)))"

definition findOne_email :: "db \<Rightarrow> string \<Rightarrow> (oid \<times> account) option" where
  "findOne_email s e = find (\<lambda>(a, acc). u_email acc = e) (user_docs s)"

text \<open>\<open>register\<close>: the body \<open>{name, email, password, role}\<close>; the new user takes a fresh id.\<close>

definition register_ctrl ::
  "hasher \<Rightarrow> signer \<Rightarrow> db \<Rightarrow> string \<Rightarrow> string \<Rightarrow> string \<Rightarrow> string \<Rightarrow> auth_payload reply \<times> db" where
  "register_ctrl hash sign s name email password r =
     (let errs = path_error (name \<noteq> []) ''name'' @ path_error (email \<noteq> []) ''email'' @
                 path_error (password \<noteq> []) ''password'' in
      case role_of_string r of
        None \<Rightarrow> (Fail S400 (Validation_failed (errs @ [''role''])), s)
      | Some ro \<Rightarrow>
          if errs \<noteq> [] then (Fail S400 (Validation_failed errs), s)
          else if findOne_email s email \<noteq> None then (Fail S400 (Validation_failed [''email'']), s)
          else
            (let i = next_id s;
                 acc = \<lparr>u_name = name, u_email = email, u_role = ro, u_tasks = [], u_password = hash password\<rparr> in
             (Ok S201 (A_session (sign i) i acc), s\<lparr>users := (users s)(i \<mapsto> acc), next_id := Suc i\<rparr>)))"

text \<open>\<open>login\<close>: the body \<open>{email, password}\<close>; the state is unchanged.\<close>

definition login_ctrl :: "hasher \<Rightarrow> signer \<Rightarrow> db \<Rightarrow> string \<Rightarrow> string \<Rightarrow> auth_payload reply" where
  "login_ctrl hash sign s email password =
     (if email = [] \<or> password = []
      then Fail S400 (Validation_failed (path_error (email \<noteq> []) ''email'' @ path_error (password \<noteq> []) ''password''))
      else
        (case findOne_email s email of
           None \<Rightarrow> Fail S401 (Text ''Invalid credentials'')
         | Some (a, acc) \<Rightarrow>
             if hash password \<noteq> u_password acc then Fail S401 (Text ''Invalid credentials'')
             else Ok S200 (A_session (sign a) a acc)))"

text \<open>\<open>getProfile\<close>: the signed-in user's document.\<close>

definition getProfile_ctrl :: "db \<Rightarrow> principal \<Rightarrow> auth_payload reply" where
  "getProfile_ctrl s me =
     (case users s (p_id me) of
        None \<Rightarrow> Fail S404 (Text ''User not found'')
      | Some acc \<Rightarrow> Ok S200 (A_user (p_id me) acc))"

text \<open>
  \<open>updateProfile\<close>: the present fields of \<open>{name, email, password}\<close> overwrite the
  signed-in user's (the password hashed); the role is not among them.
\<close>

record profile_patch =
  pp_name :: "string option"
  pp_email :: "string option"
  pp_password :: "string option"

definition email_clash :: "db \<Rightarrow> oid \<Rightarrow> string option \<Rightarrow> bool" where
  "email_clash s u e =
     (case e of
        None \<Rightarrow> False
      | Some x \<Rightarrow> (case findOne_email s x of None \<Rightarrow> False | Some (b, _) \<Rightarrow> b \<noteq> u))"

definition updateProfile_ctrl :: "hasher \<Rightarrow> db \<Rightarrow> principal \<Rightarrow> profile_patch \<Rightarrow> auth_payload reply \<times> db" where
  "updateProfile_ctrl hash s me p =
     (case users s (p_id me) of
        None \<Rightarrow> (Fail S404 (Text ''User not found''), s)
      | Some acc \<Rightarrow>
          (let errs = path_error (pp_name p \<noteq> Some []) ''name'' @ path_error (pp_email p \<noteq> Some []) ''email'' @
                      path_error (pp_password p \<noteq> Some []) ''password'' in
           if errs \<noteq> [] then (Fail S400 (Validation_failed errs), s)
           else if email_clash s (p_id me) (pp_email p) then (Fail S400 (Validation_failed [''email'']), s)
           else
             (let acc' = acc\<lparr>u_name := override (pp_name p) (u_name acc), u_email := override (pp_email p) (u_email acc),
                             u_password := override (map_option hash (pp_password p)) (u_password acc)\<rparr> in
              (Ok S200 (A_user (p_id me) acc'), s\<lparr>users := (users s)(p_id me \<mapsto> acc')\<rparr>))))"

text \<open>\<open>getAllUsers\<close> (administrators only, by its route).\<close>

definition getAllUsers_ctrl :: "db \<Rightarrow> auth_payload reply" where
  "getAllUsers_ctrl s = Ok S200 (A_users (user_docs s))"

text \<open>
  \<open>updateUserRole\<close> (administrators only, by its route): \<open>PUT /users/:id/role\<close> with
  the body \<open>{role}\<close>. The specification sets no condition on whose role changes.
\<close>

definition updateUserRole_ctrl :: "db \<Rightarrow> string \<Rightarrow> string \<Rightarrow> auth_payload reply \<times> db" where
  "updateUserRole_ctrl s str r =
     (case oid_of_string str of
        None \<Rightarrow> (Fail S500 (Cast_failed str), s)
      | Some u \<Rightarrow>
          (case role_of_string r of
             None \<Rightarrow> (Fail S400 (Validation_failed [''role'']), s)
           | Some ro \<Rightarrow>
               (case users s u of
                  None \<Rightarrow> (Fail S404 (Text ''User not found''), s)
                | Some acc \<Rightarrow>
                    (Ok S200 (A_user u (acc\<lparr>u_role := ro\<rparr>)), s\<lparr>users := (users s)(u \<mapsto> acc\<lparr>u_role := ro\<rparr>)\<rparr>))))"

text \<open>
  Invariants of the users collection: every user id was handed out by the id supply
  (so the collection is finite and a new id is fresh), e-mails are unique, and some
  user is an administrator.
\<close>

definition user_ids_bounded :: "db \<Rightarrow> bool" where
  "user_ids_bounded s \<longleftrightarrow> (\<forall>a. users s a \<noteq> None \<longrightarrow> a < next_id s)"

definition emails_unique :: "db \<Rightarrow> bool" where
  "emails_unique s \<longleftrightarrow> distinct (map (\<lambda>(a, acc). u_email acc) (user_docs s))"

definition admin_exists :: "db \<Rightarrow> bool" where
  "admin_exists s \<longleftrightarrow> list_ex (\<lambda>(a, acc). u_role acc = Admin) (user_docs s)"

section \<open>Lemmas\<close>

lemma deleteUser_ctrl_tasks [simp]: "tasks (snd (deleteUser_ctrl s me str)) = tasks s"
  by (simp add: deleteUser_ctrl_def split: option.splits)

lemma wf_deleteUser_ctrl [wf_handlers]: "wf_db s \<Longrightarrow> wf_db (snd (deleteUser_ctrl s me str))"
  by (auto simp: deleteUser_ctrl_def wf_db_def split: option.splits)

lemma linked_deleteUser_ctrl [linked_handlers]: "linked s \<Longrightarrow> linked (snd (deleteUser_ctrl s me str))"
  by (auto simp: deleteUser_ctrl_def linked_def split: option.splits)


subsection \<open>The users collection\<close>

lemma bounded_finite: "user_ids_bounded s \<Longrightarrow> finite (dom (users s))"
  by (rule finite_subset [of _ "{..<next_id s}"]) (auto simp: user_ids_bounded_def)

lemma in_user_docs: "finite (dom (users s)) \<Longrightarrow> (a, acc) \<in> set (user_docs s) \<longleftrightarrow> users s a = Some acc"
  by (auto simp: user_docs_def)

lemma findOne_email_None:
  "finite (dom (users s)) \<Longrightarrow> findOne_email s e = None \<longleftrightarrow> (\<forall>a acc. users s a = Some acc \<longrightarrow> u_email acc \<noteq> e)"
  by (auto simp: findOne_email_def find_None_iff in_user_docs)

lemma findOne_email_Some:
  "finite (dom (users s)) \<Longrightarrow> findOne_email s e = Some (a, acc) \<Longrightarrow> users s a = Some acc \<and> u_email acc = e"
  by (auto simp: findOne_email_def find_Some_iff in_user_docs dest!: nth_mem)

lemma distinct_user_docs: "distinct (map fst (user_docs s))"
  by (simp add: user_docs_def comp_def)


lemma distinct_user_docs': "distinct (user_docs s)"
  using distinct_user_docs by (simp add: distinct_map)

lemma emails_unique_iff:
  assumes "finite (dom (users s))"
  shows "emails_unique s \<longleftrightarrow>
    (\<forall>a b x y. users s a = Some x \<longrightarrow> users s b = Some y \<longrightarrow> u_email x = u_email y \<longrightarrow> a = b)"
proof -
  have "emails_unique s \<longleftrightarrow> inj_on (\<lambda>(a, acc). u_email acc) (set (user_docs s))"
    by (simp add: emails_unique_def distinct_map distinct_user_docs')
  also have "\<dots> \<longleftrightarrow> (\<forall>a b x y. users s a = Some x \<longrightarrow> users s b = Some y \<longrightarrow> u_email x = u_email y \<longrightarrow> a = b)"
  proof
    assume i: "inj_on (\<lambda>(a, acc). u_email acc) (set (user_docs s))"
    show "\<forall>a b x y. users s a = Some x \<longrightarrow> users s b = Some y \<longrightarrow> u_email x = u_email y \<longrightarrow> a = b"
      using inj_onD [OF i] assms by (fastforce simp: in_user_docs)
  next
    assume r: "\<forall>a b x y. users s a = Some x \<longrightarrow> users s b = Some y \<longrightarrow> u_email x = u_email y \<longrightarrow> a = b"
    show "inj_on (\<lambda>(a, acc). u_email acc) (set (user_docs s))"
      using r assms by (auto simp: inj_on_def in_user_docs) (metis option.inject)
  qed
  finally show ?thesis .
qed

lemma findOne_email_user:
  assumes f: "finite (dom (users s))" and u: "emails_unique s" and a: "users s a = Some acc"
  shows "findOne_email s (u_email acc) = Some (a, acc)"
proof -
  obtain b y where fy: "findOne_email s (u_email acc) = Some (b, y)"
    using findOne_email_None [OF f, of "u_email acc"] a by (cases "findOne_email s (u_email acc)") auto
  with findOne_email_Some [OF f] have "users s b = Some y" "u_email y = u_email acc" by auto
  with u a f have "b = a" by (auto simp: emails_unique_iff)
  with fy a \<open>users s b = Some y\<close> show ?thesis by simp
qed

lemma register_ctrl_cases:
  "snd (register_ctrl hash sign s n e pw r) = s \<or>
   (findOne_email s e = None \<and> (\<exists>ro. snd (register_ctrl hash sign s n e pw r) =
      s\<lparr>users := (users s)(next_id s \<mapsto> \<lparr>u_name = n, u_email = e, u_role = ro, u_tasks = [], u_password = hash pw\<rparr>),
        next_id := Suc (next_id s)\<rparr>))"
  by (cases "role_of_string r"; cases "findOne_email s e") (auto simp: register_ctrl_def Let_def)

lemma register_ctrl_invariants:
  assumes b: "user_ids_bounded s" and u: "emails_unique s"
  shows "user_ids_bounded (snd (register_ctrl hash sign s n e pw r)) \<and> emails_unique (snd (register_ctrl hash sign s n e pw r))"
  using register_ctrl_cases [of hash sign s n e pw r]
proof
  assume "snd (register_ctrl hash sign s n e pw r) = s"
  with b u show ?thesis by simp
next
  assume "findOne_email s e = None \<and> (\<exists>ro. snd (register_ctrl hash sign s n e pw r) =
      s\<lparr>users := (users s)(next_id s \<mapsto> \<lparr>u_name = n, u_email = e, u_role = ro, u_tasks = [], u_password = hash pw\<rparr>),
        next_id := Suc (next_id s)\<rparr>)"
  then obtain ro where no: "findOne_email s e = None" and eq: "snd (register_ctrl hash sign s n e pw r) =
      s\<lparr>users := (users s)(next_id s \<mapsto> \<lparr>u_name = n, u_email = e, u_role = ro, u_tasks = [], u_password = hash pw\<rparr>),
        next_id := Suc (next_id s)\<rparr>" by blast
  have f: "finite (dom (users s))" using b by (rule bounded_finite)
  have fresh: "users s (next_id s) = None" using b by (auto simp: user_ids_bounded_def)
  have b': "user_ids_bounded (snd (register_ctrl hash sign s n e pw r))"
    using b by (auto simp: eq user_ids_bounded_def less_Suc_eq)
  have "finite (dom (users (snd (register_ctrl hash sign s n e pw r))))" using f by (simp add: eq)
  moreover have "\<forall>a x. users s a = Some x \<longrightarrow> u_email x \<noteq> e" using findOne_email_None [OF f] no by blast
  ultimately have "emails_unique (snd (register_ctrl hash sign s n e pw r))"
    using u f fresh by (auto simp: emails_unique_iff eq)
  with b' show ?thesis ..
qed


subsection \<open>Preservation of the invariants of the users\<close>

lemma admin_exists_iff:
  "finite (dom (users s)) \<Longrightarrow> admin_exists s \<longleftrightarrow> (\<exists>a x. users s a = Some x \<and> u_role x = Admin)"
  by (auto simp: admin_exists_def list_ex_iff in_user_docs) blast

lemma users_ok_shrink:
  assumes b: "user_ids_bounded s" and u: "emails_unique s" and n: "next_id s \<le> next_id s'"
    and k: "\<forall>a y. users s' a = Some y \<longrightarrow> (\<exists>x. users s a = Some x \<and> u_email y = u_email x)"
  shows "user_ids_bounded s' \<and> emails_unique s'"
proof
  show b': "user_ids_bounded s'"
    using b n k unfolding user_ids_bounded_def by (metis not_Some_eq order_less_le_trans)
  show "emails_unique s'"
    using u k bounded_finite [OF b] bounded_finite [OF b'] by (simp add: emails_unique_iff) metis
qed

lemma only_task_lists_ok:
  assumes "only_task_lists s s'" "user_ids_bounded s" "emails_unique s"
  shows "user_ids_bounded s' \<and> emails_unique s'"
proof (rule users_ok_shrink [OF assms(2,3)])
  show "next_id s \<le> next_id s'" using assms(1) by (simp add: only_task_lists_def)
  show "\<forall>a y. users s' a = Some y \<longrightarrow> (\<exists>x. users s a = Some x \<and> u_email y = u_email x)"
  proof (intro allI impI)
    fix a y assume y: "users s' a = Some y"
    then obtain x where x: "users s a = Some x" using assms(1) unfolding only_task_lists_def by blast
    with y assms(1) have "y\<lparr>u_tasks := []\<rparr> = x\<lparr>u_tasks := []\<rparr>" by (simp add: only_task_lists_def)
    then have "u_email y = u_email x" by (metis account.select_convs(2) account.surjective account.update_convs(4))
    with x show "\<exists>x. users s a = Some x \<and> u_email y = u_email x" by blast
  qed
qed

lemma deleteUser_ctrl_ok:
  "user_ids_bounded s \<Longrightarrow> emails_unique s \<Longrightarrow>
   user_ids_bounded (snd (deleteUser_ctrl s me str)) \<and> emails_unique (snd (deleteUser_ctrl s me str))"
  by (rule users_ok_shrink) (auto simp: deleteUser_ctrl_def split: option.splits if_splits)

lemma updateUserRole_ctrl_ok:
  "user_ids_bounded s \<Longrightarrow> emails_unique s \<Longrightarrow>
   user_ids_bounded (snd (updateUserRole_ctrl s str r)) \<and> emails_unique (snd (updateUserRole_ctrl s str r))"
  by (rule users_ok_shrink) (auto simp: updateUserRole_ctrl_def split: option.splits if_splits)

lemma updateProfile_ctrl_ok:
  assumes b: "user_ids_bounded s" and u: "emails_unique s"
  shows "user_ids_bounded (snd (updateProfile_ctrl hash s me p)) \<and> emails_unique (snd (updateProfile_ctrl hash s me p))"
proof (cases "users s (p_id me)")
  case None
  with b u show ?thesis by (simp add: updateProfile_ctrl_def)
next
  case (Some acc)
  have f: "finite (dom (users s))" using b by (rule bounded_finite)
  show ?thesis
  proof (cases "email_clash s (p_id me) (pp_email p)")
    case True
    with Some b u show ?thesis by (simp add: updateProfile_ctrl_def Let_def)
  next
    case False
    have other: "b' = p_id me" if "pp_email p = Some e" "users s b' = Some y" "u_email y = e" for e b' y
    proof (cases "findOne_email s e")
      case None
      with findOne_email_None [OF f] that show ?thesis by blast
    next
      case (Some r)
      then obtain c z where r: "findOne_email s e = Some (c, z)" by (cases r) auto
      with False that have "c = p_id me" by (simp add: email_clash_def)
      moreover from findOne_email_Some [OF f r] have "users s c = Some z" "u_email z = e" by auto
      ultimately show ?thesis using u f that by (auto simp: emails_unique_iff)
    qed
    let ?acc' = "acc\<lparr>u_name := override (pp_name p) (u_name acc), u_email := override (pp_email p) (u_email acc),
                     u_password := override (map_option hash (pp_password p)) (u_password acc)\<rparr>"
    have eq: "snd (updateProfile_ctrl hash s me p) = s \<or> snd (updateProfile_ctrl hash s me p) = s\<lparr>users := (users s)(p_id me \<mapsto> ?acc')\<rparr>"
      using Some False by (simp add: updateProfile_ctrl_def Let_def)
    have me: "p_id me < next_id s" using b Some by (simp add: user_ids_bounded_def)
    have "user_ids_bounded (s\<lparr>users := (users s)(p_id me \<mapsto> ?acc')\<rparr>)"
      using b me by (auto simp: user_ids_bounded_def)
    moreover have "emails_unique (s\<lparr>users := (users s)(p_id me \<mapsto> ?acc')\<rparr>)"
    proof -
      have f': "finite (dom (users (s\<lparr>users := (users s)(p_id me \<mapsto> ?acc')\<rparr>)))" using f by simp
      show ?thesis unfolding emails_unique_iff [OF f']
        using u f other Some by (auto simp: emails_unique_iff override_def split: option.splits)
    qed
    ultimately show ?thesis using eq b u by auto
  qed
qed


subsection \<open>The other operations\<close>

lemma role_of_string_of_role [simp]: "role_of_string (string_of_role r) = Some r"
  by (cases r) (simp_all add: role_of_string_def)

lemma wf_register_ctrl [wf_handlers]: "wf_db s \<Longrightarrow> wf_db (snd (register_ctrl hash sign s n e pw r))"
  using register_ctrl_cases [of hash sign s n e pw r]
  by (fastforce simp: wf_db_def less_Suc_eq)

lemma wf_updateProfile_ctrl [wf_handlers]: "wf_db s \<Longrightarrow> wf_db (snd (updateProfile_ctrl hash s me p))"
  by (fastforce simp: updateProfile_ctrl_def Let_def wf_db_def split: option.splits)

lemma wf_updateUserRole_ctrl [wf_handlers]: "wf_db s \<Longrightarrow> wf_db (snd (updateUserRole_ctrl s u r))"
  by (fastforce simp: updateUserRole_ctrl_def wf_db_def split: option.splits)

lemma register_admin:
  assumes "user_ids_bounded s" "admin_exists s"
  shows "admin_exists (snd (register_ctrl hash sign s n e pw r))"
proof -
  have f: "finite (dom (users s))" using assms(1) by (rule bounded_finite)
  obtain a x where x: "users s a = Some x" "u_role x = Admin" using assms(2) admin_exists_iff [OF f] by blast
  have "a \<noteq> next_id s" using assms(1) x by (auto simp: user_ids_bounded_def)
  then have "users (snd (register_ctrl hash sign s n e pw r)) a = Some x"
    using register_ctrl_cases [of hash sign s n e pw r] x by auto
  moreover have "finite (dom (users (snd (register_ctrl hash sign s n e pw r))))"
    using register_ctrl_cases [of hash sign s n e pw r] f by auto
  ultimately show ?thesis using x(2) admin_exists_iff by blast
qed

lemma updateProfile_admin:
  assumes "user_ids_bounded s" "admin_exists s"
  shows "admin_exists (snd (updateProfile_ctrl hash s me p))"
proof -
  have f: "finite (dom (users s))" using assms(1) by (rule bounded_finite)
  obtain a x where x: "users s a = Some x" "u_role x = Admin" using assms(2) admin_exists_iff [OF f] by blast
  have "\<exists>y. users (snd (updateProfile_ctrl hash s me p)) a = Some y \<and> u_role y = Admin"
    using x by (auto simp: updateProfile_ctrl_def Let_def split: option.splits)
  moreover have "finite (dom (users (snd (updateProfile_ctrl hash s me p))))"
    using f by (auto simp: updateProfile_ctrl_def Let_def split: option.splits)
  ultimately show ?thesis using admin_exists_iff by blast
qed

end
