(* ===== verification/Auth.thy ===== *)
theory Auth
  imports Task_Store
begin

text \<open>
  The authorization gate of \<open>src/backend/middleware/auth.js\<close> and the header the
  client sends (\<open>src/client/src/lib/api.ts\<close>). \<open>protect\<close> extracts the bearer
  token from the \<open>Authorization\<close> header, verifies it, resolves its subject to a user
  and attaches that user as \<open>req.user\<close>; \<open>authorize\<close> compares the user's role with
  an allow-list. Both are guards: they either reject with a status and message or pass
  a principal on. Signature and expiry checking of \<open>jwt.verify\<close> is a parameter
  (\<open>verifier\<close>): the \<open>id\<close> claim of a token it accepts, \<open>None\<close> when it throws.
\<close>

type_synonym verifier = "string \<Rightarrow> string option"

type_synonym 'a guard = "(http_status \<times> message) + 'a"

section \<open>JavaScript string operations\<close>

text \<open>\<open>String.prototype.startsWith\<close>.\<close>

definition starts_with :: "string \<Rightarrow> string \<Rightarrow> bool" where
  "starts_with p s \<longleftrightarrow> take (length p) s = p"

text \<open>
  \<open>String.prototype.split\<close> with a one-character separator: every occurrence cuts,
  so adjacent separators give empty pieces and the result is never empty.
\<close>

fun split_acc :: "char \<Rightarrow> string \<Rightarrow> string \<Rightarrow> string list" where
  "split_acc c w [] = [w]"
| "split_acc c w (x # xs) = (if x = c then w # split_acc c [] xs else split_acc c (w @ [x]) xs)"

definition js_split :: "char \<Rightarrow> string \<Rightarrow> string list" where
  "js_split c s = split_acc c [] s"

text \<open>Array indexing: \<open>undefined\<close> past the end.\<close>

definition nth_opt :: "'a list \<Rightarrow> nat \<Rightarrow> 'a option" where
  "nth_opt xs i = (if i < length xs then Some (xs ! i) else None)"

section \<open>The client's header\<close>

text \<open>
  The axios request interceptor (\<open>api.ts\<close>, lines 24--29) and \<open>setAuthToken\<close>:
  \<open>Authorization: `Bearer ${token}`\<close>.
\<close>

definition auth_header :: "string \<Rightarrow> string" where
  "auth_header tok = ''Bearer '' @ tok"

section \<open>protect\<close>

text \<open>
  Lines 5--13: the token is the second space-separated piece of a header that starts with
  \<open>Bearer\<close>; \<open>!token\<close> rejects a missing and an empty piece.
\<close>

definition bearer_token :: "string option \<Rightarrow> string option" where
  "bearer_token h =
     (case h of
        None \<Rightarrow> None
      | Some v \<Rightarrow> if starts_with ''Bearer'' v then nth_opt (js_split CHR '' '' v) 1 else None)"

definition not_authorized :: "http_status \<times> message" where
  "not_authorized = (S401, Text ''Not authorized to access this route'')"

text \<open>
  \<open>exports.protect\<close> (lines 5--50). A subject that is no \<open>ObjectId\<close> makes
  \<open>User.findById\<close> throw; the \<open>catch\<close> answers as for a bad token.
\<close>

definition protect :: "verifier \<Rightarrow> db \<Rightarrow> string option \<Rightarrow> principal guard" where
  "protect verify s h =
     (case bearer_token h of
        None \<Rightarrow> Inl not_authorized
      | Some tok \<Rightarrow>
          if tok = [] then Inl not_authorized
          else
            (case verify tok of
               None \<Rightarrow> Inl not_authorized
             | Some sub \<Rightarrow>
                 (case oid_of_string sub of
                    None \<Rightarrow> Inl not_authorized
                  | Some u \<Rightarrow>
                      (case users s u of
                         None \<Rightarrow> Inl not_authorized
                       | Some acc \<Rightarrow> Inr \<lparr>p_id = u, p_role = u_role acc\<rparr>))))"

section \<open>authorize\<close>

text \<open>
  \<open>exports.authorize(...roles)\<close> (lines 53--68): \<open>roles.includes(req.user.role)\<close>
  on the role's string.
\<close>

definition authorize :: "string list \<Rightarrow> principal \<Rightarrow> principal guard" where
  "authorize roles me =
     (if string_of_role (p_role me) \<in> set roles then Inr me
      else Inl (S403, Text (''User role '' @ string_of_role (p_role me) @
                            '' is not authorized to access this route'')))"

section \<open>Lemmas\<close>

lemma split_acc_no_sep: "c \<notin> set w \<Longrightarrow> split_acc c acc w = [acc @ w]"
  by (induction w arbitrary: acc) auto

lemma split_acc_sep:
  "c \<notin> set w \<Longrightarrow> split_acc c acc (w @ c # r) = (acc @ w) # split_acc c [] r"
  by (induction w arbitrary: acc) auto

lemma protect_Inl: "protect verify s h = Inl e \<Longrightarrow> e = not_authorized"
  by (auto simp: protect_def split: option.splits if_splits)

lemma protect_Inr:
  "protect verify s h = Inr me \<longleftrightarrow>
     (\<exists>tok sub acc. bearer_token h = Some tok \<and> tok \<noteq> [] \<and> verify tok = Some sub \<and>
        oid_of_string sub = Some (p_id me) \<and> users s (p_id me) = Some acc \<and> p_role me = u_role acc)"
  by (auto simp: protect_def split: option.splits if_splits)

lemma authorize_Inr: "authorize roles me = Inr me' \<longleftrightarrow> me' = me \<and> string_of_role (p_role me) \<in> set roles"
  by (auto simp: authorize_def)


lemma bearer_token_auth_header:
  assumes "CHR '' '' \<notin> set tok"
  shows "bearer_token (Some (auth_header tok)) = Some tok"
proof -
  have "js_split CHR '' '' (''Bearer'' @ CHR '' '' # tok) = [''Bearer'', tok]"
    using assms by (simp add: js_split_def split_acc_sep split_acc_no_sep)
  then show ?thesis
    by (simp add: bearer_token_def auth_header_def starts_with_def nth_opt_def)
qed

text \<open>
  C3. \<open>protect\<close> either rejects with the one generic 401 reply, whatever check failed
  (missing or malformed header, empty token, failed verification, a subject that is no id,
  an unknown user), or attaches the existing user named by the verified token, with that
  user's role.
\<close>

theorem protect_outcomes:
  "protect verify s h = Inl (S401, Text ''Not authorized to access this route'') \<or>
   (\<exists>tok sub u acc. bearer_token h = Some tok \<and> tok \<noteq> [] \<and> verify tok = Some sub \<and>
      oid_of_string sub = Some u \<and> users s u = Some acc \<and>
      protect verify s h = Inr \<lparr>p_id = u, p_role = u_role acc\<rparr>)"
  by (auto simp: protect_def not_authorized_def split: option.splits)

text \<open>
  The header the client attaches to every request, \<open>Bearer <token>\<close>, is accepted by
  \<open>protect\<close>: for a token without spaces whose verified subject prints an existing
  user's id, the request proceeds as that user.
\<close>

theorem client_header_accepted:
  assumes "CHR '' '' \<notin> set tok" and "tok \<noteq> []" and "verify tok = Some (string_of_oid u)"
    and "u < 16 ^ 24" and "users s u = Some acc"
  shows "protect verify s (Some (auth_header tok)) = Inr \<lparr>p_id = u, p_role = u_role acc\<rparr>"
  using assms by (simp add: protect_def bearer_token_auth_header)

theorem client_header_accepted_witness:
  "protect (\<lambda>t. if t = ''abc.def.ghi'' then Some (string_of_oid 2) else None)
     \<lparr>users = [2 \<mapsto> \<lparr>u_name = ''Bo'', u_email = ''bo@example.com'', u_role = User, u_tasks = [], u_password = ''h:bo''\<rparr>],
      tasks = [], uploads = {}, next_id = 3\<rparr>
     (Some (auth_header ''abc.def.ghi'')) = Inr \<lparr>p_id = 2, p_role = User\<rparr>"
  by (rule client_header_accepted [where acc = "\<lparr>u_name = ''Bo'', u_email = ''bo@example.com'',
      u_role = User, u_tasks = [], u_password = ''h:bo''\<rparr>", simplified]) simp_all

end
