(* ===== verification/Routes.thy ===== *)
theory Routes
  imports User_Admin Auth
begin

text \<open>
  The HTTP surface of the task API: \<open>src/backend/routes/taskRoutes.js\<close> mounted under
  \<open>/api/tasks\<close> by \<open>src/backend/server.js\<close>. Every request first passes
  \<open>router.use(protect)\<close>; \<open>POST /\<close> and \<open>DELETE /:id\<close> then pass
  \<open>authorize('admin')\<close>; \<open>POST /:id/photos\<close> runs multer's \<open>upload.single('photo')\<close>,
  which writes the file to \<open>uploads/\<close> before the handler runs. The middleware
  \<open>validateObjectId\<close> exists but no route mounts it. Requests are processed one at a
  time (\<open>dispatch\<close>), and the states a server can reach are an inductive set closed
  under \<open>dispatch\<close>. The one route of \<open>authRoutes.js\<close> that changes the store a
  task refers to, \<open>DELETE /api/auth/users/:id\<close>, is among the requests, so the
  invariants hold across user deletions too.
\<close>

section \<open>Requests\<close>

text \<open>
  One constructor per route. Path parameters are the raw strings; \<open>POST_photo\<close>
  carries the original name of the uploaded file (absent when the form has none) and
  the caption.
\<close>

datatype request =
    GET_tasks
  | POST_task task_body
  | GET_task string
  | PUT_task string task_patch
  | DELETE_task string
  | POST_comment string "string option"
  | POST_photo string "string option" "string option"
  | DELETE_photo string string
  | DELETE_user string

section \<open>Middleware\<close>

text \<open>
  multer's \<open>filename\<close> callback: \<open>`${Date.now()}-${file.originalname}`\<close>, the
  clock printed by \<open>decimal\<close>.
\<close>

definition multer_filename :: "nat \<Rightarrow> string \<Rightarrow> string" where
  "multer_filename now orig = decimal now @ ''-'' @ orig"

text \<open>
  \<open>upload.single('photo')\<close>: stores the file under \<open>uploads/\<close> and sets
  \<open>req.file.filename\<close>; without a file, \<open>req.file\<close> stays undefined.
\<close>

definition multer_single :: "nat \<Rightarrow> string option \<Rightarrow> db \<Rightarrow> string option \<times> db" where
  "multer_single now orig s =
     (case orig of
        None \<Rightarrow> (None, s)
      | Some nm \<Rightarrow> (let fn = multer_filename now nm in
                   (Some fn, s\<lparr>uploads := insert (upload_path fn) (uploads s)\<rparr>)))"

text \<open>\<open>src/backend/middleware/validateObjectId.js\<close>.\<close>

definition validateObjectId :: "string \<Rightarrow> string option \<Rightarrow> unit guard" where
  "validateObjectId pid photoId =
     (if \<not> isValid pid then Inl (S400, Text ''Invalid ID format'')
      else if (case photoId of None \<Rightarrow> False | Some q \<Rightarrow> q \<noteq> [] \<and> \<not> isValid q)
      then Inl (S400, Text ''Invalid photo ID format'')
      else Inr ())"

definition reject :: "http_status \<times> message \<Rightarrow> 'a reply" where
  "reject e = Fail (fst e) (snd e)"

section \<open>Routing\<close>

text \<open>The route table after \<open>protect\<close> (lines 29--47 of \<open>taskRoutes.js\<close>).\<close>

fun route :: "db \<Rightarrow> principal \<Rightarrow> request \<Rightarrow> nat \<Rightarrow> payload reply \<times> db" where
  "route s me GET_tasks now = (getTasks s me, s)"
| "route s me (POST_task b) now =
     (case authorize [''admin''] me of
        Inl e \<Rightarrow> (reject e, s)
      | Inr me' \<Rightarrow> createTask s me' b now)"
| "route s me (GET_task pid) now = (getTask s me pid, s)"
| "route s me (PUT_task pid p) now = updateTask s me pid p now"
| "route s me (DELETE_task pid) now =
     (case authorize [''admin''] me of
        Inl e \<Rightarrow> (reject e, s)
      | Inr me' \<Rightarrow> deleteTask s me' pid)"
| "route s me (POST_comment pid txt) now = addComment s me pid txt now"
| "route s me (POST_photo pid orig cap) now =
     (let (upl, s1) = multer_single now orig s in uploadTaskPhoto s1 me pid upl cap now)"
| "route s me (DELETE_photo pid phid) now = deleteTaskPhoto s me pid phid now"
| "route s me (DELETE_user uid) now =
     (case authorize [''admin''] me of
        Inl e \<Rightarrow> (reject e, s)
      | Inr me' \<Rightarrow> deleteUser_ctrl s me' uid)"

text \<open>One request: \<open>router.use(protect)\<close> (line 30), then the route.\<close>

definition dispatch :: "verifier \<Rightarrow> db \<Rightarrow> string option \<Rightarrow> request \<Rightarrow> nat \<Rightarrow> payload reply \<times> db" where
  "dispatch verify s h req now =
     (case protect verify s h of
        Inl e \<Rightarrow> (reject e, s)
      | Inr me \<Rightarrow> route s me req now)"

section \<open>Reachable states\<close>

text \<open>
  \<open>connectDB\<close> opens the database as it finds it. The model starts from any database
  whose task ids are distinct and were handed out by the id supply, as were the photo,
  comment and task-list references, and whose documents pass schema validation
  (\<open>wf_db\<close>); an empty database is one of them. Every request then moves the state by
  \<open>dispatch\<close>.
\<close>

definition initial :: "db \<Rightarrow> bool" where
  "initial s \<longleftrightarrow> wf_db s"

inductive reachable :: "db \<Rightarrow> bool" where
  start: "initial s \<Longrightarrow> reachable s"
| step: "reachable s \<Longrightarrow> reachable (snd (dispatch verify s h req now))"

section \<open>Status changes\<close>

text \<open>
  Two relations between a state and its successor on the tasks present in both: no
  status changed, or the only change is \<open>todo\<close> to \<open>inProgress\<close>.
\<close>

definition status_kept :: "db \<Rightarrow> db \<Rightarrow> bool" where
  "status_kept s s' \<longleftrightarrow>
     (\<forall>i t t'. map_of (tasks s) i = Some t \<longrightarrow> map_of (tasks s') i = Some t' \<longrightarrow> status t' = status t)"

definition status_advanced :: "db \<Rightarrow> db \<Rightarrow> bool" where
  "status_advanced s s' \<longleftrightarrow>
     (\<forall>i t t'. map_of (tasks s) i = Some t \<longrightarrow> map_of (tasks s') i = Some t' \<longrightarrow>
        status t' = status t \<or> (status t = Todo \<and> status t' = InProgress))"

section \<open>Example verifier\<close>

text \<open>A token verifier for the examples: three tokens naming users 1, 2 and 7.\<close>

definition demo_verify :: verifier where
  "demo_verify tok =
     (if tok = ''t-ada'' then Some (string_of_oid 1)
      else if tok = ''t-bo'' then Some (string_of_oid 2)
      else if tok = ''t-cy'' then Some (string_of_oid 7) else None)"

section \<open>Lemmas\<close>

lemma reject_not_success [simp]: "is_success (reject e) = False"
  by (simp add: reject_def)

lemma multer_single_wf: "wf_db s \<Longrightarrow> wf_db (snd (multer_single now orig s))"
  by (simp add: multer_single_def Let_def split: option.splits)

lemma deleteUser_dispatch:
  assumes p: "protect verify s h = Inr me" and adm: "p_role me = Admin"
    and other: "a \<noteq> p_id me" and ex: "users s a \<noteq> None" and b: "a < 16 ^ 24"
  shows "snd (dispatch verify s h (DELETE_user (string_of_oid a)) now) = s\<lparr>users := (users s)(a := None)\<rparr>"
  using assms by (auto simp: dispatch_def authorize_def deleteUser_ctrl_def)

lemma wf_route: "wf_db s \<Longrightarrow> wf_db (snd (route s me req now))"
proof (cases req)
  case (POST_photo pid orig cap)
  assume wf: "wf_db s"
  obtain upl s1 where m: "multer_single now orig s = (upl, s1)" by fastforce
  have "wf_db s1" using multer_single_wf [OF wf, of now orig] m by simp
  with POST_photo m show ?thesis by (simp add: wf_handlers)
qed (auto simp: wf_handlers split: sum.splits)

lemma wf_dispatch: "wf_db s \<Longrightarrow> wf_db (snd (dispatch verify s h req now))"
  by (simp add: dispatch_def wf_route split: sum.splits)

lemma initial_wf: "initial s \<Longrightarrow> wf_db s"
  by (simp add: initial_def)


subsection \<open>The reference invariant\<close>

lemma linked_store_same_assignee:
  assumes "linked s" and "map_of (tasks s) i = Some t" and "assignedTo t' = assignedTo t"
  shows "linked (s\<lparr>tasks := AList.update i t' (tasks s)\<rparr>)"
  using assms map_of_SomeD [OF assms(2)] unfolding linked_def
  by (fastforce dest: values_update)

lemma linked_uploads [simp]: "linked (s\<lparr>uploads := fs\<rparr>) = linked s"
  by (simp add: linked_def)

lemma linked_next_id [simp]: "linked (s\<lparr>next_id := n\<rparr>) = linked s"
  by (simp add: linked_def)

lemma linked_save_task:
  assumes "linked s" and "map_of (tasks s) i = Some t" and "assignedTo t' = assignedTo t"
    and "save_task i t' s = Inr s'"
  shows "linked s'"
  using assms linked_store_same_assignee [OF assms(1-3)] by (simp add: save_task_Inr)

lemma linked_createTask [linked_handlers]:
  assumes wf: "wf_db s" and lk: "linked s"
  shows "linked (snd (createTask s me b now))"
proof (cases "new_task b (p_id me) now")
  case (Inr t)
  have fresh: "next_id s \<notin> set (map fst (tasks s))"
    using wf by (auto simp: wf_db_def)
  show ?thesis
    using Inr lk fresh
    by (auto simp: createTask_def Let_def linked_def update_fresh_append users_push_task
        split: if_splits)
qed (use lk in \<open>simp add: createTask_def\<close>)

lemma linked_deleteTask [linked_handlers]:
  assumes lk: "linked s"
  shows "linked (snd (deleteTask s me str))"
proof (cases s str rule: find_task_cases)
  case (found i t)
  show ?thesis
    using found lk
    by (auto simp: deleteTask_def Let_def linked_def users_pull_task AList.delete_eq)
qed (use lk in \<open>simp_all add: deleteTask_def\<close>)

lemma linked_addComment [linked_handlers]:
  assumes lk: "linked s"
  shows "linked (snd (addComment s me str txt now))"
proof (cases s str rule: find_task_cases)
  case (found i t)
  have "linked s'" if "save_task i (t\<lparr>comments := cs, updatedAt := now\<rparr>)
      (s\<lparr>next_id := n\<rparr>) = Inr s'" for cs n s'
    by (rule linked_save_task [OF _ _ _ that]) (use lk found in simp_all)
  then show ?thesis
    using found lk by (auto simp: addComment_def Let_def split: sum.splits)
qed (use lk in \<open>simp_all add: addComment_def\<close>)

lemma linked_uploadTaskPhoto [linked_handlers]:
  assumes lk: "linked s"
  shows "linked (snd (uploadTaskPhoto s me str upl cap now))"
proof (cases s str rule: find_task_cases)
  case (found i t)
  have H: "linked s'" if "save_task i t' (s\<lparr>next_id := n\<rparr>) = Inr s'"
    and "assignedTo t' = assignedTo t" for t' n s'
    by (rule linked_save_task [OF _ _ _ that(1)]) (use lk found that(2) in simp_all)
  show ?thesis
    using found lk by (auto simp: uploadTaskPhoto_def Let_def split: sum.splits option.splits
        intro: H)
qed (use lk in \<open>simp_all add: uploadTaskPhoto_def\<close>)

lemma linked_deleteTaskPhoto [linked_handlers]:
  assumes lk: "linked s"
  shows "linked (snd (deleteTaskPhoto s me str pstr now))"
proof (cases s str rule: find_task_cases)
  case (found i t)
  have "linked s'" if "save_task i (t\<lparr>photos := phs, updatedAt := now\<rparr>)
      (s\<lparr>uploads := fs\<rparr>) = Inr s'" for phs fs s'
    by (rule linked_save_task [OF _ _ _ that]) (use lk found in simp_all)
  then show ?thesis
    using found lk by (auto simp: deleteTaskPhoto_def Let_def split: sum.splits option.splits)
qed (use lk in \<open>simp_all add: deleteTaskPhoto_def\<close>)

lemma linked_multer: "linked (snd (multer_single now nm s)) = linked s"
  by (simp add: multer_single_def Let_def split: option.splits)

text \<open>
  C10. Every request other than \<open>PUT /api/tasks/:id\<close> keeps the reference invariant:
  each task whose assignee exists is in that assignee's task list.
\<close>

theorem linked_except_update:
  assumes wf: "wf_db s" and lk: "linked s" and req: "\<forall>pid p. req \<noteq> PUT_task pid p"
  shows "linked (snd (dispatch verify s h req now))"
proof (cases "protect verify s h")
  case (Inr me)
  have "linked (snd (route s me req now))"
  proof (cases req)
    case (POST_photo pid nm cap)
    obtain upl s1 where m: "multer_single now nm s = (upl, s1)" by fastforce
    have "linked s1" using linked_multer [of now nm s] m lk by simp
    with POST_photo m show ?thesis by (simp add: linked_handlers)
  qed (use req lk wf in \<open>auto simp: linked_handlers split: sum.splits\<close>)
  with Inr show ?thesis by (simp add: dispatch_def)
qed (use lk in \<open>simp add: dispatch_def\<close>)

text \<open>
  Every state the server reaches stays well formed, as long as the \<open>PUT\<close> bodies are
  plain field values (the model of \<open>task_patch\<close>).
\<close>

lemma reachable_wf: "reachable s \<Longrightarrow> wf_db s"
proof (induction rule: reachable.induct)
  case (start s)
  then show ?case by (rule initial_wf)
next
  case (step s verify h req now)
  from step.IH show ?case by (rule wf_dispatch)
qed

subsection \<open>Status changes\<close>

lemma status_kept_refl [simp]: "status_kept s s"
  by (simp add: status_kept_def)

lemma status_kept_uploads [simp]: "status_kept s (s\<lparr>uploads := fs\<rparr>)"
  by (simp add: status_kept_def)

lemma status_kept_advanced: "status_kept s s' \<Longrightarrow> status_advanced s s'"
  by (simp add: status_kept_def status_advanced_def)

lemma status_kept_save:
  assumes "map_of (tasks s) i = Some t" and "status t' = status t"
    and "save_task i t' s0 = Inr s'" and "tasks s0 = tasks s"
  shows "status_kept s s'"
  using assms by (auto simp: status_kept_def save_task_Inr update_conv')

lemma status_createTask [status_handlers]:
  assumes wf: "wf_db s"
  shows "status_kept s (snd (createTask s me b now))"
proof -
  have fresh: "next_id s \<notin> set (map fst (tasks s))"
    using wf by (auto simp: wf_db_def)
  then show ?thesis
    by (auto simp: status_kept_def createTask_def Let_def update_conv'
        dest: map_of_SomeD_keys split: sum.splits)
qed

lemma status_deleteTask [status_handlers]: "status_kept s (snd (deleteTask s me str))"
  by (cases s str rule: find_task_cases)
     (auto simp: status_kept_def deleteTask_def Let_def delete_conv')

lemma status_addComment [status_handlers]: "status_kept s (snd (addComment s me str txt now))"
proof (cases s str rule: find_task_cases)
  case (found i t)
  have H: "status_kept s s'" if "save_task i t' (s\<lparr>next_id := n\<rparr>) = Inr s'"
    and "status t' = status t" for t' n s'
    by (rule status_kept_save [OF found(2) that(2) that(1)]) simp
  from found show ?thesis
    by (auto simp: addComment_def Let_def split: sum.splits intro: H)
qed (simp_all add: addComment_def)

lemma status_deleteUser_ctrl [status_handlers]: "status_kept s (snd (deleteUser_ctrl s me str))"
  by (simp add: status_kept_def)

lemma status_deleteTaskPhoto [status_handlers]: "status_kept s (snd (deleteTaskPhoto s me str pstr now))"
proof (cases s str rule: find_task_cases)
  case (found i t)
  have H: "status_kept s s'" if "save_task i t' (s\<lparr>uploads := fs\<rparr>) = Inr s'"
    and "status t' = status t" for t' fs s'
    by (rule status_kept_save [OF found(2) that(2) that(1)]) simp
  from found show ?thesis
    by (auto simp: deleteTaskPhoto_def Let_def split: sum.splits option.splits intro: H)
qed (simp_all add: deleteTaskPhoto_def)

lemma status_uploadTaskPhoto [status_handlers]: "status_advanced s (snd (uploadTaskPhoto s me str upl cap now))"
proof (cases s str rule: find_task_cases)
  case (found i t)
  then show ?thesis
    by (auto simp: uploadTaskPhoto_def Let_def status_advanced_def save_task_Inr update_conv'
        split: sum.splits option.splits if_splits)
qed (simp_all add: uploadTaskPhoto_def status_advanced_def)

lemma status_multer: "tasks (snd (multer_single now nm s)) = tasks s"
  by (simp add: multer_single_def Let_def split: option.splits)

text \<open>
  C9. In a reachable state, a request changes the status of a task that it keeps only if it
  is an update (\<open>PUT\<close>), or a photo upload moving the task from \<open>todo\<close> to
  \<open>inProgress\<close>; no other request and no other automatic transition exists.
\<close>

theorem status_changes_only_by_update_or_upload:
  assumes reach: "reachable s" and old: "map_of (tasks s) i = Some t"
    and new: "map_of (tasks (snd (dispatch verify s h req now))) i = Some t'"
    and changed: "status t' \<noteq> status t"
  shows "(\<exists>pid p. req = PUT_task pid p) \<or>
    ((\<exists>pid nm cap. req = POST_photo pid nm cap) \<and> status t = Todo \<and> status t' = InProgress)"
proof -
  have wf: "wf_db s" using reach by (rule reachable_wf)
  have adv: "status_advanced s (snd (dispatch verify s h req now))"
    if "\<forall>pid p. req \<noteq> PUT_task pid p"
  proof (cases "protect verify s h")
    case (Inr me)
    have "status_advanced s (snd (route s me req now))"
    proof (cases req)
      case (POST_photo pid nm cap)
      obtain upl s1 where m: "multer_single now nm s = (upl, s1)" by fastforce
      have "tasks s1 = tasks s" using status_multer [of now nm s] m by simp
      moreover have "status_advanced s1 (snd (uploadTaskPhoto s1 me pid upl cap now))"
        by (rule status_uploadTaskPhoto)
      ultimately show ?thesis using POST_photo m by (simp add: status_advanced_def)
    qed (use that wf in \<open>auto simp: status_handlers intro: status_kept_advanced split: sum.splits\<close>)
    with Inr show ?thesis by (simp add: dispatch_def)
  qed (simp add: dispatch_def status_advanced_def)
  show ?thesis
  proof (cases "\<exists>pid p. req = PUT_task pid p")
    case False
    then have "status_advanced s (snd (dispatch verify s h req now))" using adv by blast
    with old new changed have "status t = Todo \<and> status t' = InProgress"
      by (auto simp: status_advanced_def)
    moreover have "\<exists>pid nm cap. req = POST_photo pid nm cap"
    proof (rule ccontr)
      assume np: "\<not> (\<exists>pid nm cap. req = POST_photo pid nm cap)"
      have "status_kept s (snd (dispatch verify s h req now))"
      proof (cases "protect verify s h")
        case (Inr me)
        with False np wf show ?thesis
          by (cases req) (auto simp: dispatch_def status_handlers split: sum.splits)
      qed (simp add: dispatch_def)
      with old new changed show False by (auto simp: status_kept_def)
    qed
    ultimately show ?thesis by blast
  qed blast
qed

subsection \<open>Route behaviour\<close>

lemma find_task_uploads [simp]: "find_task (s\<lparr>uploads := fs\<rparr>) = find_task s"
  by (simp add: find_task_def fun_eq_iff split: option.splits)

lemma protect_demo:
  "protect demo_verify s (Some (auth_header ''t-ada'')) =
     (case users s 1 of None \<Rightarrow> Inl not_authorized | Some acc \<Rightarrow> Inr \<lparr>p_id = 1, p_role = u_role acc\<rparr>)"
  "protect demo_verify s (Some (auth_header ''t-bo'')) =
     (case users s 2 of None \<Rightarrow> Inl not_authorized | Some acc \<Rightarrow> Inr \<lparr>p_id = 2, p_role = u_role acc\<rparr>)"
  "protect demo_verify s (Some (auth_header ''t-cy'')) =
     (case users s 7 of None \<Rightarrow> Inl not_authorized | Some acc \<Rightarrow> Inr \<lparr>p_id = 7, p_role = u_role acc\<rparr>)"
  by (simp_all add: protect_def demo_verify_def bearer_token_def auth_header_def starts_with_def
      js_split_def nth_opt_def split: option.splits)

lemma protect_demo_ada: "protect demo_verify demo_db1 (Some (auth_header ''t-ada'')) = Inr demo_admin"
  by (simp add: protect_demo demo_defs)

lemma protect_demo_bo: "protect demo_verify demo_db1 (Some (auth_header ''t-bo'')) = Inr demo_user"
  by (simp add: protect_demo demo_defs)

text \<open>
  \<open>POST /api/tasks\<close> by an authenticated non-administrator is rejected with 403 and
  the message naming the role, and changes nothing.
\<close>

theorem create_route_admin_only:
  assumes "protect verify s h = Inr me" and "p_role me = User"
  shows "dispatch verify s h (POST_task b) now =
    (Fail S403 (Text ''User role user is not authorized to access this route''), s)"
  using assms by (simp add: dispatch_def authorize_def reject_def)

theorem create_route_admin_only_witness:
  "dispatch demo_verify demo_db1 (Some (auth_header ''t-bo'')) (POST_task demo_body) 9 =
    (Fail S403 (Text ''User role user is not authorized to access this route''), demo_db1)"
  by (rule create_route_admin_only [OF protect_demo_bo]) (simp add: demo_defs)

text \<open>
  C13. \<open>DELETE /api/tasks/:id\<close> rejects every non-administrator with 403 at the router,
  even the task's creator, whom \<open>deleteTask\<close> itself would let delete the task.
\<close>

theorem delete_route_rejects_creator:
  assumes "protect verify s h = Inr me" and "p_role me = User"
    and "find_task s pid = Inr (Some (i, t))" and "createdBy t = p_id me"
  shows "dispatch verify s h (DELETE_task pid) now =
      (Fail S403 (Text ''User role user is not authorized to access this route''), s) \<and>
    fst (deleteTask s me pid) = Ok S200 P_empty"
  using assms by (simp add: dispatch_def authorize_def reject_def deleteTask_def Let_def)

text \<open>
  C14. A malformed task id reaches the handler, since no route mounts
  \<open>validateObjectId\<close>: \<open>GET /api/tasks/:id\<close> answers 500 with the cast error, where
  \<open>validateObjectId\<close> would have answered 400.
\<close>

theorem unvalidated_malformed_id:
  assumes "protect verify s h = Inr me" and "\<not> isValid pid"
  shows "dispatch verify s h (GET_task pid) now = (Fail S500 (Cast_failed pid), s) \<and>
    validateObjectId pid None = Inl (S400, Text ''Invalid ID format'')"
  using assms by (simp add: dispatch_def getTask_def find_task_def isValid_def validateObjectId_def)

theorem unvalidated_malformed_id_witness:
  "dispatch demo_verify demo_db1 (Some (auth_header ''t-bo'')) (GET_task ''abc'') 9 =
     (Fail S500 (Cast_failed ''abc''), demo_db1)"
proof -
  have "\<not> isValid ''abc''" by (simp add: isValid_def oid_of_string_def)
  from unvalidated_malformed_id [OF protect_demo_bo this] show ?thesis by simp
qed

text \<open>
  C15. A photo upload by a user who is neither administrator nor assignee is rejected with 403,
  but the file multer stored before the handler ran stays in \<open>uploads/\<close>.
\<close>

theorem rejected_upload_leaves_file:
  assumes "protect verify s h = Inr me" and "find_task s pid = Inr (Some (i, t))"
    and "p_role me \<noteq> Admin" and "assignedTo t \<noteq> p_id me"
  shows "dispatch verify s h (POST_photo pid (Some nm) cap) now =
    (Fail S403 (Text ''Not authorized''),
     s\<lparr>uploads := insert (upload_path (multer_filename now nm)) (uploads s)\<rparr>)"
  using assms by (simp add: dispatch_def multer_single_def uploadTaskPhoto_def Let_def)

text \<open>
  C16. Reassigning a task with \<open>PUT\<close> to an existing user whose list lacks the task leaves
  the new assignee's task list without it: the update breaks the reference invariant.
\<close>

theorem update_reassign_breaks_link:
  assumes "find_task s pid = Inr (Some (i, t))" and "p_role me = Admin \<or> createdBy t = p_id me"
    and "update_errors p = []" and "p_assignedTo p = Some a"
    and "users s a = Some acc" and "i \<notin> set (u_tasks acc)"
  shows "\<not> linked (snd (updateTask s me pid p now))"
proof -
  from assms(3) obtain t' where t': "apply_patch p now t = Inr t'"
    using apply_patch_Inr_iff by blast
  have a: "assignedTo t' = a" using apply_patch_Inr [OF t'] assms(4) by (simp add: override_def)
  have mem: "(i, t') \<in> set (AList.update i t' (tasks s))" by (rule map_of_SomeD) simp
  have "\<not> linked (s\<lparr>tasks := AList.update i t' (tasks s)\<rparr>)"
    using mem a assms(5,6) unfolding linked_def by fastforce
  with assms(1,2) t' show ?thesis by (auto simp: updateTask_def)
qed

subsection \<open>Example runs\<close>

lemma demo_create_dispatch:
  "dispatch demo_verify demo_db (Some (auth_header ''t-ada'')) (POST_task demo_body) 0 =
     (Ok S201 (P_task 3 demo_task), demo_db1)"
proof -
  have "protect demo_verify demo_db (Some (auth_header ''t-ada'')) = Inr demo_admin"
    by (simp add: protect_demo demo_defs)
  moreover have "createTask demo_db demo_admin demo_body 0 = (Ok S201 (P_task 3 demo_task), demo_db1)"
    using demo_after_create
    by (simp add: createTask_def demo_new_task Let_def) (simp add: demo_defs)
  ultimately show ?thesis by (simp add: dispatch_def authorize_def demo_defs)
qed

lemma demo_reachable1: "reachable demo_db1"
proof -
  have "reachable demo_db" by (rule reachable.start) (simp add: initial_def demo_wf)
  then have "reachable (snd (dispatch demo_verify demo_db (Some (auth_header ''t-ada'')) (POST_task demo_body) 0))"
    by (rule reachable.step)
  then show ?thesis by (simp add: demo_create_dispatch)
qed

lemma demo_upload_dispatch:
  "map_option status (map_of (tasks (snd (dispatch demo_verify demo_db1 (Some (auth_header ''t-bo''))
     (POST_photo (string_of_oid 3) (Some ''shot.png'') None) 5))) 3) = Some InProgress"
  by (simp add: dispatch_def protect_demo multer_single_def uploadTaskPhoto_def Let_def save_task_def
      find_task_def demo_defs)

theorem status_changes_only_by_update_or_upload_witness:
  "\<exists>pid nm cap. POST_photo (string_of_oid 3) (Some ''shot.png'') None = POST_photo pid nm cap"
proof -
  obtain t' where t': "map_of (tasks (snd (dispatch demo_verify demo_db1 (Some (auth_header ''t-bo''))
     (POST_photo (string_of_oid 3) (Some ''shot.png'') None) 5))) 3 = Some t'" and st: "status t' = InProgress"
    using demo_upload_dispatch by auto
  have old: "map_of (tasks demo_db1) 3 = Some demo_task" by (simp add: demo_defs)
  have "status t' \<noteq> status demo_task" using st by (simp add: demo_task_def)
  from status_changes_only_by_update_or_upload [OF demo_reachable1 old t' this] show ?thesis by simp
qed

theorem linked_except_update_witness:
  "linked (snd (dispatch demo_verify demo_db1 (Some (auth_header ''t-bo'')) (POST_comment (string_of_oid 3) (Some ''on it'')) 6))"
proof -
  have "linked demo_db1" by (simp add: linked_def demo_defs)
  from linked_except_update [OF demo_wf1 this] show ?thesis by simp
qed

theorem delete_route_rejects_creator_witness:
  "dispatch demo_verify (demo_db1\<lparr>tasks := [(3, demo_task\<lparr>createdBy := 2\<rparr>)]\<rparr>) (Some (auth_header ''t-bo''))
     (DELETE_task (string_of_oid 3)) 9 =
   (Fail S403 (Text ''User role user is not authorized to access this route''),
    demo_db1\<lparr>tasks := [(3, demo_task\<lparr>createdBy := 2\<rparr>)]\<rparr>)"
proof -
  let ?s = "demo_db1\<lparr>tasks := [(3, demo_task\<lparr>createdBy := 2\<rparr>)]\<rparr>"
  have p: "protect demo_verify ?s (Some (auth_header ''t-bo'')) = Inr demo_user"
    by (simp add: protect_demo demo_defs)
  have f: "find_task ?s (string_of_oid 3) = Inr (Some (3, demo_task\<lparr>createdBy := 2\<rparr>))"
    by (simp add: find_task_def)
  from delete_route_rejects_creator [OF p _ f] show ?thesis by (simp add: demo_defs)
qed


theorem rejected_upload_leaves_file_witness:
  "dispatch demo_verify (demo_db1\<lparr>users := (users demo_db1)(7 \<mapsto> \<lparr>u_name = ''Cy'', u_email = ''cy@example.com'',
       u_role = User, u_tasks = [], u_password = ''h:cy''\<rparr>)\<rparr>) (Some (auth_header ''t-cy''))
     (POST_photo (string_of_oid 3) (Some ''x.png'') None) 9 =
   (Fail S403 (Text ''Not authorized''),
    demo_db1\<lparr>users := (users demo_db1)(7 \<mapsto> \<lparr>u_name = ''Cy'', u_email = ''cy@example.com'',
       u_role = User, u_tasks = [], u_password = ''h:cy''\<rparr>), uploads := {upload_path (multer_filename 9 ''x.png'')}\<rparr>)"
proof -
  let ?s = "demo_db1\<lparr>users := (users demo_db1)(7 \<mapsto> \<lparr>u_name = ''Cy'', u_email = ''cy@example.com'',
       u_role = User, u_tasks = [], u_password = ''h:cy''\<rparr>)\<rparr>"
  have p: "protect demo_verify ?s (Some (auth_header ''t-cy'')) = Inr \<lparr>p_id = 7, p_role = User\<rparr>"
    by (simp add: protect_demo)
  have f: "find_task ?s (string_of_oid 3) = Inr (Some (3, demo_task))"
    by (simp add: find_task_def demo_defs)
  from rejected_upload_leaves_file [OF p f] show ?thesis by (simp add: demo_defs)
qed

theorem update_reassign_breaks_link_witness:
  "\<not> linked (snd (updateTask demo_db1 demo_admin (string_of_oid 3)
      \<lparr>p_title = None, p_shortDescription = None, p_longDescription = None, p_status = None,
       p_priority = None, p_deadline = None, p_group = None, p_assignedTo = Some 1,
       p_createdBy = None\<rparr> 8))"
  by (rule update_reassign_breaks_link [OF demo_find, where a = 1 and
        acc = "\<lparr>u_name = ''Ada'', u_email = ''ada@example.com'', u_role = Admin, u_tasks = [], u_password = ''h:ada''\<rparr>"])
     (simp_all add: demo_defs update_errors_def path_error_def enum_ok_def)


section \<open>The users across requests\<close>

lemma only_task_lists_multer: "only_task_lists s (snd (multer_single now orig s))"
  by (simp add: multer_single_def Let_def only_task_lists_same split: option.splits)

lemma route_only_task_lists:
  assumes "\<forall>u. req \<noteq> DELETE_user u"
  shows "only_task_lists s (snd (route s me req now))"
proof (cases req)
  case (POST_photo pid orig cap)
  obtain upl s1 where m: "multer_single now orig s = (upl, s1)" by fastforce
  have "only_task_lists s s1" using only_task_lists_multer [of s now orig] m by simp
  with POST_photo m show ?thesis by (auto intro: only_task_lists_trans lists_handlers)
qed (use assms in \<open>auto simp: lists_handlers split: sum.splits\<close>)

lemma dispatch_users_ok:
  assumes "user_ids_bounded s" "emails_unique s"
  shows "user_ids_bounded (snd (dispatch verify s h req now)) \<and> emails_unique (snd (dispatch verify s h req now))"
proof (cases "protect verify s h")
  case (Inr me)
  show ?thesis
  proof (cases "\<exists>u. req = DELETE_user u")
    case True
    then obtain u where "req = DELETE_user u" by blast
    with Inr assms show ?thesis by (auto simp: dispatch_def deleteUser_ctrl_ok split: sum.splits)
  next
    case False
    then have "only_task_lists s (snd (route s me req now))" by (auto intro: route_only_task_lists)
    with Inr assms show ?thesis by (simp add: dispatch_def only_task_lists_ok)
  qed
qed (use assms in \<open>simp add: dispatch_def\<close>)

lemma only_task_lists_admin:
  assumes "only_task_lists s s'" "admin_exists s" "user_ids_bounded s" "user_ids_bounded s'"
  shows "admin_exists s'"
proof -
  obtain a x where x: "users s a = Some x" "u_role x = Admin"
    using assms(2) admin_exists_iff [OF bounded_finite [OF assms(3)]] by blast
  then obtain y where y: "users s' a = Some y" using assms(1) unfolding only_task_lists_def by blast
  with x assms(1) have "y\<lparr>u_tasks := []\<rparr> = x\<lparr>u_tasks := []\<rparr>" by (simp add: only_task_lists_def)
  then have "u_role y = Admin" using x(2) by (metis account.select_convs(3) account.surjective account.update_convs(4))
  with y show ?thesis using admin_exists_iff [OF bounded_finite [OF assms(4)]] by blast
qed

lemma deleteUser_keeps_caller:
  "users s (p_id me) = Some acc \<Longrightarrow> users (snd (deleteUser_ctrl s me str)) (p_id me) = Some acc"
  by (auto simp: deleteUser_ctrl_def split: option.splits)

lemma dispatch_admin:
  assumes b: "user_ids_bounded s" and u: "emails_unique s" and a: "admin_exists s"
  shows "admin_exists (snd (dispatch verify s h req now))"
proof (cases "protect verify s h")
  case (Inr me)
  have b': "user_ids_bounded (snd (dispatch verify s h req now))" using dispatch_users_ok [OF b u] by blast
  show ?thesis
  proof (cases "\<exists>u. req = DELETE_user u")
    case True
    then obtain str where r: "req = DELETE_user str" by blast
    show ?thesis
    proof (cases "p_role me = Admin")
      case True
      obtain acc where acc: "users s (p_id me) = Some acc" "u_role acc = Admin"
        using Inr True by (auto simp: protect_Inr)
      have "users (snd (dispatch verify s h req now)) (p_id me) = Some acc"
        using Inr True r deleteUser_keeps_caller [OF acc(1)] by (simp add: dispatch_def authorize_def)
      with acc(2) b' show ?thesis using admin_exists_iff [OF bounded_finite [OF b']] by blast
    next
      case False
      with Inr r a show ?thesis by (simp add: dispatch_def authorize_def) (cases "p_role me"; simp)
    qed
  next
    case False
    then have "only_task_lists s (snd (route s me req now))" by (auto intro: route_only_task_lists)
    with Inr a b b' show ?thesis by (simp add: dispatch_def only_task_lists_admin)
  qed
qed (use a in \<open>simp add: dispatch_def\<close>)

end
