(* ===== verification/Client_Mirror.thy ===== *)
theory Client_Mirror
  imports Task_API "HOL-Library.Multiset"
begin

text \<open>
  The client's task cache, \<open>TaskProvider\<close> of
  \<open>src/client/src/contexts/TaskContext.tsx\<close>. The provider holds the list \<open>tasks\<close>,
  filled once at mount from \<open>GET /api/tasks\<close>, and the signed-in user \<open>currentUser\<close>
  of the authentication context; every action is a function of that state. The tasks the
  cache holds are the JSON the server sends, read through the client's \<open>Task\<close>
  interface: a field the server document lacks (\<open>id\<close> of a photo or comment, whose key
  is \<open>_id\<close>; \<open>createdBy\<close> of a photo, whose key is \<open>uploadedBy\<close>; \<open>taskId\<close>
  of a photo, which the server does not store) reads as
  \<open>undefined\<close>, written \<open>None\<close>. Only \<open>addTask\<close> sends a request
  (\<open>api.createTask\<close>); the other mutating actions patch the cache alone. The clock
  (\<open>new Date()\<close>) and \<open>Math.random()\<close> ids are parameters.
\<close>

section \<open>The client's types\<close>

record cuser =
  cu_id :: string
  cu_name :: string
  cu_email :: string
  cu_role :: role

record cphoto =
  cp_id :: "string option"
  cp_taskId :: "string option"
  cp_imageUrl :: "string option"
  cp_caption :: "string option"
  cp_createdAt :: nat
  cp_createdBy :: "string option"

record ccomment =
  cc_id :: "string option"
  cc_text :: "string option"
  cc_createdAt :: nat
  cc_createdBy :: "string option"
  cc_createdByName :: "string option"

record ctask =
  ct_id :: string
  ct_title :: string
  ct_shortDescription :: string
  ct_longDescription :: "string option"
  ct_deadline :: nat
  ct_status :: status
  ct_priority :: priority
  ct_assignedTo :: string
  ct_createdBy :: string
  ct_createdAt :: nat
  ct_group :: "task_group option"
  ct_photos :: "cphoto list"
  ct_comments :: "ccomment list"
  ct_lastUpdated :: "nat option"
  ct_lastUpdatedBy :: "string option"

text \<open>The provider's state: \<open>currentUser\<close> (from \<open>useAuth\<close>) and \<open>tasks\<close>.\<close>

record client =
  cl_user :: "cuser option"
  cl_tasks :: "ctask list"

section \<open>Server JSON as the client reads it\<close>

definition json_photo :: "photo \<Rightarrow> cphoto" where
  "json_photo ph =
     \<lparr>cp_id = None, cp_taskId = None, cp_imageUrl = imageUrl ph, cp_caption = caption ph,
      cp_createdAt = ph_createdAt ph, cp_createdBy = None\<rparr>"

definition json_comment :: "comment \<Rightarrow> ccomment" where
  "json_comment c =
     \<lparr>cc_id = None, cc_text = cm_text c, cc_createdAt = cm_createdAt c,
      cc_createdBy = map_option string_of_oid (cm_createdBy c), cc_createdByName = None\<rparr>"

text \<open>
  A task document as the mapping of \<open>fetchTasks\<close> (lines 83--90) and \<open>addTask\<close>
  (lines 108--113) leaves it: \<open>id\<close> is \<open>_id\<close>, the references are ids (the
  \<open>_id\<close> of a populated user, or the raw id), and the server has no
  \<open>lastUpdated\<close> fields.
\<close>

definition json_task :: "oid \<Rightarrow> task \<Rightarrow> ctask" where
  "json_task i t =
     \<lparr>ct_id = string_of_oid i, ct_title = title t, ct_shortDescription = shortDescription t,
      ct_longDescription = longDescription t, ct_deadline = deadline t, ct_status = status t,
      ct_priority = priority t, ct_assignedTo = string_of_oid (assignedTo t),
      ct_createdBy = string_of_oid (createdBy t), ct_createdAt = createdAt t,
      ct_group = Some (group t), ct_photos = map json_photo (photos t),
      ct_comments = map json_comment (comments t), ct_lastUpdated = None,
      ct_lastUpdatedBy = None\<rparr>"

text \<open>
  \<open>getTasks\<close> populates both references; a reference to a deleted user becomes
  \<open>null\<close>, \<open>typeof null === 'object'\<close>, and reading \<open>null._id\<close> throws inside
  the \<open>map\<close>, so the whole response is dropped.
\<close>

definition fetch_map :: "db \<Rightarrow> (oid \<times> task) list \<Rightarrow> ctask list option" where
  "fetch_map s l =
     (if list_all (\<lambda>(i, t). users s (assignedTo t) \<noteq> None \<and> users s (createdBy t) \<noteq> None) l
      then Some (map (\<lambda>(i, t). json_task i t) l) else None)"

text \<open>The list a fetch by \<open>me\<close> would install, if it succeeds.\<close>

definition view :: "db \<Rightarrow> principal \<Rightarrow> ctask list option" where
  "view s me = (case getTasks s me of Ok _ (P_tasks l) \<Rightarrow> fetch_map s l | _ \<Rightarrow> None)"

section \<open>Actions\<close>

text \<open>\<open>fetchTasks\<close> (lines 78--99): on any failure the list is left as it was.\<close>

definition fetchTasks :: "db \<Rightarrow> principal \<Rightarrow> client \<Rightarrow> client" where
  "fetchTasks s me c = (case view s me of Some cts \<Rightarrow> c\<lparr>cl_tasks := cts\<rparr> | None \<Rightarrow> c)"

text \<open>
  \<open>addTask\<close> (lines 102--118), given the server's reply to \<open>api.createTask\<close>; axios
  rejects a non-2xx reply and the \<open>catch\<close> leaves the list.
\<close>

definition addTask :: "payload reply \<Rightarrow> client \<Rightarrow> client" where
  "addTask r c =
     (case r of Ok _ (P_task i t) \<Rightarrow> c\<lparr>cl_tasks := cl_tasks c @ [json_task i t]\<rparr> | _ \<Rightarrow> c)"

text \<open>\<open>tasks.find(t => t.id === taskId)\<close>.\<close>

definition find_ctask :: "string \<Rightarrow> ctask list \<Rightarrow> ctask option" where
  "find_ctask tid ts = find (\<lambda>t. ct_id t = tid) ts"

text \<open>\<open>prevTasks.map(task => task.id === taskId ? f(task) : task)\<close>.\<close>

definition patch_task :: "string \<Rightarrow> (ctask \<Rightarrow> ctask) \<Rightarrow> ctask list \<Rightarrow> ctask list" where
  "patch_task tid f ts = map (\<lambda>t. if ct_id t = tid then f t else t) ts"

text \<open>The client-side guard \<open>currentUser.role === 'admin' || task.assignedTo === currentUser.id\<close>.\<close>

definition may_edit :: "cuser \<Rightarrow> ctask \<Rightarrow> bool" where
  "may_edit u t \<longleftrightarrow> cu_role u = Admin \<or> ct_assignedTo t = cu_id u"

text \<open>\<open>touched\<close>: the \<open>lastUpdated\<close> and \<open>lastUpdatedBy\<close> every local patch writes.\<close>

definition touched :: "cuser \<Rightarrow> nat \<Rightarrow> ctask \<Rightarrow> ctask" where
  "touched u now t = t\<lparr>ct_lastUpdated := Some now, ct_lastUpdatedBy := Some (cu_id u)\<rparr>"

text \<open>
  A \<open>Partial<Task>\<close> for \<open>updateTask\<close>: the keys it has. The callers never pass
  \<open>id\<close>, \<open>createdBy\<close> or \<open>createdAt\<close>, and the \<open>lastUpdated\<close> keys are
  overwritten by \<open>updateTask\<close> itself.
\<close>

record ctask_patch =
  cq_title :: "string option"
  cq_shortDescription :: "string option"
  cq_longDescription :: "string option"
  cq_deadline :: "nat option"
  cq_status :: "status option"
  cq_priority :: "priority option"
  cq_assignedTo :: "string option"
  cq_group :: "task_group option"
  cq_photos :: "cphoto list option"
  cq_comments :: "ccomment list option"

definition no_patch :: ctask_patch where
  "no_patch =
     \<lparr>cq_title = None, cq_shortDescription = None, cq_longDescription = None, cq_deadline = None,
      cq_status = None, cq_priority = None, cq_assignedTo = None, cq_group = None,
      cq_photos = None, cq_comments = None\<rparr>"

text \<open>
  The spread \<open>{...task, ...updatedTask}\<close>; the trailing
  \<open>updatedTask.photos || task.photos || []\<close> (and for comments) gives the same arrays,
  since both lists are always arrays here.
\<close>

definition spread :: "ctask_patch \<Rightarrow> ctask \<Rightarrow> ctask" where
  "spread q t =
     t\<lparr>ct_title := case_option (ct_title t) id (cq_title q),
       ct_shortDescription := case_option (ct_shortDescription t) id (cq_shortDescription q),
       ct_longDescription := case_option (ct_longDescription t) Some (cq_longDescription q),
       ct_deadline := case_option (ct_deadline t) id (cq_deadline q),
       ct_status := case_option (ct_status t) id (cq_status q),
       ct_priority := case_option (ct_priority t) id (cq_priority q),
       ct_assignedTo := case_option (ct_assignedTo t) id (cq_assignedTo q),
       ct_group := case_option (ct_group t) Some (cq_group q),
       ct_photos := case_option (ct_photos t) id (cq_photos q),
       ct_comments := case_option (ct_comments t) id (cq_comments q)\<rparr>"

text \<open>\<open>updateTask\<close> (lines 189--207): no guard but a signed-in user, and no request.\<close>

definition updateTask_ctx :: "string \<Rightarrow> ctask_patch \<Rightarrow> nat \<Rightarrow> client \<Rightarrow> client" where
  "updateTask_ctx tid q now c =
     (case cl_user c of
        None \<Rightarrow> c
      | Some u \<Rightarrow> c\<lparr>cl_tasks := patch_task tid (\<lambda>t. touched u now (spread q t)) (cl_tasks c)\<rparr>)"

text \<open>\<open>updateTaskStatus\<close> (lines 210--225).\<close>

definition updateTaskStatus :: "string \<Rightarrow> status \<Rightarrow> nat \<Rightarrow> client \<Rightarrow> client" where
  "updateTaskStatus tid st now c =
     (case cl_user c of
        None \<Rightarrow> c
      | Some u \<Rightarrow>
          (case find_ctask tid (cl_tasks c) of
             None \<Rightarrow> c
           | Some t \<Rightarrow>
               if may_edit u t then updateTask_ctx tid (no_patch\<lparr>cq_status := Some st\<rparr>) now c
               else c))"

text \<open>\<open>deleteTask\<close> (lines 228--230): a local filter, no guard and no request.\<close>

definition deleteTask_ctx :: "string \<Rightarrow> client \<Rightarrow> client" where
  "deleteTask_ctx tid c = c\<lparr>cl_tasks := filter (\<lambda>t. ct_id t \<noteq> tid) (cl_tasks c)\<rparr>"

text \<open>
  The shape shared by the four sub-entity actions: a signed-in user, a task found in the
  list, a guard on the user and the task, then a patch of that task.
\<close>

definition guarded_patch ::
  "(cuser \<Rightarrow> ctask \<Rightarrow> bool) \<Rightarrow> (cuser \<Rightarrow> ctask \<Rightarrow> ctask) \<Rightarrow> string \<Rightarrow> client \<Rightarrow> client" where
  "guarded_patch ok f tid c =
     (case cl_user c of
        None \<Rightarrow> c
      | Some u \<Rightarrow>
          (case find_ctask tid (cl_tasks c) of
             None \<Rightarrow> c
           | Some t \<Rightarrow> if ok u t then c\<lparr>cl_tasks := patch_task tid (f u) (cl_tasks c)\<rparr> else c))"

text \<open>\<open>addTaskPhoto\<close> (lines 233--264); \<open>rid\<close> is \<open>Math.random().toString(36).substr(2, 9)\<close>.\<close>

definition addTaskPhoto ::
  "string \<Rightarrow> string \<Rightarrow> string option \<Rightarrow> string \<Rightarrow> nat \<Rightarrow> client \<Rightarrow> client" where
  "addTaskPhoto tid url cap rid now =
     guarded_patch may_edit
       (\<lambda>u t. touched u now (t\<lparr>ct_photos := ct_photos t @
          [\<lparr>cp_id = Some rid, cp_taskId = Some tid, cp_imageUrl = Some url, cp_caption = cap, cp_createdAt = now,
            cp_createdBy = Some (cu_id u)\<rparr>]\<rparr>)) tid"

text \<open>
  \<open>deleteTaskPhoto\<close> (lines 267--291): \<open>photo.id !== photoId\<close>. The id argument
  is a JavaScript value, a string or \<open>undefined\<close> (\<open>None\<close>): the components pass
  \<open>photo.id\<close>, which a fetched photo lacks.
\<close>

definition deleteTaskPhoto_ctx :: "string \<Rightarrow> string option \<Rightarrow> nat \<Rightarrow> client \<Rightarrow> client" where
  "deleteTaskPhoto_ctx tid pid now =
     guarded_patch may_edit
       (\<lambda>u t. touched u now (t\<lparr>ct_photos := filter (\<lambda>ph. cp_id ph \<noteq> pid) (ct_photos t)\<rparr>)) tid"

text \<open>\<open>addTaskComment\<close> (lines 300--331).\<close>

definition addTaskComment :: "string \<Rightarrow> string \<Rightarrow> string \<Rightarrow> nat \<Rightarrow> client \<Rightarrow> client" where
  "addTaskComment tid txt rid now =
     guarded_patch may_edit
       (\<lambda>u t. touched u now (t\<lparr>ct_comments := ct_comments t @
          [\<lparr>cc_id = Some rid, cc_text = Some txt, cc_createdAt = now, cc_createdBy = Some (cu_id u),
            cc_createdByName = Some (cu_name u)\<rparr>]\<rparr>)) tid"

text \<open>
  \<open>deleteTaskComment\<close> (lines 334--361): the guard looks up the comment by \<open>id\<close>
  and admits an administrator or the comment's author; the id is a string or
  \<open>undefined\<close>, as for photos.
\<close>

definition may_delete_comment :: "string option \<Rightarrow> cuser \<Rightarrow> ctask \<Rightarrow> bool" where
  "may_delete_comment cid u t =
     (case find (\<lambda>cm. cc_id cm = cid) (ct_comments t) of
        None \<Rightarrow> False
      | Some cm \<Rightarrow> cu_role u = Admin \<or> cc_createdBy cm = Some (cu_id u))"

definition deleteTaskComment :: "string \<Rightarrow> string option \<Rightarrow> nat \<Rightarrow> client \<Rightarrow> client" where
  "deleteTaskComment tid cid now =
     guarded_patch (may_delete_comment cid)
       (\<lambda>u t. touched u now (t\<lparr>ct_comments := filter (\<lambda>cm. cc_id cm \<noteq> cid) (ct_comments t)\<rparr>))
       tid"

section \<open>Queries\<close>

text \<open>\<open>getUserTasks\<close> (lines 132--134).\<close>

definition getUserTasks :: "string \<Rightarrow> ctask list \<Rightarrow> ctask list" where
  "getUserTasks uid ts = filter (\<lambda>t. ct_assignedTo t = uid) ts"

text \<open>
  \<open>getTasksByStatus\<close>, \<open>getTasksByPriority\<close>, \<open>getTasksByGroup\<close> (lines 137--161):
  a record with one count per constant, read as a function of the constant.
\<close>

definition getTasksByStatus :: "ctask list \<Rightarrow> status \<Rightarrow> nat" where
  "getTasksByStatus ts st = length (filter (\<lambda>t. ct_status t = st) ts)"

definition getTasksByPriority :: "ctask list \<Rightarrow> priority \<Rightarrow> nat" where
  "getTasksByPriority ts p = length (filter (\<lambda>t. ct_priority t = p) ts)"

definition getTasksByGroup :: "ctask list \<Rightarrow> task_group \<Rightarrow> nat" where
  "getTasksByGroup ts g = length (filter (\<lambda>t. ct_group t = Some g) ts)"

text \<open>\<open>getTaskPhotos\<close> and \<open>getTaskComments\<close> (lines 294--297, 364--367).\<close>

definition getTaskPhotos :: "string \<Rightarrow> ctask list \<Rightarrow> cphoto list" where
  "getTaskPhotos tid ts = (case find_ctask tid ts of Some t \<Rightarrow> ct_photos t | None \<Rightarrow> [])"

definition getTaskComments :: "string \<Rightarrow> ctask list \<Rightarrow> ccomment list" where
  "getTaskComments tid ts = (case find_ctask tid ts of Some t \<Rightarrow> ct_comments t | None \<Rightarrow> [])"

text \<open>
  \<open>getOverdueTasks\<close> and \<open>getUpcomingDeadlines\<close> (lines 176--186), dates in
  milliseconds; \<open>setDate(getDate() + n)\<close> is taken as \<open>n\<close> days of 86400000 ms
  (daylight-saving shifts are not modelled), and \<open>days || 7\<close> maps 0 to 7.
\<close>

definition getOverdueTasks :: "nat \<Rightarrow> ctask list \<Rightarrow> ctask list" where
  "getOverdueTasks now ts = filter (\<lambda>t. ct_deadline t < now) ts"

definition getUpcomingDeadlines :: "nat \<Rightarrow> nat \<Rightarrow> ctask list \<Rightarrow> ctask list" where
  "getUpcomingDeadlines now days ts =
     (let n = (if days = 0 then 7 else days) in
      filter (\<lambda>t. now + n * 86400000 \<le> ct_deadline t) ts)"

text \<open>
  \<open>getRecentTasks\<close> (lines 164--173): a stable sort, newest first, on
  \<open>lastUpdated || createdAt\<close>, then the first \<open>limit\<close>.
\<close>

definition recent_date :: "ctask \<Rightarrow> nat" where
  "recent_date t = (case ct_lastUpdated t of Some d \<Rightarrow> d | None \<Rightarrow> ct_createdAt t)"

definition getRecentTasks :: "nat \<Rightarrow> ctask list \<Rightarrow> ctask list" where
  "getRecentTasks limit ts = take limit (sort_key (\<lambda>t. - int (recent_date t)) ts)"

section \<open>Example data\<close>

text \<open>Bo's browser after signing in: the cache is the list \<open>GET /api/tasks\<close> returns.\<close>

definition demo_cuser :: cuser where
  "demo_cuser = \<lparr>cu_id = string_of_oid 2, cu_name = ''Bo'', cu_email = ''bo@example.com'', cu_role = User\<rparr>"

definition demo_client :: client where
  "demo_client = \<lparr>cl_user = Some demo_cuser, cl_tasks = [json_task 3 demo_task]\<rparr>"

definition demo_photo_reply :: photo_reply where
  "demo_photo_reply = \<lparr>r_imageUrl = ''/uploads/shot.png'', r_caption = [], r_uploadedBy = 2, r_uploadedAt = 5\<rparr>"

section \<open>Lemmas\<close>

lemma fetch_map_users_cong:
  "(\<And>a. (users s' a = None) = (users s a = None)) \<Longrightarrow> fetch_map s' l = fetch_map s l"
  by (simp add: fetch_map_def)

lemma fetch_map_snoc:
  "fetch_map s l = Some cts \<Longrightarrow> users s (assignedTo t) \<noteq> None \<Longrightarrow> users s (createdBy t) \<noteq> None \<Longrightarrow>
   fetch_map s (l @ [(i, t)]) = Some (cts @ [json_task i t])"
  by (auto simp: fetch_map_def split: if_splits)

lemma users_push_task_None [simp]: "(users (push_task a i s) b = None) = (users s b = None)"
  by (simp add: users_push_task)

lemma getTasks_snoc:
  "getTasks s me = Ok S200 (P_tasks l) \<Longrightarrow> tasks s' = tasks s @ [(i, t)] \<Longrightarrow> visible me t \<Longrightarrow>
   getTasks s' me = Ok S200 (P_tasks (l @ [(i, t)]))"
  by (auto simp: getTasks_def)

lemma fetch_map_dangling:
  "(i, t) \<in> set l \<Longrightarrow> users s (assignedTo t) = None \<Longrightarrow> fetch_map s l = None"
  unfolding fetch_map_def list_all_iff by (metis (mono_tags, lifting) case_prod_conv)

lemma view_Some:
  "view s me = Some cts \<Longrightarrow> \<exists>l. cts = map (\<lambda>(i, t). json_task i t) l"
  by (auto simp: view_def fetch_map_def split: reply.splits payload.splits if_splits)

lemma view_fetched:
  assumes "view s me = Some cts" and "t \<in> set cts"
  shows "ct_lastUpdated t = None" and "ph \<in> set (ct_photos t) \<Longrightarrow> cp_id ph = None"
    and "cm \<in> set (ct_comments t) \<Longrightarrow> cc_id cm = None"
  using view_Some [OF assms(1)] assms(2)
  by (auto simp: json_task_def json_photo_def json_comment_def)

lemma find_patch_task:
  "(\<And>t. ct_id (f t) = ct_id t) \<Longrightarrow> find_ctask tid (patch_task tid f ts) = map_option f (find_ctask tid ts)"
  by (induction ts) (auto simp: find_ctask_def patch_task_def)

lemma find_ctask_SomeD: "find_ctask tid ts = Some t \<Longrightarrow> t \<in> set ts \<and> ct_id t = tid"
  by (auto simp: find_ctask_def find_Some_iff)

lemma patch_task_id_cong:
  "(\<And>t. t \<in> set ts \<Longrightarrow> ct_id t = tid \<Longrightarrow> f t = t) \<Longrightarrow> patch_task tid f ts = ts"
  by (induction ts) (auto simp: patch_task_def)

lemma spread_status: "spread (no_patch\<lparr>cq_status := Some st\<rparr>) t = t\<lparr>ct_status := st\<rparr>"
  by (simp add: spread_def no_patch_def)

lemma ct_id_touched [simp]: "ct_id (touched u now t) = ct_id t"
  by (simp add: touched_def)

lemma cl_user_updateTaskStatus [simp]: "cl_user (updateTaskStatus tid st now c) = cl_user c"
  by (simp add: updateTaskStatus_def updateTask_ctx_def split: option.splits)

lemma string_of_oid_inj:
  "i < 16 ^ 24 \<Longrightarrow> j < 16 ^ 24 \<Longrightarrow> string_of_oid j = string_of_oid i \<Longrightarrow> j = i"
  by (metis oid_of_string_of_oid option.inject)

lemma find_json:
  assumes "distinct (map fst l)" and "(i, t) \<in> set l" and "\<forall>j \<in> set (map fst l). j < 16 ^ 24"
  shows "find_ctask (string_of_oid i) (map (\<lambda>(i, t). json_task i t) l) = Some (json_task i t)"
  using assms
proof (induction l)
  case Nil
  then show ?case by simp
next
  case (Cons p l)
  obtain j t' where p: "p = (j, t')" by (cases p)
  show ?case
  proof (cases "j = i")
    case True
    with Cons.prems p have "t' = t" by (auto simp: image_iff)
    with p True show ?thesis by (simp add: find_ctask_def json_task_def)
  next
    case False
    then have "string_of_oid j \<noteq> string_of_oid i"
      using Cons.prems p string_of_oid_inj by fastforce
    with Cons p False show ?thesis by (simp add: find_ctask_def json_task_def)
  qed
qed

lemma mset_take_subset: "mset (take n xs) \<subseteq># mset xs"
  by (metis append_take_drop_id mset_append mset_subset_eq_add_left)

lemma demo_view1: "view demo_db1 demo_user = Some [json_task 3 demo_task]"
  by (simp add: view_def getTasks_def fetch_map_def visible_def demo_defs)

lemma demo_upload_reply:
  "uploadTaskPhoto demo_db1 demo_user (string_of_oid 3) (Some ''shot.png'') None 5 =
     (Ok S200 (P_photo demo_photo_reply),
      snd (uploadTaskPhoto demo_db1 demo_user (string_of_oid 3) (Some ''shot.png'') None 5))"
  by (simp add: uploadTaskPhoto_def Let_def save_task_def find_task_def image_url_def
      demo_photo_reply_def demo_defs)

section \<open>Properties\<close>

text \<open>
  C11. The cache follows the server through task creation: if it holds what a fetch by the
  signed-in user would install, then after \<open>createTask\<close> on the server and \<open>addTask\<close>
  on the reply (a failure included) it again holds what a fetch would install, provided the
  creator and the requested assignee exist.
\<close>

theorem addTask_refines_createTask:
  assumes wf: "wf_db s" and v: "view s me = Some (cl_tasks c)"
    and me: "users s (p_id me) \<noteq> None"
    and a: "\<forall>a. b_assignedTo b = Some a \<longrightarrow> users s a \<noteq> None"
    and r: "createTask s me b now = (r, s')"
  shows "view s' me = Some (cl_tasks (addTask r c))"
proof (cases "new_task b (p_id me) now")
  case (Inl m)
  with r show ?thesis using v by (auto simp: createTask_def addTask_def)
next
  case (Inr t)
  let ?i = "next_id s"
  have fields: "b_assignedTo b = Some (assignedTo t)" "createdBy t = p_id me"
    using new_task_Inr_fields [OF Inr] by simp_all
  have fresh: "?i \<notin> set (map fst (tasks s))"
    using wf by (auto simp: wf_db_def)
  have r': "r = Ok S201 (P_task ?i t)"
    and s': "s' = push_task (assignedTo t) ?i (s\<lparr>tasks := tasks s @ [(?i, t)], next_id := Suc ?i\<rparr>)"
    using r Inr fresh by (auto simp: createTask_def Let_def update_fresh_append)
  obtain l where l: "getTasks s me = Ok S200 (P_tasks l)" and fl: "fetch_map s l = Some (cl_tasks c)"
    using v by (auto simp: view_def getTasks_def)
  have "getTasks s' me = Ok S200 (P_tasks (l @ [(?i, t)]))"
    using s' l fields(2) by (intro getTasks_snoc) (simp_all add: visible_def)
  moreover have "fetch_map s' (l @ [(?i, t)]) = fetch_map s (l @ [(?i, t)])"
    by (rule fetch_map_users_cong) (simp add: s')
  moreover have "fetch_map s (l @ [(?i, t)]) = Some (cl_tasks c @ [json_task ?i t])"
    using fetch_map_snoc [OF fl] fields a me by simp
  ultimately show ?thesis
    by (simp add: view_def addTask_def r')
qed

theorem addTask_refines_createTask_witness:
  "view demo_db1 demo_admin = Some [json_task 3 demo_task]"
proof -
  have "fst (createTask demo_db demo_admin demo_body 0) = Ok S201 (P_task 3 demo_task)"
    by (simp add: createTask_def demo_new_task Let_def) (simp add: demo_defs)
  then have r: "createTask demo_db demo_admin demo_body 0 = (Ok S201 (P_task 3 demo_task), demo_db1)"
    using demo_after_create by (metis prod.collapse)
  have v: "view demo_db demo_admin = Some (cl_tasks \<lparr>cl_user = None, cl_tasks = []\<rparr>)"
    by (simp add: view_def getTasks_def fetch_map_def demo_defs)
  have "users demo_db (p_id demo_admin) \<noteq> None"
    and "\<forall>a. b_assignedTo demo_body = Some a \<longrightarrow> users demo_db a \<noteq> None"
    by (simp_all add: demo_defs)
  from addTask_refines_createTask [OF demo_wf v this r]
  show ?thesis by (simp add: addTask_def)
qed

text \<open>
  C17. \<open>updateTaskStatus\<close> changes the cached task's status and stamps it with the
  local time and user, but sends no request: a re-fetch from the unchanged server puts the
  old list back, so the status change is lost.
\<close>

theorem updateTaskStatus_local_only:
  assumes v: "view s me = Some (cl_tasks c)" and u: "cl_user c = Some u"
    and f: "find_ctask tid (cl_tasks c) = Some t" and ok: "may_edit u t"
  shows "find_ctask tid (cl_tasks (updateTaskStatus tid st now c)) =
      Some (touched u now (t\<lparr>ct_status := st\<rparr>)) \<and>
    fetchTasks s me (updateTaskStatus tid st now c) = c"
proof -
  have "find_ctask tid (cl_tasks (updateTaskStatus tid st now c)) =
      Some (touched u now (t\<lparr>ct_status := st\<rparr>))"
    using u f ok by (simp add: updateTaskStatus_def updateTask_ctx_def find_patch_task spread_status)
  moreover have "fetchTasks s me (updateTaskStatus tid st now c) = c"
    using v by (simp add: fetchTasks_def)
  ultimately show ?thesis by blast
qed

theorem updateTaskStatus_local_only_witness:
  "find_ctask (string_of_oid 3) (cl_tasks (updateTaskStatus (string_of_oid 3) Completed 5 demo_client)) =
     Some (touched demo_cuser 5 ((json_task 3 demo_task)\<lparr>ct_status := Completed\<rparr>)) \<and>
   fetchTasks demo_db1 demo_user (updateTaskStatus (string_of_oid 3) Completed 5 demo_client) = demo_client"
proof -
  have "view demo_db1 demo_user = Some (cl_tasks demo_client)"
    using demo_view1 by (simp add: demo_client_def)
  moreover have "cl_user demo_client = Some demo_cuser" by (simp add: demo_client_def)
  moreover have "find_ctask (string_of_oid 3) (cl_tasks demo_client) = Some (json_task 3 demo_task)"
    by (simp add: demo_client_def find_ctask_def json_task_def)
  moreover have "may_edit demo_cuser (json_task 3 demo_task)"
    by (simp add: may_edit_def demo_cuser_def json_task_def demo_task_def)
  ultimately show ?thesis by (rule updateTaskStatus_local_only)
qed

text \<open>
  \<open>updateTaskStatus\<close> changes the cache only for a signed-in user who is an
  administrator or the task's assignee, and only when the task is in the cache.
\<close>

theorem updateTaskStatus_guard:
  assumes "updateTaskStatus tid st now c \<noteq> c"
  shows "\<exists>u t. cl_user c = Some u \<and> find_ctask tid (cl_tasks c) = Some t \<and>
    (cu_role u = Admin \<or> ct_assignedTo t = cu_id u) \<and> ct_id t = tid"
  using assms by (auto simp: updateTaskStatus_def may_edit_def dest: find_ctask_SomeD
      split: option.splits if_splits)

theorem updateTaskStatus_guard_witness:
  "\<exists>u t. cl_user demo_client = Some u \<and> find_ctask (string_of_oid 3) (cl_tasks demo_client) = Some t \<and>
     (cu_role u = Admin \<or> ct_assignedTo t = cu_id u) \<and> ct_id t = string_of_oid 3"
proof -
  have "updateTaskStatus (string_of_oid 3) Completed 5 demo_client \<noteq> demo_client"
    by (simp add: updateTaskStatus_def updateTask_ctx_def demo_client_def demo_cuser_def find_ctask_def
        patch_task_def may_edit_def json_task_def demo_task_def touched_def spread_status)
  then show ?thesis by (rule updateTaskStatus_guard)
qed

text \<open>
  C18. After a successful upload to a task in status \<open>todo\<close>, the server stores the
  task as \<open>inProgress\<close>, while the client, which patches its cache with
  \<open>addTaskPhoto\<close> on the reply, still shows it as \<open>todo\<close>.
\<close>

theorem upload_mirror_stale:
  assumes wf: "wf_db s" and bound: "next_id s \<le> 16 ^ 24"
    and v: "view s me = Some (cl_tasks c)" and u: "cl_user c = Some u"
    and uid: "cu_id u = string_of_oid (p_id me)" and role: "cu_role u = p_role me"
    and m: "map_of (tasks s) i = Some t" and st: "status t = Todo"
    and up: "uploadTaskPhoto s me (string_of_oid i) (Some fn) cap now = (Ok S200 (P_photo pr), s')"
  shows "map_option ct_status (find_ctask (string_of_oid i)
      (cl_tasks (addTaskPhoto (string_of_oid i) (r_imageUrl pr) (Some (r_caption pr)) rid now c))) = Some Todo \<and>
    map_option status (map_of (tasks s') i) = Some InProgress"
proof -
  have ib: "i < 16 ^ 24" using wf_db_map_of [OF wf m] bound by simp
  have found: "find_task s (string_of_oid i) = Inr (Some (i, t))"
    using m ib by (simp add: find_task_Some)
  have auth: "p_role me = Admin \<or> assignedTo t = p_id me"
    using up found by (auto simp: uploadTaskPhoto_def split: if_splits)
  have srv: "map_option status (map_of (tasks s') i) = Some InProgress"
    using up found st by (auto simp: uploadTaskPhoto_def Let_def save_task_def split: if_splits)
  define l where "l = (if p_role me = Admin then tasks s else filter (\<lambda>(i, t). visible me t) (tasks s))"
  have cts: "cl_tasks c = map (\<lambda>(i, t). json_task i t) l"
    using v by (auto simp: view_def getTasks_def fetch_map_def l_def split: if_splits)
  have dl: "distinct (map fst l)" and keys: "\<forall>j \<in> set (map fst l). j < 16 ^ 24"
    using wf bound by (auto simp: l_def wf_db_def distinct_map_filter)
  have "(i, t) \<in> set l"
    using auth map_of_SomeD [OF m] by (auto simp: l_def visible_def)
  then have f: "find_ctask (string_of_oid i) (cl_tasks c) = Some (json_task i t)"
    using find_json [OF dl _ keys] cts by simp
  have "may_edit u (json_task i t)"
    using auth uid role by (auto simp: may_edit_def json_task_def)
  then have "map_option ct_status (find_ctask (string_of_oid i)
      (cl_tasks (addTaskPhoto (string_of_oid i) (r_imageUrl pr) (Some (r_caption pr)) rid now c))) = Some Todo"
    using u f st by (simp add: addTaskPhoto_def guarded_patch_def find_patch_task touched_def json_task_def)
  with srv show ?thesis by blast
qed

theorem upload_mirror_stale_witness:
  "map_option ct_status (find_ctask (string_of_oid 3)
      (cl_tasks (addTaskPhoto (string_of_oid 3) ''/uploads/shot.png'' (Some []) ''r1'' 5 demo_client))) = Some Todo \<and>
   map_option status (map_of (tasks (snd (uploadTaskPhoto demo_db1 demo_user (string_of_oid 3)
      (Some ''shot.png'') None 5))) 3) = Some InProgress"
proof -
  have "next_id demo_db1 \<le> 16 ^ 24" by (simp add: demo_defs)
  moreover have "view demo_db1 demo_user = Some (cl_tasks demo_client)"
    using demo_view1 by (simp add: demo_client_def)
  moreover have "cl_user demo_client = Some demo_cuser" by (simp add: demo_client_def)
  moreover have "cu_id demo_cuser = string_of_oid (p_id demo_user)" "cu_role demo_cuser = p_role demo_user"
    by (simp_all add: demo_cuser_def demo_user_def)
  moreover have "map_of (tasks demo_db1) 3 = Some demo_task" "status demo_task = Todo"
    by (simp_all add: demo_defs)
  ultimately have "map_option ct_status (find_ctask (string_of_oid 3)
      (cl_tasks (addTaskPhoto (string_of_oid 3) (r_imageUrl demo_photo_reply) (Some (r_caption demo_photo_reply))
        ''r1'' 5 demo_client))) = Some Todo \<and>
    map_option status (map_of (tasks (snd (uploadTaskPhoto demo_db1 demo_user (string_of_oid 3)
      (Some ''shot.png'') None 5))) 3) = Some InProgress"
    by (rule upload_mirror_stale [OF demo_wf1 _ _ _ _ _ _ _ demo_upload_reply])
  then show ?thesis by (simp add: demo_photo_reply_def)
qed

text \<open>
  C20. \<open>getUpcomingDeadlines\<close> lists the tasks due at least \<open>days\<close> (default 7) days
  from now, not those due within that window, and \<open>getOverdueTasks\<close> those already due:
  a task due within the window is in neither list.
\<close>

theorem deadline_windows:
  "(t \<in> set (getUpcomingDeadlines now days ts) \<longleftrightarrow>
     t \<in> set ts \<and> now + (if days = 0 then 7 else days) * 86400000 \<le> ct_deadline t) \<and>
   (t \<in> set (getOverdueTasks now ts) \<longleftrightarrow> t \<in> set ts \<and> ct_deadline t < now)"
  by (auto simp: getUpcomingDeadlines_def getOverdueTasks_def Let_def)

text \<open>
  \<open>getRecentTasks\<close> returns the \<open>limit\<close> most recent cached tasks (or all, if
  fewer), newest first by last update or creation time.
\<close>

theorem getRecentTasks_newest_first:
  "sorted_wrt (\<lambda>a b. recent_date b \<le> recent_date a) (getRecentTasks limit ts) \<and>
   length (getRecentTasks limit ts) = min limit (length ts) \<and>
   mset (getRecentTasks limit ts) \<subseteq># mset ts"
proof -
  let ?f = "\<lambda>t. - int (recent_date t)"
  have "sorted_wrt (\<lambda>a b. ?f a \<le> ?f b) (sort_key ?f ts)"
    using sorted_sort_key [of ?f ts] by (simp add: sorted_map)
  then have "sorted_wrt (\<lambda>a b. recent_date b \<le> recent_date a) (sort_key ?f ts)"
    by (rule sorted_wrt_mono_rel [rotated]) simp
  moreover have "mset (take limit (sort_key ?f ts)) \<subseteq># mset ts"
    using mset_take_subset [of limit "sort_key ?f ts"] by simp
  ultimately show ?thesis
    by (simp add: getRecentTasks_def sorted_wrt_take min.commute)
qed

end
