(* ===== verification/Client_Session.thy ===== *)
theory Client_Session
  imports Auth Client_Mirror
begin

text \<open>
  The client's session: \<open>AuthProvider\<close> of \<open>src/client/src/contexts/AuthContext.tsx\<close>,
  the axios instance of \<open>src/client/src/lib/api.ts\<close> and
  \<open>src/client/src/components/ProtectedRoute.tsx\<close>. The state is the token in
  \<open>localStorage\<close>, the provider's \<open>token\<close>, \<open>currentUser\<close> and \<open>allUsers\<close>, and
  the \<open>Authorization\<close> entry of \<open>axiosInstance.defaults.headers.common\<close>. Every
  request starts from the defaults, and the request interceptor overrides the header when
  \<open>localStorage\<close> holds a token. The server's answers to the auth routes are
  parameters (\<open>None\<close> when the request fails), since the auth controller is not part of
  the repository; the device list is not modelled.
\<close>

record session =
  ss_storage :: "string option"
  ss_token :: "string option"
  ss_user :: "cuser option"
  ss_allUsers :: "cuser list"
  ss_default_auth :: "string option"

text \<open>The state at construction: \<open>useState(localStorage.getItem('token'))\<close>.\<close>

definition initial_session :: "string option \<Rightarrow> session" where
  "initial_session stored =
     \<lparr>ss_storage = stored, ss_token = stored, ss_user = None, ss_allUsers = [], ss_default_auth = None\<rparr>"

section \<open>The axios instance\<close>

text \<open>\<open>api.setAuthToken\<close> (\<open>api.ts\<close>, lines 36--42): \<open>if (token)\<close> is false for the empty string.\<close>

definition setAuthToken :: "string option \<Rightarrow> session \<Rightarrow> session" where
  "setAuthToken tok st =
     st\<lparr>ss_default_auth :=
          (case tok of None \<Rightarrow> None | Some t \<Rightarrow> if t = [] then None else Some (auth_header t))\<rparr>"

text \<open>The header a request carries: the defaults, then the interceptor (lines 24--33).\<close>

definition request_header :: "session \<Rightarrow> string option" where
  "request_header st =
     (case ss_storage st of
        None \<Rightarrow> ss_default_auth st
      | Some t \<Rightarrow> if t = [] then ss_default_auth st else Some (auth_header t))"

section \<open>AuthProvider\<close>

text \<open>
  The \<open>catch\<close> branches of \<open>initializeAuth\<close> and \<open>login\<close> and the body of
  \<open>logout\<close>: \<open>localStorage.removeItem('token')\<close>, \<open>setToken(null)\<close>,
  \<open>setCurrentUser(null)\<close>, \<open>setAllUsers([])\<close>. None of them calls
  \<open>setAuthToken(null)\<close>.
\<close>

definition clear_session :: "session \<Rightarrow> session" where
  "clear_session st = st\<lparr>ss_storage := None, ss_token := None, ss_user := None, ss_allUsers := []\<rparr>"

text \<open>The user list an administrator's sign-in installs: \<open>usersRes.data.users || []\<close>, or \<open>[]\<close> on failure.\<close>

definition admin_users :: "cuser \<Rightarrow> cuser list option \<Rightarrow> session \<Rightarrow> session" where
  "admin_users u us st =
     (if cu_role u = Admin then st\<lparr>ss_allUsers := (case us of None \<Rightarrow> [] | Some l \<Rightarrow> l)\<rparr> else st)"

text \<open>
  \<open>initializeAuth\<close> (lines 49--96), given the answer to \<open>getProfile\<close> and, for an
  administrator, to \<open>getAllUsers\<close>.
\<close>

definition initializeAuth :: "cuser option \<Rightarrow> cuser list option \<Rightarrow> session \<Rightarrow> session" where
  "initializeAuth prof us st =
     (case ss_storage st of
        None \<Rightarrow> st
      | Some tok \<Rightarrow>
          if tok = [] then st
          else
            (let st1 = setAuthToken (Some tok) (st\<lparr>ss_token := Some tok\<rparr>) in
             case prof of
               None \<Rightarrow> clear_session st1
             | Some u \<Rightarrow> admin_users u us (st1\<lparr>ss_user := Some u\<rparr>)))"

text \<open>
  \<open>login\<close> (lines 98--145), given the answer to \<open>POST /auth/login\<close> (token and user)
  and the outcome of the \<open>Promise.all\<close> for the user list; a non-administrator's list is
  left as it was.
\<close>

definition login :: "(string \<times> cuser) option \<Rightarrow> cuser list option \<Rightarrow> session \<Rightarrow> session" where
  "login r us st =
     (case r of
        None \<Rightarrow> clear_session st
      | Some (tok, u) \<Rightarrow>
          admin_users u us
            ((setAuthToken (Some tok) (st\<lparr>ss_storage := Some tok, ss_token := Some tok\<rparr>))
               \<lparr>ss_user := Some u\<rparr>))"

text \<open>
  \<open>register\<close> (lines 147--167): no \<open>setAuthToken\<close>, and a failure leaves the state;
  a failed user list after a successful sign-up leaves the list.
\<close>

definition register :: "(string \<times> cuser) option \<Rightarrow> cuser list option \<Rightarrow> session \<Rightarrow> session" where
  "register r us st =
     (case r of
        None \<Rightarrow> st
      | Some (tok, u) \<Rightarrow>
          (let st1 = st\<lparr>ss_storage := Some tok, ss_token := Some tok, ss_user := Some u\<rparr> in
           if cu_role u = Admin \<and> us \<noteq> None then admin_users u us st1 else st1))"

text \<open>\<open>logout\<close> (lines 214--225).\<close>

definition logout :: "session \<Rightarrow> session" where
  "logout st = clear_session st"

text \<open>The requests \<open>updateUser\<close> and \<open>deleteUser\<close> send, in order.\<close>

datatype auth_call = Put_profile | Get_users | Delete_user string

text \<open>
  \<open>updateUser\<close> (lines 169--188): the guard admits the user themself or an
  administrator; the request is \<open>PUT /auth/profile\<close>, which names no user.
\<close>

definition updateUser :: "session \<Rightarrow> string \<Rightarrow> string + auth_call list" where
  "updateUser st uid =
     (case ss_user st of
        None \<Rightarrow> Inl ''You don't have permission to update this user''
      | Some u \<Rightarrow>
          if cu_id u \<noteq> uid \<and> cu_role u \<noteq> Admin
          then Inl ''You don't have permission to update this user''
          else Inr [Put_profile, Get_users])"

text \<open>\<open>deleteUser\<close> (lines 190--212).\<close>

definition deleteUser :: "session \<Rightarrow> string \<Rightarrow> string + auth_call list" where
  "deleteUser st uid =
     (case ss_user st of
        None \<Rightarrow> Inl ''Only admins can delete users''
      | Some u \<Rightarrow>
          if cu_role u \<noteq> Admin then Inl ''Only admins can delete users''
          else if cu_id u = uid then Inl ''You cannot delete your own account''
          else Inr [Delete_user uid, Get_users])"

section \<open>ProtectedRoute\<close>

datatype route_outcome = Navigate_login | Navigate_user_dashboard | Render

text \<open>\<open>ProtectedRoute\<close> (lines 11--29); \<open>isAuthenticated\<close> is \<open>!!currentUser\<close>.\<close>

definition protected_route :: "session \<Rightarrow> bool \<Rightarrow> route_outcome" where
  "protected_route st requireAdmin =
     (case ss_user st of
        None \<Rightarrow> Navigate_login
      | Some u \<Rightarrow> if requireAdmin \<and> cu_role u \<noteq> Admin then Navigate_user_dashboard else Render)"

section \<open>Lemmas\<close>

lemma request_header_login:
  "tok \<noteq> [] \<Longrightarrow> r = Some (tok, u) \<Longrightarrow> request_header (login r us st) = Some (auth_header tok) \<and>
     ss_default_auth (login r us st) = Some (auth_header tok)"
  by (simp add: login_def admin_users_def setAuthToken_def request_header_def)

lemma ss_default_auth_clear [simp]: "ss_default_auth (clear_session st) = ss_default_auth st"
  by (simp add: clear_session_def)

lemma request_header_clear [simp]: "request_header (clear_session st) = ss_default_auth st"
  by (simp add: clear_session_def request_header_def)

section \<open>Properties\<close>

text \<open>
  C22. Signing out does not sign the browser out of the API: \<open>logout\<close> clears the stored
  token and the user but not the axios default header that \<open>login\<close> set, so every
  later request still carries \<open>Bearer <token>\<close>, and \<open>protect\<close> accepts it as the
  user who signed out (while the token has not expired).
\<close>

theorem logout_keeps_bearer:
  assumes tok: "tok \<noteq> []" "CHR '' '' \<notin> set tok" and v: "verify tok = Some (string_of_oid i)"
    and i: "i < 16 ^ 24" and acc: "users s i = Some acc"
  shows "request_header (logout (login (Some (tok, u)) us st)) = Some (auth_header tok) \<and>
    protect verify s (request_header (logout (login (Some (tok, u)) us st))) =
      Inr \<lparr>p_id = i, p_role = u_role acc\<rparr>"
proof -
  have h: "request_header (logout (login (Some (tok, u)) us st)) = Some (auth_header tok)"
    using request_header_login [OF tok(1), of "Some (tok, u)" u us st] by (simp add: logout_def)
  moreover have "protect verify s (Some (auth_header tok)) = Inr \<lparr>p_id = i, p_role = u_role acc\<rparr>"
    using tok v i acc by (simp add: protect_def bearer_token_auth_header)
  ultimately show ?thesis by simp
qed

theorem logout_keeps_bearer_witness:
  "protect (\<lambda>t. if t = ''abc.def.ghi'' then Some (string_of_oid 2) else None) demo_db
     (request_header (logout (login (Some (''abc.def.ghi'', demo_cuser)) None (initial_session None)))) =
   Inr \<lparr>p_id = 2, p_role = User\<rparr>"
proof -
  have "''abc.def.ghi'' \<noteq> []" "CHR '' '' \<notin> set ''abc.def.ghi''" by simp_all
  moreover have "(\<lambda>t. if t = ''abc.def.ghi'' then Some (string_of_oid 2) else None) ''abc.def.ghi'' =
      Some (string_of_oid 2)" by simp
  moreover have "(2::nat) < 16 ^ 24" by simp
  moreover have "users demo_db 2 = Some \<lparr>u_name = ''Bo'', u_email = ''bo@example.com'', u_role = User, u_tasks = [], u_password = ''h:bo''\<rparr>"
    by (simp add: demo_defs)
  ultimately show ?thesis
    using logout_keeps_bearer [where u = demo_cuser and us = None and st = "initial_session None"]
    by simp
qed

text \<open>
  \<open>deleteUser\<close> sends \<open>DELETE /auth/users/:id\<close> (then reloads the user list)
  exactly when the signed-in user is an administrator deleting someone else.
\<close>

theorem deleteUser_guard:
  "deleteUser st uid = Inr cs \<longleftrightarrow>
     (\<exists>u. ss_user st = Some u \<and> cu_role u = Admin \<and> cu_id u \<noteq> uid) \<and> cs = [Delete_user uid, Get_users]"
  by (auto simp: deleteUser_def split: option.splits)

text \<open>
  C23. For an administrator, \<open>updateUser\<close> on any user sends the same requests as on
  themself: \<open>PUT /auth/profile\<close> names no user, so editing another user updates the
  administrator's own profile.
\<close>

theorem updateUser_ignores_target:
  assumes "ss_user st = Some u" and "cu_role u = Admin"
  shows "updateUser st uid = Inr [Put_profile, Get_users] \<and> updateUser st uid = updateUser st (cu_id u)"
  using assms by (simp add: updateUser_def)

theorem updateUser_ignores_target_witness:
  "updateUser (login (Some (''tok'', \<lparr>cu_id = ''a1'', cu_name = ''Ada'', cu_email = ''ada@example.com'', cu_role = Admin\<rparr>)) None (initial_session None)) ''b2''
     = Inr [Put_profile, Get_users]"
proof -
  let ?st = "login (Some (''tok'', \<lparr>cu_id = ''a1'', cu_name = ''Ada'', cu_email = ''ada@example.com'', cu_role = Admin\<rparr>)) None (initial_session None)"
  have "ss_user ?st = Some \<lparr>cu_id = ''a1'', cu_name = ''Ada'', cu_email = ''ada@example.com'', cu_role = Admin\<rparr>"
    by (simp add: login_def admin_users_def setAuthToken_def)
  from updateUser_ignores_target [OF this] show ?thesis by simp
qed

text \<open>
  C25. \<open>ProtectedRoute\<close> renders its page exactly for a signed-in user who is an
  administrator or on a page that does not require one, and sends everyone else who is
  not signed in to the login page.
\<close>

theorem protected_route_outcomes:
  "(protected_route st ra = Render \<longleftrightarrow> (\<exists>u. ss_user st = Some u \<and> (ra \<longrightarrow> cu_role u = Admin))) \<and>
   (protected_route st ra = Navigate_login \<longleftrightarrow> ss_user st = None)"
  by (auto simp: protected_route_def split: option.splits)

theorem protected_route_outcomes_witness:
  "protected_route (login (Some (''tok'', demo_cuser)) None (initial_session None)) True \<noteq> Render"
proof -
  have "ss_user (login (Some (''tok'', demo_cuser)) None (initial_session None)) = Some demo_cuser"
    by (simp add: login_def admin_users_def setAuthToken_def)
  moreover have "cu_role demo_cuser = User" by (simp add: demo_cuser_def)
  ultimately show ?thesis
    using protected_route_outcomes [of "login (Some (''tok'', demo_cuser)) None (initial_session None)" True]
    by simp
qed

end
