(* ===== verification/UI_Common.thy ===== *)
theory UI_Common
  imports Client_Session
begin

text \<open>
  Vocabulary shared by the pages and components of \<open>src/client/src\<close>: the JavaScript
  string operations the search boxes use, the labels and percentages the pages print,
  toasts, and the calls a page makes into the task context. A page handler is modelled
  as a function from the page state to the list of context calls it makes, in order, and
  its new local state; the context calls are interpreted by the definitions of
  \<open>Client_Mirror\<close>. Characters are bytes, so the case mapping is that of ASCII.
\<close>

section \<open>Strings\<close>

text \<open>\<open>String.prototype.includes\<close>: the needle occurs at some position.\<close>

fun js_includes :: "string \<Rightarrow> string \<Rightarrow> bool" where
  "js_includes [] q = (q = [])"
| "js_includes (c # cs) q = (take (length q) (c # cs) = q \<or> js_includes cs q)"

text \<open>
  The search predicate every task list page uses:
  \<open>task.title.toLowerCase().includes(q.toLowerCase()) ||
   task.shortDescription.toLowerCase().includes(q.toLowerCase())\<close>.
\<close>

definition matches_search :: "string \<Rightarrow> ctask \<Rightarrow> bool" where
  "matches_search q t \<longleftrightarrow>
     js_includes (js_lower (ct_title t)) (js_lower q) \<or>
     js_includes (js_lower (ct_shortDescription t)) (js_lower q)"

text \<open>\<open>String.prototype.toUpperCase\<close> on ASCII, for the avatar initials.\<close>

definition js_upper_char :: "char \<Rightarrow> char" where
  "js_upper_char c = (let n = of_char c :: nat in if 97 \<le> n \<and> n \<le> 122 then char_of (n - 32) else c)"

text \<open>\<open>String.prototype.trim\<close> on ASCII white space, and the test \<open>!s.trim()\<close>.\<close>

definition js_space :: "char \<Rightarrow> bool" where
  "js_space c \<longleftrightarrow> of_char c \<in> {9, 10, 11, 12, 13, 32 :: nat}"

definition js_trim :: "string \<Rightarrow> string" where
  "js_trim s = rev (dropWhile js_space (rev (dropWhile js_space s)))"

definition js_blank :: "string \<Rightarrow> bool" where
  "js_blank s \<longleftrightarrow> js_trim s = []"

text \<open>
  Dates are milliseconds since the epoch, in a browser whose time zone is UTC:
  \<open>d.split('T')[0]\<close> of an ISO string read back by \<open>new Date\<close> is midnight of
  the day.
\<close>

definition day_ms :: nat where
  "day_ms = 86400000"

definition day_floor :: "nat \<Rightarrow> nat" where
  "day_floor d = d - d mod day_ms"

text \<open>
  \<open>getAssignedToName\<close> and \<open>getCreatedByName\<close> of the task context (lines
  121--128): a lookup in \<open>allUsers\<close> of the authentication context, with a fallback.
\<close>

definition user_name :: "string \<Rightarrow> cuser list \<Rightarrow> string \<Rightarrow> string" where
  "user_name dflt us uid = (case find (\<lambda>u. cu_id u = uid) us of Some u \<Rightarrow> cu_name u | None \<Rightarrow> dflt)"

definition getAssignedToName :: "cuser list \<Rightarrow> string \<Rightarrow> string" where
  "getAssignedToName us uid = user_name ''Unassigned'' us uid"

definition getCreatedByName :: "cuser list \<Rightarrow> string \<Rightarrow> string" where
  "getCreatedByName us uid = user_name ''Unknown'' us uid"

section \<open>Labels\<close>

text \<open>
  \<open>task.status === 'todo' ? 'To Do' : task.status === 'inProgress' ? 'In Progress' :
  'Completed'\<close>, printed by every card and list.
\<close>

fun status_label :: "status \<Rightarrow> string" where
  "status_label Todo = ''To Do''"
| "status_label InProgress = ''In Progress''"
| "status_label Completed = ''Completed''"

text \<open>\<open>priority.charAt(0).toUpperCase() + priority.slice(1)\<close>.\<close>

fun priority_label :: "priority \<Rightarrow> string" where
  "priority_label High = ''High''"
| "priority_label Medium = ''Medium''"
| "priority_label Low = ''Low''"

text \<open>\<open>`${n} photo${n !== 1 ? 's' : ''}`\<close> and the same for tasks.\<close>

definition plural :: "nat \<Rightarrow> string \<Rightarrow> string" where
  "plural n w = w @ (if n \<noteq> 1 then ''s'' else [])"

text \<open>
  \<open>n > 0 ? Math.round((c / n) * 100) : 0\<close>, the completion rates of the dashboards,
  the users page and the insights panel. The quotient is taken exactly (the floating-point
  rounding of \<open>c / n * 100\<close> is not modelled); \<open>Math.round\<close> rounds halves up.
\<close>

definition percent_round :: "nat \<Rightarrow> nat \<Rightarrow> nat" where
  "percent_round c n = (if n = 0 then 0 else (200 * c + n) div (2 * n))"

section \<open>Toasts and calls into the context\<close>

text \<open>
  \<open>toast({title, description})\<close>, with \<open>variant: 'destructive'\<close> or not; the
  last kind prints the server's \<open>message\<close>.
\<close>

datatype toast = Toast string string | Toast_error string string | Toast_reply_error string message

text \<open>The form of a new task on the two admin pages (\<open>newTask\<close>).\<close>

record task_form =
  f_title :: string
  f_shortDescription :: string
  f_longDescription :: string
  f_deadline :: string
  f_status :: status
  f_priority :: priority
  f_assignedTo :: string
  f_group :: task_group

text \<open>
  The context functions a page calls, with their arguments. \<open>Call_addTask\<close> carries the
  object passed to \<open>addTask\<close> (the form and its \<open>createdBy\<close>).
\<close>

datatype ctx_call =
    Call_addTask task_form string
  | Call_deleteTask string
  | Call_updateTask string ctask_patch
  | Call_updateTaskStatus string status
  | Call_addTaskPhoto string string "string option"
  | Call_deleteTaskPhoto string "string option"
  | Call_addTaskComment string string
  | Call_deleteTaskComment string "string option"

text \<open>
  What a handler does, in order: a call into the task context, a toast, a call of a
  callback its parent passed (\<open>onDelete\<close>, \<open>onPhotoUpload\<close>), or a call into
  the authentication context (\<open>updateUser(id, {name, email, role})\<close>,
  \<open>deleteUser(id)\<close>).
\<close>

datatype effect =
    Call ctx_call
  | Notify toast
  | Parent_delete string
  | Parent_photo_upload string
  | Auth_updateUser string string string role
  | Auth_deleteUser string

text \<open>
  An edit of one field of a task held in a form (\<open>setEditedTask({...editedTask, f: v})\<close>),
  dates as the instant the date input denotes.
\<close>

datatype task_edit =
    Edit_title string
  | Edit_short string
  | Edit_long string
  | Edit_deadline nat
  | Edit_priority priority
  | Edit_status status
  | Edit_group task_group
  | Edit_assignee string

fun apply_edit :: "task_edit \<Rightarrow> ctask \<Rightarrow> ctask" where
  "apply_edit (Edit_title x) t = t\<lparr>ct_title := x\<rparr>"
| "apply_edit (Edit_short x) t = t\<lparr>ct_shortDescription := x\<rparr>"
| "apply_edit (Edit_long x) t = t\<lparr>ct_longDescription := Some x\<rparr>"
| "apply_edit (Edit_deadline x) t = t\<lparr>ct_deadline := x\<rparr>"
| "apply_edit (Edit_priority x) t = t\<lparr>ct_priority := x\<rparr>"
| "apply_edit (Edit_status x) t = t\<lparr>ct_status := x\<rparr>"
| "apply_edit (Edit_group x) t = t\<lparr>ct_group := Some x\<rparr>"
| "apply_edit (Edit_assignee x) t = t\<lparr>ct_assignedTo := x\<rparr>"

text \<open>\<open>isAdmin\<close> of the authentication context: \<open>currentUser?.role === 'admin'\<close>.\<close>

definition is_admin :: "cuser option \<Rightarrow> bool" where
  "is_admin cu \<longleftrightarrow> (case cu of None \<Rightarrow> False | Some u \<Rightarrow> cu_role u = Admin)"

text \<open>
  The body \<open>api.createTask\<close> sends for a form: JSON of the form's fields. Mongoose casts
  the date string (\<open>date_cast\<close>, a parameter) and the assignee id; \<open>createdBy\<close> is in
  the body but the handler ignores it.
\<close>

definition form_body :: "(string \<Rightarrow> nat option) \<Rightarrow> task_form \<Rightarrow> task_body" where
  "form_body date_cast f =
     \<lparr>b_title = Some (f_title f), b_shortDescription = Some (f_shortDescription f),
      b_longDescription = Some (f_longDescription f), b_priority = Some (string_of_priority (f_priority f)),
      b_deadline = date_cast (f_deadline f), b_status = Some (string_of_status (f_status f)),
      b_assignedTo = oid_of_string (f_assignedTo f), b_group = Some (string_of_group (f_group f))\<rparr>"

text \<open>
  The local effect of a call on the task context (\<open>Client_Mirror\<close>): the clock and the
  random ids are parameters; \<open>Call_addTask\<close> has no local effect before the server's
  reply, which \<open>addTask\<close> of the mirror applies.
\<close>

definition run_call :: "nat \<Rightarrow> string \<Rightarrow> ctx_call \<Rightarrow> client \<Rightarrow> client" where
  "run_call now rid k c =
     (case k of
        Call_addTask _ _ \<Rightarrow> c
      | Call_deleteTask tid \<Rightarrow> deleteTask_ctx tid c
      | Call_updateTask tid q \<Rightarrow> updateTask_ctx tid q now c
      | Call_updateTaskStatus tid st \<Rightarrow> updateTaskStatus tid st now c
      | Call_addTaskPhoto tid url cap \<Rightarrow> addTaskPhoto tid url cap rid now c
      | Call_deleteTaskPhoto tid pid \<Rightarrow> deleteTaskPhoto_ctx tid pid now c
      | Call_addTaskComment tid txt \<Rightarrow> addTaskComment tid txt rid now c
      | Call_deleteTaskComment tid cid \<Rightarrow> deleteTaskComment tid cid now c)"

text \<open>The requests a list of calls sends to the server: only \<open>addTask\<close> sends one.\<close>

definition sent_creates :: "ctx_call list \<Rightarrow> (task_form \<times> string) list" where
  "sent_creates ks = concat (map (\<lambda>k. case k of Call_addTask f cb \<Rightarrow> [(f, cb)] | _ \<Rightarrow> []) ks)"

text \<open>
  A parent wires a child's callbacks to its own handlers: \<open>route_parent ondel onup\<close>
  replaces each callback effect by the effects of the parent's handler.
\<close>

definition route_parent ::
  "(string \<Rightarrow> effect list) \<Rightarrow> (string \<Rightarrow> effect list) \<Rightarrow> effect list \<Rightarrow> effect list" where
  "route_parent ondel onup es =
     concat (map (\<lambda>e. case e of Parent_delete t \<Rightarrow> ondel t | Parent_photo_upload t \<Rightarrow> onup t | _ \<Rightarrow> [e]) es)"

text \<open>The local effect of a list of effects on the task context, in order.\<close>

definition run_effects :: "nat \<Rightarrow> string \<Rightarrow> effect list \<Rightarrow> client \<Rightarrow> client" where
  "run_effects now rid es c = foldl (\<lambda>c e. case e of Call k \<Rightarrow> run_call now rid k c | _ \<Rightarrow> c) c es"

text \<open>The calls among a list of effects.\<close>

definition calls :: "effect list \<Rightarrow> ctx_call list" where
  "calls es = concat (map (\<lambda>e. case e of Call k \<Rightarrow> [k] | _ \<Rightarrow> []) es)"

section \<open>Lemmas\<close>

lemma status_round_trip [simp]: "status_of_string (string_of_status s) = Some s"
  by (cases s) simp_all

lemma priority_round_trip [simp]: "priority_of_string (string_of_priority p) = Some p"
  by (cases p) simp_all

lemma group_round_trip [simp]: "group_of_string (string_of_group g) = Some g"
  by (cases g) simp_all

lemma route_parent_no_callbacks [simp]:
  "route_parent ondel onup [Call k, Notify n] = [Call k, Notify n]"
  by (simp add: route_parent_def)

lemma run_effects_call_notify [simp]:
  "run_effects now rid [Call k, Notify n] c = run_call now rid k c"
  by (simp add: run_effects_def)

text \<open>The rounded percentage is at most 100 for a part of the whole, and nearest to it.\<close>

lemma percent_round_le: "c \<le> n \<Longrightarrow> percent_round c n \<le> 100"
  by (auto simp: percent_round_def intro!: less_Suc_eq_le [THEN iffD1] less_mult_imp_div_less)

lemma percent_round_nearest:
  assumes "0 < n"
  shows "2 * n * percent_round c n \<le> 200 * c + n \<and> 200 * c + n < 2 * n * (percent_round c n + 1)"
proof -
  let ?x = "200 * c + n" and ?d = "2 * n"
  have d: "0 < ?d" using assms by simp
  have q: "percent_round c n = ?x div ?d" using assms by (simp add: percent_round_def)
  have "?d * (?x div ?d) + ?x mod ?d = ?x" by (rule mult_div_mod_eq)
  moreover have "?x mod ?d < ?d" using d by (rule mod_less_divisor)
  ultimately show ?thesis unfolding q by (metis add_mult_distrib2 le_add1 nat_add_left_cancel_less mult_1_right)
qed

section \<open>Properties\<close>

text \<open>
  C31. The new-task form has the types the schema wants: the body \<open>api.createTask\<close>
  sends for a form is accepted by \<open>Task.create\<close> exactly when the title and the short
  description are non-empty, the date string casts to a date and the assignee string to
  an \<open>ObjectId\<close>; the status, priority and group the selects offer are always valid
  enum values.
\<close>

theorem form_body_accepted:
  "(\<exists>t. new_task (form_body dc f) uid now = Inr t) \<longleftrightarrow>
     f_title f \<noteq> [] \<and> f_shortDescription f \<noteq> [] \<and> dc (f_deadline f) \<noteq> None \<and> oid_of_string (f_assignedTo f) \<noteq> None"
  by (simp add: new_task_def form_body_def with_default_def split: option.splits
      del: status_of_string.simps priority_of_string.simps group_of_string.simps)

end
