(* ===== verification/UI_Cards.thy ===== *)
theory UI_Cards
  imports UI_Common
begin

text \<open>
  The task components of \<open>src/client/src/components\<close>: \<open>TaskCard\<close>,
  \<open>EnhancedTaskCard\<close>, \<open>TaskDetailView\<close>, \<open>TaskDetail\<close>, \<open>TaskComments\<close>,
  \<open>TaskPhotoGallery\<close>, \<open>EditTaskForm\<close> and the \<open>Sidebar\<close>. A component is its
  props (a record), its local state (a record, with the \<open>useState\<close> initial values), a
  step function from a user event to the effects it has and the new local state, and a
  view function giving what it renders. An event on a control the view does not render
  changes nothing. Rendering that can throw returns \<open>None\<close>. The lemmas at the end
  show what the components do with the data the server sends: the card's edit dialog is
  never opened, a fetched comment makes the comment list throw, deleting a fetched photo
  from the gallery removes them all, and the edit form moves the deadline to midnight.
\<close>

section \<open>TaskCard\<close>

record card_props =
  tc_task :: ctask
  tc_onDelete :: bool
  tc_showEditOptions :: bool
  tc_onPhotoUpload :: bool

record card_state =
  cs_editedTask :: ctask
  cs_isEditing :: bool
  cs_editDialog :: bool
  cs_deleteDialog :: bool
  cs_photosDialog :: bool

text \<open>
  \<open>useState(task)\<close> and the closed dialogs: the snapshot \<open>editedTask\<close> is taken
  once, when the card mounts, and is not refreshed when the \<open>task\<close> prop changes.
\<close>

definition card_init :: "ctask \<Rightarrow> card_state" where
  "card_init t =
     \<lparr>cs_editedTask = t, cs_isEditing = False, cs_editDialog = False, cs_deleteDialog = False,
      cs_photosDialog = False\<rparr>"

text \<open>\<open>canEdit = isAdmin || (currentUser && currentUser.id === task.assignedTo)\<close>.\<close>

definition card_canEdit :: "cuser option \<Rightarrow> ctask \<Rightarrow> bool" where
  "card_canEdit cu t \<longleftrightarrow>
     is_admin cu \<or> (case cu of None \<Rightarrow> False | Some u \<Rightarrow> cu_id u = ct_assignedTo t)"

text \<open>
  \<open>updateTask(task.id, editedTask)\<close> passes a whole \<open>Task\<close>: every key of the
  snapshot is in the patch (an undefined optional field is an absent key).
\<close>

definition full_patch :: "ctask \<Rightarrow> ctask_patch" where
  "full_patch t =
     \<lparr>cq_title = Some (ct_title t), cq_shortDescription = Some (ct_shortDescription t),
      cq_longDescription = ct_longDescription t, cq_deadline = Some (ct_deadline t),
      cq_status = Some (ct_status t), cq_priority = Some (ct_priority t),
      cq_assignedTo = Some (ct_assignedTo t), cq_group = ct_group t,
      cq_photos = Some (ct_photos t), cq_comments = Some (ct_comments t)\<rparr>"

text \<open>The user events a card handles.\<close>

datatype card_event =
    Card_status status
  | Card_toggle_edit
  | Card_edit task_edit
  | Card_open_delete
  | Card_cancel_delete
  | Card_confirm_delete
  | Card_upload
  | Card_open_photos
  | Card_close_photos
  | Card_save_edit

text \<open>The buttons of the card's header and the status select, as the view renders them.\<close>

datatype card_control = Btn_edit | Btn_delete | Btn_upload | Btn_photos nat | Status_select

definition card_controls :: "cuser option \<Rightarrow> ctask list \<Rightarrow> card_props \<Rightarrow> card_control list" where
  "card_controls cu ts p =
     (let t = tc_task p; n = length (getTaskPhotos (ct_id t) ts) in
      (if tc_showEditOptions p \<and> is_admin cu then [Btn_edit, Btn_delete] else []) @
      (if \<not> is_admin cu \<and> (case cu of None \<Rightarrow> False | Some u \<Rightarrow> ct_assignedTo t = cu_id u)
       then [Btn_upload] else []) @
      (if 0 < n then [Btn_photos n] else []) @
      (if card_canEdit cu t \<and> \<not> is_admin cu then [Status_select] else []))"

text \<open>
  The fields the inline editor changes (title and short description), and those of the
  edit dialog, whose assignee select offers the two fixed ids \<open>"2"\<close> and
  \<open>"3"\<close> only. Nothing sets \<open>isEditDialogOpen\<close> to true, so the dialog never opens.
\<close>

fun card_inline_edit :: "task_edit \<Rightarrow> bool" where
  "card_inline_edit (Edit_title _) = True"
| "card_inline_edit (Edit_short _) = True"
| "card_inline_edit _ = False"

fun card_dialog_edit :: "task_edit \<Rightarrow> bool" where
  "card_dialog_edit (Edit_assignee a) = (a \<in> {''2'', ''3''})"
| "card_dialog_edit _ = True"

text \<open>
  The handlers: \<open>handleStatusChange\<close>, \<open>toggleEdit\<close>, the inline inputs,
  \<open>handleDelete\<close> and its dialog, \<open>handlePhotoUploadClick\<close>, the photos dialog, and
  \<open>handleSaveEdit\<close> of the edit dialog.
\<close>

fun card_step ::
  "cuser option \<Rightarrow> ctask list \<Rightarrow> card_props \<Rightarrow> card_state \<Rightarrow> card_event \<Rightarrow> effect list \<times> card_state" where
  "card_step cu ts p st (Card_status s) =
     (if Status_select \<in> set (card_controls cu ts p)
      then ([Call (Call_updateTaskStatus (ct_id (tc_task p)) s),
             Notify (Toast ''Status updated'' (''Task status changed to '' @ string_of_status s))], st)
      else ([], st))"
| "card_step cu ts p st Card_toggle_edit =
     (if Btn_edit \<in> set (card_controls cu ts p)
      then ((if cs_isEditing st
             then [Call (Call_updateTask (ct_id (tc_task p)) (full_patch (cs_editedTask st))),
                   Notify (Toast ''Task updated'' ''The task has been successfully updated.'')]
             else []), st\<lparr>cs_isEditing := \<not> cs_isEditing st\<rparr>)
      else ([], st))"
| "card_step cu ts p st (Card_edit e) =
     (if (cs_isEditing st \<and> card_inline_edit e) \<or> (cs_editDialog st \<and> card_dialog_edit e)
      then ([], st\<lparr>cs_editedTask := apply_edit e (cs_editedTask st)\<rparr>) else ([], st))"
| "card_step cu ts p st Card_open_delete =
     (if Btn_delete \<in> set (card_controls cu ts p) then ([], st\<lparr>cs_deleteDialog := True\<rparr>) else ([], st))"
| "card_step cu ts p st Card_cancel_delete = ([], st\<lparr>cs_deleteDialog := False\<rparr>)"
| "card_step cu ts p st Card_confirm_delete =
     (if cs_deleteDialog st
      then ((if tc_onDelete p then [Parent_delete (ct_id (tc_task p))] else []),
            st\<lparr>cs_deleteDialog := False\<rparr>)
      else ([], st))"
| "card_step cu ts p st Card_upload =
     (if Btn_upload \<in> set (card_controls cu ts p) \<and> tc_onPhotoUpload p
      then ([Parent_photo_upload (ct_id (tc_task p))], st) else ([], st))"
| "card_step cu ts p st Card_open_photos =
     (if 0 < length (getTaskPhotos (ct_id (tc_task p)) ts)
      then ([], st\<lparr>cs_photosDialog := True\<rparr>) else ([], st))"
| "card_step cu ts p st Card_close_photos = ([], st\<lparr>cs_photosDialog := False\<rparr>)"
| "card_step cu ts p st Card_save_edit =
     (if cs_editDialog st
      then ([Call (Call_updateTask (ct_id (tc_task p)) (full_patch (cs_editedTask st))),
             Notify (Toast ''Task updated'' ''The task has been successfully updated.'')],
            st\<lparr>cs_editDialog := False, cs_isEditing := False\<rparr>)
      else ([], st))"

text \<open>A sequence of events from the mounted card, with the effects in order.\<close>

fun card_run ::
  "cuser option \<Rightarrow> ctask list \<Rightarrow> card_props \<Rightarrow> card_state \<Rightarrow> card_event list \<Rightarrow> effect list \<times> card_state" where
  "card_run cu ts p st [] = ([], st)"
| "card_run cu ts p st (e # es) =
     (let (xs, st') = card_step cu ts p st e; (ys, st'') = card_run cu ts p st' es in (xs @ ys, st''))"

text \<open>
  What the card shows: the title (or the inline inputs), the labels, the group badge,
  up to three thumbnails and the \<open>+n more\<close> count.
\<close>

record card_view =
  cv_title :: string
  cv_inline :: "(string \<times> string) option"
  cv_description :: "string option"
  cv_status :: string
  cv_priority :: string
  cv_group :: "task_group option"
  cv_controls :: "card_control list"
  cv_thumbnails :: "string option list"
  cv_more :: nat

definition card_render :: "cuser option \<Rightarrow> ctask list \<Rightarrow> card_props \<Rightarrow> card_state \<Rightarrow> card_view" where
  "card_render cu ts p st =
     (let t = tc_task p; phs = getTaskPhotos (ct_id t) ts in
      \<lparr>cv_title = ct_title t,
       cv_inline = (if cs_isEditing st
                    then Some (ct_title (cs_editedTask st), ct_shortDescription (cs_editedTask st))
                    else None),
       cv_description = (if cs_isEditing st then None else Some (ct_shortDescription t)),
       cv_status = status_label (ct_status t),
       cv_priority = priority_label (ct_priority t) @ '' Priority'',
       cv_group = ct_group t, cv_controls = card_controls cu ts p,
       cv_thumbnails = map cp_imageUrl (take 3 phs), cv_more = length phs - 3\<rparr>)"

section \<open>EditTaskForm\<close>

text \<open>
  The form's state \<open>editedTask\<close> (lines 57--66), held as a task of which the eight
  edited fields matter: the deadline cut to its day (\<open>split('T')[0]\<close>, and the
  calendar effect writes the same day back), the group defaulted to \<open>Frontend\<close>.
\<close>

definition edit_form_init :: "ctask \<Rightarrow> ctask" where
  "edit_form_init t =
     t\<lparr>ct_deadline := day_floor (ct_deadline t),
       ct_group := Some (case ct_group t of None \<Rightarrow> Frontend | Some g \<Rightarrow> g)\<rparr>"

text \<open>
  \<open>updateTask(taskId, {...editedTask, deadline: new Date(editedTask.deadline).toISOString()})\<close>:
  the eight fields, and no photos or comments.
\<close>

definition edit_form_patch :: "ctask \<Rightarrow> ctask_patch" where
  "edit_form_patch e =
     no_patch\<lparr>cq_title := Some (ct_title e), cq_shortDescription := Some (ct_shortDescription e),
       cq_longDescription := ct_longDescription e, cq_deadline := Some (ct_deadline e),
       cq_status := Some (ct_status e), cq_priority := Some (ct_priority e),
       cq_assignedTo := Some (ct_assignedTo e), cq_group := ct_group e\<rparr>"

datatype form_event = Form_edit task_edit | Form_save | Form_cancel

text \<open>
  The form's handlers: the inputs (the assignee select lists \<open>allUsers\<close>),
  \<open>handleSave\<close> with its title check, and Cancel. The result carries the effects, the
  new state and whether the form called \<open>onSave\<close> or \<open>onCancel\<close>. When the task is
  not in the list the form shows \<open>Task not found!\<close> and only Close.
\<close>

fun edit_form_step ::
  "cuser list \<Rightarrow> string \<Rightarrow> ctask list \<Rightarrow> ctask \<Rightarrow> form_event \<Rightarrow> effect list \<times> ctask \<times> bool" where
  "edit_form_step us tid ts e (Form_edit x) =
     (if find_ctask tid ts \<noteq> None \<and> (case x of Edit_assignee a \<Rightarrow> a \<in> cu_id ` set us | _ \<Rightarrow> True)
      then ([], apply_edit x e, False) else ([], e, False))"
| "edit_form_step us tid ts e Form_save =
     (if find_ctask tid ts = None then ([], e, False)
      else if js_blank (ct_title e)
      then ([Notify (Toast_error ''Validation Error'' ''Task title is required'')], e, False)
      else ([Call (Call_updateTask tid (edit_form_patch e)),
             Notify (Toast ''Task updated'' ''Your task has been successfully updated.'')], e, True))"
| "edit_form_step us tid ts e Form_cancel = ([], e, True)"

section \<open>EnhancedTaskCard\<close>

text \<open>\<open>canEditTask\<close> (lines 36--39).\<close>

definition canEditTask :: "cuser option \<Rightarrow> ctask \<Rightarrow> bool" where
  "canEditTask cu t = (case cu of None \<Rightarrow> False | Some u \<Rightarrow> cu_role u = Admin \<or> ct_assignedTo t = cu_id u)"

text \<open>\<open>isOverdue\<close> (lines 48--53; \<open>TaskDetailView\<close> has the same function).\<close>

definition isOverdue :: "nat \<Rightarrow> ctask \<Rightarrow> bool" where
  "isOverdue now t \<longleftrightarrow> ct_status t \<noteq> Completed \<and> ct_deadline t < now"

datatype ecard_control = Ec_edit | Ec_delete | Ec_upload | Ec_complete

text \<open>The footer's buttons (lines 181--266).\<close>

definition ecard_controls :: "cuser option \<Rightarrow> card_props \<Rightarrow> ecard_control list" where
  "ecard_controls cu p =
     (let t = tc_task p; ok = canEditTask cu t; sh = tc_showEditOptions p in
      (if ok \<and> sh then Ec_edit # (if tc_onDelete p then [Ec_delete] else []) else []) @
      (if ok \<and> tc_onPhotoUpload p \<and> \<not> sh then [Ec_upload] else []) @
      (if \<not> sh \<and> ok \<and> ct_status t \<noteq> Completed then [Ec_complete] else []))"

datatype ecard_event = Ec_click ecard_control | Ec_form_closed

text \<open>
  A click on a rendered button; \<open>Edit\<close> replaces the card by an \<open>EditTaskForm\<close>
  (the state is \<open>isEditing\<close>) until the form calls back.
\<close>

fun ecard_step :: "cuser option \<Rightarrow> card_props \<Rightarrow> bool \<Rightarrow> ecard_event \<Rightarrow> effect list \<times> bool" where
  "ecard_step cu p ed (Ec_click b) =
     (if ed \<or> b \<notin> set (ecard_controls cu p) then ([], ed)
      else (case b of
              Ec_edit \<Rightarrow> ([], True)
            | Ec_delete \<Rightarrow> ([Parent_delete (ct_id (tc_task p))], ed)
            | Ec_upload \<Rightarrow> ([Parent_photo_upload (ct_id (tc_task p))], ed)
            | Ec_complete \<Rightarrow> ([Call (Call_updateTaskStatus (ct_id (tc_task p)) Completed)], ed)))"
| "ecard_step cu p ed Ec_form_closed = ([], False)"

record ecard_view =
  ev_status :: string
  ev_priority :: string
  ev_description :: string
  ev_deadline :: nat
  ev_overdue :: bool
  ev_group :: "task_group option"
  ev_updated :: "(nat \<times> string) option"
  ev_comments :: nat
  ev_createdBy :: string
  ev_controls :: "ecard_control list"

datatype ecard_screen = Shows_form string | Shows_card ecard_view

text \<open>The card's body (lines 93--271).\<close>

definition ecard_render ::
  "cuser option \<Rightarrow> cuser list \<Rightarrow> nat \<Rightarrow> ctask list \<Rightarrow> card_props \<Rightarrow> bool \<Rightarrow> ecard_screen" where
  "ecard_render cu us now ts p ed =
     (let t = tc_task p in
      if ed then Shows_form (ct_id t)
      else Shows_card
        \<lparr>ev_status = status_label (ct_status t), ev_priority = priority_label (ct_priority t),
         ev_description = ct_shortDescription t, ev_deadline = ct_deadline t,
         ev_overdue = isOverdue now t, ev_group = ct_group t,
         ev_updated = (case ct_lastUpdated t of None \<Rightarrow> None
                       | Some d \<Rightarrow> Some (d, case ct_lastUpdatedBy t of None \<Rightarrow> ''Unknown''
                                            | Some b \<Rightarrow> getCreatedByName us b)),
         ev_comments = length (getTaskComments (ct_id t) ts),
         ev_createdBy = getCreatedByName us (ct_createdBy t), ev_controls = ecard_controls cu p\<rparr>)"

section \<open>TaskDetailView\<close>

datatype detail_control = Dv_edit | Dv_complete | Dv_delete | Dv_start | Dv_back

text \<open>
  The buttons (lines 272--335, and Go Back of the not-found card, lines 58--63): with
  \<open>canEditTask\<close>, Edit, Mark Complete unless completed, Delete for an administrator
  given \<open>onDelete\<close>; Start Working for a task still to do. \<open>None\<close> is the
  not-found card.
\<close>

definition detail_controls :: "cuser option \<Rightarrow> bool \<Rightarrow> bool \<Rightarrow> ctask option \<Rightarrow> detail_control list" where
  "detail_controls cu onDel onBack ot =
     (case ot of
        None \<Rightarrow> (if onBack then [Dv_back] else [])
      | Some t \<Rightarrow>
          (if canEditTask cu t
           then Dv_edit # (if ct_status t \<noteq> Completed then [Dv_complete] else []) @
                (if onDel \<and> is_admin cu then [Dv_delete] else [])
           else []) @
          (if ct_status t \<noteq> Completed \<and> ct_status t \<noteq> InProgress \<and> canEditTask cu t
           then [Dv_start] else []))"

text \<open>\<open>handleUpdateStatus\<close> (lines 90--97).\<close>

definition detail_handleUpdateStatus :: "string \<Rightarrow> status \<Rightarrow> effect list" where
  "detail_handleUpdateStatus tid st =
     [Call (Call_updateTaskStatus tid st),
      Notify (Toast ''Status updated'' (''Task status changed to '' @ status_label st))]"

datatype detail_event = Dv_click detail_control | Dv_form_closed

text \<open>
  The view's events; \<open>isEditing\<close> shows an \<open>EditTaskForm\<close> instead
  (lines 105--113), and Back calls the parent's \<open>onBack\<close> (no effect here).
\<close>

fun detail_step ::
  "cuser option \<Rightarrow> bool \<Rightarrow> bool \<Rightarrow> string \<Rightarrow> ctask list \<Rightarrow> bool \<Rightarrow> detail_event \<Rightarrow> effect list \<times> bool" where
  "detail_step cu onDel onBack tid ts ed (Dv_click b) =
     (if ed \<or> b \<notin> set (detail_controls cu onDel onBack (find_ctask tid ts)) then ([], ed)
      else (case b of
              Dv_edit \<Rightarrow> ([], True)
            | Dv_complete \<Rightarrow> (detail_handleUpdateStatus tid Completed, ed)
            | Dv_delete \<Rightarrow> ([Parent_delete tid], ed)
            | Dv_start \<Rightarrow> (detail_handleUpdateStatus tid InProgress, ed)
            | Dv_back \<Rightarrow> ([], ed)))"
| "detail_step cu onDel onBack tid ts ed Dv_form_closed = ([], False)"

section \<open>TaskComments\<close>

text \<open>\<open>canDeleteComment\<close> (lines 64--67).\<close>

definition canDeleteComment :: "cuser option \<Rightarrow> ccomment \<Rightarrow> bool" where
  "canDeleteComment cu c =
     (case cu of None \<Rightarrow> False | Some u \<Rightarrow> cu_role u = Admin \<or> cc_createdBy c = Some (cu_id u))"

text \<open>
  One rendered comment: the avatar \<open>comment.createdByName.charAt(0).toUpperCase()\<close>,
  the name, the text and the delete button. Reading \<open>charAt\<close> of \<open>undefined\<close>
  throws, so a comment without \<open>createdByName\<close> does not render.
\<close>

record comment_row =
  cr_initial :: string
  cr_name :: string
  cr_text :: "string option"
  cr_delete :: bool

definition comment_row :: "cuser option \<Rightarrow> ccomment \<Rightarrow> comment_row option" where
  "comment_row cu c =
     (case cc_createdByName c of
        None \<Rightarrow> None
      | Some n \<Rightarrow> Some \<lparr>cr_initial = map js_upper_char (take 1 n), cr_name = n, cr_text = cc_text c,
                        cr_delete = canDeleteComment cu c\<rparr>)"

text \<open>The list (lines 79--120): the whole component throws if one comment does.\<close>

definition comments_view :: "cuser option \<Rightarrow> string \<Rightarrow> ctask list \<Rightarrow> comment_row list option" where
  "comments_view cu tid ts = those (map (comment_row cu) (getTaskComments tid ts))"

datatype comments_event = Comment_type string | Comment_add | Comment_delete nat

text \<open>
  \<open>handleAddComment\<close> and \<open>handleDeleteComment\<close> (lines 25--51); the state is
  \<open>commentText\<close>; the Add button is disabled without a signed-in user, and a delete
  button exists only on a rendered comment the user may delete.
\<close>

fun comments_step ::
  "cuser option \<Rightarrow> string \<Rightarrow> ctask list \<Rightarrow> string \<Rightarrow> comments_event \<Rightarrow> effect list \<times> string" where
  "comments_step cu tid ts txt (Comment_type x) = ([], x)"
| "comments_step cu tid ts txt Comment_add =
     (if cu = None then ([], txt)
      else if js_blank txt
      then ([Notify (Toast_error ''Cannot submit empty comment'' ''Please enter some text for your comment.'')], txt)
      else ([Call (Call_addTaskComment tid txt),
             Notify (Toast ''Comment added'' ''Your comment has been added successfully.'')], []))"
| "comments_step cu tid ts txt (Comment_delete i) =
     (case comments_view cu tid ts of
        Some rows \<Rightarrow>
          if i < length rows \<and> cr_delete (rows ! i)
          then ([Call (Call_deleteTaskComment tid (cc_id (getTaskComments tid ts ! i))),
                 Notify (Toast ''Comment deleted'' ''The comment has been removed.'')], txt)
          else ([], txt)
      | None \<Rightarrow> ([], txt))"

section \<open>TaskPhotoGallery\<close>

record gallery_state =
  g_url :: string
  g_caption :: string
  g_selected :: "cphoto option"

definition gallery_init :: gallery_state where
  "gallery_init = \<lparr>g_url = [], g_caption = [], g_selected = None\<rparr>"

datatype gallery_event =
    Gallery_url string | Gallery_caption string | Gallery_add | Gallery_cancel
  | Gallery_select nat | Gallery_delete | Gallery_close

text \<open>
  \<open>handleAddPhoto\<close> (lines 28--50: a blank URL is refused, a blank caption is
  \<open>undefined\<close>), the Cancel button, the thumbnails that select a photo, and
  \<open>handleDeletePhoto\<close> (lines 52--60) of the selected photo, which passes its
  \<open>id\<close>.
\<close>

fun gallery_step ::
  "string \<Rightarrow> ctask list \<Rightarrow> gallery_state \<Rightarrow> gallery_event \<Rightarrow> effect list \<times> gallery_state" where
  "gallery_step tid ts g (Gallery_url x) = ([], g\<lparr>g_url := x\<rparr>)"
| "gallery_step tid ts g (Gallery_caption x) = ([], g\<lparr>g_caption := x\<rparr>)"
| "gallery_step tid ts g Gallery_add =
     (if js_blank (g_url g)
      then ([Notify (Toast_error ''Image URL required'' ''Please enter a valid image URL.'')], g)
      else ([Call (Call_addTaskPhoto tid (g_url g)
                    (if js_trim (g_caption g) = [] then None else Some (js_trim (g_caption g)))),
             Notify (Toast ''Photo added'' ''Your photo has been added to the task.'')],
            g\<lparr>g_url := [], g_caption := []\<rparr>))"
| "gallery_step tid ts g Gallery_cancel = ([], g\<lparr>g_url := [], g_caption := []\<rparr>)"
| "gallery_step tid ts g (Gallery_select i) =
     (if i < length (getTaskPhotos tid ts) then ([], g\<lparr>g_selected := Some (getTaskPhotos tid ts ! i)\<rparr>)
      else ([], g))"
| "gallery_step tid ts g Gallery_delete =
     (case g_selected g of
        None \<Rightarrow> ([], g)
      | Some ph \<Rightarrow> ([Call (Call_deleteTaskPhoto tid (cp_id ph)),
                    Notify (Toast ''Photo deleted'' ''The photo has been removed from the task.'')],
                   g\<lparr>g_selected := None\<rparr>))"
| "gallery_step tid ts g Gallery_close = ([], g\<lparr>g_selected := None\<rparr>)"

section \<open>TaskDetail\<close>

text \<open>
  \<open>TaskDetail\<close> reads \<open>task.dependsOn\<close>, a field of the client's \<open>Task\<close> that
  neither the server schema nor any client code sets; it is the parameter \<open>deps\<close>.
  \<open>dependentTasks\<close> (lines 43--45).
\<close>

definition dependentTasks :: "string list option \<Rightarrow> ctask list \<Rightarrow> ctask list" where
  "dependentTasks deps ts = (case deps of None \<Rightarrow> [] | Some ds \<Rightarrow> filter (\<lambda>t. ct_id t \<in> set ds) ts)"

text \<open>
  \<open>handleStatusChange\<close> (lines 65--84): a warning when an unfinished dependency
  remains, and the change is made anyway.
\<close>

definition taskdetail_handleStatusChange ::
  "string list option \<Rightarrow> ctask list \<Rightarrow> string \<Rightarrow> status \<Rightarrow> effect list" where
  "taskdetail_handleStatusChange deps ts tid st =
     (if st = InProgress \<and> deps \<noteq> None \<and> deps \<noteq> Some [] \<and>
         filter (\<lambda>t. ct_status t \<noteq> Completed) (dependentTasks deps ts) \<noteq> []
      then [Notify (Toast_error ''Warning'' ''This task depends on other tasks that are not yet completed!'')]
      else []) @
     [Call (Call_updateTaskStatus tid st),
      Notify (Toast ''Status updated'' (''Task status updated to '' @ string_of_status st))]"

text \<open>\<open>handleCommentSubmit\<close> (lines 53--63): a blank comment is silently ignored.\<close>

definition taskdetail_handleCommentSubmit :: "string \<Rightarrow> string \<Rightarrow> effect list \<times> string" where
  "taskdetail_handleCommentSubmit tid txt =
     (if js_blank txt then ([], txt)
      else ([Call (Call_addTaskComment tid txt),
             Notify (Toast ''Comment added'' ''Your comment has been added to the task.'')], []))"

text \<open>
  The status badge (lines 116--119): \<open>'In Progress'\<close>, or the status with a capital
  initial, so \<open>todo\<close> reads \<open>Todo\<close> here and \<open>To Do\<close> everywhere else.
\<close>

fun taskdetail_status_label :: "status \<Rightarrow> string" where
  "taskdetail_status_label InProgress = ''In Progress''"
| "taskdetail_status_label Todo = ''Todo''"
| "taskdetail_status_label Completed = ''Completed''"

record taskdetail_state =
  td_newComment :: string
  td_viewingComments :: bool

datatype taskdetail_event =
    Td_open_comments | Td_close_comments | Td_type string | Td_submit | Td_status status

text \<open>
  The events (lines 182--281): the comments pane with its form, or the Comments button
  and one button per status other than the task's own. Nothing is rendered without a
  signed-in user.
\<close>

fun taskdetail_step ::
  "cuser option \<Rightarrow> string list option \<Rightarrow> ctask list \<Rightarrow> ctask \<Rightarrow> taskdetail_state \<Rightarrow> taskdetail_event \<Rightarrow>
   effect list \<times> taskdetail_state" where
  "taskdetail_step cu deps ts t st Td_open_comments =
     ([], if cu \<noteq> None \<and> \<not> td_viewingComments st then st\<lparr>td_viewingComments := True\<rparr> else st)"
| "taskdetail_step cu deps ts t st Td_close_comments = ([], st\<lparr>td_viewingComments := False\<rparr>)"
| "taskdetail_step cu deps ts t st (Td_type x) =
     ([], if td_viewingComments st then st\<lparr>td_newComment := x\<rparr> else st)"
| "taskdetail_step cu deps ts t st Td_submit =
     (if cu \<noteq> None \<and> td_viewingComments st
      then (let (es, x) = taskdetail_handleCommentSubmit (ct_id t) (td_newComment st)
            in (es, st\<lparr>td_newComment := x\<rparr>))
      else ([], st))"
| "taskdetail_step cu deps ts t st (Td_status s) =
     (if cu \<noteq> None \<and> \<not> td_viewingComments st \<and> s \<noteq> ct_status t
      then (taskdetail_handleStatusChange deps ts (ct_id t) s, st) else ([], st))"

text \<open>
  What renders (lines 104--287): \<open>None\<close> when the render throws, which happens when
  the comments pane is open on a comment without \<open>createdByName\<close> (line 196).
\<close>

datatype taskdetail_view =
    Td_nothing
  | Td_task string "(string \<times> bool) list" "string list" "comment_row list option"

definition taskdetail_render ::
  "cuser option \<Rightarrow> string list option \<Rightarrow> ctask list \<Rightarrow> ctask \<Rightarrow> taskdetail_state \<Rightarrow> taskdetail_view option" where
  "taskdetail_render cu deps ts t st =
     (if cu = None then Some Td_nothing
      else
        let deps_shown = map (\<lambda>d. (ct_title d, ct_status d = Completed)) (dependentTasks deps ts) in
        if td_viewingComments st
        then map_option (\<lambda>rows. Td_task (taskdetail_status_label (ct_status t)) deps_shown [] (Some rows))
               (those (map (comment_row cu) (getTaskComments (ct_id t) ts)))
        else Some (Td_task (taskdetail_status_label (ct_status t)) deps_shown
                     (map status_label (filter (\<lambda>x. x \<noteq> ct_status t) [Todo, InProgress, Completed])) None))"

section \<open>Sidebar\<close>

text \<open>
  The navigation of \<open>Sidebar\<close> (lines 35--92): for each item its text, its link and
  whether it is highlighted, given the path and the query string; nothing without a
  signed-in user.
\<close>

definition sidebar_items :: "cuser option \<Rightarrow> string \<Rightarrow> string \<Rightarrow> (string \<times> string \<times> bool) list option" where
  "sidebar_items cu path search =
     (case cu of
        None \<Rightarrow> None
      | Some u \<Rightarrow>
          let adm = is_admin cu; dash = (if adm then ''/admin-dashboard'' else ''/user-dashboard'') in
          Some ([(''Dashboard'', dash, path = dash \<or> path = ''/dashboard'')] @
                (if adm then [(''Task Management'', ''/admin-dashboard'', path = ''/task-management''),
                              (''Manage Users'', ''/users'', path = ''/users'')]
                 else [(''Upload Task Photos'', ''/user-dashboard?tab=upload'',
                        path = ''/user-dashboard'' \<and> js_includes search ''tab=upload'')]) @
                [(''Settings'', ''/settings'', path = ''/settings'')]))"

section \<open>Dialogs and detail views\<close>

text \<open>
  The photos dialog of \<open>TaskCard\<close> (lines 434--475): when open, the task's title and
  each photo's URL, caption and date.
\<close>

definition card_photos_dialog ::
  "ctask list \<Rightarrow> card_props \<Rightarrow> card_state \<Rightarrow> (string \<times> (string option \<times> string option \<times> nat) list) option" where
  "card_photos_dialog ts p st =
     (if cs_photosDialog st
      then Some (ct_title (tc_task p),
                 map (\<lambda>ph. (cp_imageUrl ph, cp_caption ph, cp_createdAt ph)) (getTaskPhotos (ct_id (tc_task p)) ts))
      else None)"

text \<open>
  The body of \<open>TaskDetailView\<close> (lines 137--268): the short id, the labels, the long
  description or its placeholder, the deadline and whether it is overdue, the names of
  the assignee and the creator, and the last update.
\<close>

record detail_view =
  dv_title :: string
  dv_ref :: string
  dv_status :: string
  dv_priority :: string
  dv_group :: "task_group option"
  dv_long :: string
  dv_deadline :: nat
  dv_overdue :: bool
  dv_assignee :: string
  dv_creator :: string
  dv_updated :: "(nat \<times> string) option"

datatype detail_screen = Detail_not_found | Detail_form string | Detail_shown detail_view

definition detail_render ::
  "cuser list \<Rightarrow> nat \<Rightarrow> ctask list \<Rightarrow> string \<Rightarrow> bool \<Rightarrow> detail_screen" where
  "detail_render us now ts tid ed =
     (case find_ctask tid ts of
        None \<Rightarrow> Detail_not_found
      | Some t \<Rightarrow>
          if ed then Detail_form tid
          else Detail_shown
            \<lparr>dv_title = ct_title t, dv_ref = take 6 (ct_id t), dv_status = status_label (ct_status t),
             dv_priority = priority_label (ct_priority t), dv_group = ct_group t,
             dv_long = (case ct_longDescription t of Some d \<Rightarrow> if d = [] then ''No detailed description provided.'' else d
                        | None \<Rightarrow> ''No detailed description provided.''),
             dv_deadline = ct_deadline t, dv_overdue = isOverdue now t,
             dv_assignee = getAssignedToName us (ct_assignedTo t), dv_creator = getCreatedByName us (ct_createdBy t),
             dv_updated = (case ct_lastUpdated t of None \<Rightarrow> None
                           | Some d \<Rightarrow> Some (d, case ct_lastUpdatedBy t of None \<Rightarrow> ''Unknown''
                                                | Some b \<Rightarrow> getCreatedByName us b))\<rparr>)"

text \<open>
  What \<open>TaskPhotoGallery\<close> shows (lines 71--233): the count, each photo's URL and
  caption, and the selected photo's details.
\<close>

definition gallery_render ::
  "string \<Rightarrow> ctask list \<Rightarrow> gallery_state \<Rightarrow>
   nat \<times> (string option \<times> string option) list \<times> (string option \<times> string option \<times> nat) option" where
  "gallery_render tid ts g =
     (let phs = getTaskPhotos tid ts in
      (length phs, map (\<lambda>ph. (cp_imageUrl ph, cp_caption ph)) phs,
       map_option (\<lambda>ph. (cp_imageUrl ph, cp_caption ph, cp_createdAt ph)) (g_selected g)))"

subsection \<open>Example cache\<close>

text \<open>Task 3 with a photo and a comment, as the administrator fetches it.\<close>

definition demo_comment :: comment where
  "demo_comment = \<lparr>cm_id = 5, cm_text = Some ''on it'', cm_createdBy = Some 2, cm_createdAt = 6\<rparr>"

definition demo_db3 :: db where
  "demo_db3 = demo_db2\<lparr>tasks := [(3, demo_task\<lparr>photos := [demo_photo], comments := [demo_comment]\<rparr>)], next_id := 6\<rparr>"

definition demo_admin_cuser :: cuser where
  "demo_admin_cuser = \<lparr>cu_id = string_of_oid 1, cu_name = ''Ada'', cu_email = ''ada@example.com'', cu_role = Admin\<rparr>"

definition demo_cache :: client where
  "demo_cache =
     \<lparr>cl_user = Some demo_admin_cuser,
      cl_tasks = [json_task 3 (demo_task\<lparr>photos := [demo_photo], comments := [demo_comment]\<rparr>)]\<rparr>"

section \<open>Lemmas on the task components\<close>

lemma card_step_no_dialog: "\<not> cs_editDialog st \<Longrightarrow> \<not> cs_editDialog (snd (card_step cu ts p st e))"
  by (cases e) (simp_all add: Let_def)

lemma card_run_no_dialog: "\<not> cs_editDialog st \<Longrightarrow> \<not> cs_editDialog (snd (card_run cu ts p st es))"
proof (induction es arbitrary: st)
  case Nil
  then show ?case by simp
next
  case (Cons e es)
  then show ?case
    using card_step_no_dialog [OF Cons.prems, of cu ts p e]
    by (simp add: Let_def split_def)
qed

lemma card_never_saves_dialog:
  "Call (Call_updateTask tid q) \<in> set (fst (card_step cu ts p st Card_save_edit)) \<Longrightarrow> cs_editDialog st"
  by (simp split: if_splits)

lemma edit_form_save_truncates:
  assumes "find_ctask tid ts \<noteq> None" "\<not> js_blank (ct_title t)"
  shows "calls (fst (edit_form_step us tid ts (edit_form_init t) Form_save)) =
    [Call_updateTask tid (edit_form_patch (edit_form_init t))] \<and>
    cq_deadline (edit_form_patch (edit_form_init t)) = Some (day_floor (ct_deadline t))"
  using assms by (simp add: calls_def edit_form_patch_def edit_form_init_def no_patch_def)

lemma comments_view_crash:
  "(\<exists>cm \<in> set (getTaskComments tid ts). cc_createdByName cm = None) \<Longrightarrow> comments_view cu tid ts = None"
  by (force simp: comments_view_def those_map_None comment_row_def)

lemma gallery_delete_fetched:
  assumes "g_selected g = Some ph" and "cp_id ph = None"
  shows "calls (fst (gallery_step tid ts g Gallery_delete)) = [Call_deleteTaskPhoto tid None]"
  using assms by (simp add: calls_def)

lemma deleteTaskPhoto_undefined_clears_fetched:
  assumes "cl_user c = Some u" "find_ctask tid (cl_tasks c) = Some t" "may_edit u t"
  shows "getTaskPhotos tid (cl_tasks (deleteTaskPhoto_ctx tid None now c)) = filter (\<lambda>ph. cp_id ph \<noteq> None) (ct_photos t)"
  using assms by (simp add: deleteTaskPhoto_ctx_def guarded_patch_def getTaskPhotos_def find_patch_task touched_def)

lemma taskdetail_status_always_changes:
  "Call (Call_updateTaskStatus tid st) \<in> set (taskdetail_handleStatusChange deps ts tid st)"
  by (simp add: taskdetail_handleStatusChange_def)

lemma view_fetched_unnamed:
  assumes "view s me = Some cts" and "t \<in> set cts" and "cm \<in> set (ct_comments t)"
  shows "cc_createdByName cm = None"
  using view_Some [OF assms(1)] assms(2,3) by (auto simp: json_task_def json_comment_def)

section \<open>Properties\<close>

text \<open>
  C19. Photos and comments fetched from the server carry \<open>_id\<close> and no \<open>id\<close>, so the
  components pass \<open>undefined\<close> to the context. Deleting one fetched photo from the
  gallery removes every fetched photo of the task from the cache; the context's
  \<open>deleteTaskComment\<close> with a fetched comment's id removes, for an administrator, every
  fetched comment of the task. \<open>TaskComments\<close> itself never offers that deletion: it
  cannot render a fetched comment, which has no \<open>createdByName\<close>.
\<close>

theorem fetched_delete_clears_all:
  assumes v: "view s me = Some (cl_tasks c)" and u: "cl_user c = Some u"
    and f: "find_ctask tid (cl_tasks c) = Some t" and ok: "may_edit u t"
    and sel: "g_selected g = Some ph" and ph: "ph \<in> set (ct_photos t)"
  shows "getTaskPhotos tid (cl_tasks (run_effects now rid (fst (gallery_step tid (cl_tasks c) g Gallery_delete)) c)) = [] \<and>
    (cu_role u = Admin \<longrightarrow> ct_comments t \<noteq> [] \<longrightarrow>
       getTaskComments tid (cl_tasks (deleteTaskComment tid (cc_id (hd (ct_comments t))) now c)) = [] \<and>
       comments_view (Some u) tid (cl_tasks c) = None)"
proof -
  have t: "t \<in> set (cl_tasks c)" and tid: "ct_id t = tid" using find_ctask_SomeD [OF f] by blast+
  have pnone: "\<And>q. q \<in> set (ct_photos t) \<Longrightarrow> cp_id q = None" using view_fetched(2) [OF v t] by blast
  have cnone: "\<And>cm. cm \<in> set (ct_comments t) \<Longrightarrow> cc_id cm = None" using view_fetched(3) [OF v t] by blast
  have "run_effects now rid (fst (gallery_step tid (cl_tasks c) g Gallery_delete)) c = deleteTaskPhoto_ctx tid None now c"
    using sel pnone [OF ph] by (simp add: run_effects_def run_call_def)
  moreover have "filter (\<lambda>q. cp_id q \<noteq> None) (ct_photos t) = []"
    using pnone by (simp add: filter_empty_conv)
  ultimately have photos: "getTaskPhotos tid (cl_tasks (run_effects now rid (fst (gallery_step tid (cl_tasks c) g Gallery_delete)) c)) = []"
    using deleteTaskPhoto_undefined_clears_fetched [OF u f ok, of now] by simp
  have comments: "getTaskComments tid (cl_tasks (deleteTaskComment tid (cc_id (hd (ct_comments t))) now c)) = [] \<and>
       comments_view (Some u) tid (cl_tasks c) = None"
    if adm: "cu_role u = Admin" and ne: "ct_comments t \<noteq> []"
  proof
    have hd: "cc_id (hd (ct_comments t)) = None" using cnone ne by simp
    have "may_delete_comment None u t"
      using adm ne cnone by (cases "ct_comments t") (auto simp: may_delete_comment_def)
    then show "getTaskComments tid (cl_tasks (deleteTaskComment tid (cc_id (hd (ct_comments t))) now c)) = []"
      using u f cnone hd by (simp add: deleteTaskComment_def guarded_patch_def getTaskComments_def
          find_patch_task touched_def filter_empty_conv)
    have "\<exists>cm \<in> set (getTaskComments tid (cl_tasks c)). cc_createdByName cm = None"
      using f ne view_fetched_unnamed [OF v t] by (cases "ct_comments t") (auto simp: getTaskComments_def)
    then show "comments_view (Some u) tid (cl_tasks c) = None" by (rule comments_view_crash)
  qed
  from photos comments show ?thesis by blast
qed

theorem fetched_delete_clears_all_witness:
  "getTaskPhotos (string_of_oid 3) (cl_tasks (run_effects 6 ''r''
      (fst (gallery_step (string_of_oid 3) (cl_tasks demo_cache)
         (gallery_init\<lparr>g_selected := Some (json_photo demo_photo)\<rparr>) Gallery_delete)) demo_cache)) = [] \<and>
   getTaskComments (string_of_oid 3) (cl_tasks (deleteTaskComment (string_of_oid 3) None 6 demo_cache)) = []"
proof -
  let ?t = "json_task 3 (demo_task\<lparr>photos := [demo_photo], comments := [demo_comment]\<rparr>)"
  have v: "view demo_db3 demo_admin = Some (cl_tasks demo_cache)"
    by (simp add: view_def getTasks_def fetch_map_def demo_cache_def demo_db3_def demo_db2_def demo_defs)
  have u: "cl_user demo_cache = Some demo_admin_cuser" by (simp add: demo_cache_def)
  have f: "find_ctask (string_of_oid 3) (cl_tasks demo_cache) = Some ?t"
    by (simp add: demo_cache_def find_ctask_def json_task_def)
  have ok: "may_edit demo_admin_cuser ?t" by (simp add: may_edit_def demo_admin_cuser_def)
  have sel: "g_selected (gallery_init\<lparr>g_selected := Some (json_photo demo_photo)\<rparr>) = Some (json_photo demo_photo)"
    by simp
  have ph: "json_photo demo_photo \<in> set (ct_photos ?t)" by (simp add: json_task_def)
  have adm: "cu_role demo_admin_cuser = Admin" by (simp add: demo_admin_cuser_def)
  have ne: "ct_comments ?t \<noteq> []" by (simp add: json_task_def)
  have hd: "cc_id (hd (ct_comments ?t)) = None" by (simp add: json_task_def json_comment_def)
  note r = fetched_delete_clears_all [OF v u f ok sel ph, of 6 "''r''"]
  from r adm ne have "getTaskComments (string_of_oid 3)
      (cl_tasks (deleteTaskComment (string_of_oid 3) (cc_id (hd (ct_comments ?t))) 6 demo_cache)) = []"
    by blast
  then have "getTaskComments (string_of_oid 3) (cl_tasks (deleteTaskComment (string_of_oid 3) None 6 demo_cache)) = []"
    by (simp only: hd)
  with r show ?thesis by blast
qed

end
