(* ===== verification/UI_Analytics.thy ===== *)
theory UI_Analytics
  imports UI_Common
begin

text \<open>
  The chart components: \<open>TaskChart\<close> (the dashboard's overview), \<open>TaskAnalytics\<close>
  and \<open>TaskInsights\<close> of \<open>src/client/src/components\<close>. Each computes its series
  from the task list of the context; a chart is the kind of chart with its series, the
  drawing being left to the chart library. Grouping by day or by month uses the UTC day of
  \<open>UI_Common\<close> and a calendar function \<open>ym\<close> (year and month of an instant) for the
  months.
\<close>

section \<open>TaskChart\<close>

datatype chart_view = View_status | View_priority | View_timeline | View_progress

datatype chart =
    Pie_chart "(string \<times> nat) list"
  | Bar_chart "(string \<times> nat) list"
  | Area_chart "(string \<times> nat) list option"
  | Line_chart "(string \<times> nat) list"
  | Day_line_chart "(nat \<times> nat) list"
  | Stacked_bars "(string \<times> nat \<times> nat \<times> nat) list"
  | Placeholder string

definition count_status :: "ctask list \<Rightarrow> status \<Rightarrow> nat" where
  "count_status ts st = length (filter (\<lambda>t. ct_status t = st) ts)"

text \<open>\<open>statusData\<close> and \<open>priorityData\<close>.\<close>

definition chart_statusData :: "ctask list \<Rightarrow> (string \<times> nat) list" where
  "chart_statusData ts =
     [(''To Do'', count_status ts Todo), (''In Progress'', count_status ts InProgress),
      (''Completed'', count_status ts Completed)]"

definition chart_priorityData :: "ctask list \<Rightarrow> (string \<times> nat) list" where
  "chart_priorityData ts =
     [(''High'', length (filter (\<lambda>t. ct_priority t = High) ts)),
      (''Medium'', length (filter (\<lambda>t. ct_priority t = Medium) ts)),
      (''Low'', length (filter (\<lambda>t. ct_priority t = Low) ts))]"

text \<open>
  \<open>getTasksByDate\<close> (lines 29--44): a \<open>Map\<close> from the creation date, printed by
  \<open>toLocaleDateString()\<close> (\<open>fmt\<close>, the browser's locale and time zone), to a counter,
  in insertion order (\<open>count_into\<close> is one turn of the \<open>forEach\<close>); the entries are then
  sorted by \<open>new Date(key).getTime()\<close> (\<open>parse\<close>; \<open>None\<close> is an Invalid Date, whose time is
  \<open>NaN\<close>). A comparator that returns \<open>NaN\<close> is not consistent, and the order
  \<open>Array.prototype.sort\<close> then produces is implementation-defined: the value is
  \<open>None\<close> when two or more entries are sorted and some key does not parse.
\<close>

fun count_into :: "'k \<Rightarrow> ('k \<times> nat) list \<Rightarrow> ('k \<times> nat) list" where
  "count_into k [] = [(k, 1)]"
| "count_into k ((k', n) # m) = (if k' = k then (k', Suc n) # m else (k', n) # count_into k m)"

definition getTasksByDate :: "(nat \<Rightarrow> string) \<Rightarrow> (string \<Rightarrow> int option) \<Rightarrow> ctask list \<Rightarrow> (string \<times> nat) list option" where
  "getTasksByDate fmt parse ts =
     (let m = foldl (\<lambda>m t. count_into (fmt (ct_createdAt t)) m) [] ts in
      if length m \<le> 1 \<or> list_all (\<lambda>(k, n). parse k \<noteq> None) m
      then Some (sort_key (\<lambda>(k, n). the (parse k)) m) else None)"

text \<open>\<open>progressData\<close>: per group, the completed, in-progress and to-do counts.\<close>

definition progressData :: "ctask list \<Rightarrow> (string \<times> nat \<times> nat \<times> nat) list" where
  "progressData ts =
     map (\<lambda>g. let gs = filter (\<lambda>t. ct_group t = Some g) ts in
               (string_of_group g, count_status gs Completed, count_status gs InProgress, count_status gs Todo))
       [Frontend, Backend, Database]"

text \<open>\<open>renderChart\<close>: the \<open>switch\<close> on \<open>activeView\<close>, the status pie by default.\<close>

definition taskchart_render ::
  "(nat \<Rightarrow> string) \<Rightarrow> (string \<Rightarrow> int option) \<Rightarrow> chart_view \<Rightarrow> ctask list \<Rightarrow> chart" where
  "taskchart_render fmt parse v ts =
     (case v of
        View_priority \<Rightarrow> Bar_chart (chart_priorityData ts)
      | View_timeline \<Rightarrow> Area_chart (getTasksByDate fmt parse ts)
      | View_progress \<Rightarrow> Stacked_bars (progressData ts)
      | View_status \<Rightarrow> Pie_chart (chart_statusData ts))"

section \<open>TaskAnalytics\<close>

datatype analytics_view = An_status | An_priority | An_group | An_timeline

text \<open>The three count charts, read from the context's count records.\<close>

definition getStatusChartData :: "ctask list \<Rightarrow> (string \<times> nat) list" where
  "getStatusChartData ts =
     [(''To Do'', getTasksByStatus ts Todo), (''In Progress'', getTasksByStatus ts InProgress),
      (''Completed'', getTasksByStatus ts Completed)]"

definition getPriorityChartData :: "ctask list \<Rightarrow> (string \<times> nat) list" where
  "getPriorityChartData ts =
     [(''High'', getTasksByPriority ts High), (''Medium'', getTasksByPriority ts Medium),
      (''Low'', getTasksByPriority ts Low)]"

definition getGroupChartData :: "ctask list \<Rightarrow> (string \<times> nat) list" where
  "getGroupChartData ts =
     [(''Frontend'', getTasksByGroup ts Frontend), (''Backend'', getTasksByGroup ts Backend),
      (''Database'', getTasksByGroup ts Database)]"

text \<open>
  \<open>getTimelineChartData\<close>: the tasks completed since thirty days ago (status
  \<open>completed\<close> and a \<open>lastUpdated\<close> at or after \<open>now - 30\<close> days), counted per
  day in the object \<open>completionsByDate\<close>, then one bucket for each of the last thirty
  days, oldest first, ending today.
\<close>

definition completionsByDate :: "ctask list \<Rightarrow> nat \<Rightarrow> nat option" where
  "completionsByDate ts =
     foldl (\<lambda>m t. case ct_lastUpdated t of
                     None \<Rightarrow> m
                   | Some d \<Rightarrow> m(day_floor d \<mapsto> (case m (day_floor d) of None \<Rightarrow> 0 | Some n \<Rightarrow> n) + 1))
       Map.empty ts"

definition getTimelineChartData :: "nat \<Rightarrow> ctask list \<Rightarrow> (nat \<times> nat) list" where
  "getTimelineChartData now ts =
     (let recent = filter (\<lambda>t. ct_status t = Completed \<and>
                              (case ct_lastUpdated t of None \<Rightarrow> False | Some d \<Rightarrow> now - 30 * day_ms \<le> d)) ts;
          m = completionsByDate recent in
      map (\<lambda>i. let d = day_floor (now - (29 - i) * day_ms) in (d, case m d of None \<Rightarrow> 0 | Some n \<Rightarrow> n))
        [0..<30])"

text \<open>\<open>renderChart\<close> and the card title.\<close>

definition analytics_render :: "nat \<Rightarrow> analytics_view \<Rightarrow> ctask list \<Rightarrow> string \<times> chart" where
  "analytics_render now v ts =
     (case v of
        An_status \<Rightarrow> (''Tasks by Status'', Pie_chart (getStatusChartData ts))
      | An_priority \<Rightarrow> (''Tasks by Priority'', Bar_chart (getPriorityChartData ts))
      | An_group \<Rightarrow> (''Tasks by Group'', Pie_chart (getGroupChartData ts))
      | An_timeline \<Rightarrow> (''Task Completion Timeline'',
                       Day_line_chart (getTimelineChartData now ts)))"

section \<open>TaskInsights\<close>

text \<open>
  The three series built with \<open>Object.entries\<close> of the context's count records, in
  the records' key order.
\<close>

definition insights_statusData :: "ctask list \<Rightarrow> (string \<times> nat) list" where
  "insights_statusData ts = map (\<lambda>st. (status_label st, getTasksByStatus ts st)) [Todo, InProgress, Completed]"

definition insights_priorityData :: "ctask list \<Rightarrow> (string \<times> nat) list" where
  "insights_priorityData ts = map (\<lambda>p. (priority_label p, getTasksByPriority ts p)) [High, Medium, Low]"

definition insights_groupData :: "ctask list \<Rightarrow> (string \<times> nat) list" where
  "insights_groupData ts = map (\<lambda>g. (string_of_group g, getTasksByGroup ts g)) [Frontend, Backend, Database]"

text \<open>\<open>tasksByUser\<close>: per user of \<open>allUsers\<close>, the total and the three status counts.\<close>

definition tasksByUser :: "cuser list \<Rightarrow> ctask list \<Rightarrow> (string \<times> nat \<times> nat \<times> nat \<times> nat) list" where
  "tasksByUser us ts =
     map (\<lambda>u. let uts = filter (\<lambda>t. ct_assignedTo t = cu_id u) ts in
               (cu_name u, length uts, count_status uts Completed, count_status uts InProgress,
                count_status uts Todo)) us"

text \<open>
  \<open>getMonthData\<close>: twelve buckets of the current year, incremented in a
  \<open>forEach\<close> at the creation month and, for a completed task, at the month of
  \<open>lastUpdated\<close>.
\<close>

definition month_names :: "string list" where
  "month_names = [''Jan'', ''Feb'', ''Mar'', ''Apr'', ''May'', ''Jun'', ''Jul'', ''Aug'', ''Sep'', ''Oct'', ''Nov'', ''Dec'']"

definition bump_created :: "nat \<Rightarrow> (string \<times> nat \<times> nat) list \<Rightarrow> (string \<times> nat \<times> nat) list" where
  "bump_created i xs = xs[i := (case xs ! i of (n, c, d) \<Rightarrow> (n, Suc c, d))]"

definition bump_completed :: "nat \<Rightarrow> (string \<times> nat \<times> nat) list \<Rightarrow> (string \<times> nat \<times> nat) list" where
  "bump_completed i xs = xs[i := (case xs ! i of (n, c, d) \<Rightarrow> (n, c, Suc d))]"

definition getMonthData :: "(nat \<Rightarrow> nat \<times> nat) \<Rightarrow> nat \<Rightarrow> ctask list \<Rightarrow> (string \<times> nat \<times> nat) list" where
  "getMonthData ym year ts =
     foldl (\<lambda>xs t.
         let (cy, cm) = ym (ct_createdAt t);
             xs' = (if cy = year then bump_created cm xs else xs) in
         (case (ct_status t, ct_lastUpdated t) of
            (Completed, Some d) \<Rightarrow> (let (dy, dm) = ym d in if dy = year then bump_completed dm xs' else xs')
          | _ \<Rightarrow> xs'))
       (map (\<lambda>n. (n, 0, 0)) month_names) ts"

text \<open>\<open>calculateProductivityScore\<close> and the verdict printed under it.\<close>

definition calculateProductivityScore :: "ctask list \<Rightarrow> nat" where
  "calculateProductivityScore ts =
     (if ts = [] then 0 else percent_round (count_status ts Completed) (length ts))"

definition productivity_verdict :: "nat \<Rightarrow> string" where
  "productivity_verdict p =
     (if 70 < p then ''Excellent!'' else if 40 < p then ''Good Progress'' else ''Needs Improvement'')"

datatype insights_chart = Chart_pie | Chart_bar | Chart_line

text \<open>
  The tabs of the panel: status, priority and group in the selected chart type (the line
  type shows the monthly series instead), the monthly timeline, the per-user bars, and the
  productivity score.
\<close>

definition insights_render ::
  "(nat \<Rightarrow> nat \<times> nat) \<Rightarrow> nat \<Rightarrow> cuser list \<Rightarrow> ctask list \<Rightarrow> insights_chart \<Rightarrow>
   chart list \<times> (string \<times> nat \<times> nat) list \<times> (string \<times> nat \<times> nat \<times> nat \<times> nat) list \<times> nat \<times> string" where
  "insights_render ym year us ts ct =
     (let pick = (\<lambda>xs. case ct of Chart_pie \<Rightarrow> Pie_chart xs | Chart_bar \<Rightarrow> Bar_chart xs
                                  | Chart_line \<Rightarrow> Line_chart (map (\<lambda>(n, c, d). (n, c)) (getMonthData ym year ts)));
          p = calculateProductivityScore ts in
      ([pick (insights_statusData ts), pick (insights_priorityData ts), pick (insights_groupData ts)],
       getMonthData ym year ts, tasksByUser us ts, p, productivity_verdict p))"

section \<open>Reference series\<close>

text \<open>
  The reference of the timeline: the tasks created on a day, for a function \<open>k\<close> from a
  time to its day; and the \<open>forEach\<close> of \<open>getTasksByDate\<close> keyed by \<open>k\<close>.
\<close>

definition day_count :: "(nat \<Rightarrow> 'k) \<Rightarrow> ctask list \<Rightarrow> 'k \<Rightarrow> nat" where
  "day_count k ts d = length (filter (\<lambda>t. k (ct_createdAt t) = d) ts)"

definition date_counts :: "(nat \<Rightarrow> 'k) \<Rightarrow> ctask list \<Rightarrow> ('k \<times> nat) list" where
  "date_counts k ts = foldl (\<lambda>m t. count_into (k (ct_createdAt t)) m) [] ts"

section \<open>Lemmas\<close>

text \<open>The \<open>forEach\<close> over a \<open>Map\<close> of counters: keys in insertion order, one count each.\<close>

lemma count_into_keys:
  "map fst (count_into k m) = (if k \<in> set (map fst m) then map fst m else map fst m @ [k])"
  by (induction k m rule: count_into.induct) auto

lemma count_into_distinct: "distinct (map fst m) \<Longrightarrow> distinct (map fst (count_into k m))"
  by (simp add: count_into_keys)

lemma count_into_map_of:
  "distinct (map fst m) \<Longrightarrow>
     map_of (count_into k m) = (map_of m)(k \<mapsto> (case map_of m k of None \<Rightarrow> 0 | Some n \<Rightarrow> n) + 1)"
  by (induction k m rule: count_into.induct) (auto simp: fun_eq_iff)

text \<open>Sorting an association list with distinct keys by its keys.\<close>

lemma map_fst_sort_key: "map fst (sort_key fst m) = sort (map fst m)"
proof -
  have "mset (map fst (sort_key fst m)) = mset (map fst m)" by simp
  moreover have "sorted (map fst (sort_key fst m))" by simp
  ultimately show ?thesis by (metis properties_for_sort)
qed

lemma sort_key_distinct_fst:
  assumes d: "distinct (map fst m)"
  shows "sort_key fst m = map (\<lambda>k. (k, the (map_of m k))) (sort (map fst m))"
proof -
  have "\<forall>x \<in> set (sort_key fst m). x = (fst x, the (map_of m (fst x)))"
    using d by (auto intro: map_of_is_SomeI)
  then have "sort_key fst m = map (\<lambda>x. (fst x, the (map_of m (fst x)))) (sort_key fst m)"
    by (metis (no_types, lifting) map_idI)
  then show ?thesis by (simp add: map_fst_sort_key [symmetric] comp_def)
qed

lemma date_counts_snoc: "date_counts k (ts @ [t]) = count_into (k (ct_createdAt t)) (date_counts k ts)"
  by (simp add: date_counts_def)

lemma date_counts_inv:
  "distinct (map fst (date_counts k ts)) \<and> set (map fst (date_counts k ts)) = set (map (\<lambda>t. k (ct_createdAt t)) ts) \<and>
   (\<forall>d. map_of (date_counts k ts) d = (if 0 < day_count k ts d then Some (day_count k ts d) else None))"
proof (induction ts rule: rev_induct)
  case Nil
  show ?case by (simp add: date_counts_def day_count_def)
next
  case (snoc t ts)
  then show ?case
    by (auto simp: date_counts_snoc count_into_distinct count_into_map_of day_count_def count_into_keys
        split: if_splits)
qed

text \<open>Printing the keys with an injective \<open>name\<close> commutes with the counting.\<close>

lemma count_into_apfst:
  "inj name \<Longrightarrow> count_into (name d) (map (apfst name) m) = map (apfst name) (count_into d m)"
  by (induction d m rule: count_into.induct) (auto dest: injD)

lemma date_counts_name:
  assumes "inj name"
  shows "date_counts (\<lambda>x. name (k x)) ts = map (apfst name) (date_counts k ts)"
proof (induction ts rule: rev_induct)
  case Nil
  show ?case by (simp add: date_counts_def)
next
  case (snoc t ts)
  then show ?case by (simp add: date_counts_snoc count_into_apfst [OF assms])
qed

text \<open>Sorting by a key that a strictly monotone map turns into the order of the days.\<close>

lemma sort_key_map_apfst:
  "sort_key f (map h xs) = map h (sort_key (\<lambda>x. f (h x)) xs)"
proof (induction xs)
  case Nil
  show ?case by simp
next
  case (Cons x xs)
  have "insort_key f (h y) (map h ys) = map h (insort_key (\<lambda>x. f (h x)) y ys)" for y ys
    by (induction ys) auto
  then show ?case using Cons by simp
qed

lemma sort_key_strict_mono:
  assumes "strict_mono (g :: 'a::linorder \<Rightarrow> 'b::linorder)"
  shows "sort_key (\<lambda>x. g (fst x)) xs = sort_key fst xs"
proof (induction xs)
  case Nil
  show ?case by simp
next
  case (Cons x xs)
  have "insort_key (\<lambda>x. g (fst x)) y ys = insort_key fst y ys" for y :: "'a \<times> 'c" and ys
    by (induction ys) (auto simp: strict_mono_less_eq [OF assms])
  then show ?case using Cons by simp
qed

lemma getTasksByDate_unparsed:
  assumes "parse (fmt (ct_createdAt t1)) = None" and "fmt (ct_createdAt t1) \<noteq> fmt (ct_createdAt t2)"
  shows "getTasksByDate fmt parse [t1, t2] = None"
  using assms by (simp add: getTasksByDate_def)

section \<open>Properties\<close>

text \<open>
  C32. In every locale whose printed dates name the days (\<open>fmt\<close> prints a time by an
  injective \<open>name\<close> of its day) and parse back to strictly increasing times, the timeline
  of \<open>TaskChart\<close> is the reference series: one point per distinct creation day, in
  increasing order of days, labelled by the printed day, with the number of tasks
  created that day. (In a locale whose dates do not parse, such as \<open>en-GB\<close>, the order
  is implementation-defined: \<open>getTasksByDate_unparsed\<close>.)
\<close>

theorem getTasksByDate_reference:
  assumes fmt: "\<And>x. fmt x = name (dayf x)" and inj: "inj name"
    and parse: "\<And>d. parse (name d) = Some (g d)" and mono: "strict_mono g"
  shows "getTasksByDate fmt parse ts =
     Some (map (\<lambda>d. (name d, day_count dayf ts d)) (sort (remdups (map (\<lambda>t. dayf (ct_createdAt t)) ts))))"
proof -
  let ?m = "date_counts dayf ts" and ?ks = "map (\<lambda>t. dayf (ct_createdAt t)) ts"
  have inv: "distinct (map fst ?m)" "set (map fst ?m) = set ?ks"
    "\<And>d. map_of ?m d = (if 0 < day_count dayf ts d then Some (day_count dayf ts d) else None)"
    using date_counts_inv [of dayf ts] by blast+
  have "sort (map fst ?m) = sort (remdups ?ks)"
    using inv(1,2) by (metis distinct_remdups_id sorted_list_of_set_sort_remdups)
  moreover have "\<And>k. k \<in> set ?ks \<Longrightarrow> the (map_of ?m k) = day_count dayf ts k"
    using inv(3) by (auto simp: day_count_def filter_empty_conv)
  ultimately have ref: "sort_key fst ?m = map (\<lambda>d. (d, day_count dayf ts d)) (sort (remdups ?ks))"
    using sort_key_distinct_fst [OF inv(1)] by simp
  have fm: "foldl (\<lambda>m t. count_into (fmt (ct_createdAt t)) m) [] ts = map (apfst name) ?m"
    using date_counts_name [OF inj, of dayf ts] by (simp add: date_counts_def fmt)
  have ok: "list_all (\<lambda>(k, n). parse k \<noteq> None) (map (apfst name) ?m)"
    by (auto simp: list_all_iff parse)
  have "sort_key (\<lambda>(k, n). the (parse k)) (map (apfst name) ?m) = map (apfst name) (sort_key (\<lambda>x. g (fst x)) ?m)"
    by (simp add: sort_key_map_apfst parse case_prod_beta)
  also have "\<dots> = map (apfst name) (sort_key fst ?m)" by (simp add: sort_key_strict_mono [OF mono])
  finally show ?thesis using fm ok ref by (simp add: getTasksByDate_def comp_def)
qed

theorem getTasksByDate_reference_witness:
  "getTasksByDate (\<lambda>x. replicate (x div day_ms) CHR ''x'') (\<lambda>s. Some (int (length s)))
     [json_task 3 demo_task, json_task 4 demo_task] =
   Some [(replicate (createdAt demo_task div day_ms) CHR ''x'', 2)]"
proof -
  have inj: "inj (\<lambda>d. replicate d CHR ''x'')" by (rule injI) simp
  have mono: "strict_mono (int :: nat \<Rightarrow> int)" by (simp add: strict_mono_def)
  show ?thesis
    using getTasksByDate_reference [of "\<lambda>x. replicate (x div day_ms) CHR ''x''" "\<lambda>d. replicate d CHR ''x''"
        "\<lambda>x. x div day_ms" "\<lambda>s. Some (int (length s))" int "[json_task 3 demo_task, json_task 4 demo_task]"] inj mono
    by (simp add: day_count_def json_task_def)
qed

end
