(* ===== verification/UI_Pages.thy ===== *)
theory UI_Pages
  imports UI_Cards UI_Analytics
begin

text \<open>
  The pages of \<open>src/client/src/pages\<close> that show tasks: \<open>Dashboard\<close>,
  \<open>TaskManagement\<close>, \<open>MyTasks\<close>, \<open>UserDashboard\<close> and \<open>Users\<close>. Each page
  is its local state (a record with the \<open>useState\<close> initial values), the values it
  derives from the two contexts, a step function from a user event to the effects and
  the new state, and the cards it renders with their props. The cards' own events are
  those of \<open>UI_Cards\<close>; a card's callbacks are wired to the page's handlers with
  \<open>route_parent\<close>.
\<close>

section \<open>The new-task form\<close>

text \<open>
  The initial \<open>newTask\<close> of \<open>Dashboard\<close> (lines 61--70; \<open>TaskManagement\<close> has
  the same object, lines 57--76): today's date, \<open>todo\<close>, \<open>medium\<close>, the signed-in
  user (\<open>currentUser?.id || ""\<close>) and \<open>Frontend\<close>.
\<close>

definition initial_form :: "string \<Rightarrow> string \<Rightarrow> task_form" where
  "initial_form uid today =
     \<lparr>f_title = [], f_shortDescription = [], f_longDescription = [], f_deadline = today,
      f_status = Todo, f_priority = Medium, f_assignedTo = uid, f_group = Frontend\<rparr>"

datatype form_input =
    In_title string | In_short string | In_long string | In_deadline string
  | In_priority priority | In_assignee string | In_group task_group

text \<open>\<open>setNewTask({...newTask, f: value})\<close> of the form's inputs.\<close>

fun set_form :: "form_input \<Rightarrow> task_form \<Rightarrow> task_form" where
  "set_form (In_title x) f = f\<lparr>f_title := x\<rparr>"
| "set_form (In_short x) f = f\<lparr>f_shortDescription := x\<rparr>"
| "set_form (In_long x) f = f\<lparr>f_longDescription := x\<rparr>"
| "set_form (In_deadline x) f = f\<lparr>f_deadline := x\<rparr>"
| "set_form (In_priority x) f = f\<lparr>f_priority := x\<rparr>"
| "set_form (In_assignee x) f = f\<lparr>f_assignedTo := x\<rparr>"
| "set_form (In_group x) f = f\<lparr>f_group := x\<rparr>"

definition cu_uid :: "cuser option \<Rightarrow> string" where
  "cu_uid cu = (case cu of None \<Rightarrow> [] | Some u \<Rightarrow> cu_id u)"

section \<open>Dashboard\<close>

record dash_state =
  ds_search :: string
  ds_dialog :: bool
  ds_chartView :: chart_view
  ds_form :: task_form

definition dash_init :: "cuser option \<Rightarrow> string \<Rightarrow> dash_state" where
  "dash_init cu today =
     \<lparr>ds_search = [], ds_dialog = False, ds_chartView = View_status, ds_form = initial_form (cu_uid cu) today\<rparr>"

text \<open>
  \<open>handleCreateTask\<close> (lines 72--112). The first \<open>addTask\<close> runs before the
  assignee check; with an assignee chosen, a second \<open>addTask\<close> with the same object
  follows.
\<close>

definition dash_handleCreateTask :: "cuser option \<Rightarrow> string \<Rightarrow> dash_state \<Rightarrow> effect list \<times> dash_state" where
  "dash_handleCreateTask cu today st =
     (case cu of
        None \<Rightarrow> ([], st)
      | Some u \<Rightarrow>
          if \<not> is_admin cu then ([], st)
          else
            let f = ds_form st;
                first = Call (Call_addTask (f\<lparr>f_assignedTo := if f_assignedTo f = [] then cu_id u
                                                              else f_assignedTo f\<rparr>) (cu_id u)) in
            if f_assignedTo f = []
            then ([first, Notify (Toast_error ''Assignment required'' ''Please assign the task to a user'')], st)
            else ([first, Call (Call_addTask f (cu_id u)),
                   Notify (Toast ''Task created'' ''Your task has been successfully created.'')],
                  st\<lparr>ds_form := initial_form (cu_id u) today, ds_dialog := False\<rparr>))"

text \<open>\<open>handleDeleteTask\<close> (lines 114--120; the same in \<open>TaskManagement\<close>).\<close>

definition handleDeleteTask :: "string \<Rightarrow> effect list" where
  "handleDeleteTask tid =
     [Call (Call_deleteTask tid), Notify (Toast ''Task deleted'' ''The task has been successfully deleted.'')]"

text \<open>The four counters (lines 122--129) and their cards (lines 409--460).\<close>

definition dash_stats :: "ctask list \<Rightarrow> nat \<times> nat \<times> nat \<times> nat" where
  "dash_stats ts = (length ts, count_status ts Completed, count_status ts InProgress, count_status ts Todo)"

definition dash_stat_cards :: "ctask list \<Rightarrow> (string \<times> nat) list" where
  "dash_stat_cards ts =
     (case dash_stats ts of (n, c, ip, td) \<Rightarrow>
        [(''Total Tasks'', n), (''In Progress'', ip), (''Completed'', c), (''Pending'', td)])"

text \<open>\<open>filteredTasks\<close>, \<open>tasksByStatus\<close> and \<open>tasksByGroup\<close> (lines 131--148).\<close>

definition dash_filteredTasks :: "string \<Rightarrow> ctask list \<Rightarrow> ctask list" where
  "dash_filteredTasks q ts = filter (matches_search q) ts"

definition dash_tasksByStatus :: "string \<Rightarrow> ctask list \<Rightarrow> status \<Rightarrow> ctask list" where
  "dash_tasksByStatus q ts st = filter (\<lambda>t. ct_status t = st) (dash_filteredTasks q ts)"

definition dash_tasksByGroup :: "string \<Rightarrow> ctask list \<Rightarrow> task_group \<Rightarrow> ctask list" where
  "dash_tasksByGroup q ts g = filter (\<lambda>t. ct_group t = Some g) (dash_filteredTasks q ts)"

text \<open>
  The assignee select (lines 340--356): the signed-in user first, marked \<open>(you)\<close>,
  then every other user of \<open>allUsers\<close>, administrators marked \<open>(Admin)\<close>.
\<close>

definition dash_assignee_options :: "cuser option \<Rightarrow> cuser list \<Rightarrow> (string \<times> string) list" where
  "dash_assignee_options cu us =
     (case cu of None \<Rightarrow> [] | Some u \<Rightarrow> [(cu_id u, cu_name u @ '' (you)'')]) @
     map (\<lambda>v. (cu_id v, cu_name v @ '' '' @ (if cu_role v = Admin then ''(Admin)'' else [])))
       (filter (\<lambda>v. Some (cu_id v) \<noteq> map_option cu_id cu) us)"

datatype dash_event =
    Dash_search string | Dash_open | Dash_cancel | Dash_input form_input | Dash_create
  | Dash_chart chart_view

text \<open>
  The page's own events (lines 158--403 and the chart buttons, lines 462--517): the
  search box, the dialog, which only an administrator sees, with its inputs (the selects
  offer their listed values only), and the chart view.
\<close>

fun dash_step ::
  "cuser option \<Rightarrow> cuser list \<Rightarrow> string \<Rightarrow> dash_state \<Rightarrow> dash_event \<Rightarrow> effect list \<times> dash_state" where
  "dash_step cu us today st (Dash_search q) = ([], st\<lparr>ds_search := q\<rparr>)"
| "dash_step cu us today st Dash_open = ([], if is_admin cu then st\<lparr>ds_dialog := True\<rparr> else st)"
| "dash_step cu us today st Dash_cancel = ([], st\<lparr>ds_dialog := False\<rparr>)"
| "dash_step cu us today st (Dash_input x) =
     ([], if is_admin cu \<and> ds_dialog st \<and>
             (case x of In_assignee a \<Rightarrow> a \<in> fst ` set (dash_assignee_options cu us) | _ \<Rightarrow> True)
          then st\<lparr>ds_form := set_form x (ds_form st)\<rparr> else st)"
| "dash_step cu us today st Dash_create =
     (if is_admin cu \<and> ds_dialog st then dash_handleCreateTask cu today st else ([], st))"
| "dash_step cu us today st (Dash_chart v) = ([], st\<lparr>ds_chartView := v\<rparr>)"

datatype dash_tab = Tab_all | Tab_group task_group

text \<open>
  The tabs (lines 519--711): all filtered tasks, or one group's, each as a
  \<open>TaskCard\<close> with \<open>onDelete\<close> and \<open>showEditOptions={isAdmin}\<close>.
\<close>

definition dash_tab_cards :: "cuser option \<Rightarrow> dash_state \<Rightarrow> ctask list \<Rightarrow> dash_tab \<Rightarrow> card_props list" where
  "dash_tab_cards cu st ts tab =
     map (\<lambda>t. \<lparr>tc_task = t, tc_onDelete = True, tc_showEditOptions = is_admin cu, tc_onPhotoUpload = False\<rparr>)
       (case tab of Tab_all \<Rightarrow> dash_filteredTasks (ds_search st) ts
                  | Tab_group g \<Rightarrow> dash_tasksByGroup (ds_search st) ts g)"

text \<open>An event of a card on the dashboard, with its delete callback wired to the page.\<close>

definition dash_card_event ::
  "cuser option \<Rightarrow> ctask list \<Rightarrow> card_props \<Rightarrow> card_state \<Rightarrow> card_event \<Rightarrow> effect list \<times> card_state" where
  "dash_card_event cu ts p cs e =
     (let (es, cs') = card_step cu ts p cs e in (route_parent handleDeleteTask (\<lambda>_. []) es, cs'))"

section \<open>TaskManagement\<close>

record tm_state =
  tm_search :: string
  tm_dialog :: bool
  tm_selectedUser :: string
  tm_selectedGroup :: "task_group option"
  tm_form :: task_form

definition tm_init :: "cuser option \<Rightarrow> string \<Rightarrow> tm_state" where
  "tm_init cu today =
     \<lparr>tm_search = [], tm_dialog = False, tm_selectedUser = [], tm_selectedGroup = None,
      tm_form = initial_form (cu_uid cu) today\<rparr>"

text \<open>The effect that fills an empty assignee once the user is known (lines 78--86).\<close>

definition tm_sync_assignee :: "cuser option \<Rightarrow> tm_state \<Rightarrow> tm_state" where
  "tm_sync_assignee cu st =
     (case cu of
        Some u \<Rightarrow> if f_assignedTo (tm_form st) = [] then st\<lparr>tm_form := (tm_form st)\<lparr>f_assignedTo := cu_id u\<rparr>\<rparr> else st
      | None \<Rightarrow> st)"

text \<open>\<open>handleCreateTask\<close> (lines 88--116): one \<open>addTask\<close>, the assignee defaulted.\<close>

definition tm_handleCreateTask :: "cuser option \<Rightarrow> string \<Rightarrow> tm_state \<Rightarrow> effect list \<times> tm_state" where
  "tm_handleCreateTask cu today st =
     (case cu of
        None \<Rightarrow> ([], st)
      | Some u \<Rightarrow>
          let f = tm_form st in
          ([Call (Call_addTask (f\<lparr>f_assignedTo := if f_assignedTo f = [] then cu_id u else f_assignedTo f\<rparr>) (cu_id u)),
            Notify (Toast ''Task created'' ''Your task has been successfully created.'')],
           st\<lparr>tm_form := initial_form (cu_id u) today, tm_dialog := False\<rparr>))"

text \<open>\<open>userTasksCount\<close> (lines 126--133): a counter per assignee id, built in a \<open>forEach\<close>.\<close>

definition userTasksCount :: "ctask list \<Rightarrow> string \<Rightarrow> nat option" where
  "userTasksCount ts =
     foldl (\<lambda>m t. m(ct_assignedTo t \<mapsto> (case m (ct_assignedTo t) of None \<Rightarrow> 0 | Some n \<Rightarrow> n) + 1))
       Map.empty ts"

text \<open>
  \<open>getTasksByGroup\<close> (lines 135--143); the group \<open>None\<close> is the tab \<open>All\<close>, and
  the empty user id is no user filter.
\<close>

definition tm_getTasksByGroup :: "tm_state \<Rightarrow> ctask list \<Rightarrow> task_group option \<Rightarrow> ctask list" where
  "tm_getTasksByGroup st ts g =
     filter (\<lambda>t. (case g of None \<Rightarrow> True | Some g' \<Rightarrow> ct_group t = Some g') \<and>
                 (if tm_selectedUser st = [] then True else ct_assignedTo t = tm_selectedUser st))
       (dash_filteredTasks (tm_search st) ts)"

text \<open>\<open>getUserNameById\<close> (lines 145--149).\<close>

definition getUserNameById :: "cuser list \<Rightarrow> string \<Rightarrow> string" where
  "getUserNameById us uid = user_name ''Unknown User'' us uid"

text \<open>
  The user list (lines 355--384): per user the initial, the name, the task count
  \<open>userTasksCount[user.id] || 0\<close>; a click selects the user or clears the selection.
\<close>

definition tm_user_rows :: "cuser list \<Rightarrow> ctask list \<Rightarrow> (string \<times> string \<times> nat) list" where
  "tm_user_rows us ts =
     map (\<lambda>u. (map js_upper_char (take 1 (cu_name u)), cu_name u,
               case userTasksCount ts (cu_id u) of None \<Rightarrow> 0 | Some n \<Rightarrow> n)) us"

datatype tm_event =
    Tm_search string | Tm_filter_user string | Tm_click_user string | Tm_tab "task_group option"
  | Tm_open | Tm_cancel | Tm_input form_input | Tm_create

text \<open>
  The page's events (lines 170--330 and 355--395): search, the user filter (the empty
  id or a listed one), the user rows, the group tabs, and the dialog, shown to an
  administrator, whose assignee select lists \<open>allUsers\<close>.
\<close>

fun tm_step :: "cuser option \<Rightarrow> cuser list \<Rightarrow> string \<Rightarrow> tm_state \<Rightarrow> tm_event \<Rightarrow> effect list \<times> tm_state" where
  "tm_step cu us today st (Tm_search q) = ([], st\<lparr>tm_search := q\<rparr>)"
| "tm_step cu us today st (Tm_filter_user a) =
     ([], if a = [] \<or> a \<in> cu_id ` set us then st\<lparr>tm_selectedUser := a\<rparr> else st)"
| "tm_step cu us today st (Tm_click_user a) =
     ([], if a \<in> cu_id ` set us then st\<lparr>tm_selectedUser := if tm_selectedUser st = a then [] else a\<rparr> else st)"
| "tm_step cu us today st (Tm_tab g) = ([], st\<lparr>tm_selectedGroup := g\<rparr>)"
| "tm_step cu us today st Tm_open = ([], if is_admin cu then st\<lparr>tm_dialog := True\<rparr> else st)"
| "tm_step cu us today st Tm_cancel = ([], st\<lparr>tm_dialog := False\<rparr>)"
| "tm_step cu us today st (Tm_input x) =
     ([], if is_admin cu \<and> tm_dialog st \<and>
             (case x of In_assignee a \<Rightarrow> a \<in> cu_id ` set us | _ \<Rightarrow> True)
          then st\<lparr>tm_form := set_form x (tm_form st)\<rparr> else st)"
| "tm_step cu us today st Tm_create =
     (if is_admin cu \<and> tm_dialog st then tm_handleCreateTask cu today st else ([], st))"

text \<open>
  The tabs (lines 396--441): each task as a \<open>TaskCard\<close> whose \<open>task\<close> is the task
  with \<open>assignedTo\<close> replaced by the assignee's name, with \<open>onDelete\<close> and
  \<open>showEditOptions={true}\<close>.
\<close>

definition tm_card :: "cuser list \<Rightarrow> ctask \<Rightarrow> card_props" where
  "tm_card us t =
     \<lparr>tc_task = t\<lparr>ct_assignedTo := getUserNameById us (ct_assignedTo t)\<rparr>, tc_onDelete = True,
      tc_showEditOptions = True, tc_onPhotoUpload = False\<rparr>"

definition tm_tab_cards :: "cuser list \<Rightarrow> tm_state \<Rightarrow> ctask list \<Rightarrow> task_group option \<Rightarrow> card_props list" where
  "tm_tab_cards us st ts g = map (tm_card us) (tm_getTasksByGroup st ts g)"

section \<open>MyTasks\<close>

record my_state =
  my_search :: string
  my_group :: "task_group option"
  my_grid :: bool

definition my_init :: my_state where
  "my_init = \<lparr>my_search = [], my_group = None, my_grid = True\<rparr>"

text \<open>\<open>myTasks\<close>, \<open>filteredTasks\<close>, \<open>tasksByStatus\<close>, \<open>getTasksByGroup\<close> (lines 30--49).\<close>

definition myTasks :: "cuser \<Rightarrow> ctask list \<Rightarrow> ctask list" where
  "myTasks u ts = filter (\<lambda>t. ct_assignedTo t = cu_id u) ts"

definition my_filteredTasks :: "cuser \<Rightarrow> my_state \<Rightarrow> ctask list \<Rightarrow> ctask list" where
  "my_filteredTasks u st ts = filter (matches_search (my_search st)) (myTasks u ts)"

definition my_tasksByStatus :: "cuser \<Rightarrow> my_state \<Rightarrow> ctask list \<Rightarrow> status \<Rightarrow> ctask list" where
  "my_tasksByStatus u st ts s = filter (\<lambda>t. ct_status t = s) (my_filteredTasks u st ts)"

definition my_getTasksByGroup :: "cuser \<Rightarrow> my_state \<Rightarrow> ctask list \<Rightarrow> ctask list" where
  "my_getTasksByGroup u st ts =
     (case my_group st of None \<Rightarrow> my_filteredTasks u st ts
      | Some g \<Rightarrow> filter (\<lambda>t. ct_group t = Some g) (my_filteredTasks u st ts))"

text \<open>\<open>handleStatusChange\<close> (lines 51--57), the select under each card's hover.\<close>

definition my_handleStatusChange :: "string \<Rightarrow> status \<Rightarrow> effect list" where
  "my_handleStatusChange tid s =
     [Call (Call_updateTaskStatus tid s),
      Notify (Toast ''Status updated'' (''Task status changed to '' @ string_of_status s))]"

text \<open>The counters (lines 120--150): my tasks, in progress and completed.\<close>

definition my_stat_cards :: "cuser \<Rightarrow> my_state \<Rightarrow> ctask list \<Rightarrow> (string \<times> nat) list" where
  "my_stat_cards u st ts =
     [(''My Tasks'', length (myTasks u ts)), (''In Progress'', length (my_tasksByStatus u st ts InProgress)),
      (''Completed'', length (my_tasksByStatus u st ts Completed))]"

datatype my_event = My_search string | My_group "task_group option" | My_grid_mode bool | My_status string status

text \<open>
  The page's events (lines 66--253); the page renders nothing without a signed-in user,
  and a status select exists under each of the user's listed tasks.
\<close>

fun my_step :: "cuser option \<Rightarrow> ctask list \<Rightarrow> my_state \<Rightarrow> my_event \<Rightarrow> effect list \<times> my_state" where
  "my_step None ts st e = ([], st)"
| "my_step (Some u) ts st (My_search q) = ([], st\<lparr>my_search := q\<rparr>)"
| "my_step (Some u) ts st (My_group g) = ([], st\<lparr>my_group := g\<rparr>)"
| "my_step (Some u) ts st (My_grid_mode b) = ([], st\<lparr>my_grid := b\<rparr>)"
| "my_step (Some u) ts st (My_status tid s) =
     (if tid \<in> ct_id ` set (my_getTasksByGroup u st ts) then (my_handleStatusChange tid s, st) else ([], st))"

text \<open>
  The tabs: all the user's tasks of the selected group, or those of one status, as
  \<open>TaskCard\<close>s without callbacks.
\<close>

definition my_tab_cards :: "cuser \<Rightarrow> my_state \<Rightarrow> ctask list \<Rightarrow> status option \<Rightarrow> card_props list" where
  "my_tab_cards u st ts tab =
     map (\<lambda>t. \<lparr>tc_task = t, tc_onDelete = False, tc_showEditOptions = False, tc_onPhotoUpload = False\<rparr>)
       (case tab of None \<Rightarrow> my_getTasksByGroup u st ts
        | Some s \<Rightarrow> filter (\<lambda>t. case my_group st of None \<Rightarrow> True | Some g \<Rightarrow> ct_group t = Some g)
                     (my_tasksByStatus u st ts s))"

section \<open>UserDashboard\<close>

datatype ud_tab = Ud_myTasks | Ud_uploadPhotos

record ud_state =
  ud_search :: string
  ud_tab :: ud_tab
  ud_selectedTaskId :: "string option"
  ud_caption :: string
  ud_preview :: "string option"
  ud_file :: "string option"
  ud_photoDialog :: bool
  ud_welcome :: bool

definition ud_init :: ud_state where
  "ud_init =
     \<lparr>ud_search = [], ud_tab = Ud_myTasks, ud_selectedTaskId = None, ud_caption = [], ud_preview = None,
      ud_file = None, ud_photoDialog = False, ud_welcome = True\<rparr>"

text \<open>
  The effect on \<open>location\<close> (lines 51--69): \<open>?tab=upload\<close> opens the upload tab, a
  non-empty \<open>taskId\<close> selects that task as well; the query is an association list read
  with \<open>URLSearchParams.get\<close> (the first value).
\<close>

definition ud_location_effect :: "(string \<times> string) list \<Rightarrow> ud_state \<Rightarrow> ud_state" where
  "ud_location_effect q st =
     (let st1 = (if map_of q ''tab'' = Some ''upload'' then st\<lparr>ud_tab := Ud_uploadPhotos\<rparr> else st) in
      case map_of q ''taskId'' of
        Some tid \<Rightarrow> if tid \<noteq> [] then st1\<lparr>ud_selectedTaskId := Some tid, ud_tab := Ud_uploadPhotos\<rparr> else st1
      | None \<Rightarrow> st1)"

text \<open>\<open>userTasks\<close> and \<open>filteredTasks\<close> (lines 71--78).\<close>

definition ud_userTasks :: "cuser option \<Rightarrow> ctask list \<Rightarrow> ctask list" where
  "ud_userTasks cu ts = (case cu of None \<Rightarrow> [] | Some u \<Rightarrow> filter (\<lambda>t. ct_assignedTo t = cu_id u) ts)"

definition ud_filteredTasks :: "cuser option \<Rightarrow> ud_state \<Rightarrow> ctask list \<Rightarrow> ctask list" where
  "ud_filteredTasks cu st ts = filter (matches_search (ud_search st)) (ud_userTasks cu ts)"

text \<open>The counters and \<open>completionRate\<close> (lines 80--85).\<close>

definition ud_completionRate :: "cuser option \<Rightarrow> ctask list \<Rightarrow> nat" where
  "ud_completionRate cu ts =
     (let uts = ud_userTasks cu ts in
      if 0 < length uts then percent_round (count_status uts Completed) (length uts) else 0)"

text \<open>\<open>newTasks\<close>: created in the last 24 hours (lines 87--91).\<close>

definition ud_newTasks :: "nat \<Rightarrow> cuser option \<Rightarrow> ctask list \<Rightarrow> ctask list" where
  "ud_newTasks now cu ts = filter (\<lambda>t. now - 24 * 3600000 < ct_createdAt t) (ud_userTasks cu ts)"

text \<open>
  \<open>upcomingDeadlines\<close> (lines 93--102): open tasks due between now and a week from
  now, soonest first (a stable sort).
\<close>

definition ud_upcomingDeadlines :: "nat \<Rightarrow> cuser option \<Rightarrow> ctask list \<Rightarrow> ctask list" where
  "ud_upcomingDeadlines now cu ts =
     sort_key ct_deadline
       (filter (\<lambda>t. now \<le> ct_deadline t \<and> ct_deadline t \<le> now + 7 * day_ms \<and> ct_status t \<noteq> Completed)
          (ud_userTasks cu ts))"

text \<open>
  \<open>handleFileChange\<close> (lines 104--117): the chosen file and its preview, the data URL
  the \<open>FileReader\<close> produces (a parameter).
\<close>

definition ud_handleFileChange :: "(string \<Rightarrow> string) \<Rightarrow> string option \<Rightarrow> ud_state \<Rightarrow> ud_state" where
  "ud_handleFileChange data_url file st =
     (case file of None \<Rightarrow> st | Some f \<Rightarrow> st\<lparr>ud_file := Some f, ud_preview := Some (data_url f)\<rparr>)"

text \<open>
  The client's check \<open>/^[0-9a-fA-F]{24}$/\<close> (line 131); a character class of
  ranges is a test on the code point.
\<close>

definition hex_char_class :: "char \<Rightarrow> bool" where
  "hex_char_class c \<longleftrightarrow>
     (let n = of_char c :: nat in 48 \<le> n \<and> n \<le> 57 \<or> 97 \<le> n \<and> n \<le> 102 \<or> 65 \<le> n \<and> n \<le> 70)"

definition objectIdRegex :: "string \<Rightarrow> bool" where
  "objectIdRegex s \<longleftrightarrow> length s = 24 \<and> list_all hex_char_class s"

text \<open>
  \<open>handlePhotoUpload\<close> up to the request (lines 119--145): the missing-information
  toast, the id check, then \<open>api.uploadPhoto(selectedTaskId, formData, token)\<close>, whose
  form holds the file and \<open>photoCaption || ''\<close>.
\<close>

datatype upload_outcome = Upload_refused toast | Upload_sent string string string

definition ud_upload_request :: "cuser option \<Rightarrow> ud_state \<Rightarrow> upload_outcome" where
  "ud_upload_request cu st =
     (case (ud_selectedTaskId st, ud_file st, cu) of
        (Some tid, Some f, Some u) \<Rightarrow>
          if \<not> objectIdRegex tid then Upload_refused (Toast_error ''Error'' ''Invalid task ID format'')
          else Upload_sent tid f (ud_caption st)
      | _ \<Rightarrow> Upload_refused (Toast_error ''Error'' ''Missing required information''))"

text \<open>
  The rest of \<open>handlePhotoUpload\<close> (lines 147--172), given the server's reply: on
  success \<open>addTaskPhoto(selectedTaskId, response.data.data)\<close>, a toast and the form
  reset; a non-2xx reply is thrown by axios and printed.
\<close>

definition ud_upload_reply :: "string \<Rightarrow> payload reply \<Rightarrow> ud_state \<Rightarrow> effect list \<times> ud_state" where
  "ud_upload_reply tid r st =
     (case r of
        Ok _ (P_photo pr) \<Rightarrow>
          ([Call (Call_addTaskPhoto tid (r_imageUrl pr) (Some (r_caption pr))),
            Notify (Toast ''Success'' ''Photo uploaded successfully'')],
           st\<lparr>ud_caption := [], ud_file := None, ud_preview := None, ud_photoDialog := False,
              ud_selectedTaskId := None\<rparr>)
      | Ok _ _ \<Rightarrow> ([], st)
      | Fail _ m \<Rightarrow> ([Notify (Toast_reply_error ''Error'' m)], st))"

text \<open>
  \<open>handleTaskPhotoUpload\<close> and \<open>handleTabChange\<close> (lines 177--186), with the URL
  they navigate to.
\<close>

definition ud_handleTaskPhotoUpload :: "string \<Rightarrow> ud_state \<Rightarrow> ud_state \<times> string" where
  "ud_handleTaskPhotoUpload tid st =
     (st\<lparr>ud_selectedTaskId := Some tid, ud_tab := Ud_uploadPhotos\<rparr>,
      ''/user-dashboard?tab=upload&taskId='' @ tid)"

definition ud_handleTabChange :: "ud_tab \<Rightarrow> ud_state \<Rightarrow> ud_state \<times> string" where
  "ud_handleTabChange v st =
     (st\<lparr>ud_tab := v\<rparr>, ''/user-dashboard'' @ (if v = Ud_uploadPhotos then ''?tab=upload'' else []))"

text \<open>
  The deadline list (lines 368--390): \<open>Math.ceil\<close> of the days left, the urgency
  colour and the label.
\<close>

definition daysLeft :: "nat \<Rightarrow> ctask \<Rightarrow> int" where
  "daysLeft now t = - ((int now - int (ct_deadline t)) div int day_ms)"

datatype urgency = Urgent | Soon | Later

definition deadline_urgency :: "int \<Rightarrow> urgency" where
  "deadline_urgency d = (if d \<le> 1 then Urgent else if d \<le> 3 then Soon else Later)"

datatype due_label = Due_today | Due_tomorrow | Days_left int

definition deadline_label :: "int \<Rightarrow> due_label" where
  "deadline_label d = (if d = 0 then Due_today else if d = 1 then Due_tomorrow else Days_left d)"

text \<open>
  The welcome notice (lines 223--238): shown while \<open>showWelcomeNotification\<close> holds and
  there are new tasks, with the plural of \<open>task\<close>.
\<close>

definition ud_welcome_notice :: "nat \<Rightarrow> cuser \<Rightarrow> ctask list \<Rightarrow> ud_state \<Rightarrow> (string \<times> nat \<times> string) option" where
  "ud_welcome_notice now u ts st =
     (let n = length (ud_newTasks now (Some u) ts) in
      if ud_welcome st \<and> 0 < n then Some (cu_name u, n, plural n ''task'') else None)"

text \<open>
  The task rows of the upload tab (lines 424--455): title, status label, the photo count
  and whether the row is the selected one; a click selects it.
\<close>

definition ud_upload_rows :: "cuser option \<Rightarrow> ctask list \<Rightarrow> ud_state \<Rightarrow> (string \<times> string \<times> nat \<times> bool) list" where
  "ud_upload_rows cu ts st =
     map (\<lambda>t. (ct_title t, status_label (ct_status t), length (ct_photos t), ud_selectedTaskId st = Some (ct_id t)))
       (ud_userTasks cu ts)"

text \<open>
  Recent Uploads (lines 547--578): the photos of the user's tasks, newest first, the
  first eight, each with the title of the task its \<open>taskId\<close> names, or
  \<open>Unknown Task\<close>.
\<close>

definition ud_recent_photos :: "cuser option \<Rightarrow> ctask list \<Rightarrow> (cphoto \<times> string) list" where
  "ud_recent_photos cu ts =
     map (\<lambda>ph. (ph, case cp_taskId ph of
                       None \<Rightarrow> ''Unknown Task''
                     | Some tid \<Rightarrow> (case find_ctask tid ts of Some t \<Rightarrow> ct_title t | None \<Rightarrow> ''Unknown Task'')))
       (take 8 (sort_key (\<lambda>ph. - int (cp_createdAt ph)) (concat (map ct_photos (ud_userTasks cu ts)))))"

text \<open>The task list (lines 393--403): \<open>EnhancedTaskCard\<close>s with the upload callback only.\<close>

definition ud_cards :: "cuser option \<Rightarrow> ud_state \<Rightarrow> ctask list \<Rightarrow> card_props list" where
  "ud_cards cu st ts =
     map (\<lambda>t. \<lparr>tc_task = t, tc_onDelete = False, tc_showEditOptions = False, tc_onPhotoUpload = True\<rparr>)
       (ud_filteredTasks cu st ts)"

datatype ud_event =
    Ud_search string | Ud_tab_change ud_tab | Ud_select_task string | Ud_caption string | Ud_file "string option"
  | Ud_open_dialog | Ud_close_dialog | Ud_dismiss_welcome | Ud_card_upload string

text \<open>
  The page's events other than the upload itself (lines 188--618); nothing is rendered
  without a user, and an administrator gets a page with two links instead. The Upload
  button is disabled until a task and a preview are chosen.
\<close>

fun ud_step :: "(string \<Rightarrow> string) \<Rightarrow> cuser option \<Rightarrow> ctask list \<Rightarrow> ud_state \<Rightarrow> ud_event \<Rightarrow> ud_state" where
  "ud_step du cu ts st e =
     (if cu = None \<or> is_admin cu then st
      else case e of
        Ud_search q \<Rightarrow> st\<lparr>ud_search := q\<rparr>
      | Ud_tab_change v \<Rightarrow> fst (ud_handleTabChange v st)
      | Ud_select_task tid \<Rightarrow>
          if ud_tab st = Ud_uploadPhotos \<and> tid \<in> ct_id ` set (ud_userTasks cu ts)
          then st\<lparr>ud_selectedTaskId := Some tid\<rparr> else st
      | Ud_caption x \<Rightarrow> st\<lparr>ud_caption := x\<rparr>
      | Ud_file f \<Rightarrow> ud_handleFileChange du f st
      | Ud_open_dialog \<Rightarrow>
          if ud_selectedTaskId st \<noteq> None \<and> ud_preview st \<noteq> None then st\<lparr>ud_photoDialog := True\<rparr> else st
      | Ud_close_dialog \<Rightarrow> st\<lparr>ud_photoDialog := False\<rparr>
      | Ud_dismiss_welcome \<Rightarrow> st\<lparr>ud_welcome := False\<rparr>
      | Ud_card_upload tid \<Rightarrow> fst (ud_handleTaskPhotoUpload tid st))"

section \<open>Users\<close>

record users_state =
  us_selectedUserId :: "string option"
  us_selectedPhotoUrl :: "string option"
  us_showDeleteConfirm :: bool
  us_userToDelete :: "string option"
  us_editingUser :: "cuser option"
  us_editForm :: "string \<times> string \<times> role"

definition users_init :: users_state where
  "users_init =
     \<lparr>us_selectedUserId = None, us_selectedPhotoUrl = None, us_showDeleteConfirm = False,
      us_userToDelete = None, us_editingUser = None, us_editForm = ([], [], User)\<rparr>"

text \<open>\<open>getUserTaskCounts\<close> (lines 101--117).\<close>

record task_counts =
  tk_total :: nat
  tk_completed :: nat
  tk_inProgress :: nat
  tk_todo :: nat
  tk_completion :: nat
  tk_tasks :: "ctask list"

definition getUserTaskCounts :: "ctask list \<Rightarrow> string \<Rightarrow> task_counts" where
  "getUserTaskCounts ts uid =
     (let uts = filter (\<lambda>t. ct_assignedTo t = uid) ts; c = count_status uts Completed in
      \<lparr>tk_total = length uts, tk_completed = c, tk_inProgress = count_status uts InProgress,
       tk_todo = count_status uts Todo,
       tk_completion = (if 0 < length uts then percent_round c (length uts) else 0), tk_tasks = uts\<rparr>)"

text \<open>
  \<open>getUserPhotos\<close> (lines 120--137): the photos of the user's tasks whose
  \<open>createdBy\<close> is the user, with the task's title.
\<close>

definition getUserPhotos :: "ctask list \<Rightarrow> string \<Rightarrow> (cphoto \<times> string) list" where
  "getUserPhotos ts uid =
     concat (map (\<lambda>t. map (\<lambda>ph. (ph, ct_title t))
                        (filter (\<lambda>ph. cp_createdBy ph = Some uid) (getTaskPhotos (ct_id t) ts)))
               (filter (\<lambda>t. ct_assignedTo t = uid) ts))"

text \<open>\<open>getTaskChartData\<close> (lines 196--204): the non-empty segments.\<close>

definition getTaskChartData :: "ctask list \<Rightarrow> string \<Rightarrow> (string \<times> nat) list" where
  "getTaskChartData ts uid =
     (let k = getUserTaskCounts ts uid in
      filter (\<lambda>(n, v). 0 < v)
        [(''Completed'', tk_completed k), (''In Progress'', tk_inProgress k), (''To Do'', tk_todo k)])"

text \<open>The summary cards (lines 245--280): users, open tasks, completed tasks, photos.\<close>

definition users_summary :: "cuser list \<Rightarrow> ctask list \<Rightarrow> nat \<times> nat \<times> nat \<times> nat" where
  "users_summary us ts =
     (length us, length (filter (\<lambda>t. ct_status t \<noteq> Completed) ts), count_status ts Completed,
      length (concat (map ct_photos ts)))"

text \<open>
  A row of the users table (lines 299--396): the name, whether it is the signed-in user,
  the e-mail, the role, the counts and rate, the latest photo of \<open>getUserPhotos\<close>, and
  whether the edit and delete buttons show (not on one's own row).
\<close>

record user_row =
  ur_name :: string
  ur_me :: bool
  ur_email :: string
  ur_role :: role
  ur_counts :: task_counts
  ur_latest :: "cphoto option"
  ur_actions :: bool

definition users_row :: "cuser option \<Rightarrow> ctask list \<Rightarrow> cuser \<Rightarrow> user_row" where
  "users_row cu ts u =
     (let phs = map fst (getUserPhotos ts (cu_id u)); me = (map_option cu_id cu = Some (cu_id u)) in
      \<lparr>ur_name = cu_name u, ur_me = me, ur_email = cu_email u, ur_role = cu_role u,
       ur_counts = getUserTaskCounts ts (cu_id u),
       ur_latest = (if phs = [] then None else Some (hd (sort_key (\<lambda>ph. - int (cp_createdAt ph)) phs))),
       ur_actions = \<not> me\<rparr>)"

text \<open>
  What the page shows (lines 72--94 and 206--580): the loading screen, the refusal for a
  non-administrator, or the summary and the table.
\<close>

datatype users_screen =
    Users_loading
  | Users_denied
  | Users_table "nat \<times> nat \<times> nat \<times> nat" "user_row list"

definition users_render :: "bool \<Rightarrow> cuser option \<Rightarrow> cuser list \<Rightarrow> ctask list \<Rightarrow> users_screen" where
  "users_render loading cu us ts =
     (if loading then Users_loading
      else if \<not> is_admin cu then Users_denied
      else Users_table (users_summary us ts) (map (users_row cu ts) us))"

datatype users_event =
    Users_view string | Users_view_photo string | Users_close_photo | Users_close_profile
  | Users_edit string | Users_edit_name string | Users_edit_email string | Users_edit_role role
  | Users_update | Users_cancel_edit | Users_delete_ask string | Users_delete | Users_delete_cancel

text \<open>
  The handlers (lines 139--193): view a user or a photo, \<open>handleEditUser\<close> and the
  form, \<open>handleUpdateUser\<close>, \<open>handleDeleteConfirm\<close> and \<open>handleDeleteUser\<close>; the
  row buttons exist only for other users, and only on the table an administrator sees.
\<close>

fun users_step ::
  "bool \<Rightarrow> cuser option \<Rightarrow> cuser list \<Rightarrow> users_state \<Rightarrow> users_event \<Rightarrow> effect list \<times> users_state" where
  "users_step loading cu us st e =
     (if loading \<or> \<not> is_admin cu then ([], st)
      else case e of
        Users_view uid \<Rightarrow> ([], st\<lparr>us_selectedUserId := Some uid\<rparr>)
      | Users_view_photo url \<Rightarrow> ([], st\<lparr>us_selectedPhotoUrl := Some url\<rparr>)
      | Users_close_photo \<Rightarrow> ([], st\<lparr>us_selectedPhotoUrl := None\<rparr>)
      | Users_close_profile \<Rightarrow> ([], st\<lparr>us_selectedUserId := None\<rparr>)
      | Users_edit uid \<Rightarrow>
          (case find (\<lambda>u. cu_id u = uid) us of
             Some u \<Rightarrow> if map_option cu_id cu \<noteq> Some uid
                       then ([], st\<lparr>us_editingUser := Some u, us_editForm := (cu_name u, cu_email u, cu_role u)\<rparr>)
                       else ([], st)
           | None \<Rightarrow> ([], st))
      | Users_edit_name x \<Rightarrow> ([], st\<lparr>us_editForm := (case us_editForm st of (_, m, r) \<Rightarrow> (x, m, r))\<rparr>)
      | Users_edit_email x \<Rightarrow> ([], st\<lparr>us_editForm := (case us_editForm st of (n, _, r) \<Rightarrow> (n, x, r))\<rparr>)
      | Users_edit_role x \<Rightarrow> ([], st\<lparr>us_editForm := (case us_editForm st of (n, m, _) \<Rightarrow> (n, m, x))\<rparr>)
      | Users_update \<Rightarrow>
          (case us_editingUser st of
             None \<Rightarrow> ([], st)
           | Some u \<Rightarrow> (case us_editForm st of (n, m, r) \<Rightarrow>
                         ([Auth_updateUser (cu_id u) n m r], st\<lparr>us_editingUser := None\<rparr>)))
      | Users_cancel_edit \<Rightarrow> ([], st\<lparr>us_editingUser := None\<rparr>)
      | Users_delete_ask uid \<Rightarrow>
          if uid \<in> cu_id ` set us \<and> map_option cu_id cu \<noteq> Some uid
          then ([], st\<lparr>us_userToDelete := Some uid, us_showDeleteConfirm := True\<rparr>) else ([], st)
      | Users_delete \<Rightarrow>
          (case us_userToDelete st of
             None \<Rightarrow> ([], st)
           | Some uid \<Rightarrow> ([Auth_deleteUser uid], st\<lparr>us_userToDelete := None, us_showDeleteConfirm := False\<rparr>))
      | Users_delete_cancel \<Rightarrow> ([], st\<lparr>us_showDeleteConfirm := False\<rparr>))"

section \<open>Further views\<close>

text \<open>The chart buttons of \<open>Dashboard\<close> (lines 462--517): label, view, and whether active.\<close>

definition dash_chart_buttons :: "dash_state \<Rightarrow> (string \<times> chart_view \<times> bool) list" where
  "dash_chart_buttons st =
     map (\<lambda>(l, v). (l, v, ds_chartView st = v))
       [(''Status'', View_status), (''Priority'', View_priority), (''Timeline'', View_timeline),
        (''Progress'', View_progress)]"

text \<open>
  The administrator's \<open>UserDashboard\<close> (lines 190--244): a welcome and two buttons,
  to \<open>/admin-dashboard\<close> and \<open>/users\<close>.
\<close>

definition ud_admin_view :: "cuser \<Rightarrow> string \<times> string list" where
  "ud_admin_view u = (cu_name u, [''/admin-dashboard'', ''/users''])"

text \<open>
  The profile dialog of \<open>Users\<close> (lines 411--577) for the selected user: name, whether
  it is oneself, e-mail and role, the chart segments and counts, each task with its
  status label, deadline, photo count and first photo, and the first six photos of
  \<open>getUserPhotos\<close>.
\<close>

record user_profile =
  up_name :: string
  up_me :: bool
  up_email :: string
  up_role :: string
  up_chart :: "(string \<times> nat) list"
  up_counts :: task_counts
  up_tasks :: "(string \<times> string \<times> nat \<times> nat \<times> string option option) list"
  up_photos :: "(cphoto \<times> string) list"

definition users_profile :: "cuser option \<Rightarrow> cuser list \<Rightarrow> ctask list \<Rightarrow> users_state \<Rightarrow> user_profile option" where
  "users_profile cu us ts st =
     (case us_selectedUserId st of
        None \<Rightarrow> None
      | Some uid \<Rightarrow>
          map_option (\<lambda>u.
            \<lparr>up_name = cu_name u, up_me = (map_option cu_id cu = Some (cu_id u)), up_email = cu_email u,
             up_role = (if cu_role u = Admin then ''Administrator'' else ''Regular User''),
             up_chart = getTaskChartData ts (cu_id u), up_counts = getUserTaskCounts ts (cu_id u),
             up_tasks = map (\<lambda>t. (ct_title t, status_label (ct_status t), ct_deadline t, length (ct_photos t),
                                  if ct_photos t = [] then None else Some (cp_imageUrl (hd (ct_photos t)))))
                          (tk_tasks (getUserTaskCounts ts (cu_id u))),
             up_photos = take 6 (getUserPhotos ts (cu_id u))\<rparr>)
            (find (\<lambda>u. cu_id u = uid) us))"

section \<open>Example data\<close>

text \<open>
  Ada, the administrator of the server's example, signed in; a form for "Fix bug"
  assigned to Bo, and the dashboard with the dialog open on it; Ada's browser holding
  the task of the example; Bo's upload tab with task 3 and a file chosen.
\<close>

definition demo_ada :: cuser where
  "demo_ada = \<lparr>cu_id = string_of_oid 1, cu_name = ''Ada'', cu_email = ''ada@example.com'', cu_role = Admin\<rparr>"

definition demo_form :: task_form where
  "demo_form = (initial_form (string_of_oid 1) ''2025-01-01'')\<lparr>f_title := ''Fix bug'',
     f_shortDescription := ''Crash on login'', f_assignedTo := string_of_oid 2, f_group := Backend\<rparr>"

definition demo_dash :: dash_state where
  "demo_dash = (dash_init (Some demo_ada) ''2025-01-01'')\<lparr>ds_dialog := True, ds_form := demo_form\<rparr>"

definition demo_date :: "string \<Rightarrow> nat option" where
  "demo_date d = Some 1735689600000"

definition demo_form_task :: task where
  "demo_form_task = \<lparr>title = ''Fix bug'', shortDescription = ''Crash on login'', longDescription = Some [],
     status = Todo, priority = Medium, deadline = 1735689600000, group = Backend, assignedTo = 2,
     createdBy = 1, photos = [], comments = [], createdAt = 0, updatedAt = 0\<rparr>"

definition demo_admin_client :: client where
  "demo_admin_client = \<lparr>cl_user = Some demo_ada, cl_tasks = [json_task 3 demo_task]\<rparr>"

definition demo_upload :: ud_state where
  "demo_upload = ud_init\<lparr>ud_tab := Ud_uploadPhotos, ud_selectedTaskId := Some (string_of_oid 3),
     ud_file := Some ''shot.png'', ud_preview := Some ''data:image/png''\<rparr>"

section \<open>Lemmas\<close>

lemma demo_form_new_task: "new_task (form_body demo_date demo_form) 1 0 = Inr demo_form_task"
  by (simp add: new_task_def form_body_def demo_form_def initial_form_def demo_date_def demo_form_task_def
      with_default_def)

text \<open>An administrator's inline edit of the title on a card with edit options.\<close>

lemma card_run_edit_title:
  assumes "is_admin cu" "tc_showEditOptions p"
  shows "card_run cu ts p (card_init (tc_task p)) [Card_toggle_edit, Card_edit (Edit_title x), Card_toggle_edit] =
    ([Call (Call_updateTask (ct_id (tc_task p)) (full_patch ((tc_task p)\<lparr>ct_title := x\<rparr>))),
      Notify (Toast ''Task updated'' ''The task has been successfully updated.'')],
     card_init ((tc_task p)\<lparr>ct_title := x\<rparr>))"
  using assms by (simp add: card_controls_def card_init_def Let_def)

text \<open>The client's id pattern against \<open>ObjectId\<close> casting.\<close>

lemma hex_char_class_digit: "hex_char_class c \<longleftrightarrow> hex_digit c \<noteq> None"
  by (auto simp: hex_char_class_def hex_digit_def Let_def)

lemma hex_value_Some: "list_all hex_char_class s \<Longrightarrow> \<exists>v. hex_value acc s = Some v"
  by (induction s arbitrary: acc) (auto simp: hex_char_class_digit)

lemma objectIdRegex_oid: "objectIdRegex s \<Longrightarrow> \<exists>i. oid_of_string s = Some i"
  by (auto simp: objectIdRegex_def oid_of_string_def intro: hex_value_Some)

lemma list_all_hex_digits: "list_all hex_char_class (hex_digits n x)"
  by (induction n arbitrary: x) (simp_all add: hex_char_class_digit)

lemma objectIdRegex_string_of_oid: "objectIdRegex (string_of_oid i)"
  by (simp add: objectIdRegex_def string_of_oid_def list_all_hex_digits)

section \<open>Properties\<close>

text \<open>
  C30. \<open>TaskManagement\<close> hands each \<open>TaskCard\<close> a copy of the task whose
  \<open>assignedTo\<close> is the assignee's name. When an administrator edits the title inline
  and saves, the card writes its whole snapshot back with \<open>updateTask\<close>: the task in
  the cache gets the new title and, as its assignee, the name instead of the user id.
\<close>

theorem tm_inline_edit_reassigns:
  assumes u: "cl_user c = Some u" and r: "cu_role u = Admin" and f: "find_ctask (ct_id t) (cl_tasks c) = Some t"
  shows "let (es, cs) = card_run (Some u) (cl_tasks c) (tm_card us t) (card_init (tc_task (tm_card us t)))
                          [Card_toggle_edit, Card_edit (Edit_title x), Card_toggle_edit];
             c' = run_effects now rid (route_parent handleDeleteTask (\<lambda>_. []) es) c in
         map_option ct_assignedTo (find_ctask (ct_id t) (cl_tasks c')) = Some (getUserNameById us (ct_assignedTo t)) \<and>
         map_option ct_title (find_ctask (ct_id t) (cl_tasks c')) = Some x"
proof -
  have adm: "is_admin (Some u)" using r by (simp add: is_admin_def)
  have sh: "tc_showEditOptions (tm_card us t)" by (simp add: tm_card_def)
  show ?thesis
    using card_run_edit_title [OF adm sh, of "cl_tasks c" x] u f
    by (simp add: run_call_def updateTask_ctx_def find_patch_task touched_def spread_def full_patch_def
        tm_card_def)
qed

theorem tm_inline_edit_reassigns_witness:
  "let (es, cs) = card_run (Some demo_ada) (cl_tasks demo_admin_client) (tm_card [demo_ada, demo_cuser] (json_task 3 demo_task))
                    (card_init (tc_task (tm_card [demo_ada, demo_cuser] (json_task 3 demo_task))))
                    [Card_toggle_edit, Card_edit (Edit_title ''Fix login crash''), Card_toggle_edit];
       c' = run_effects 7 ''r1'' (route_parent handleDeleteTask (\<lambda>_. []) es) demo_admin_client in
   map_option ct_assignedTo (find_ctask (string_of_oid 3) (cl_tasks c')) = Some ''Bo'' \<and>
   map_option ct_title (find_ctask (string_of_oid 3) (cl_tasks c')) = Some ''Fix login crash''"
proof -
  have f: "find_ctask (ct_id (json_task 3 demo_task)) (cl_tasks demo_admin_client) = Some (json_task 3 demo_task)"
    by (simp add: demo_admin_client_def find_ctask_def)
  have n: "getUserNameById [demo_ada, demo_cuser] (ct_assignedTo (json_task 3 demo_task)) = ''Bo''"
    by (simp add: getUserNameById_def user_name_def demo_ada_def demo_cuser_def json_task_def demo_task_def
        string_of_oid_eq_iff)
  have cu: "cl_user demo_admin_client = Some demo_ada" "cu_role demo_ada = Admin"
    by (simp_all add: demo_admin_client_def demo_ada_def)
  have i: "ct_id (json_task 3 demo_task) = string_of_oid 3" by (simp add: json_task_def)
  from tm_inline_edit_reassigns [OF cu f, of "[demo_ada, demo_cuser]" "''Fix login crash''" 7 "''r1''"]
  show ?thesis unfolding n i .
qed

text \<open>
  C33. The id check of \<open>handlePhotoUpload\<close> is sound and complete for the ids the
  client prints: a request it sends names an id that \<open>ObjectId\<close> casting accepts
  (so \<open>findById\<close> cannot fail with a \<open>CastError\<close>), and every id the server prints
  passes it. (It still refuses the 12-character ids that \<open>isValid\<close> also accepts.)
\<close>

theorem upload_id_check:
  assumes "ud_upload_request cu st = Upload_sent tid f cap"
  shows "ud_selectedTaskId st = Some tid \<and> ud_file st = Some f \<and> cap = ud_caption st \<and> isValid tid \<and>
    ud_upload_request (Some u) (st\<lparr>ud_selectedTaskId := Some (string_of_oid i)\<rparr>) =
      Upload_sent (string_of_oid i) f (ud_caption st)"
  using assms objectIdRegex_string_of_oid [of i]
  by (auto simp: ud_upload_request_def isValid_def dest: objectIdRegex_oid split: option.splits if_splits)

theorem upload_id_check_witness:
  "ud_selectedTaskId demo_upload = Some (string_of_oid 3) \<and> ud_file demo_upload = Some ''shot.png'' \<and>
   [] = ud_caption demo_upload \<and> isValid (string_of_oid 3) \<and>
   ud_upload_request (Some demo_cuser) (demo_upload\<lparr>ud_selectedTaskId := Some (string_of_oid 5)\<rparr>) =
     Upload_sent (string_of_oid 5) ''shot.png'' (ud_caption demo_upload)"
proof -
  have "ud_upload_request (Some demo_cuser) demo_upload = Upload_sent (string_of_oid 3) ''shot.png'' []"
    using objectIdRegex_string_of_oid [of 3] by (simp add: ud_upload_request_def demo_upload_def ud_init_def)
  from upload_id_check [OF this, of demo_cuser 5] show ?thesis .
qed

end
