(* ===== verification/UI_App.thy ===== *)
theory UI_App
  imports UI_Pages
begin

text \<open>
  The application shell of \<open>src/client/src\<close>: the route table of \<open>App.tsx\<close> with
  \<open>ProtectedRoute\<close> (\<open>Client_Session\<close>) around its protected pages, the sign-in and
  sign-up pages, the settings page and the error boundary. A navigation is a path; the
  router renders a page or a \<open><Navigate>\<close> to another path, and \<open>app_follow\<close>
  follows redirects with a bound on their number.
\<close>

section \<open>Routes\<close>

datatype page =
    Login_page | Register_page | AdminDashboard_page | Users_page | UserDashboard_page
  | Settings_page | NotFound_page

text \<open>An element of the route table: a page, a redirect, or a page behind \<open>ProtectedRoute\<close>.\<close>

datatype route_elem =
    Elem_page page
  | Elem_redirect string
  | Elem_protected bool route_elem

text \<open>
  React Router matches a route path without regard to case and with any number of
  trailing slashes (\<open>caseSensitive\<close> is off; the pattern ends in \<open>/*$\<close>): the key a
  path name is compared on is its lower case without trailing slashes, so \<open>/\<close> has the
  empty key.
\<close>

definition route_key :: "string \<Rightarrow> string" where
  "route_key p = js_lower (rev (dropWhile (\<lambda>c. c = CHR ''/'') (rev p)))"

text \<open>
  The \<open><Routes>\<close> of \<open>App.tsx\<close> (lines 49--116), matched on the key of the path name; the
  path \<open>/task-management\<close> redirects and never renders \<open>TaskManagement\<close>, and no
  route renders \<open>Dashboard\<close> or \<open>MyTasks\<close>.
\<close>

definition app_routes :: "string \<Rightarrow> route_elem" where
  "app_routes p =
     (let k = route_key p in
      if k = ''/login'' then Elem_page Login_page
      else if k = ''/register'' then Elem_page Register_page
      else if k = ''/dashboard'' then Elem_protected False (Elem_redirect ''/user-dashboard'')
      else if k = ''/admin-dashboard'' then Elem_protected True (Elem_page AdminDashboard_page)
      else if k = ''/users'' then Elem_protected True (Elem_page Users_page)
      else if k = ''/task-management'' then Elem_protected True (Elem_redirect ''/admin-dashboard'')
      else if k = ''/user-dashboard'' then Elem_protected False (Elem_page UserDashboard_page)
      else if k = ''/settings'' then Elem_protected False (Elem_page Settings_page)
      else if k = [] then Elem_redirect ''/login''
      else Elem_page NotFound_page)"

text \<open>What an element renders: a page (\<open>Inl\<close>) or a redirect to a path (\<open>Inr\<close>).\<close>

fun render_elem :: "session \<Rightarrow> route_elem \<Rightarrow> page + string" where
  "render_elem st (Elem_page pg) = Inl pg"
| "render_elem st (Elem_redirect p) = Inr p"
| "render_elem st (Elem_protected adm e) =
     (case protected_route st adm of
        Navigate_login \<Rightarrow> Inr ''/login''
      | Navigate_user_dashboard \<Rightarrow> Inr ''/user-dashboard''
      | Render \<Rightarrow> render_elem st e)"

definition app_render :: "session \<Rightarrow> string \<Rightarrow> page + string" where
  "app_render st l = render_elem st (app_routes (path_name l))"

text \<open>At most \<open>n\<close> redirects are followed; \<open>None\<close> if more are needed.\<close>

fun app_follow :: "nat \<Rightarrow> session \<Rightarrow> string \<Rightarrow> page option" where
  "app_follow 0 st l = (case app_render st l of Inl pg \<Rightarrow> Some pg | Inr _ \<Rightarrow> None)"
| "app_follow (Suc n) st l = (case app_render st l of Inl pg \<Rightarrow> Some pg | Inr l' \<Rightarrow> app_follow n st l')"

text \<open>
  The router itself follows \<open><Navigate>\<close> until a page renders, with no bound: a
  route table with a redirect cycle would never render (\<open>None\<close>).
\<close>

partial_function (option) app_navigate :: "session \<Rightarrow> string \<Rightarrow> page option" where
  "app_navigate st l = (case app_render st l of Inl pg \<Rightarrow> Some pg | Inr l' \<Rightarrow> app_navigate st l')"

section \<open>Login\<close>

text \<open>
  \<open>handleSubmit\<close> of \<open>Login\<close> (lines 18--48): empty fields are refused on the page;
  otherwise \<open>login(email, password)\<close> runs (the server's answer \<open>r\<close>, and the user
  list, are parameters of the context's \<open>login\<close>), then the page navigates to
  \<open>/dashboard\<close> or shows the error.
\<close>

datatype login_outcome =
    Login_refused string
  | Login_done session string toast
  | Login_failed session string toast

definition login_submit ::
  "string \<Rightarrow> string \<Rightarrow> (string \<times> cuser) option \<Rightarrow> cuser list option \<Rightarrow> string \<Rightarrow> session \<Rightarrow> login_outcome" where
  "login_submit email password r us err st =
     (if email = [] \<or> password = [] then Login_refused ''Please enter both email and password''
      else case r of
        Some _ \<Rightarrow> Login_done (login r us st) ''/dashboard'' (Toast ''Success'' ''Logged in successfully'')
      | None \<Rightarrow> Login_failed (login r us st) err (Toast_error ''Login failed'' err))"

text \<open>The two demonstration buttons (lines 51--79) sign in with fixed credentials.\<close>

definition demo_credentials :: "bool \<Rightarrow> string \<times> string" where
  "demo_credentials adm = (if adm then (''admin@example.com'', ''password'') else (''user@example.com'', ''password''))"

section \<open>Register\<close>

text \<open>
  The pattern \<open>/\S+@\S+\.\S+/\<close>, unanchored: a non-space before an \<open>@\<close>, then
  non-spaces up to a \<open>.\<close> with at least one between, and a non-space after it.
\<close>

definition email_pattern :: "string \<Rightarrow> bool" where
  "email_pattern s \<longleftrightarrow>
     list_ex (\<lambda>i. s ! i = CHR ''@'' \<and> \<not> js_space (s ! (i - 1)) \<and>
        list_ex (\<lambda>j. s ! j = CHR ''.'' \<and> \<not> js_space (s ! (j + 1)) \<and>
                     list_all (\<lambda>k. \<not> js_space (s ! k)) [Suc i..<j])
          [i + 2..<length s - 1])
       [1..<length s]"

text \<open>\<open>validate\<close> (lines 20--41): the field errors, in the order the code sets them.\<close>

definition register_validate :: "string \<Rightarrow> string \<Rightarrow> string \<Rightarrow> (string \<times> string) list" where
  "register_validate name email password =
     (if js_blank name then [(''name'', ''Name is required'')] else []) @
     (if js_blank email then [(''email'', ''Email is required'')]
      else if \<not> email_pattern email then [(''email'', ''Email is invalid'')] else []) @
     (if js_blank password then [(''password'', ''Password is required'')]
      else if length password < 6 then [(''password'', ''Password must be at least 6 characters'')] else [])"

text \<open>
  \<open>handleSubmit\<close> of \<open>Register\<close> (lines 43--67): a valid form calls
  \<open>register(name, email, password, 'user')\<close>, whatever role the user wanted.
\<close>

datatype register_outcome =
    Register_invalid "(string \<times> string) list"
  | Register_request string string string role

definition register_submit :: "string \<Rightarrow> string \<Rightarrow> string \<Rightarrow> register_outcome" where
  "register_submit name email password =
     (let errs = register_validate name email password in
      if errs \<noteq> [] then Register_invalid errs else Register_request name email password User)"

section \<open>Settings\<close>

text \<open>
  The theme read at start (\<open>App.tsx\<close>, lines 24--36, and \<open>Settings\<close>, lines 16--26):
  dark unless \<open>localStorage.darkMode\<close> is \<open>'light'\<close>. \<open>toggleDarkMode\<close> (lines
  28--44) writes the other theme; no control of the page calls it.
\<close>

definition stored_dark :: "string option \<Rightarrow> bool" where
  "stored_dark v \<longleftrightarrow> v \<noteq> Some ''light''"

definition toggleDarkMode :: "bool \<Rightarrow> bool \<times> string \<times> toast" where
  "toggleDarkMode dark =
     (let d = \<not> dark in
      (d, if d then ''dark'' else ''light'',
       Toast (if d then ''Dark Mode Enabled'' else ''Light Mode Enabled'')
             (''The application theme has been changed to '' @ (if d then ''dark'' else ''light'') @ '' mode.'')))"

text \<open>The page's controls (lines 46--154): nothing without a user; Save only toasts.\<close>

definition settings_save :: "cuser option \<Rightarrow> effect list" where
  "settings_save cu =
     (if cu = None then [] else [Notify (Toast ''Settings saved'' ''Your settings have been updated successfully.'')])"

section \<open>ErrorBoundary\<close>

text \<open>
  \<open>ErrorBoundary\<close>: a render that throws (\<open>None\<close>) shows the fallback with the
  error; no component of the repository mounts the boundary.
\<close>

datatype 'a boundary = Shows 'a | Fallback

definition error_boundary :: "'a option \<Rightarrow> 'a boundary" where
  "error_boundary r = (case r of Some v \<Rightarrow> Shows v | None \<Rightarrow> Fallback)"

section \<open>Lemmas on the shell\<close>

lemma app_routes_targets:
  "app_routes ''/login'' = Elem_page Login_page"
  "app_routes ''/user-dashboard'' = Elem_protected False (Elem_page UserDashboard_page)"
  "app_routes ''/admin-dashboard'' = Elem_protected True (Elem_page AdminDashboard_page)"
  "app_routes ''/dashboard'' = Elem_protected False (Elem_redirect ''/user-dashboard'')"
  "app_routes ''/task-management'' = Elem_protected True (Elem_redirect ''/admin-dashboard'')"
  by (simp_all add: app_routes_def route_key_def js_lower_def js_lower_char_def)

lemma app_render_targets:
  "app_render st ''/login'' = Inl Login_page"
  "app_render st ''/user-dashboard'' = (if ss_user st = None then Inr ''/login'' else Inl UserDashboard_page)"
  "app_render st ''/admin-dashboard'' =
     (case ss_user st of None \<Rightarrow> Inr ''/login''
      | Some u \<Rightarrow> if cu_role u = Admin then Inl AdminDashboard_page else Inr ''/user-dashboard'')"
  "app_render st ''/dashboard'' = (if ss_user st = None then Inr ''/login'' else Inr ''/user-dashboard'')"
  by (simp_all add: app_render_def path_name_def app_routes_targets protected_route_def split: option.splits)

lemma app_render_redirects:
  "app_render st l = Inr l' \<Longrightarrow>
   l' = ''/login'' \<or> (l' = ''/user-dashboard'' \<and> ss_user st \<noteq> None) \<or>
   (l' = ''/admin-dashboard'' \<and> (\<exists>u. ss_user st = Some u \<and> cu_role u = Admin))"
  by (auto simp: app_render_def app_routes_def Let_def protected_route_def
      split: option.splits if_splits route_outcome.splits)

lemma task_management_redirects: "\<exists>p. app_render st ''/task-management'' = Inr p"
  by (simp add: app_render_def path_name_def app_routes_targets protected_route_def split: option.splits)

lemma register_role_user: "register_submit n e pw = Register_request n' e' pw' r \<Longrightarrow> r = User"
  by (simp add: register_submit_def Let_def split: if_splits)

lemma app_follow_navigate: "app_follow n st l = Some pg \<Longrightarrow> app_navigate st l = Some pg"
proof (induction n arbitrary: l)
  case 0
  then show ?case by (subst app_navigate.simps) (simp split: sum.splits)
next
  case (Suc n)
  then show ?case by (subst app_navigate.simps) (auto split: sum.splits)
qed

section \<open>Properties\<close>

text \<open>
  C24. The router's redirect loop terminates: from every location and in every session,
  following the \<open><Navigate>\<close>s renders a page, the same page the bounded
  \<open>app_follow\<close> finds with one redirect.
\<close>

theorem app_navigate_terminates: "\<exists>pg. app_navigate st l = Some pg \<and> app_follow 1 st l = Some pg"
proof (cases "app_render st l")
  case (Inl pg)
  then show ?thesis by (subst app_navigate.simps) simp
next
  case (Inr l')
  have "\<exists>pg. app_render st l' = Inl pg"
    using app_render_redirects [OF Inr] by (auto simp: app_render_targets split: option.splits)
  then obtain pg where pg: "app_render st l' = Inl pg" by blast
  then have "app_follow 1 st l = Some pg" using Inr by simp
  then show ?thesis using app_follow_navigate by blast
qed


text \<open>
  C34. \<open>/dashboard\<close> does not redirect by role, as the comments at lines 54 and 59 of
  \<open>App.tsx\<close> say: it sends every signed-in user to \<open>/user-dashboard\<close>, so an
  administrator who opens it lands on the user dashboard, although
  \<open>/admin-dashboard\<close> renders the administrator's page for them; a signed-out visitor
  lands on the sign-in page. Case and trailing slashes of the path do not matter.
\<close>

theorem dashboard_ignores_role:
  assumes u: "ss_user st = Some u" and adm: "cu_role u = Admin"
  shows "app_navigate st ''/dashboard'' = Some UserDashboard_page \<and>
    app_navigate st ''/Dashboard/'' = Some UserDashboard_page \<and>
    app_navigate st ''/admin-dashboard'' = Some AdminDashboard_page \<and>
    app_navigate (st\<lparr>ss_user := None\<rparr>) ''/dashboard'' = Some Login_page"
proof -
  have k: "route_key ''/Dashboard/'' = route_key ''/dashboard''" by code_simp
  have d: "app_render st ''/Dashboard/'' = app_render st ''/dashboard''"
    by (simp add: app_render_def path_name_def app_routes_def k del: route_key_def)
  have "app_follow 1 st ''/dashboard'' = Some UserDashboard_page"
    using u by (simp add: app_render_targets)
  moreover have "app_follow 1 st ''/Dashboard/'' = Some UserDashboard_page"
    using u by (simp add: d app_render_targets)
  moreover have "app_follow 1 st ''/admin-dashboard'' = Some AdminDashboard_page"
    using u adm by (simp add: app_render_targets)
  moreover have "app_follow 1 (st\<lparr>ss_user := None\<rparr>) ''/dashboard'' = Some Login_page"
    by (simp add: app_render_targets)
  ultimately show ?thesis by (blast intro: app_follow_navigate)
qed

theorem dashboard_ignores_role_witness:
  "app_navigate (login (Some (''tok'', demo_ada)) None (initial_session None)) ''/dashboard'' = Some UserDashboard_page"
proof -
  have "ss_user (login (Some (''tok'', demo_ada)) None (initial_session None)) = Some demo_ada"
    by (simp add: login_def admin_users_def setAuthToken_def)
  moreover have "cu_role demo_ada = Admin" by (simp add: demo_ada_def)
  ultimately show ?thesis using dashboard_ignores_role by blast
qed

end
