(* ===== verification/UI_Views.thy ===== *)
theory UI_Views
  imports UI_App
begin

text \<open>
  What the remaining pages render from their state: the forms of \<open>Register\<close> and
  \<open>Login\<close> with their error messages, the \<open>Settings\<close> page, \<open>NotFound\<close>, the dialogs
  of \<open>Users\<close> and \<open>UserDashboard\<close>, and the headers of \<open>UserDashboard\<close> and
  \<open>TaskManagement\<close>. Each view is a record of what the JSX shows (texts, values,
  which controls are disabled, where a link goes); styling is left out.
\<close>

section \<open>Register\<close>

text \<open>The state of \<open>Register\<close> (lines 10--14): the three fields, \<open>isLoading\<close>, \<open>errors\<close>.\<close>

record register_state =
  rs_name :: string
  rs_email :: string
  rs_password :: string
  rs_loading :: bool
  rs_errors :: "(string \<times> string) list"

definition register_init :: register_state where
  "register_init = \<lparr>rs_name = [], rs_email = [], rs_password = [], rs_loading = False, rs_errors = []\<rparr>"

text \<open>
  \<open>handleSubmit\<close> of \<open>Register\<close> (lines 43--50): \<open>validate\<close> replaces the errors;
  a valid form sets \<open>isLoading\<close> and calls \<open>register\<close> (\<open>register_submit\<close>).
\<close>

definition register_handleSubmit :: "register_state \<Rightarrow> register_state \<times> register_outcome" where
  "register_handleSubmit st =
     (let errs = register_validate (rs_name st) (rs_email st) (rs_password st) in
      (st\<lparr>rs_errors := errs, rs_loading := (errs = [])\<rparr>, register_submit (rs_name st) (rs_email st) (rs_password st)))"

text \<open>
  The rest of \<open>handleSubmit\<close> (lines 52--66), once \<open>register\<close> of the context
  settles: on success the page navigates to \<open>/dashboard\<close>; when it throws with a
  message, the message becomes the form's error (\<open>'Registration failed'\<close> if empty)
  and a destructive toast shows it (\<open>'Failed to create account'\<close> if empty). In both
  cases \<open>finally\<close> ends the loading state.
\<close>

definition register_reply :: "string option \<Rightarrow> register_state \<Rightarrow> register_state \<times> string option \<times> toast option" where
  "register_reply err st =
     (case err of
        None \<Rightarrow> (st\<lparr>rs_loading := False\<rparr>, Some ''/dashboard'', None)
      | Some m \<Rightarrow>
          (st\<lparr>rs_errors := [(''form'', if m = [] then ''Registration failed'' else m)], rs_loading := False\<rparr>, None,
           Some (Toast_error ''Registration failed'' (if m = [] then ''Failed to create account'' else m))))"

text \<open>The form (lines 94--163): an error under each field, the form's error, the button, the link.\<close>

record register_screen =
  rv_nameError :: "string option"
  rv_emailError :: "string option"
  rv_passwordError :: "string option"
  rv_formError :: "string option"
  rv_button :: string
  rv_disabled :: bool
  rv_link :: string

definition register_view :: "register_state \<Rightarrow> register_screen" where
  "register_view st =
     \<lparr>rv_nameError = map_of (rs_errors st) ''name'', rv_emailError = map_of (rs_errors st) ''email'',
      rv_passwordError = map_of (rs_errors st) ''password'', rv_formError = map_of (rs_errors st) ''form'',
      rv_button = (if rs_loading st then ''Creating account...'' else ''REGISTER''),
      rv_disabled = rs_loading st, rv_link = ''/login''\<rparr>"

section \<open>Login\<close>

text \<open>
  The form of \<open>Login\<close> (lines 88--138). The error is a string, \<open>''\<close> for none; it is
  shown under the e-mail field when it contains \<open>email\<close>, and under the password
  field otherwise.
\<close>

record login_screen =
  lv_emailError :: "string option"
  lv_formError :: "string option"
  lv_button :: string
  lv_disabled :: bool
  lv_link :: string

definition login_view :: "string \<Rightarrow> bool \<Rightarrow> login_screen" where
  "login_view err loading =
     \<lparr>lv_emailError = (if err \<noteq> [] \<and> js_includes err ''email'' then Some err else None),
      lv_formError = (if err \<noteq> [] \<and> \<not> js_includes err ''email'' then Some err else None),
      lv_button = (if loading then ''Logging in...'' else ''LOGIN''), lv_disabled = loading,
      lv_link = ''/register''\<rparr>"

text \<open>
  The error the page shows after a failed sign-in (lines 37--38): the message the
  context's \<open>login\<close> throws, which is the server's \<open>message\<close> or \<open>'Login failed'\<close>.
\<close>

definition login_error :: "string option \<Rightarrow> string" where
  "login_error srv = (case srv of None \<Rightarrow> ''Login failed'' | Some m \<Rightarrow> if m = [] then ''Login failed'' else m)"

section \<open>Settings\<close>

text \<open>
  The page (lines 54--153): the name as an editable field's initial value, the e-mail and
  the role disabled, three notification switches on by default, and Save, which only
  toasts (\<open>settings_save\<close>): an edited name is never sent.
\<close>

record settings_screen =
  sv_name :: string
  sv_email :: string
  sv_role :: string
  sv_disabled :: "string list"
  sv_switches :: "(string \<times> bool) list"

definition settings_view :: "cuser option \<Rightarrow> settings_screen option" where
  "settings_view cu =
     (case cu of
        None \<Rightarrow> None
      | Some u \<Rightarrow> Some \<lparr>sv_name = cu_name u, sv_email = cu_email u, sv_role = string_of_role (cu_role u),
                         sv_disabled = [''email'', ''role''],
                         sv_switches = [(''Email Notifications'', True), (''Task Reminders'', True),
                                        (''Status Updates'', True)]\<rparr>)"

section \<open>NotFound\<close>

text \<open>
  \<open>NotFound\<close> (lines 7--34): the effect logs the path with \<open>console.error\<close>; the page
  shows 404 and a button to \<open>/dashboard\<close>.
\<close>

definition notfound_view :: "string \<Rightarrow> (string \<times> string) \<times> string \<times> string" where
  "notfound_view p =
     ((''404 Error: User attempted to access non-existent route:'', path_name p), ''Oops! Page not found'', ''/dashboard'')"

section \<open>Users: the dialogs\<close>

text \<open>
  The three dialogs of \<open>Users\<close> (lines 579--685): the photo at the server's address
  (open while the URL is not empty), the edit form with its values, and the delete
  confirmation.
\<close>

record users_dialogs =
  uds_photo :: "string option"
  uds_edit :: "(string \<times> string \<times> role) option"
  uds_confirm :: bool

definition users_dialogs_view :: "users_state \<Rightarrow> users_dialogs" where
  "users_dialogs_view st =
     \<lparr>uds_photo = (case us_selectedPhotoUrl st of
                     None \<Rightarrow> None
                   | Some u \<Rightarrow> if u = [] then None else Some (''http://localhost:5000'' @ u)),
      uds_edit = (case us_editingUser st of None \<Rightarrow> None | Some _ \<Rightarrow> Some (us_editForm st)),
      uds_confirm = us_showDeleteConfirm st\<rparr>"

section \<open>UserDashboard: header, counters and the upload dialog\<close>

text \<open>
  The header and the three counters (lines 271--350): the greeting, the search value,
  the number of the user's tasks, of those in progress, and the completion rate, which
  is also the width of the progress bar.
\<close>

record ud_header =
  uh_welcome :: string
  uh_search :: string
  uh_counters :: "(string \<times> nat) list"
  uh_bar :: nat

definition ud_header_view :: "cuser \<Rightarrow> ctask list \<Rightarrow> ud_state \<Rightarrow> ud_header" where
  "ud_header_view u ts st =
     (let mine = ud_userTasks (Some u) ts in
      \<lparr>uh_welcome = ''Welcome, '' @ cu_name u, uh_search = ud_search st,
       uh_counters = [(''My Tasks'', length mine),
                      (''In Progress'', count_status mine InProgress),
                      (''Completion Rate'', ud_completionRate (Some u) ts)],
       uh_bar = ud_completionRate (Some u) ts\<rparr>)"

text \<open>
  The confirmation dialog (lines 583--618): when open, the preview if there is one, with
  the caption under it when not empty; Confirm runs \<open>handlePhotoUpload\<close>.
\<close>

definition ud_photo_dialog :: "ud_state \<Rightarrow> (string \<times> string option) option option" where
  "ud_photo_dialog st =
     (if ud_photoDialog st
      then Some (case ud_preview st of
                   None \<Rightarrow> None
                 | Some p \<Rightarrow> if p = [] then None
                             else Some (p, if ud_caption st = [] then None else Some (ud_caption st)))
      else None)"

section \<open>TaskManagement: the header\<close>

text \<open>
  The welcome overlay and the greeting (lines 151--169), with \<open>'Admin'\<close> when there is
  no user name.
\<close>

definition tm_name :: "cuser option \<Rightarrow> string" where
  "tm_name cu = (case cu of None \<Rightarrow> ''Admin'' | Some u \<Rightarrow> if cu_name u = [] then ''Admin'' else cu_name u)"

definition tm_header :: "cuser option \<Rightarrow> bool \<Rightarrow> string option \<times> string" where
  "tm_header cu welcome =
     (if welcome then Some (''Welcome, '' @ tm_name cu @ ''!'') else None, ''Hello, '' @ tm_name cu)"

section \<open>TaskInsights: drawing the series\<close>

text \<open>The palette (line 10) and the colour of each entry of the three series (lines 21, 28, 35).\<close>

definition insights_COLORS :: "string list" where
  "insights_COLORS = [''#4F46E5'', ''#16A34A'', ''#EF4444'', ''#F59E0B'', ''#3B82F6'', ''#EC4899'']"

fun status_color :: "status \<Rightarrow> string" where
  "status_color Todo = ''#F59E0B''"
| "status_color InProgress = ''#3B82F6''"
| "status_color Completed = ''#16A34A''"

fun priority_color :: "priority \<Rightarrow> string" where
  "priority_color High = ''#EF4444''"
| "priority_color Medium = ''#F59E0B''"
| "priority_color Low = ''#16A34A''"

definition group_color :: "task_group \<Rightarrow> string" where
  "group_color g = (if g = Frontend then ''#4F46E5'' else if g = Backend then ''#EC4899'' else ''#3B82F6'')"

text \<open>A cell's fill: \<open>entry.color || COLORS[index % COLORS.length]\<close> (lines 106, 128).\<close>

definition cell_fill :: "string \<Rightarrow> nat \<Rightarrow> string" where
  "cell_fill c i = (if c = [] then insights_COLORS ! (i mod length insights_COLORS) else c)"

text \<open>
  \<open>renderPieChart\<close> (lines 91--114): per entry the label \<open>name: p%\<close>, with \<open>p\<close> the
  rounded share of the sum of the values, the fill and the tooltip \<open>n tasks\<close>;
  \<open>renderBarChart\<close> (lines 116--135) draws the same cells as bars.
\<close>

definition pie_label :: "nat \<Rightarrow> string \<Rightarrow> nat \<Rightarrow> string" where
  "pie_label sm n v = n @ '': '' @ decimal (percent_round v sm) @ ''%''"

definition tooltip_text :: "nat \<Rightarrow> string" where
  "tooltip_text v = decimal v @ '' tasks''"

definition renderPieChart :: "(string \<times> nat \<times> string) list \<Rightarrow> (string \<times> string \<times> string) list" where
  "renderPieChart data =
     (let sm = sum_list (map (\<lambda>(n, v, c). v) data) in
      map (\<lambda>(i, n, v, c). (pie_label sm n v, cell_fill c i, tooltip_text v)) (enumerate 0 data))"

definition renderBarChart :: "(string \<times> nat \<times> string) list \<Rightarrow> (string \<times> nat \<times> string) list" where
  "renderBarChart data = map (\<lambda>(i, n, v, c). (n, v, cell_fill c i)) (enumerate 0 data)"

text \<open>The coloured series the panel passes to them.\<close>

definition insights_series :: "ctask list \<Rightarrow> (string \<times> nat \<times> string) list list" where
  "insights_series ts =
     [map (\<lambda>st. (status_label st, getTasksByStatus ts st, status_color st)) [Todo, InProgress, Completed],
      map (\<lambda>p. (priority_label p, getTasksByPriority ts p, priority_color p)) [High, Medium, Low],
      map (\<lambda>g. (string_of_group g, getTasksByGroup ts g, group_color g)) [Frontend, Backend, Database]]"

text \<open>
  \<open>renderUserBarChart\<close> (lines 160--179): per user three stacked bars, completed,
  in progress and to do, in that order from the axis.
\<close>

definition renderUserBarChart ::
  "(string \<times> nat \<times> nat \<times> nat \<times> nat) list \<Rightarrow> (string \<times> (string \<times> nat \<times> string) list) list" where
  "renderUserBarChart rows =
     map (\<lambda>(n, tot, c, ip, td). (n, [(''Completed'', c, ''#16A34A''), (''In Progress'', ip, ''#3B82F6''),
                                    (''To Do'', td, ''#F59E0B'')])) rows"

text \<open>
  The ring of the productivity score (lines 290--318): its colour, and the dash drawn
  along the circumference of 283, in hundredths (\<open>score * 2.83\<close>).
\<close>

definition score_ring :: "nat \<Rightarrow> string \<times> nat" where
  "score_ring p = (if 70 < p then ''#16A34A'' else if 40 < p then ''#F59E0B'' else ''#EF4444'', p * 283)"

section \<open>Lemmas\<close>

lemma js_includes_append_right: "js_includes ys q \<Longrightarrow> js_includes (xs @ ys) q"
  by (induction xs) auto

lemma register_handleSubmit_loading:
  "rs_loading (fst (register_handleSubmit st)) \<longleftrightarrow>
   snd (register_handleSubmit st) = Register_request (rs_name st) (rs_email st) (rs_password st) User"
  by (simp add: register_handleSubmit_def register_submit_def Let_def)

lemma register_invalid_shown:
  "snd (register_handleSubmit st) = Register_invalid errs \<Longrightarrow>
   errs \<noteq> [] \<and> rv_disabled (register_view (fst (register_handleSubmit st))) = False \<and>
   rv_formError (register_view (fst (register_handleSubmit st))) = None"
proof -
  assume inv: "snd (register_handleSubmit st) = Register_invalid errs"
  have form: "map_of (register_validate n e p) ''form'' = None" for n e p
    by (simp add: register_validate_def)
  from inv show ?thesis
    by (auto simp: register_handleSubmit_def register_submit_def register_view_def form Let_def split: if_splits)
qed

lemma register_failure_shown:
  "rv_formError (register_view (fst (register_reply (Some m) st))) =
     Some (if m = [] then ''Registration failed'' else m) \<and>
   \<not> rv_disabled (register_view (fst (register_reply err st)))"
  by (simp add: register_reply_def register_view_def split: option.splits)

lemma register_reply_navigates:
  "fst (snd (register_reply err st)) = Some ''/dashboard'' \<longleftrightarrow> err = None"
  by (simp add: register_reply_def split: option.splits)

lemma login_view_one_place:
  "\<not> (lv_emailError (login_view err b) \<noteq> None \<and> lv_formError (login_view err b) \<noteq> None) \<and>
   (lv_emailError (login_view err b) = Some err \<or> lv_formError (login_view err b) = Some err \<longleftrightarrow> err \<noteq> [])"
  by (simp add: login_view_def)

lemma login_error_nonempty: "login_error srv \<noteq> []"
  by (simp add: login_error_def split: option.splits)

lemma login_failure_shown:
  "lv_emailError (login_view (login_error srv) b) = Some (login_error srv) \<or>
   lv_formError (login_view (login_error srv) b) = Some (login_error srv)"
  using login_view_one_place [of "login_error srv" b] login_error_nonempty [of srv] by blast

lemma login_refusal_under_email:
  "lv_emailError (login_view ''Please enter both email and password'' False) = Some ''Please enter both email and password''"
  by (simp add: login_view_def)

lemma login_invalid_credentials_form:
  "lv_formError (login_view (login_error (Some ''Invalid credentials'')) False) = Some ''Invalid credentials''"
  by (simp add: login_view_def login_error_def)

lemma ud_header_bounds:
  "snd (uh_counters (ud_header_view u ts st) ! 1) \<le> snd (uh_counters (ud_header_view u ts st) ! 0) \<and>
   uh_bar (ud_header_view u ts st) \<le> 100"
proof -
  let ?mine = "ud_userTasks (Some u) ts"
  have "count_status ?mine Completed \<le> length ?mine"
    by (simp add: count_status_def)
  then have "ud_completionRate (Some u) ts \<le> 100"
    by (simp add: ud_completionRate_def Let_def percent_round_le)
  moreover have "count_status ?mine InProgress \<le> length ?mine"
    by (simp add: count_status_def)
  ultimately show ?thesis by (simp add: ud_header_view_def Let_def)
qed

lemma ud_photo_dialog_caption:
  "ud_photo_dialog st = Some (Some (p, Some c)) \<Longrightarrow>
   ud_photoDialog st \<and> ud_preview st = Some p \<and> p \<noteq> [] \<and> c = ud_caption st \<and> c \<noteq> []"
  by (auto simp: ud_photo_dialog_def split: if_splits option.splits)

lemma tm_name_nonempty: "tm_name cu \<noteq> []"
  by (simp add: tm_name_def split: option.splits)

lemma users_photo_server_url:
  "uds_photo (users_dialogs_view st) = Some src \<Longrightarrow>
   \<exists>u. us_selectedPhotoUrl st = Some u \<and> u \<noteq> [] \<and> src = ''http://localhost:5000'' @ u"
  by (auto simp: users_dialogs_view_def split: option.splits if_splits)

lemma settings_save_sends_nothing: "calls (settings_save cu) = []"
  by (simp add: settings_save_def calls_def)

lemma notfound_link_lands:
  "app_navigate st (snd (snd (notfound_view p))) = Some (if ss_user st = None then Login_page else UserDashboard_page)"
proof -
  have "app_follow 1 st ''/dashboard'' = Some (if ss_user st = None then Login_page else UserDashboard_page)"
    by (simp add: app_render_targets)
  then have "app_navigate st ''/dashboard'' = Some (if ss_user st = None then Login_page else UserDashboard_page)"
    by (rule app_follow_navigate)
  then show ?thesis by (simp add: notfound_view_def)
qed

lemma insights_series_colored: "xs \<in> set (insights_series ts) \<Longrightarrow> (n, v, c) \<in> set xs \<Longrightarrow> c \<noteq> []"
  by (auto simp: insights_series_def group_color_def elim: status_color.elims priority_color.elims)

lemma cell_fill_own: "c \<noteq> [] \<Longrightarrow> cell_fill c i = c"
  by (simp add: cell_fill_def)

lemma bar_cells_enumerate:
  "(\<And>n v c. (n, v, c) \<in> set xs \<Longrightarrow> c \<noteq> []) \<Longrightarrow>
   map (\<lambda>(i, n, v, c). (n, v, cell_fill c i)) (enumerate k xs) = xs"
  by (induction xs arbitrary: k) (fastforce simp: cell_fill_def)+

lemma bar_fills_series: "xs \<in> set (insights_series ts) \<Longrightarrow> renderBarChart xs = xs"
  unfolding renderBarChart_def
  by (rule bar_cells_enumerate) (rule insights_series_colored)

lemma score_ring_bounds: "snd (score_ring (calculateProductivityScore ts)) \<le> 28300"
proof -
  have "count_status ts Completed \<le> length ts" by (simp add: count_status_def)
  then have "calculateProductivityScore ts \<le> 100"
    by (simp add: calculateProductivityScore_def percent_round_le)
  then show ?thesis by (simp add: score_ring_def)
qed

lemma score_ring_verdict:
  "fst (score_ring p) = ''#16A34A'' \<longleftrightarrow> productivity_verdict p = ''Excellent!''"
  by (simp add: score_ring_def productivity_verdict_def)

end
