(* ===== verification/Server.thy ===== *)
theory Server
  imports Routes Client_Session
begin

text \<open>
  The HTTP server of \<open>src/backend/server.js\<close> and the requests the client's
  \<open>src/client/src/lib/api.ts\<close> sends to it. \<open>server.js\<close> parses JSON bodies
  (\<open>express.json()\<close>), serves \<open>/uploads\<close> from the upload directory, mounts
  \<open>routes/authRoutes.js\<close> at \<open>/api/auth\<close> and \<open>routes/taskRoutes.js\<close> at
  \<open>/api/tasks\<close>, and ends with an error handler that answers 500. A request is a
  method, a URL path, the \<open>Authorization\<close> header and the fields of \<open>req.body\<close>;
  \<open>resolve\<close> is Express's matching of the path against the mounts and route tables,
  and \<open>serve\<close> runs the handler chain the request reaches. The states reachable by
  any sequence of requests, the auth routes included, form the inductive set
  \<open>served\<close>.
\<close>

section \<open>Requests\<close>

datatype http_method = GET | POST | PUT | DELETE

text \<open>
  The fields of \<open>req.body\<close> the handlers read, by their JSON names (absent fields are
  \<open>None\<close>; as for \<open>task_body\<close>, the deadline and the ids are taken as cast). A
  multipart form (multer) fills the same object with its text fields.
\<close>

record json_body =
  j_title :: "string option"
  j_shortDescription :: "string option"
  j_longDescription :: "string option"
  j_priority :: "string option"
  j_deadline :: "nat option"
  j_status :: "string option"
  j_assignedTo :: "oid option"
  j_group :: "string option"
  j_createdBy :: "oid option"
  j_text :: "string option"
  j_caption :: "string option"
  j_name :: "string option"
  j_email :: "string option"
  j_password :: "string option"
  j_role :: "string option"

definition empty_json :: json_body where
  "empty_json = \<lparr>j_title = None, j_shortDescription = None, j_longDescription = None, j_priority = None,
     j_deadline = None, j_status = None, j_assignedTo = None, j_group = None, j_createdBy = None,
     j_text = None, j_caption = None, j_name = None, j_email = None, j_password = None, j_role = None\<rparr>"

text \<open>
  A request: the body is a JSON object, a body \<open>express.json()\<close> cannot parse (with
  the parser's message), or a multipart form with the original name of its
  \<open>photo\<close> file.
\<close>

datatype body = Json json_body | Malformed_json string | Multipart json_body "string option"

record http_request =
  rq_method :: http_method
  rq_path :: string
  rq_auth :: "string option"
  rq_body :: body

text \<open>\<open>req.body\<close> once the body parsers ran, and \<open>req.file\<close>'s original name.\<close>

fun req_json :: "body \<Rightarrow> json_body" where
  "req_json (Json j) = j"
| "req_json (Malformed_json m) = empty_json"
| "req_json (Multipart j f) = j"

fun req_file :: "body \<Rightarrow> string option" where
  "req_file (Multipart j f) = f"
| "req_file _ = None"

text \<open>What the task handlers read from \<open>req.body\<close>.\<close>

definition task_body_of :: "json_body \<Rightarrow> task_body" where
  "task_body_of j =
     \<lparr>b_title = j_title j, b_shortDescription = j_shortDescription j, b_longDescription = j_longDescription j,
      b_priority = j_priority j, b_deadline = j_deadline j, b_status = j_status j,
      b_assignedTo = j_assignedTo j, b_group = j_group j\<rparr>"

definition task_patch_of :: "json_body \<Rightarrow> task_patch" where
  "task_patch_of j =
     \<lparr>p_title = j_title j, p_shortDescription = j_shortDescription j, p_longDescription = j_longDescription j,
      p_status = j_status j, p_priority = j_priority j, p_deadline = j_deadline j, p_group = j_group j,
      p_assignedTo = j_assignedTo j, p_createdBy = j_createdBy j\<rparr>"

definition profile_of :: "json_body \<Rightarrow> profile_patch" where
  "profile_of j = \<lparr>pp_name = j_name j, pp_email = j_email j, pp_password = j_password j\<rparr>"

text \<open>An absent string field reads as the empty string: both are falsy.\<close>

definition field :: "string option \<Rightarrow> string" where
  "field v = (case v of None \<Rightarrow> [] | Some x \<Rightarrow> x)"

section \<open>Matching paths\<close>

text \<open>
  The path is split at \<open>/\<close> after the leading one and without the query; a trailing
  \<open>/\<close> is ignored (Express routes are not strict). A path that does not start with
  \<open>/\<close> matches nothing.
\<close>

definition route_segments :: "string \<Rightarrow> string list option" where
  "route_segments p =
     (case js_split CHR ''/'' (path_name p) of
        [] \<Rightarrow> None
      | x # ss \<Rightarrow> if x \<noteq> [] then None else Some (if ss \<noteq> [] \<and> last ss = [] then butlast ss else ss))"

text \<open>Literal parts of a route match without regard to case; a parameter is one non-empty segment.\<close>

definition seg_is :: "string \<Rightarrow> string \<Rightarrow> bool" where
  "seg_is lit x \<longleftrightarrow> js_lower x = lit"

text \<open>The segments joined again, for the file name below \<open>/uploads\<close>.\<close>

fun join_slash :: "string list \<Rightarrow> string" where
  "join_slash [] = []"
| "join_slash [x] = x"
| "join_slash (x # xs) = x @ ''/'' @ join_slash xs"

text \<open>The handler chain a request reaches.\<close>

datatype endpoint =
    E_static string
  | E_register | E_login | E_getProfile | E_updateProfile | E_getDevices | E_getAllUsers
  | E_deleteUser string | E_updateUserRole string
  | E_tasks_get | E_tasks_post | E_task_get string | E_task_put string | E_task_delete string
  | E_comment_post string | E_photo_post string | E_photo_delete string string
  | E_tasks_unmatched
  | E_none

text \<open>\<open>authRoutes.js\<close>, lines 15--27, below \<open>/api/auth\<close>.\<close>

fun auth_table :: "http_method \<Rightarrow> string list \<Rightarrow> endpoint" where
  "auth_table m [x] =
     (if m = POST \<and> seg_is ''register'' x then E_register
      else if m = POST \<and> seg_is ''login'' x then E_login
      else if m = GET \<and> seg_is ''profile'' x then E_getProfile
      else if m = PUT \<and> seg_is ''profile'' x then E_updateProfile
      else if m = GET \<and> seg_is ''devices'' x then E_getDevices
      else if m = GET \<and> seg_is ''users'' x then E_getAllUsers
      else E_none)"
| "auth_table m [x, y] =
     (if m = GET \<and> seg_is ''users'' x \<and> seg_is ''devices'' y then E_getDevices
      else if m = DELETE \<and> seg_is ''users'' x \<and> y \<noteq> [] then E_deleteUser y
      else E_none)"
| "auth_table m [x, y, z] =
     (if m = PUT \<and> seg_is ''users'' x \<and> y \<noteq> [] \<and> seg_is ''role'' z then E_updateUserRole y else E_none)"
| "auth_table m _ = E_none"

text \<open>
  \<open>taskRoutes.js\<close>, lines 33--47, below \<open>/api/tasks\<close>. \<open>router.use(protect)\<close>
  runs for every request that enters the router, also one that no route matches.
\<close>

fun task_table :: "http_method \<Rightarrow> string list \<Rightarrow> endpoint" where
  "task_table m [] = (if m = GET then E_tasks_get else if m = POST then E_tasks_post else E_tasks_unmatched)"
| "task_table m [i] =
     (if i = [] then E_tasks_unmatched
      else if m = GET then E_task_get i else if m = PUT then E_task_put i
      else if m = DELETE then E_task_delete i else E_tasks_unmatched)"
| "task_table m [i, x] =
     (if i \<noteq> [] \<and> m = POST \<and> seg_is ''comments'' x then E_comment_post i
      else if i \<noteq> [] \<and> m = POST \<and> seg_is ''photos'' x then E_photo_post i
      else E_tasks_unmatched)"
| "task_table m [i, x, j] =
     (if i \<noteq> [] \<and> j \<noteq> [] \<and> m = DELETE \<and> seg_is ''photos'' x then E_photo_delete i j else E_tasks_unmatched)"
| "task_table m _ = E_tasks_unmatched"

text \<open>
  \<open>server.js\<close>, lines 31--33: the static files, then the two routers, in this order;
  a path matched by none reaches Express's final 404.
\<close>

definition resolve :: "http_method \<Rightarrow> string \<Rightarrow> endpoint" where
  "resolve m p =
     (case route_segments p of
        None \<Rightarrow> E_none
      | Some ss \<Rightarrow>
          (case ss of
             x # rest \<Rightarrow>
               if m = GET \<and> seg_is ''uploads'' x \<and> rest \<noteq> [] then E_static (join_slash rest)
               else
                 (case rest of
                    y # rest' \<Rightarrow>
                      if seg_is ''api'' x \<and> seg_is ''auth'' y then auth_table m rest'
                      else if seg_is ''api'' x \<and> seg_is ''tasks'' y then task_table m rest'
                      else E_none
                  | [] \<Rightarrow> E_none)
           | [] \<Rightarrow> E_none))"

section \<open>Serving a request\<close>

text \<open>
  What the client receives: a reply of the task router or of the auth controller, a
  file of \<open>uploads/\<close>, the device list of a user (\<open>getDevices\<close>, whose contents the
  specification leaves open), Express's 404 \<open>Cannot <method> <path>\<close>, or the 500 of
  the error handler (lines 36--43) with the error's message.
\<close>

datatype outcome =
    Task_reply "payload reply"
  | Auth_reply "auth_payload reply"
  | Static_file string
  | Devices_of oid
  | Not_found http_method string
  | Server_error string

text \<open>An auth route behind \<open>protect\<close> (and, for the admin routes, \<open>authorize('admin')\<close>).\<close>

definition guarded ::
  "verifier \<Rightarrow> db \<Rightarrow> string option \<Rightarrow> bool \<Rightarrow> (principal \<Rightarrow> outcome \<times> db) \<Rightarrow> outcome \<times> db" where
  "guarded verify s h adm k =
     (case protect verify s h of
        Inl e \<Rightarrow> (Auth_reply (reject e), s)
      | Inr me \<Rightarrow>
          if adm then (case authorize [''admin''] me of Inl e \<Rightarrow> (Auth_reply (reject e), s) | Inr me' \<Rightarrow> k me')
          else k me)"

text \<open>
  One request. A body that does not parse never reaches a route: the error goes to the
  error handler. The task routes and the admin's user deletion are \<open>dispatch\<close>.
\<close>

definition serve :: "verifier \<Rightarrow> hasher \<Rightarrow> signer \<Rightarrow> db \<Rightarrow> http_request \<Rightarrow> nat \<Rightarrow> outcome \<times> db" where
  "serve verify hash sign s rq now =
     (case rq_body rq of
        Malformed_json msg \<Rightarrow> (Server_error msg, s)
      | _ \<Rightarrow>
     (let j = req_json (rq_body rq); h = rq_auth rq;
          task = (\<lambda>req. apfst Task_reply (dispatch verify s h req now)) in
      case resolve (rq_method rq) (rq_path rq) of
        E_static f \<Rightarrow> (if upload_path f \<in> uploads s then Static_file f else Not_found (rq_method rq) (rq_path rq), s)
      | E_register \<Rightarrow>
          apfst Auth_reply (register_ctrl hash sign s (field (j_name j)) (field (j_email j)) (field (j_password j)) (field (j_role j)))
      | E_login \<Rightarrow> (Auth_reply (login_ctrl hash sign s (field (j_email j)) (field (j_password j))), s)
      | E_getProfile \<Rightarrow> guarded verify s h False (\<lambda>me. (Auth_reply (getProfile_ctrl s me), s))
      | E_updateProfile \<Rightarrow> guarded verify s h False (\<lambda>me. apfst Auth_reply (updateProfile_ctrl hash s me (profile_of j)))
      | E_getDevices \<Rightarrow> guarded verify s h False (\<lambda>me. (Devices_of (p_id me), s))
      | E_getAllUsers \<Rightarrow> guarded verify s h True (\<lambda>me. (Auth_reply (getAllUsers_ctrl s), s))
      | E_deleteUser u \<Rightarrow> task (DELETE_user u)
      | E_updateUserRole u \<Rightarrow> guarded verify s h True (\<lambda>me. apfst Auth_reply (updateUserRole_ctrl s u (field (j_role j))))
      | E_tasks_get \<Rightarrow> task GET_tasks
      | E_tasks_post \<Rightarrow> task (POST_task (task_body_of j))
      | E_task_get i \<Rightarrow> task (GET_task i)
      | E_task_put i \<Rightarrow> task (PUT_task i (task_patch_of j))
      | E_task_delete i \<Rightarrow> task (DELETE_task i)
      | E_comment_post i \<Rightarrow> task (POST_comment i (j_text j))
      | E_photo_post i \<Rightarrow> task (POST_photo i (req_file (rq_body rq)) (j_caption j))
      | E_photo_delete i k \<Rightarrow> task (DELETE_photo i k)
      | E_tasks_unmatched \<Rightarrow>
          (case protect verify s h of
             Inl e \<Rightarrow> (Task_reply (reject e), s)
           | Inr _ \<Rightarrow> (Not_found (rq_method rq) (rq_path rq), s))
      | E_none \<Rightarrow> (Not_found (rq_method rq) (rq_path rq), s)))"

section \<open>The client's requests\<close>

text \<open>
  The methods of \<open>api\<close> in \<open>lib/api.ts\<close> (lines 44--78), with their arguments.
  \<open>updateProfile\<close> sends the fields the pages pass (\<open>Partial<User>\<close>: name, e-mail
  and role); \<open>uploadPhoto\<close> the task id, the file, the caption of the form
  \<open>UserDashboard\<close> builds and the token it passes.
\<close>

datatype api_call =
    Api_login string string
  | Api_register string string string role
  | Api_getProfile
  | Api_updateProfile "string option" "string option" "role option"
  | Api_getAllUsers
  | Api_deleteUser string
  | Api_getDevices
  | Api_uploadPhoto string string string string
  | Api_getTasks
  | Api_createTask task_body

definition json_of_task_body :: "task_body \<Rightarrow> json_body" where
  "json_of_task_body b =
     empty_json\<lparr>j_title := b_title b, j_shortDescription := b_shortDescription b,
       j_longDescription := b_longDescription b, j_priority := b_priority b, j_deadline := b_deadline b,
       j_status := b_status b, j_assignedTo := b_assignedTo b, j_group := b_group b\<rparr>"

text \<open>
  The header of \<open>uploadPhoto\<close>: its own \<open>Authorization\<close> replaces the default, and
  the request interceptor then replaces it again when \<open>localStorage\<close> holds a token.
\<close>

definition upload_header :: "session \<Rightarrow> string \<Rightarrow> string option" where
  "upload_header st tok =
     (case ss_storage st of
        None \<Rightarrow> Some (auth_header tok)
      | Some t \<Rightarrow> if t = [] then Some (auth_header tok) else Some (auth_header t))"

text \<open>
  The request each method sends: the path below the \<open>baseURL\<close>
  \<open>http://localhost:5000/api\<close>, the header of the axios instance
  (\<open>request_header\<close>), and the body; a request without data has the empty body.
\<close>

definition api_request :: "session \<Rightarrow> api_call \<Rightarrow> http_request" where
  "api_request st c =
     (let h = request_header st;
          rq = (\<lambda>m p b. \<lparr>rq_method = m, rq_path = ''/api'' @ p, rq_auth = h, rq_body = b\<rparr>) in
      case c of
        Api_login e pw \<Rightarrow> rq POST ''/auth/login'' (Json (empty_json\<lparr>j_email := Some e, j_password := Some pw\<rparr>))
      | Api_register n e pw r \<Rightarrow>
          rq POST ''/auth/register''
            (Json (empty_json\<lparr>j_name := Some n, j_email := Some e, j_password := Some pw, j_role := Some (string_of_role r)\<rparr>))
      | Api_getProfile \<Rightarrow> rq GET ''/auth/profile'' (Json empty_json)
      | Api_updateProfile n e r \<Rightarrow>
          rq PUT ''/auth/profile'' (Json (empty_json\<lparr>j_name := n, j_email := e, j_role := map_option string_of_role r\<rparr>))
      | Api_getAllUsers \<Rightarrow> rq GET ''/auth/users'' (Json empty_json)
      | Api_deleteUser u \<Rightarrow> rq DELETE (''/auth/users/'' @ u) (Json empty_json)
      | Api_getDevices \<Rightarrow> rq GET ''/auth/devices'' (Json empty_json)
      | Api_uploadPhoto tid f cap tok \<Rightarrow>
          (rq POST (''/tasks/'' @ tid @ ''/photos'') (Multipart (empty_json\<lparr>j_caption := Some cap\<rparr>) (Some f)))
            \<lparr>rq_auth := upload_header st tok\<rparr>
      | Api_getTasks \<Rightarrow> rq GET ''/tasks'' (Json empty_json)
      | Api_createTask b \<Rightarrow> rq POST ''/tasks'' (Json (json_of_task_body b)))"

text \<open>The handler each method is named for, and the path parameters it interpolates.\<close>

definition api_endpoint :: "api_call \<Rightarrow> endpoint" where
  "api_endpoint c =
     (case c of
        Api_login _ _ \<Rightarrow> E_login | Api_register _ _ _ _ \<Rightarrow> E_register | Api_getProfile \<Rightarrow> E_getProfile
      | Api_updateProfile _ _ _ \<Rightarrow> E_updateProfile | Api_getAllUsers \<Rightarrow> E_getAllUsers
      | Api_deleteUser u \<Rightarrow> E_deleteUser u | Api_getDevices \<Rightarrow> E_getDevices
      | Api_uploadPhoto tid _ _ _ \<Rightarrow> E_photo_post tid | Api_getTasks \<Rightarrow> E_tasks_get
      | Api_createTask _ \<Rightarrow> E_tasks_post)"

text \<open>A path parameter stays one segment: non-empty, without \<open>/\<close> and without \<open>?\<close>.\<close>

definition seg_safe :: "string \<Rightarrow> bool" where
  "seg_safe x \<longleftrightarrow> x \<noteq> [] \<and> CHR ''/'' \<notin> set x \<and> CHR ''?'' \<notin> set x"

definition api_params :: "api_call \<Rightarrow> string list" where
  "api_params c = (case c of Api_deleteUser u \<Rightarrow> [u] | Api_uploadPhoto tid _ _ _ \<Rightarrow> [tid] | _ \<Rightarrow> [])"

section \<open>Reachable server states\<close>

text \<open>
  A server starts as for the task routes, with user ids from the id supply and unique
  e-mails, and then serves any request.
\<close>

definition server_initial :: "db \<Rightarrow> bool" where
  "server_initial s \<longleftrightarrow> initial s \<and> user_ids_bounded s \<and> emails_unique s"

inductive served :: "db \<Rightarrow> bool" where
  start: "server_initial s \<Longrightarrow> served s"
| step: "served s \<Longrightarrow> served (snd (serve verify hash sign s rq now))"

text \<open>The invariants every served state keeps.\<close>

definition server_ok :: "db \<Rightarrow> bool" where
  "server_ok s \<longleftrightarrow> wf_db s \<and> user_ids_bounded s \<and> emails_unique s"

text \<open>
  A run of the client against the server: each element is the session the request is sent
  from, the \<open>api.ts\<close> call and the clock when the server handles it.
\<close>

definition client_run :: "verifier \<Rightarrow> hasher \<Rightarrow> signer \<Rightarrow> db \<Rightarrow> (session \<times> api_call \<times> nat) list \<Rightarrow> db" where
  "client_run verify hash sign s cs =
     foldl (\<lambda>s (st, c, now). snd (serve verify hash sign s (api_request st c) now)) s cs"

section \<open>Lemmas\<close>

subsection \<open>Matching\<close>

lemmas resolve_defs = resolve_def route_segments_def js_split_def seg_is_def js_lower_def js_lower_char_def

lemma split_param: "CHR ''/'' \<notin> set u \<Longrightarrow> split_acc CHR ''/'' [] (u @ CHR ''/'' # r) = u # split_acc CHR ''/'' [] r"
  using split_acc_sep [of "CHR ''/''" u "[]" r] by simp

lemma resolve_register: "resolve POST ''/api/auth/register'' = E_register"
  and resolve_login: "resolve POST ''/api/auth/login'' = E_login"
  and resolve_updateProfile: "resolve PUT ''/api/auth/profile'' = E_updateProfile"
  by (simp_all add: resolve_def route_segments_def js_split_def seg_is_def js_lower_def js_lower_char_def path_name_def)

lemma seg_safe_string_of_oid: "seg_safe (string_of_oid i)"
  using string_of_oid_no_slash string_of_oid_no_query
  by (simp add: seg_safe_def flip: length_0_conv)

subsection \<open>Serving\<close>

lemma guarded_cases: "snd (guarded verify s h adm k) = s \<or> (\<exists>me. snd (guarded verify s h adm k) = snd (k me))"
  by (auto simp: guarded_def split: sum.splits)

lemma guarded_same: "(\<And>me. snd (k me) = s) \<Longrightarrow> snd (guarded verify s h adm k) = s"
  by (simp add: guarded_def split: sum.splits)

lemma serve_cases:
  "snd (serve verify hash sign s rq now) = s \<or>
   (\<exists>req. snd (serve verify hash sign s rq now) = snd (dispatch verify s (rq_auth rq) req now)) \<or>
   (\<exists>n e pw r. snd (serve verify hash sign s rq now) = snd (register_ctrl hash sign s n e pw r)) \<or>
   (\<exists>me p. snd (serve verify hash sign s rq now) = snd (updateProfile_ctrl hash s me p)) \<or>
   (\<exists>u r. resolve (rq_method rq) (rq_path rq) = E_updateUserRole u \<and>
      snd (serve verify hash sign s rq now) = snd (updateUserRole_ctrl s u r))"
proof (cases "\<exists>m. rq_body rq = Malformed_json m")
  case True
  then show ?thesis by (auto simp: serve_def)
next
  case False
  then have b: "serve verify hash sign s rq now =
     (let j = req_json (rq_body rq); h = rq_auth rq; task = (\<lambda>req. apfst Task_reply (dispatch verify s h req now)) in
      case resolve (rq_method rq) (rq_path rq) of
        E_static f \<Rightarrow> (if upload_path f \<in> uploads s then Static_file f else Not_found (rq_method rq) (rq_path rq), s)
      | E_register \<Rightarrow>
          apfst Auth_reply (register_ctrl hash sign s (field (j_name j)) (field (j_email j)) (field (j_password j)) (field (j_role j)))
      | E_login \<Rightarrow> (Auth_reply (login_ctrl hash sign s (field (j_email j)) (field (j_password j))), s)
      | E_getProfile \<Rightarrow> guarded verify s h False (\<lambda>me. (Auth_reply (getProfile_ctrl s me), s))
      | E_updateProfile \<Rightarrow> guarded verify s h False (\<lambda>me. apfst Auth_reply (updateProfile_ctrl hash s me (profile_of j)))
      | E_getDevices \<Rightarrow> guarded verify s h False (\<lambda>me. (Devices_of (p_id me), s))
      | E_getAllUsers \<Rightarrow> guarded verify s h True (\<lambda>me. (Auth_reply (getAllUsers_ctrl s), s))
      | E_deleteUser u \<Rightarrow> task (DELETE_user u)
      | E_updateUserRole u \<Rightarrow> guarded verify s h True (\<lambda>me. apfst Auth_reply (updateUserRole_ctrl s u (field (j_role j))))
      | E_tasks_get \<Rightarrow> task GET_tasks
      | E_tasks_post \<Rightarrow> task (POST_task (task_body_of j))
      | E_task_get i \<Rightarrow> task (GET_task i)
      | E_task_put i \<Rightarrow> task (PUT_task i (task_patch_of j))
      | E_task_delete i \<Rightarrow> task (DELETE_task i)
      | E_comment_post i \<Rightarrow> task (POST_comment i (j_text j))
      | E_photo_post i \<Rightarrow> task (POST_photo i (req_file (rq_body rq)) (j_caption j))
      | E_photo_delete i k \<Rightarrow> task (DELETE_photo i k)
      | E_tasks_unmatched \<Rightarrow>
          (case protect verify s h of
             Inl e \<Rightarrow> (Task_reply (reject e), s)
           | Inr _ \<Rightarrow> (Not_found (rq_method rq) (rq_path rq), s))
      | E_none \<Rightarrow> (Not_found (rq_method rq) (rq_path rq), s))"
    by (cases "rq_body rq") (simp_all add: serve_def)
  show ?thesis
  proof (cases "resolve (rq_method rq) (rq_path rq)")
    case E_getProfile
    then show ?thesis by (simp add: b Let_def guarded_same)
  next
    case E_updateProfile
    let ?p = "profile_of (req_json (rq_body rq))"
    have "snd (serve verify hash sign s rq now) = s \<or>
      (\<exists>me. snd (serve verify hash sign s rq now) = snd (updateProfile_ctrl hash s me ?p))"
      using E_updateProfile guarded_cases [of verify s "rq_auth rq" False "\<lambda>me. apfst Auth_reply (updateProfile_ctrl hash s me ?p)"]
      by (simp add: b Let_def)
    then show ?thesis by blast
  next
    case E_getDevices
    then show ?thesis by (simp add: b Let_def guarded_same)
  next
    case E_getAllUsers
    then show ?thesis by (simp add: b Let_def guarded_same)
  next
    case (E_updateUserRole u)
    let ?r = "field (j_role (req_json (rq_body rq)))"
    have "snd (serve verify hash sign s rq now) = s \<or>
      snd (serve verify hash sign s rq now) = snd (updateUserRole_ctrl s u ?r)"
      using E_updateUserRole guarded_cases [of verify s "rq_auth rq" True "\<lambda>me. apfst Auth_reply (updateUserRole_ctrl s u ?r)"]
      by (simp add: b Let_def)
    with E_updateUserRole show ?thesis by blast
  qed (auto simp: b Let_def split: sum.splits)
qed

lemma serve_malformed_json:
  "rq_body rq = Malformed_json msg \<Longrightarrow> serve verify hash sign s rq now = (Server_error msg, s)"
  by (simp add: serve_def)

lemma serve_ok: "server_ok s \<Longrightarrow> server_ok (snd (serve verify hash sign s rq now))"
  using serve_cases [of verify hash sign s rq now]
  by (auto simp: server_ok_def wf_dispatch dispatch_users_ok register_ctrl_invariants updateProfile_ctrl_ok
      updateUserRole_ctrl_ok wf_register_ctrl wf_updateProfile_ctrl wf_updateUserRole_ctrl)

lemma serve_wf: "wf_db s \<Longrightarrow> wf_db (snd (serve verify hash sign s rq now))"
  using serve_cases [of verify hash sign s rq now]
  by (auto simp: wf_dispatch wf_register_ctrl wf_updateProfile_ctrl wf_updateUserRole_ctrl)

lemma client_run_wf: "wf_db s \<Longrightarrow> wf_db (client_run verify hash sign s cs)"
proof (induction cs arbitrary: s)
  case Nil
  then show ?case by (simp add: client_run_def)
next
  case (Cons x cs)
  obtain st c now where x: "x = (st, c, now)" by (cases x) auto
  have "wf_db (snd (serve verify hash sign s (api_request st c) now))"
    using Cons.prems by (rule serve_wf)
  then show ?case using Cons.IH by (simp add: client_run_def x)
qed

lemma auth_table_not_task_put: "auth_table m ss \<noteq> E_task_put i"
  by (cases "(m, ss)" rule: auth_table.cases) auto

lemma task_table_task_put: "task_table m ss = E_task_put i \<Longrightarrow> m = PUT"
  by (cases "(m, ss)" rule: task_table.cases) (auto split: if_splits)

lemma resolve_task_put: "resolve m p = E_task_put i \<Longrightarrow> m = PUT"
  unfolding resolve_def
  by (auto split: option.splits list.splits if_splits dest: task_table_task_put simp: auth_table_not_task_put)

lemma served_ok: "served s \<Longrightarrow> server_ok s"
proof (induction rule: served.induct)
  case (start s)
  then show ?case by (simp add: server_initial_def server_ok_def initial_wf)
next
  case (step s verify hash sign rq now)
  from step.IH show ?case by (rule serve_ok)
qed

lemma serve_register:
  assumes b: "user_ids_bounded s" and ne: "nm \<noteq> []" "e \<noteq> []" "pw \<noteq> []"
    and free: "\<forall>a x. users s a = Some x \<longrightarrow> u_email x \<noteq> e"
  shows "serve verify hash sign s (api_request st (Api_register nm e pw r)) now =
    (Auth_reply (Ok S201 (A_session (sign (next_id s)) (next_id s)
       \<lparr>u_name = nm, u_email = e, u_role = r, u_tasks = [], u_password = hash pw\<rparr>)),
     s\<lparr>users := (users s)(next_id s \<mapsto> \<lparr>u_name = nm, u_email = e, u_role = r, u_tasks = [], u_password = hash pw\<rparr>),
       next_id := Suc (next_id s)\<rparr>)"
proof -
  have "findOne_email s e = None" using findOne_email_None [OF bounded_finite [OF b]] free by blast
  with ne show ?thesis
    by (simp add: serve_def api_request_def resolve_register register_ctrl_def field_def empty_json_def path_error_def Let_def)
qed

lemma serve_login:
  assumes b: "user_ids_bounded s" and u: "emails_unique s" and a: "users s a = Some acc"
    and ne: "u_email acc \<noteq> []" "pw \<noteq> []" and h: "hash pw = u_password acc"
  shows "serve verify hash sign s (api_request st (Api_login (u_email acc) pw)) now =
    (Auth_reply (Ok S200 (A_session (sign a) a acc)), s)"
  using findOne_email_user [OF bounded_finite [OF b] u a] ne h
  by (simp add: serve_def api_request_def resolve_login login_ctrl_def field_def empty_json_def)

subsection \<open>Example server\<close>

lemma demo_users_ok: "user_ids_bounded demo_db" "emails_unique demo_db" "admin_exists demo_db"
  by (simp_all add: user_ids_bounded_def emails_unique_def admin_exists_def user_docs_def demo_db_def)

lemma served_demo: "served demo_db"
  using demo_users_ok demo_wf by (intro served.start) (simp add: server_initial_def initial_def)

section \<open>Properties\<close>

text \<open>
  C12. Signing up and then signing in through the client's \<open>api\<close> works end to end: on
  a served state, a registration with a free e-mail stores the new user under a fresh id
  and answers \<open>201\<close> with a token and the user; signing in with the same e-mail and
  password answers \<open>200\<close> with the same token and user and changes nothing; and once the
  client's \<open>login\<close> stored that token, the header of its requests passes \<open>protect\<close>
  as the new user with the chosen role. The hash and the signer are any functions with
  the properties a JSON web token has (non-empty, no space, verified to its subject).
\<close>

theorem register_then_login:
  assumes keys: "\<forall>i. sign i \<noteq> [] \<and> CHR '' '' \<notin> set (sign i) \<and> verify (sign i) = Some (string_of_oid i)"
    and sv: "served s" and n: "next_id s < 16 ^ 24"
    and ne: "nm \<noteq> []" "e \<noteq> []" "pw \<noteq> []" and free: "\<forall>a x. users s a = Some x \<longrightarrow> u_email x \<noteq> e"
  shows "let acc = \<lparr>u_name = nm, u_email = e, u_role = r, u_tasks = [], u_password = hash pw\<rparr>;
             (o1, s1) = serve verify hash sign s (api_request st (Api_register nm e pw r)) now;
             (o2, s2) = serve verify hash sign s1 (api_request st (Api_login e pw)) now in
         o1 = Auth_reply (Ok S201 (A_session (sign (next_id s)) (next_id s) acc)) \<and>
         o2 = Auth_reply (Ok S200 (A_session (sign (next_id s)) (next_id s) acc)) \<and> s2 = s1 \<and>
         protect verify s2 (request_header (login (Some (sign (next_id s), cu)) us st')) =
           Inr \<lparr>p_id = next_id s, p_role = r\<rparr>"
proof -
  let ?i = "next_id s"
  let ?acc = "\<lparr>u_name = nm, u_email = e, u_role = r, u_tasks = [], u_password = hash pw\<rparr>"
  let ?s1 = "s\<lparr>users := (users s)(?i \<mapsto> ?acc), next_id := Suc ?i\<rparr>"
  have ok: "wf_db s" "user_ids_bounded s" "emails_unique s" using served_ok [OF sv] by (simp_all add: server_ok_def)
  have r1: "serve verify hash sign s (api_request st (Api_register nm e pw r)) now =
      (Auth_reply (Ok S201 (A_session (sign ?i) ?i ?acc)), ?s1)"
    by (rule serve_register [OF ok(2) ne free])
  have "findOne_email s e = None" using findOne_email_None [OF bounded_finite [OF ok(2)]] free by blast
  with ne have reg: "snd (register_ctrl hash sign s nm e pw (string_of_role r)) = ?s1"
    by (simp add: register_ctrl_def path_error_def Let_def)
  have ok1: "user_ids_bounded ?s1" "emails_unique ?s1"
    using register_ctrl_invariants [OF ok(2,3), of hash sign nm e pw "string_of_role r"] by (simp_all add: reg)
  have r2: "serve verify hash sign ?s1 (api_request st (Api_login e pw)) now = (Auth_reply (Ok S200 (A_session (sign ?i) ?i ?acc)), ?s1)"
    using serve_login [OF ok1, of ?i ?acc pw hash verify sign st now] ne by simp
  have hdr: "request_header (login (Some (sign ?i, cu)) us st') = Some (auth_header (sign ?i))"
    using request_header_login [of "sign ?i" "Some (sign ?i, cu)" cu us st'] keys by simp
  have "protect verify ?s1 (Some (auth_header (sign ?i))) = Inr \<lparr>p_id = ?i, p_role = r\<rparr>"
    using keys n by (simp add: protect_def bearer_token_auth_header)
  with r1 r2 hdr show ?thesis by simp
qed

theorem register_then_login_witness:
  "let acc = \<lparr>u_name = ''Cy'', u_email = ''cy@example.com'', u_role = User, u_tasks = [], u_password = ''h:'' @ ''pw-cy''\<rparr>;
       (o1, s1) = serve Some ((@) ''h:'') string_of_oid demo_db (api_request (initial_session None) (Api_register ''Cy'' ''cy@example.com'' ''pw-cy'' User)) 0;
       (o2, s2) = serve Some ((@) ''h:'') string_of_oid s1 (api_request (initial_session None) (Api_login ''cy@example.com'' ''pw-cy'')) 0 in
   o1 = Auth_reply (Ok S201 (A_session (string_of_oid 3) 3 acc)) \<and>
   o2 = Auth_reply (Ok S200 (A_session (string_of_oid 3) 3 acc)) \<and> s2 = s1 \<and>
   protect Some s2 (request_header (login (Some (string_of_oid 3, \<lparr>cu_id = string_of_oid 3, cu_name = ''Cy'',
       cu_email = ''cy@example.com'', cu_role = User\<rparr>)) None (initial_session None))) = Inr \<lparr>p_id = 3, p_role = User\<rparr>"
proof -
  have keys: "\<forall>i. string_of_oid i \<noteq> [] \<and> CHR '' '' \<notin> set (string_of_oid i) \<and> Some (string_of_oid i) = Some (string_of_oid i)"
    using string_of_oid_no_space by (simp flip: length_0_conv)
  have free: "\<forall>a x. users demo_db a = Some x \<longrightarrow> u_email x \<noteq> ''cy@example.com''" by (simp add: demo_db_def)
  have n: "next_id demo_db < 16 ^ 24" by (simp add: demo_db_def)
  have n3: "next_id demo_db = 3" by (simp add: demo_db_def)
  have "let acc = \<lparr>u_name = ''Cy'', u_email = ''cy@example.com'', u_role = User, u_tasks = [], u_password = ''h:'' @ ''pw-cy''\<rparr>;
       (o1, s1) = serve Some ((@) ''h:'') string_of_oid demo_db (api_request (initial_session None) (Api_register ''Cy'' ''cy@example.com'' ''pw-cy'' User)) 0;
       (o2, s2) = serve Some ((@) ''h:'') string_of_oid s1 (api_request (initial_session None) (Api_login ''cy@example.com'' ''pw-cy'')) 0 in
   o1 = Auth_reply (Ok S201 (A_session (string_of_oid (next_id demo_db)) (next_id demo_db) acc)) \<and>
   o2 = Auth_reply (Ok S200 (A_session (string_of_oid (next_id demo_db)) (next_id demo_db) acc)) \<and> s2 = s1 \<and>
   protect Some s2 (request_header (login (Some (string_of_oid (next_id demo_db), \<lparr>cu_id = string_of_oid 3, cu_name = ''Cy'',
       cu_email = ''cy@example.com'', cu_role = User\<rparr>)) None (initial_session None))) =
     Inr \<lparr>p_id = next_id demo_db, p_role = User\<rparr>"
    by (rule register_then_login [OF keys served_demo n _ _ _ free]) simp_all
  then show ?thesis unfolding n3 .
qed

text \<open>
  C21. Every method of the client's \<open>api\<close> reaches the handler it is named for:
  Express's matching of the request's method and path against \<open>server.js\<close>'s mounts and
  the two route tables yields that endpoint, with the path parameter the client
  interpolated, whenever the parameter is one path segment (as every printed id is).
\<close>

theorem api_reaches_handlers:
  assumes "list_all seg_safe (api_params c)"
  shows "resolve (rq_method (api_request st c)) (rq_path (api_request st c)) = api_endpoint c"
proof (cases c)
  case (Api_deleteUser u)
  with assms have u: "u \<noteq> []" "CHR ''/'' \<notin> set u" "CHR ''?'' \<notin> set u" by (simp_all add: api_params_def seg_safe_def)
  then show ?thesis using Api_deleteUser
    by (simp add: api_request_def api_endpoint_def path_name_no_query resolve_defs split_acc_no_sep)
next
  case (Api_uploadPhoto tid f cap tok)
  with assms have u: "tid \<noteq> []" "CHR ''/'' \<notin> set tid" "CHR ''?'' \<notin> set tid" by (simp_all add: api_params_def seg_safe_def)
  then show ?thesis using Api_uploadPhoto
    by (simp add: api_request_def api_endpoint_def path_name_no_query resolve_defs split_param)
qed (simp_all add: api_request_def api_endpoint_def resolve_defs path_name_def)

theorem api_reaches_handlers_witness:
  "list_all seg_safe (api_params (Api_deleteUser (string_of_oid 2))) \<and>
   resolve (rq_method (api_request (initial_session None) (Api_deleteUser (string_of_oid 2))))
     (rq_path (api_request (initial_session None) (Api_deleteUser (string_of_oid 2)))) = E_deleteUser (string_of_oid 2)"
  using api_reaches_handlers [of "Api_deleteUser (string_of_oid 2)"] seg_safe_string_of_oid
  by (simp add: api_params_def api_endpoint_def)

text \<open>
  C8. The client never sends a task update: no request \<open>api.ts\<close> builds reaches
  \<open>PUT /api/tasks/:id\<close> (the only \<open>PUT\<close> it sends is to \<open>/auth/profile\<close>). Every run of
  its requests, from any sessions, with any payloads and clocks, keeps a well-formed store
  well formed: task ids stay distinct and fresh, photo, comment and task-list references
  fresh, and every stored document passes schema validation.
\<close>

theorem client_requests_wf:
  assumes wf: "wf_db s"
  shows "(\<forall>i. resolve (rq_method (api_request st c)) (rq_path (api_request st c)) \<noteq> E_task_put i) \<and>
    wf_db (client_run verify hash sign s cs)"
proof -
  have "resolve (rq_method (api_request st c)) (rq_path (api_request st c)) \<noteq> E_task_put i" for i
  proof (cases "rq_method (api_request st c) = PUT")
    case True
    then have "rq_path (api_request st c) = ''/api/auth/profile''"
      by (cases c) (simp_all add: api_request_def Let_def)
    then show ?thesis using True by (simp add: resolve_updateProfile)
  next
    case False
    then show ?thesis using resolve_task_put by blast
  qed
  then show ?thesis using client_run_wf [OF wf] by blast
qed

theorem client_requests_wf_witness:
  "wf_db demo_db \<and>
   wf_db (client_run demo_verify id string_of_oid demo_db
     [(initial_session None, Api_login ''ada@example.com'' ''pw'', 0), (initial_session None, Api_getTasks, 1)])"
  using client_requests_wf [OF demo_wf, of "initial_session None" Api_getTasks demo_verify id string_of_oid
      "[(initial_session None, Api_login ''ada@example.com'' ''pw'', 0), (initial_session None, Api_getTasks, 1)]"]
    demo_wf by blast

end
