(* ===== verification/Spec2Isabelle.thy ===== *)
theory Spec2Isabelle
  imports Routes Client_Session UI_Views Server
begin

text \<open>
  \<^bold>\<open>A verification development of the Task Manager System.\<close>

  The program is an Express/Mongoose REST server (\<open>src/backend\<close>) and a React client
  (\<open>src/client/src\<close>). An administrator creates tasks and assigns them to users; users
  see their tasks, upload photos (which moves a task from \<open>todo\<close> to \<open>inProgress\<close>)
  and comment. Every task request passes \<open>protect\<close> (bearer token, user lookup), some
  also \<open>authorize('admin')\<close>, then a handler of \<open>taskController.js\<close> reads or
  changes the task collection and the assignee's task list. The client holds the fetched
  tasks in a cache it patches locally, and its session in \<open>AuthContext\<close> and the axios
  instance.

  \<^bold>\<open>Theories and what they model.\<close>
  \<^item> \<open>Prelude\<close>: the reply type (\<open>Ok\<close>/\<open>Fail\<close> with an HTTP status and a message,
    one constructor per kind of error body) and the association-list lemmas shared by the
    store proofs.
  \<^item> \<open>Task_Model\<close>: \<open>models/Task.js\<close>. The enumerations as datatypes with their
    string parsers, the photo, comment and task records, and the three validation paths
    of Mongoose: \<open>Task.create\<close> (\<open>new_task\<close>: defaults, \<open>required\<close>, \<open>enum\<close>),
    \<open>findByIdAndUpdate\<close> with \<open>runValidators\<close> (\<open>apply_patch\<close>: a body of plain
    field values, validated on its present paths only), and \<open>save()\<close> (\<open>doc_errors\<close>).
  \<^item> \<open>Object_Id\<close>: \<open>ObjectId\<close> casting, \<open>isValid\<close> and \<open>toString\<close>
    (\<open>oid_of_string\<close>, \<open>string_of_oid\<close>): 24 hex digits or 12 bytes, values below
    \<open>16^24\<close>.
  \<^item> \<open>Task_Store\<close>: the state \<open>db\<close> (users map, task collection as an association
    list in insertion order, the files of \<open>uploads/\<close>, the id supply), the Mongoose and
    \<open>fs\<close> calls the controller makes (\<open>find_task\<close> is \<open>findById\<close> with its
    \<open>CastError\<close>, \<open>push_task\<close>/\<open>pull_task\<close> are the \<open>$push\<close>/\<open>$pull\<close> on
    \<open>User\<close>, \<open>save_task\<close>, \<open>unlink\<close>), and the invariants \<open>wf_db\<close> (distinct ids
    from the supply, valid documents) and \<open>linked\<close> (each task with an existing assignee
    is in that assignee's list).
  \<^item> \<open>Task_API\<close>: the eight handlers of \<open>controllers/taskController.js\<close>, one
    definition each (\<open>createTask\<close> \<dots> \<open>deleteTaskPhoto\<close>), every early return and the
    \<open>catch\<close> as a branch; a mutating handler maps the state to the reply and the new
    state. Lemmas: each handler preserves \<open>wf_db\<close> (collected as
    \<open>wf_handlers\<close>); the claims C1, C2, C4--C7 and C26--C28.
  \<^item> \<open>Auth\<close>: \<open>middleware/auth.js\<close> (\<open>protect\<close>, \<open>authorize\<close>) as guards, and the
    client's \<open>Bearer\<close> header of \<open>lib/api.ts\<close> (C3).
  \<^item> \<open>User_Admin\<close>: the handlers \<open>routes/authRoutes.js\<close> routes to, whose
    controller is not in the repository and is modelled from the specification:
    \<open>register_ctrl\<close>, \<open>login_ctrl\<close>, \<open>getProfile_ctrl\<close>,
    \<open>updateProfile_ctrl\<close>, \<open>getAllUsers_ctrl\<close>, \<open>updateUserRole_ctrl\<close> and
    \<open>deleteUser_ctrl\<close> (no task is touched), over the users as \<open>User.find()\<close>
    lists them (\<open>user_docs\<close>, in id order) and \<open>User.findOne({email})\<close>. The
    invariants of the users collection (\<open>user_ids_bounded\<close>, \<open>emails_unique\<close>,
    \<open>admin_exists\<close>) and their preservation by each operation.
  \<^item> \<open>Routes\<close>: \<open>routes/taskRoutes.js\<close> with its middleware order (\<open>protect\<close> for
    all, \<open>authorize('admin')\<close> on create and delete, multer's disk write before the photo
    handler), \<open>validateObjectId\<close> (defined but never mounted), and the server as an
    inductive set of states reachable from any well-formed database (\<open>reachable\<close>,
    \<open>initial\<close>). The invariants are proved by rule induction over it (C9, C10), from the
    per-handler facts collected as \<open>linked_handlers\<close> and \<open>status_handlers\<close>, and the
    route-level claims C13--C16 are stated on \<open>dispatch\<close>; \<open>only_task_lists\<close>
    (collected as \<open>lists_handlers\<close>) says a task handler changes users only in their
    task lists.
  \<^item> \<open>Client_Mirror\<close>: \<open>contexts/TaskContext.tsx\<close>. The client's \<open>Task\<close> types,
    the server JSON as those types read it (\<open>json_task\<close>), the fetch at mount
    (\<open>view\<close>, \<open>fetchTasks\<close>), every action (\<open>addTask\<close>, \<open>updateTask_ctx\<close>,
    \<open>updateTaskStatus\<close>, \<open>deleteTask_ctx\<close>, the photo and comment actions) and every
    query. The refinement C11 relates it to the server; C17, C18 and C20 are its
    behaviour.
  \<^item> \<open>Client_Session\<close>: \<open>contexts/AuthContext.tsx\<close>, the axios defaults and
    interceptor of \<open>lib/api.ts\<close>, and \<open>components/ProtectedRoute.tsx\<close> (C22, C23,
    C25).
  \<^item> \<open>Server\<close>: \<open>server.js\<close> (body parsing, \<open>/uploads\<close>, the two mounts, the
    error handler) and Express's matching of paths against \<open>authRoutes.js\<close> and
    \<open>taskRoutes.js\<close> (\<open>resolve\<close>), the whole server as \<open>serve\<close> on an HTTP
    request, and the request each method of \<open>lib/api.ts\<close> builds
    (\<open>api_request\<close>). The states reachable through every route form \<open>served\<close>;
    \<open>serve_cases\<close> reduces any request to a dispatch, a registration, a profile update
    or a role change, from which well-formedness follows; \<open>client_run\<close> is a run of
    \<open>api.ts\<close> requests (C8, C12, C21).
  \<^item> \<open>UI_Common\<close>: what the components share. The JavaScript string and date
    functions they call (\<open>toLowerCase\<close>, \<open>includes\<close>, \<open>trim\<close>, the UTC day of a
    timestamp, \<open>Math.round\<close> of a percentage), the labels, the new-task form and the body
    \<open>api.createTask\<close> sends for it (C31), toasts, and a component's output as a list of
    \<open>effect\<close>s: calls into the task context (\<open>ctx_call\<close>, applied to the
    \<open>Client_Mirror\<close> state by \<open>run_effects\<close>), toasts and callbacks to the parent
    (\<open>route_parent\<close> wires them to the parent's handlers).
  \<^item> \<open>UI_Cards\<close>: the components of \<open>components/\<close> that show one task:
    \<open>TaskCard\<close>, \<open>EditTaskForm\<close>, \<open>EnhancedTaskCard\<close>, \<open>TaskDetailView\<close>,
    \<open>TaskComments\<close>, \<open>TaskPhotoGallery\<close>, \<open>TaskDetail\<close> and the \<open>Sidebar\<close>
    items. Each is a record of props, a record of its \<open>useState\<close> state, a datatype of
    the user's events, a step function from an event to effects and the new state (every
    handler, its guards and its early returns), and a view; a render that throws (a
    \<open>charAt\<close> of \<open>undefined\<close>) is \<open>None\<close>. C19 composes the gallery with the cache.
  \<^item> \<open>UI_Analytics\<close>: \<open>TaskChart\<close>, \<open>TaskAnalytics\<close> and \<open>TaskInsights\<close>, the
    series each chart is given (how they are drawn is in \<open>UI_Views\<close>), with the
    \<open>Map\<close> counted in a \<open>forEach\<close> as \<open>count_into\<close>. The timeline's keys are
    \<open>toLocaleDateString()\<close> and its order \<open>new Date(key)\<close>, both parameters of the
    browser's locale; C32 is its equivalence with a reference series in every locale
    whose dates parse back in order.
  \<^item> \<open>UI_Pages\<close>: the pages \<open>Dashboard\<close>, \<open>TaskManagement\<close>, \<open>MyTasks\<close>,
    \<open>UserDashboard\<close> and \<open>Users\<close> in the same style, composed with the cards they
    render (C30, C33).
  \<^item> \<open>UI_App\<close>: the route table of \<open>App.tsx\<close> with \<open>ProtectedRoute\<close>, the
    \<open>Login\<close>, \<open>Register\<close> and \<open>Settings\<close> pages and \<open>ErrorBoundary\<close> (C24,
    C34). Paths match as React Router matches them: without regard to case and with any
    trailing slashes (\<open>route_key\<close>).
  \<^item> \<open>UI_Views\<close>: what the remaining JSX shows: the sign-up and sign-in forms with
    where each error appears (\<open>register_view\<close>, \<open>login_view\<close>), the \<open>Settings\<close>
    and \<open>NotFound\<close> pages, the dialogs of \<open>Users\<close> and \<open>UserDashboard\<close>, the page
    headers, and how \<open>TaskInsights\<close> draws its series: labels, tooltips, the fill of
    each cell and the productivity ring, with numbers printed by \<open>decimal\<close> of the
    prelude, whose reader inverts it (\<open>read_decimal_decimal\<close>).
  \<^item> This theory: the requests a page sends to the server (\<open>send_creates\<close>) and the
    claim C29, which spans a page, the task context and the server.

  \<^bold>\<open>How the model corresponds to the code.\<close> Definitions keep the source's names; a
  client action whose name is taken by a server handler has the suffix \<open>_ctx\<close>, and
  a page's handler whose name recurs on another page has the page's prefix
  (\<open>dash_\<close>, \<open>tm_\<close>, \<open>my_\<close>, \<open>ud_\<close>, \<open>users_\<close>). One
  request is one step: concurrent requests, which Mongoose would interleave at each
  \<open>await\<close>, are not modelled, and the claims hold for the sequential server. Clocks,
  \<open>Math.random()\<close> ids and the server's answers to the client are parameters; so are
  the date parser of \<open>new Date(string)\<close> and the users list the pages receive. Document
  ids are natural numbers handed out by \<open>next_id\<close>; \<open>wf_db\<close> records that every id
  in use came from it, and the claims that print an id assume the supply is below
  \<open>16^24\<close>, the range of a 96-bit \<open>ObjectId\<close>. The behaviour of Mongoose 5 is assumed
  (\<open>task.remove()\<close>, sub-document \<open>remove()\<close>, strict schemas, \<open>populate\<close> giving
  \<open>null\<close> for a missing reference), with the working directory \<open>src/backend\<close> for the
  \<open>uploads/\<close> paths. The signature and expiry check of \<open>jwt.verify\<close> is a parameter
  (\<open>verifier\<close>), and so are the token signer of the auth controller and its password
  hash (bcrypt's comparison is equality of hashes); the composed claims assume only that
  a signed token is non-empty, has no space and verifies to its subject. Every loop of the
  program is a structural recursion of the model but one: the router follows
  \<open><Navigate>\<close>s until a page renders, which is \<open>app_navigate\<close>, a
  \<open>partial_function (option)\<close> that would be \<open>None\<close> on a redirect cycle; C29
  proves that it returns everywhere, with the page \<open>app_follow\<close> finds with a fuel of
  one redirect: no route redirects to a path that redirects again.

  \<^bold>\<open>Claims.\<close> Access control: C1 (listing), C2 (single task), C3 (the 401 gate), C13
  (admin-only deletion), C28 (updates by administrator or creator only, so never by the
  assignee the specification's state machine names), C25 (client guard). State changes:
  C4 (creation links the assignee once), C5 (cascading delete), C6 (photo upload and the
  status transition), C7 (create then read). Invariants: C8 (no client request is a task
  update, and every run of client requests keeps the store well formed), C9 (who may
  change a status, over all reachable states), C10 (the reference invariant except under
  \<open>PUT\<close>). Client/server agreement: C11 (refinement through creation), C12 (sign-up,
  sign-in and the stored token, end to end), C21 (each \<open>api\<close> method reaches its
  handler), C17 (local-only status changes are lost on re-fetch), C18 (stale status after
  upload), C31 (the form's body has the schema's types), C33 (the client's id check
  against the server's). The user interface: C29 (the dashboard creates every task
  twice), C30 (\<open>TaskManagement\<close>'s inline edit writes a name into \<open>assignedTo\<close>), C32
  (the timeline series), C24 (the redirect loop terminates), C34 (\<open>/dashboard\<close> ignores
  the role). The remaining claims record what the code does where it departs from the
  specification: C14 (malformed ids), C15 (orphaned uploads), C16 (reassignment), C19
  (deleting one fetched photo deletes them all), C20 (deadline windows), C22 (the header
  outlives logout), C23 (\<open>updateUser\<close> edits the caller), C26 (anyone may comment, and
  no author is stored) and C27 (a photo whose file is gone cannot be deleted).

  \<^bold>\<open>Not modelled.\<close> \<open>controllers/authController.js\<close> and \<open>models/User.js\<close>
  are required by the code but are not in the repository. The user account and the
  handlers of \<open>authRoutes.js\<close> are modelled from the specification in
  \<open>User_Admin\<close> (user deletion is also routed as \<open>DELETE_user\<close> in \<open>Routes\<close>);
  the specification says nothing of the device list, so \<open>getDevices\<close>'s outcome names
  only whose devices it answers. The client's \<open>AuthContext\<close> still takes the server's
  answers as parameters, and the composed claims connect it to \<open>serve\<close>.
  \<open>pages/AdminDashboard\<close>, imported and routed by \<open>App.tsx\<close>, does not exist, so
  its route renders a page with no model. Also absent: CORS (\<open>cors()\<close> and its
  \<open>OPTIONS\<close> answers), \<open>HEAD\<close> requests, the URL decoding of path parameters
  (no id contains \<open>%\<close>), the database connection of \<open>server.js\<close> (the server
  starts on any well-formed database), \<open>PUT\<close> bodies with update operators
  (\<open>$rename\<close>, \<open>$unset\<close>, \<open>$push\<close>, ...) or the \<open>photos\<close> and \<open>comments\<close>
  arrays, which \<open>updateTask\<close> passes to Mongoose unchecked (a \<open>$rename\<close> is neither
  cast nor validated and can store a task without a required path; the claims about
  \<open>PUT\<close> hold for bodies of plain field values, and C8 shows the client sends no task
  update at all), and in the client
  the presentation alone: styling, animations and timers, the
  \<open>FileReader\<close> preview, the geometry of charts (\<open>recharts\<close>), and dialogs'
  open and close transitions that change nothing but visibility.
  The \<open>@/components/ui\<close> library the components import (buttons, dialogs,
  \<open>use-toast\<close>) is not in the repository; a toast is the value \<open>toast\<close>.
\<close>

section \<open>Client requests to the server\<close>

text \<open>
  The requests the task context sends for a list of \<open>addTask\<close> calls, one after the
  other: \<open>api.createTask\<close> posts the form's body with the session's header and each
  reply is collected (\<open>TaskContext.tsx\<close>, lines 102--106; \<open>lib/api.ts\<close>, lines
  77--78).
\<close>

definition send_creates ::
  "verifier \<Rightarrow> string option \<Rightarrow> (string \<Rightarrow> nat option) \<Rightarrow> nat \<Rightarrow> (task_form \<times> string) list \<Rightarrow> db \<Rightarrow>
   payload reply list \<times> db" where
  "send_creates verify h dc now ks s =
     foldl (\<lambda>(rs, s) (f, cb). let (r, s') = dispatch verify s h (POST_task (form_body dc f)) now in (rs @ [r], s'))
       ([], s) ks"

section \<open>Lemmas across components\<close>

lemma protect_push_task [simp]: "protect verify (push_task a i s) h = protect verify s h"
  by (simp add: protect_def push_task_def split: option.splits)

lemma protect_tasks_next [simp]: "protect verify (s\<lparr>tasks := ts, next_id := n\<rparr>) h = protect verify s h"
  by (simp add: protect_def split: option.splits)

lemma push_task_tasks [simp]: "tasks (push_task a i s) = tasks s"
  and push_task_next [simp]: "next_id (push_task a i s) = next_id s"
  by (simp_all add: push_task_def split: option.splits)

lemma create_dispatch:
  assumes "protect verify s h = Inr me" and "p_role me = Admin" and "new_task b (p_id me) now = Inr t"
  shows "dispatch verify s h (POST_task b) now =
    (Ok S201 (P_task (next_id s) t),
     push_task (assignedTo t) (next_id s) (s\<lparr>tasks := AList.update (next_id s) t (tasks s), next_id := Suc (next_id s)\<rparr>))"
  using assms by (simp add: dispatch_def authorize_def createTask_def Let_def)

section \<open>Properties across components\<close>

text \<open>
  C29. Creating a task from the dashboard creates it twice: with an assignee chosen,
  \<open>handleCreateTask\<close> calls \<open>addTask\<close> before its assignee check and again after
  it, with the same object, so the server answers two \<open>201\<close>s and stores two tasks with
  identical contents under consecutive ids.
\<close>

theorem dashboard_double_create:
  assumes u: "cu = Some u" and r: "cu_role u = Admin" and d: "ds_dialog st" and a: "f_assignedTo (ds_form st) \<noteq> []"
    and p: "protect verify s h = Inr me" and adm: "p_role me = Admin"
    and nt: "new_task (form_body dc (ds_form st)) (p_id me) now = Inr t"
  shows "let (rs, s') = send_creates verify h dc now (sent_creates (calls (fst (dash_step cu us today st Dash_create)))) s in
    rs = [Ok S201 (P_task (next_id s) t), Ok S201 (P_task (Suc (next_id s)) t)] \<and>
    map_of (tasks s') (next_id s) = Some t \<and> map_of (tasks s') (Suc (next_id s)) = Some t"
proof -
  let ?s1 = "push_task (assignedTo t) (next_id s) (s\<lparr>tasks := AList.update (next_id s) t (tasks s), next_id := Suc (next_id s)\<rparr>)"
  have p1: "protect verify ?s1 h = Inr me" using p by simp
  have c: "sent_creates (calls (fst (dash_step cu us today st Dash_create))) = [(ds_form st, cu_id u), (ds_form st, cu_id u)]"
    using u r d a by (simp add: dash_handleCreateTask_def is_admin_def Let_def calls_def sent_creates_def)
  show ?thesis
    using c create_dispatch [OF p adm nt] create_dispatch [OF p1 adm nt]
    by (simp add: send_creates_def update_conv')
qed

theorem dashboard_double_create_witness:
  "let (rs, s') = send_creates demo_verify (Some (auth_header ''t-ada'')) demo_date 0
       (sent_creates (calls (fst (dash_step (Some demo_ada) [] ''2025-01-01'' demo_dash Dash_create)))) demo_db in
    rs = [Ok S201 (P_task 3 demo_form_task), Ok S201 (P_task 4 demo_form_task)] \<and>
    map_of (tasks s') 3 = Some demo_form_task \<and> map_of (tasks s') 4 = Some demo_form_task"
proof -
  have p: "protect demo_verify demo_db (Some (auth_header ''t-ada'')) = Inr demo_admin"
    by (simp add: protect_demo demo_defs)
  have r: "cu_role demo_ada = Admin" and d: "ds_dialog demo_dash" and adm: "p_role demo_admin = Admin"
    by (simp_all add: demo_ada_def demo_dash_def demo_defs)
  have a: "f_assignedTo (ds_form demo_dash) \<noteq> []"
    by (simp add: demo_dash_def demo_form_def flip: length_0_conv)
  have nt: "new_task (form_body demo_date (ds_form demo_dash)) (p_id demo_admin) 0 = Inr demo_form_task"
    using demo_form_new_task by (simp add: demo_dash_def demo_admin_def)
  from dashboard_double_create [OF refl r d a p adm nt, of "[]" "''2025-01-01''"]
  show ?thesis by (simp add: demo_db_def)
qed

end
